(* ===== verification/Prelude.thy ===== *)
theory Prelude
  imports Main "HOL-Library.Sublist" "HOL-Library.List_Lexorder"
    "HOL-Library.Char_ord" "HOL-Library.Product_Lexorder" "HOL-Library.Multiset"
begin

text \<open>
  Shared vocabulary of the GENZE-ESPORTS development: the types that name instants and
  primary keys, the two Django field lookups the code relies on (\<open>__icontains\<close> and
  \<open>timedelta(minutes=...)\<close>), a counting helper for querysets modelled as row lists, and
  the generic list lemmas the component theories use through the collections declared here.
  Instants are UTC seconds since the epoch, as \<open>int\<close> (Python datetimes do not
  overflow in the range a site uses); primary keys are \<open>nat\<close>, Django's auto ids.
\<close>

named_theorems row_simps "equations of the per-row operations of the sweeps"
named_theorems count_simps "equations of the counting helpers"

type_synonym instant = int
type_synonym ident = nat

text \<open>\<open>timedelta(minutes = n)\<close> in seconds.\<close>

definition minutes :: "nat \<Rightarrow> int" where
  "minutes n = 60 * int n"

text \<open>
  Django's \<open>__icontains\<close> lookup, as the SQL backends evaluate it for ASCII text:
  the pattern occurs in the value after both are lower-cased.
\<close>

definition lower_char :: "char \<Rightarrow> char" where
  "lower_char c =
     (if CHR ''A'' \<le> c \<and> c \<le> CHR ''Z'' then char_of (of_char c + (32::nat)) else c)"

definition icontains :: "string \<Rightarrow> string \<Rightarrow> bool" where
  "icontains v p \<longleftrightarrow> sublist (map lower_char p) (map lower_char v)"

text \<open>
  A loop over a queryset whose body saves each row and may raise: rows before the failing
  one keep their saved update (each \<open>save\<close> commits on its own), the failing row and
  the rest are untouched, and the exception leaves the loop.
\<close>

fun map_until_error :: "('a \<Rightarrow> 'e + 'a) \<Rightarrow> 'a list \<Rightarrow> 'e option \<times> 'a list" where
  "map_until_error f [] = (None, [])"
| "map_until_error f (x # xs) =
     (case f x of
        Inl e \<Rightarrow> (Some e, x # xs)
      | Inr y \<Rightarrow> (case map_until_error f xs of (e, ys) \<Rightarrow> (e, y # ys)))"

text \<open>\<open>queryset.filter(P).count()\<close> over a table modelled as the list of its rows.\<close>

definition count_rows :: "('a \<Rightarrow> bool) \<Rightarrow> 'a list \<Rightarrow> nat" where
  "count_rows P xs = length (filter P xs)"

lemma map_until_error_length [simp]: "length (snd (map_until_error f xs)) = length xs"
  by (induction xs) (auto split: sum.splits prod.splits)

lemma map_until_error_all_Inr:
  "(\<And>x. x \<in> set xs \<Longrightarrow> f x = Inr (g x)) \<Longrightarrow> map_until_error f xs = (None, map g xs)"
  by (induction xs) auto

lemma map_until_error_None:
  "map_until_error f xs = (None, ys) \<Longrightarrow> list_all2 (\<lambda>x y. f x = Inr y) xs ys"
  by (induction xs arbitrary: ys) (auto split: sum.splits prod.splits)

lemma map_until_error_keys:
  "(\<And>x y. f x = Inr y \<Longrightarrow> k y = k x) \<Longrightarrow> map k (snd (map_until_error f xs)) = map k xs"
  by (induction xs) (auto split: sum.splits prod.splits)

lemma map_until_error_preserves:
  "(\<And>x y. f x = Inr y \<Longrightarrow> P x \<Longrightarrow> P y) \<Longrightarrow> \<forall>x \<in> set xs. P x \<Longrightarrow>
   \<forall>y \<in> set (snd (map_until_error f xs)). P y"
  by (induction xs) (auto split: sum.splits prod.splits)

lemma map_until_error_Some:
  "map_until_error f xs = (Some e, ys) \<Longrightarrow>
   \<exists>i < length xs. f (xs ! i) = Inl e \<and> drop i ys = drop i xs \<and>
     list_all2 (\<lambda>x y. f x = Inr y) (take i xs) (take i ys)"
proof (induction xs arbitrary: ys)
  case Nil
  then show ?case by simp
next
  case (Cons x xs)
  show ?case
  proof (cases "f x")
    case (Inl e')
    with Cons.prems show ?thesis by (intro exI [of _ 0]) auto
  next
    case (Inr y)
    with Cons.prems obtain ys' where ys: "ys = y # ys'" and rec: "map_until_error f xs = (Some e, ys')"
      by (auto split: prod.splits)
    from Cons.IH [OF rec] obtain i where "i < length xs" "f (xs ! i) = Inl e"
      "drop i ys' = drop i xs" "list_all2 (\<lambda>x y. f x = Inr y) (take i xs) (take i ys')"
      by blast
    with Inr ys show ?thesis by (intro exI [of _ "Suc i"]) auto
  qed
qed

lemma image_filter_disjoint:
  "distinct (map f xs) \<Longrightarrow> f ` {x \<in> set xs. P x} \<inter> f ` {x \<in> set xs. \<not> P x} = {}"
  by (auto simp: distinct_map inj_on_def)

lemma count_rows_Nil [simp, count_simps]: "count_rows P [] = 0"
  by (simp add: count_rows_def)

lemma count_rows_Cons [simp, count_simps]:
  "count_rows P (x # xs) = (if P x then Suc (count_rows P xs) else count_rows P xs)"
  by (simp add: count_rows_def)

lemma count_rows_append [simp, count_simps]:
  "count_rows P (xs @ ys) = count_rows P xs + count_rows P ys"
  by (simp add: count_rows_def)

lemma count_rows_mono:
  "(\<And>x. x \<in> set xs \<Longrightarrow> P x \<Longrightarrow> Q x) \<Longrightarrow> count_rows P xs \<le> count_rows Q xs"
  by (induction xs) auto

lemma count_rows_le_length: "count_rows P xs \<le> length xs"
  by (simp add: count_rows_def)

lemma count_rows_disj:
  "(\<And>x. x \<in> set xs \<Longrightarrow> \<not> (P x \<and> Q x)) \<Longrightarrow>
   count_rows (\<lambda>x. P x \<or> Q x) xs = count_rows P xs + count_rows Q xs"
  by (induction xs) auto

lemma count_rows_cong:
  "(\<And>x. x \<in> set xs \<Longrightarrow> P x = Q x) \<Longrightarrow> count_rows P xs = count_rows Q xs"
  by (induction xs) auto

lemma count_rows_product_fst:
  "count_rows (\<lambda>(a, b). Q a) (List.product xs ys) = count_rows Q xs * length ys"
  by (induction xs) (simp_all add: count_rows_def comp_def)

lemma count_rows_product_snd:
  "count_rows (\<lambda>(a, b). Q b) (List.product xs ys) = length xs * count_rows Q ys"
proof (induction xs)
  case Nil
  then show ?case by simp
next
  case (Cons x xs)
  have "count_rows (\<lambda>(a, b). Q b) (map (Pair x) ys) = count_rows Q ys"
    by (induction ys) simp_all
  with Cons show ?case by simp
qed

lemma count_rows_filter: "count_rows P (filter Q xs) = count_rows (\<lambda>x. Q x \<and> P x) xs"
  by (induction xs) simp_all

lemma count_rows_0_iff: "count_rows P xs = 0 \<longleftrightarrow> (\<forall>x \<in> set xs. \<not> P x)"
  by (induction xs) auto

end
