(* ===== verification/PyText.thy ===== *)
theory PyText
  imports Prelude
begin

text \<open>
  Python's conversions between integers and text, as the views and the template filters
  call them: \<open>str(i)\<close> of an \<open>int\<close> (the decimal digits, with a leading \<open>-\<close> when
  negative) and \<open>int(s)\<close> of a \<open>str\<close> (surrounding white space stripped, one optional
  sign, decimal digits with single underscores between them, \<open>ValueError\<close> otherwise,
  here \<open>None\<close>). Characters are the Latin-1 code points a HOL \<open>char\<close> holds; the
  white space of \<open>str.strip\<close> is that of \<open>str.isspace\<close> in that range. The theory
  proves that \<open>int\<close> reads back what \<open>str\<close> prints.
\<close>

definition is_digit :: "char \<Rightarrow> bool" where
  "is_digit c \<longleftrightarrow> CHR ''0'' \<le> c \<and> c \<le> CHR ''9''"

definition digit_val :: "char \<Rightarrow> nat" where
  "digit_val c = of_char c - 48"

definition digit_char :: "nat \<Rightarrow> char" where
  "digit_char d = char_of (48 + d)"

definition py_space :: "char \<Rightarrow> bool" where
  "py_space c \<longleftrightarrow>
     (let k = (of_char c :: nat) in 9 \<le> k \<and> k \<le> 13 \<or> 28 \<le> k \<and> k \<le> 32 \<or> k = 133 \<or> k = 160)"

definition py_strip :: "string \<Rightarrow> string" where
  "py_strip s = rev (dropWhile py_space (rev (dropWhile py_space s)))"

text \<open>\<open>str(n)\<close> for \<open>n \<ge> 0\<close>: the digits of \<open>n div 10\<close>, then the last digit.\<close>

function str_of_nat :: "nat \<Rightarrow> string" where
  "str_of_nat n = (if n < 10 then [digit_char n] else str_of_nat (n div 10) @ [digit_char (n mod 10)])"
  by pat_completeness auto
termination
  by (relation "measure id") auto

definition str_of_int :: "int \<Rightarrow> string" where
  "str_of_int i = (if i < 0 then CHR ''-'' # str_of_nat (nat (- i)) else str_of_nat (nat i))"

text \<open>The digits of a literal after its first digit: a digit, or an underscore that a digit
  follows; the accumulator holds the value read so far.\<close>

fun parse_digits :: "nat \<Rightarrow> string \<Rightarrow> nat option" where
  "parse_digits acc [] = Some acc"
| "parse_digits acc (c # cs) =
     (if is_digit c then parse_digits (10 * acc + digit_val c) cs
      else if c = CHR ''_'' then
        (case cs of
           d # ds \<Rightarrow> if is_digit d then parse_digits (10 * acc + digit_val d) ds else None
         | [] \<Rightarrow> None)
      else None)"

definition parse_unsigned :: "string \<Rightarrow> nat option" where
  "parse_unsigned s = (case s of c # cs \<Rightarrow> if is_digit c then parse_digits (digit_val c) cs else None | [] \<Rightarrow> None)"

definition py_int_of_string :: "string \<Rightarrow> int option" where
  "py_int_of_string s =
     (case py_strip s of
        [] \<Rightarrow> None
      | c # cs \<Rightarrow>
          if c = CHR ''-'' then map_option (\<lambda>n. - int n) (parse_unsigned cs)
          else if c = CHR ''+'' then map_option int (parse_unsigned cs)
          else map_option int (parse_unsigned (c # cs)))"

subsection \<open>Printing then parsing\<close>

definition digits_value :: "nat \<Rightarrow> string \<Rightarrow> nat" where
  "digits_value acc ds = foldl (\<lambda>a c. 10 * a + digit_val c) acc ds"

lemma digit_char_is_digit [simp]: "d < 10 \<Longrightarrow> is_digit (digit_char d)"
  by (simp add: is_digit_def digit_char_def less_eq_char_def)

lemma digit_val_digit_char [simp]: "d < 10 \<Longrightarrow> digit_val (digit_char d) = d"
  by (simp add: digit_val_def digit_char_def)

lemma str_of_nat_simps:
  "n < 10 \<Longrightarrow> str_of_nat n = [digit_char n]"
  "10 \<le> n \<Longrightarrow> str_of_nat n = str_of_nat (n div 10) @ [digit_char (n mod 10)]"
  by simp_all

declare str_of_nat.simps [simp del]

lemma str_of_nat_digits: "\<forall>c \<in> set (str_of_nat n). is_digit c"
  by (induction n rule: str_of_nat.induct) (metis str_of_nat.simps Un_iff digit_char_is_digit
      empty_iff empty_set list.set(2) set_append insert_iff mod_less_divisor zero_less_numeral)

lemma str_of_nat_ne [simp]: "str_of_nat n \<noteq> []"
  by (cases "n < 10") (simp_all add: str_of_nat_simps)

lemma str_of_nat_value: "digits_value 0 (str_of_nat n) = n"
proof (induction n rule: str_of_nat.induct)
  case (1 n)
  show ?case
  proof (cases "n < 10")
    case True
    then show ?thesis by (simp add: str_of_nat_simps digits_value_def)
  next
    case False
    with 1 have "digits_value 0 (str_of_nat (n div 10)) = n div 10" by simp
    with False show ?thesis by (simp add: str_of_nat_simps digits_value_def)
  qed
qed

lemma parse_digits_all_digits:
  "\<forall>c \<in> set ds. is_digit c \<Longrightarrow> parse_digits acc ds = Some (digits_value acc ds)"
  by (induction ds arbitrary: acc) (simp_all add: digits_value_def)

lemma str_of_nat_hd_digit:
  "str_of_nat n = c # cs \<Longrightarrow> is_digit c \<and> parse_digits (digit_val c) cs = Some n"
proof -
  assume s: "str_of_nat n = c # cs"
  have d: "\<forall>x \<in> set (c # cs). is_digit x" using str_of_nat_digits [of n] s by simp
  have "digits_value 0 (c # cs) = n" using str_of_nat_value [of n] s by simp
  then have "digits_value (digit_val c) cs = n" by (simp add: digits_value_def)
  with d show ?thesis by (simp add: parse_digits_all_digits)
qed

lemma parse_unsigned_str_of_nat [simp]: "parse_unsigned (str_of_nat n) = Some n"
  by (cases "str_of_nat n") (auto simp: parse_unsigned_def dest: str_of_nat_hd_digit)

lemma py_space_digit: "is_digit c \<Longrightarrow> \<not> py_space c"
  by (auto simp: is_digit_def py_space_def less_eq_char_def Let_def)

lemma py_strip_no_space:
  assumes "s \<noteq> []" and "\<not> py_space (hd s)" and "\<not> py_space (last s)"
  shows "py_strip s = s"
proof -
  from assms(1,2) have "dropWhile py_space s = s" by (cases s) simp_all
  moreover from assms(1,3) have "dropWhile py_space (rev s) = rev s"
    by (cases "rev s") (simp_all add: last_rev [symmetric] hd_rev)
  ultimately show ?thesis by (simp add: py_strip_def)
qed

lemma py_strip_str_of_nat [simp]: "py_strip (str_of_nat n) = str_of_nat n"
proof (rule py_strip_no_space)
  have "\<forall>c \<in> set (str_of_nat n). is_digit c" by (rule str_of_nat_digits)
  then show "\<not> py_space (hd (str_of_nat n))" and "\<not> py_space (last (str_of_nat n))"
    by (simp_all add: py_space_digit)
qed simp

lemma py_space_minus: "\<not> py_space (CHR ''-'')"
  by (simp add: py_space_def)

lemma py_strip_minus [simp]: "py_strip (CHR ''-'' # str_of_nat n) = CHR ''-'' # str_of_nat n"
proof (rule py_strip_no_space)
  have "\<forall>c \<in> set (str_of_nat n). is_digit c" by (rule str_of_nat_digits)
  then show "\<not> py_space (last (CHR ''-'' # str_of_nat n))" by (simp add: py_space_digit)
qed (simp_all add: py_space_minus)

lemma str_of_nat_hd_not_sign:
  "str_of_nat n = c # cs \<Longrightarrow> c \<noteq> CHR ''-'' \<and> c \<noteq> CHR ''+''"
  by (auto dest!: str_of_nat_hd_digit simp: is_digit_def)

text \<open>\<open>int(str(i)) == i\<close>.\<close>

lemma py_int_of_string_str_of_int [simp]: "py_int_of_string (str_of_int i) = Some i"
proof (cases "i < 0")
  case True
  then show ?thesis by (simp add: py_int_of_string_def str_of_int_def)
next
  case False
  then obtain c cs where s: "str_of_nat (nat i) = c # cs" by (cases "str_of_nat (nat i)") auto
  from str_of_nat_hd_not_sign [OF s] have h: "c \<noteq> CHR ''-''" "c \<noteq> CHR ''+''" by simp_all
  have "py_int_of_string (str_of_nat (nat i)) = map_option int (parse_unsigned (str_of_nat (nat i)))"
    unfolding py_int_of_string_def py_strip_str_of_nat unfolding s using h by simp
  with False show ?thesis by (simp add: str_of_int_def)
qed

lemma str_of_int_inj: "str_of_int i = str_of_int j \<longleftrightarrow> i = j"
  by (metis option.inject py_int_of_string_str_of_int)

lemma str_of_nat_eq_str_of_int: "str_of_nat n = str_of_int (int n)"
  by (simp add: str_of_int_def)

end
