(* ===== verification/Models.thy ===== *)
theory Models
  imports Prelude PyText
begin

text \<open>
  The data model of \<open>src/GENZE/core/models.py\<close>: one record per Django model, holding
  every field the model declares (the fields views and commands never read come last, after
  the ones they use), and one datatype per \<open>STATUS_CHOICES\<close>
  list. Nullable columns are \<open>option\<close>s, blank text columns are strings that may be
  empty, foreign keys are the referenced row's id, a \<open>DecimalField\<close> with two decimal
  places is an integer count of hundredths, a \<open>DateField\<close> is a proleptic Gregorian
  day ordinal (as \<open>Dates\<close> computes it) and an uploaded file (\<open>ImageField\<close>) is
  its stored name. The database is a record of tables,
  each table the list of its rows in primary-key order (the order in which an unordered
  queryset of this application is iterated). The failures an operation of the ORM can
  raise are the constructors of \<open>error\<close> (\<open>FieldError\<close> is the one a
  filter raises when it is built, for a lookup the field does not support;
  \<open>NoReverseMatch\<close> the one of \<open>reverse\<close> for an unknown URL name; \<open>OverflowError\<close> the one
  of a C function given an integer beyond its C type, and of float division). The theory also holds the two
  list-display helpers of \<open>Tournament\<close> and the \<open>get(pk=...)\<close> lookups.
\<close>

datatype match_status = Upcoming | Live | Completed

datatype tournament_status =
  Registration_Open | Tournament_Live | Tournament_Completed | Tournament_Upcoming

datatype team_indicator = Indicator_live | Indicator_upcoming | Indicator_none

datatype news_status = News_breaking | News_update | News_announcement

datatype error =
    DoesNotExist
  | UnknownTimeZoneError
  | IntegrityError
  | ValueError
  | FieldError
  | NoReverseMatch
  | OverflowError

record game_row =
  game_id :: ident
  game_name :: string

record tournament_row =
  tournament_id :: ident
  title :: string
  tournament_status :: tournament_status
  tournament_game :: "ident option"
  teams :: "nat option"
  timezone :: "string option"
  prize_pool :: "int option"
  start_date :: int
  featured :: bool
  location :: string
  end_date :: int
  registration_deadline :: "int option"
  tournament_format :: string
  tournament_image :: "string option"

record team_row =
  team_id :: ident
  name :: string
  team_game :: "ident option"
  region :: "string option"
  tag :: "string option"
  description :: "string option"
  banner :: "string option"
  logo :: "string option"
  founded :: "nat option"
  status_indicator :: team_indicator
  rank :: "nat option"

record player_row =
  player_id :: ident
  player_name :: string
  player_role :: "string option"
  player_team :: ident
  player_avatar :: "string option"
  player_email :: string
  discord :: string
  is_substitute :: bool

record match_row =
  match_id :: ident
  tournament :: ident
  team1 :: ident
  team2 :: ident
  match_time :: instant
  status :: match_status
  stage :: string
  team1_score :: "nat option"
  team2_score :: "nat option"
  youtube_live_url :: string
  youtube_recap_url :: string
  live_started_at :: "instant option"
  completed_at :: "instant option"
  match_game :: "ident option"
  viewer_count :: nat
  viewer_label :: string
  current_round :: "nat option"
  total_rounds :: "nat option"
  points_team1 :: int
  points_team2 :: int

record reminder_row =
  reminder_id :: ident
  reminder_match :: ident
  reminder_user :: "ident option"
  reminder_email :: string
  notify_minutes_before :: nat
  sent :: bool

record match_reminder_row =
  mr_id :: ident
  mr_match :: ident
  mr_email :: string
  mr_phone :: string
  mr_notify_minutes_before :: nat
  mr_created_at :: instant
  mr_sent :: bool
  mr_user :: "ident option"

record participant_row =
  participant_tournament :: ident
  participant_team :: ident
  manager_name :: string
  manager_email :: string
  manager_phone :: string
  registered_at :: instant

record news_row =
  news_id :: ident
  news_title :: string
  news_date :: int
  news_summary :: "string option"
  news_content :: string
  news_slug :: "string option"
  news_featured :: bool
  news_image :: "string option"
  news_status :: news_status

record db =
  tournaments :: "tournament_row list"
  team_table :: "team_row list"
  matches :: "match_row list"
  reminders :: "reminder_row list"
  match_reminders :: "match_reminder_row list"
  participants :: "participant_row list"
  games :: "game_row list"
  players :: "player_row list"
  news :: "news_row list"

text \<open>
  The schema the ORM builds queries from: each model's fields by name, with the kind of
  column each declares (a \<open>ForeignKey\<close> names the model it refers to; \<open>id\<close> is the
  automatic primary key), followed by the reverse relations other models declare on it
  (the \<open>related_name\<close>, or the lower-cased model name when there is none). The
  foreign keys to Django's user model are left out, as that model is not part of the
  development. A lookup path such as \<open>team1__game__iexact\<close> is resolved against it
  (\<open>Pages.build_lookup\<close>).
\<close>

datatype model_name =
    Game_model | Tournament_model | Team_model | Player_model | Match_model | MatchReminder_model
  | NewsArticle_model | Reminder_model | TournamentParticipant_model

datatype column =
    Text_column | Number_column | Date_column | DateTime_column | Time_column | Bool_column
  | Key_column model_name

definition model_fields :: "model_name \<Rightarrow> (string \<times> column) list" where
  "model_fields mdl =
     (case mdl of
        Game_model \<Rightarrow>
          [(''id'', Number_column), (''name'', Text_column), (''tournament'', Key_column Tournament_model),
           (''teams'', Key_column Team_model), (''match'', Key_column Match_model)]
      | Tournament_model \<Rightarrow>
          [(''id'', Number_column), (''title'', Text_column), (''game'', Key_column Game_model),
           (''status'', Text_column), (''prize_pool'', Number_column), (''teams'', Number_column),
           (''start_date'', Date_column), (''end_date'', Date_column), (''location'', Text_column),
           (''registration_deadline'', Date_column), (''format'', Text_column), (''image'', Text_column),
           (''featured'', Bool_column), (''timezone'', Text_column), (''matches'', Key_column Match_model),
           (''participants'', Key_column TournamentParticipant_model)]
      | Team_model \<Rightarrow>
          [(''id'', Number_column), (''name'', Text_column), (''game'', Key_column Game_model),
           (''region'', Text_column), (''founded'', Number_column), (''banner'', Text_column),
           (''logo'', Text_column), (''status_indicator'', Text_column), (''rank'', Number_column),
           (''tag'', Text_column), (''description'', Text_column), (''players'', Key_column Player_model),
           (''matches_as_team1'', Key_column Match_model), (''matches_as_team2'', Key_column Match_model),
           (''tournament_entries'', Key_column TournamentParticipant_model)]
      | Player_model \<Rightarrow>
          [(''id'', Number_column), (''name'', Text_column), (''email'', Text_column), (''discord'', Text_column),
           (''team'', Key_column Team_model), (''is_substitute'', Bool_column), (''avatar'', Text_column),
           (''role'', Text_column)]
      | Match_model \<Rightarrow>
          [(''id'', Number_column), (''tournament'', Key_column Tournament_model), (''team1'', Key_column Team_model),
           (''team2'', Key_column Team_model), (''match_time'', DateTime_column), (''status'', Text_column),
           (''stage'', Text_column), (''team1_score'', Number_column), (''team2_score'', Number_column),
           (''game'', Key_column Game_model), (''viewer_count'', Number_column), (''viewer_label'', Text_column),
           (''youtube_live_url'', Text_column), (''youtube_recap_url'', Text_column),
           (''current_round'', Number_column), (''total_rounds'', Number_column),
           (''live_started_at'', DateTime_column), (''completed_at'', DateTime_column),
           (''points_team1'', Number_column), (''points_team2'', Number_column),
           (''match_reminders'', Key_column MatchReminder_model), (''reminders'', Key_column Reminder_model)]
      | MatchReminder_model \<Rightarrow>
          [(''id'', Number_column), (''match'', Key_column Match_model), (''email'', Text_column),
           (''phone'', Text_column), (''notify_minutes_before'', Number_column), (''created_at'', DateTime_column),
           (''sent'', Bool_column)]
      | NewsArticle_model \<Rightarrow>
          [(''id'', Number_column), (''title'', Text_column), (''date'', Date_column), (''summary'', Text_column),
           (''content'', Text_column), (''slug'', Text_column), (''featured'', Bool_column),
           (''image'', Text_column), (''status'', Text_column)]
      | Reminder_model \<Rightarrow>
          [(''id'', Number_column), (''match'', Key_column Match_model), (''email'', Text_column),
           (''notify_minutes_before'', Number_column), (''sent'', Bool_column)]
      | TournamentParticipant_model \<Rightarrow>
          [(''id'', Number_column), (''tournament'', Key_column Tournament_model), (''team'', Key_column Team_model),
           (''manager_name'', Text_column), (''manager_email'', Text_column), (''manager_phone'', Text_column),
           (''registered_at'', DateTime_column)])"

text \<open>\<open>Model.objects.get(pk = i)\<close>: the row with that key, \<open>DoesNotExist\<close> otherwise.\<close>

definition get_tournament :: "tournament_row list \<Rightarrow> ident \<Rightarrow> error + tournament_row" where
  "get_tournament ts i =
     (case find (\<lambda>t. tournament_id t = i) ts of None \<Rightarrow> Inl DoesNotExist | Some t \<Rightarrow> Inr t)"

definition get_match :: "match_row list \<Rightarrow> ident \<Rightarrow> error + match_row" where
  "get_match ms i =
     (case find (\<lambda>m. match_id m = i) ms of None \<Rightarrow> Inl DoesNotExist | Some m \<Rightarrow> Inr m)"

definition get_team_row :: "team_row list \<Rightarrow> ident \<Rightarrow> error + team_row" where
  "get_team_row ts i =
     (case find (\<lambda>t. team_id t = i) ts of None \<Rightarrow> Inl DoesNotExist | Some t \<Rightarrow> Inr t)"

text \<open>
  The \<open>__str__\<close> methods, which label a row in the admin's lists and in the foreign-key
  columns of other rows. A method that follows a foreign key (\<open>self.team.name\<close>) loads the
  referenced row and raises \<open>DoesNotExist\<close> when it is gone; an f-string evaluates its
  fields left to right. Text is UTF-8 encoded, so the em dash of \<open>Match.__str__\<close> is
  three bytes. \<open>MatchReminder\<close> has no \<open>__str__\<close>: Django's default
  \<open>Model.__str__\<close> prints the class name and the primary key.
\<close>

definition game_str :: "game_row \<Rightarrow> string" where
  "game_str g = game_name g"

definition tournament_str :: "tournament_row \<Rightarrow> string" where
  "tournament_str t = title t"

definition team_str :: "team_row \<Rightarrow> string" where
  "team_str t = name t"

definition player_str :: "team_row list \<Rightarrow> player_row \<Rightarrow> error + string" where
  "player_str ts p =
     (case get_team_row ts (player_team p) of
        Inl e \<Rightarrow> Inl e
      | Inr t \<Rightarrow> Inr (player_name p @ '' ('' @ name t @ '')''))"

definition em_dash :: string where
  "em_dash = [CHR 0xE2, CHR 0x80, CHR 0x94]"

definition match_str :: "db \<Rightarrow> match_row \<Rightarrow> error + string" where
  "match_str d m =
     (case get_tournament (tournaments d) (tournament m) of
        Inl e \<Rightarrow> Inl e
      | Inr t \<Rightarrow>
          (case get_team_row (team_table d) (team1 m) of
             Inl e \<Rightarrow> Inl e
           | Inr a \<Rightarrow>
               (case get_team_row (team_table d) (team2 m) of
                  Inl e \<Rightarrow> Inl e
                | Inr b \<Rightarrow> Inr (title t @ '' '' @ em_dash @ '' '' @ name a @ '' vs '' @ name b))))"

definition match_reminder_str :: "match_reminder_row \<Rightarrow> string" where
  "match_reminder_str r = ''MatchReminder object ('' @ str_of_nat (mr_id r) @ '')''"

definition news_str :: "news_row \<Rightarrow> string" where
  "news_str n = news_title n"

definition reminder_str :: "db \<Rightarrow> reminder_row \<Rightarrow> error + string" where
  "reminder_str d r =
     (case get_match (matches d) (reminder_match r) of
        Inl e \<Rightarrow> Inl e
      | Inr m \<Rightarrow>
          (case match_str d m of
             Inl e \<Rightarrow> Inl e
           | Inr s \<Rightarrow> Inr (''Reminder for '' @ s @ '' to '' @ reminder_email r)))"

definition participant_str :: "db \<Rightarrow> participant_row \<Rightarrow> error + string" where
  "participant_str d p =
     (case get_team_row (team_table d) (participant_team p) of
        Inl e \<Rightarrow> Inl e
      | Inr t \<Rightarrow>
          (case get_tournament (tournaments d) (participant_tournament p) of
             Inl e \<Rightarrow> Inl e
           | Inr u \<Rightarrow> Inr (name t @ '' in '' @ title u)))"

text \<open>
  \<open>Tournament.start_time\<close>: the \<open>match_time\<close> of the first of the tournament's matches
  ordered by \<open>match_time\<close>. \<open>Tournament.end_time\<close>: of the first ordered by
  \<open>-match_time\<close>, its \<open>completed_at\<close> if set, else its \<open>match_time\<close>. \<open>None\<close>
  when the tournament has no match. Rows with equal keys stay in table order.
\<close>

definition tournament_matches :: "match_row list \<Rightarrow> ident \<Rightarrow> match_row list" where
  "tournament_matches ms t = filter (\<lambda>m. tournament m = t) ms"

definition start_time :: "match_row list \<Rightarrow> ident \<Rightarrow> instant option" where
  "start_time ms t =
     (case sort_key match_time (tournament_matches ms t) of
        [] \<Rightarrow> None
      | m # _ \<Rightarrow> Some (match_time m))"

definition end_time :: "match_row list \<Rightarrow> ident \<Rightarrow> instant option" where
  "end_time ms t =
     (case sort_key (\<lambda>m. - match_time m) (tournament_matches ms t) of
        [] \<Rightarrow> None
      | m # _ \<Rightarrow> (case completed_at m of Some c \<Rightarrow> Some c | None \<Rightarrow> Some (match_time m)))"

text \<open>Keys are unique in every table (Django's auto primary keys).\<close>

definition keys_unique :: "db \<Rightarrow> bool" where
  "keys_unique d \<longleftrightarrow>
     distinct (map tournament_id (tournaments d)) \<and> distinct (map team_id (team_table d)) \<and>
     distinct (map match_id (matches d)) \<and> distinct (map reminder_id (reminders d)) \<and>
     distinct (map mr_id (match_reminders d)) \<and> distinct (map game_id (games d)) \<and>
     distinct (map player_id (players d)) \<and> distinct (map news_id (news d))"

end
