(* ===== verification/Timezones.thy ===== *)
theory Timezones
  imports Models
begin

text \<open>
  Time-zone handling of the upcoming-to-live sweep (\<open>update_match_statuses.py\<close>, lines
  19--28): the tournament's zone name with its fallback, the \<open>pytz\<close> lookup with its
  fallback on \<open>UnknownTimeZoneError\<close>, \<open>astimezone\<close>, and the comparison of two aware
  datetimes. A zone is its UTC offset as a function of the instant (daylight saving
  included); the \<open>pytz\<close> database is a partial map from IANA names to zones. An aware
  datetime is its wall-clock reading and its offset. Python compares two aware datetimes
  with the same \<open>tzinfo\<close> by wall clock, and otherwise by the instants they denote;
  \<open>pytz\<close> gives one \<open>tzinfo\<close> per offset of a zone, so "same \<open>tzinfo\<close>" is "same
  offset" here. The main lemma: the comparison made in the tournament's zone is the
  comparison of the instants, whatever the zone.
\<close>

type_synonym zone = "instant \<Rightarrow> int"
type_synonym tz_database = "string \<Rightarrow> zone option"

record aware =
  wall :: int
  utcoffset :: int

definition default_tz_name :: string where
  "default_tz_name = ''Asia/Kolkata''"

text \<open>\<open>match.tournament.timezone or 'Asia/Kolkata'\<close>: \<open>None\<close> and \<open>''''\<close> are falsy.\<close>

definition tz_name_of :: "string option \<Rightarrow> string" where
  "tz_name_of n = (case n of None \<Rightarrow> default_tz_name | Some s \<Rightarrow> if s = [] then default_tz_name else s)"

text \<open>
  \<open>pytz.timezone(tz_name)\<close>, falling back to \<open>pytz.timezone('Asia/Kolkata')\<close> on
  \<open>UnknownTimeZoneError\<close>; the fallback lookup itself is outside the \<open>try\<close>.
\<close>

definition resolve_tz :: "tz_database \<Rightarrow> string \<Rightarrow> error + zone" where
  "resolve_tz tzdb n =
     (case tzdb n of
        Some z \<Rightarrow> Inr z
      | None \<Rightarrow> (case tzdb default_tz_name of Some z \<Rightarrow> Inr z | None \<Rightarrow> Inl UnknownTimeZoneError))"

definition astimezone :: "zone \<Rightarrow> instant \<Rightarrow> aware" where
  "astimezone z t = \<lparr>wall = t + z t, utcoffset = z t\<rparr>"

definition aware_le :: "aware \<Rightarrow> aware \<Rightarrow> bool" where
  "aware_le a b =
     (if utcoffset a = utcoffset b then wall a \<le> wall b
      else wall a - utcoffset a \<le> wall b - utcoffset b)"

text \<open>The comparison of line 28 is the comparison of instants, in every zone.\<close>

lemma aware_le_astimezone [simp]: "aware_le (astimezone z t) (astimezone z u) \<longleftrightarrow> t \<le> u"
  by (simp add: aware_le_def astimezone_def)

lemma resolve_tz_known: "tzdb n = Some z \<Longrightarrow> resolve_tz tzdb n = Inr z"
  by (simp add: resolve_tz_def)

lemma resolve_tz_fallback:
  "tzdb n = None \<Longrightarrow> tzdb default_tz_name = Some z \<Longrightarrow> resolve_tz tzdb n = Inr z"
  by (simp add: resolve_tz_def)

lemma resolve_tz_total:
  "tzdb default_tz_name \<noteq> None \<Longrightarrow> \<exists>z. resolve_tz tzdb n = Inr z"
  by (auto simp: resolve_tz_def split: option.splits)

lemma resolve_tz_error_iff:
  "resolve_tz tzdb n = Inl e \<longleftrightarrow> tzdb n = None \<and> tzdb default_tz_name = None \<and> e = UnknownTimeZoneError"
  by (auto simp: resolve_tz_def split: option.splits)

end
