(* ===== verification/Sweeper.thy ===== *)
theory Sweeper
  imports Timezones
begin

text \<open>
  The status transition sweeper: phases 1 and 2 of \<open>Command.handle\<close> in
  \<open>src/GENZE/core/management/commands/update_match_statuses.py\<close>. Phase 1 turns every
  upcoming match whose start has passed (compared in the tournament's zone) into a live one
  and stamps \<open>live_started_at\<close>; phase 2 completes every live match with both scores,
  at once when it has no stream link and after the 15-minute grace period otherwise, and
  stamps \<open>completed_at\<close>. The sweep reads the clock as one instant \<open>now\<close>.
  Phase 1 can raise (a dangling tournament key, or an unknown fallback zone); the rows
  already saved keep their update and the exception leaves \<open>handle\<close>.

  Besides the definitions translated from the code, the theory states the contract of
  section 4.1 of the specification as \<open>go_live\<close> and proves that the sweep implements it,
  that phase 2 completes exactly the matches the contract names, that one sweep is
  idempotent, and that every match reachable by sweeps and admin edits keeps the
  lifecycle invariant of the data model (timestamps set exactly when the status says so).
\<close>

definition grace_period :: int where
  "grace_period = minutes 15"

text \<open>One iteration of the loop of lines 17--34 (the filter on line 17 is the first test).\<close>

definition upcoming_to_live_row ::
  "tz_database \<Rightarrow> tournament_row list \<Rightarrow> instant \<Rightarrow> match_row \<Rightarrow> error + match_row" where
  "upcoming_to_live_row tzdb ts now m =
     (if status m \<noteq> Upcoming then Inr m
      else case get_tournament ts (tournament m) of
        Inl e \<Rightarrow> Inl e
      | Inr t \<Rightarrow>
          (case resolve_tz tzdb (tz_name_of (timezone t)) of
             Inl e \<Rightarrow> Inl e
           | Inr z \<Rightarrow>
               if aware_le (astimezone z (match_time m)) (astimezone z now)
               then Inr (m\<lparr>status := Live, live_started_at := Some now\<rparr>)
               else Inr m))"

definition upcoming_to_live ::
  "tz_database \<Rightarrow> tournament_row list \<Rightarrow> instant \<Rightarrow> match_row list \<Rightarrow> error option \<times> match_row list" where
  "upcoming_to_live tzdb ts now ms = map_until_error (upcoming_to_live_row tzdb ts now) ms"

text \<open>The queryset of lines 37--45; \<open>youtube_live_url\<close> is never NULL, so its
  \<open>isnull\<close> disjunct never holds.\<close>

definition completes :: "instant \<Rightarrow> match_row \<Rightarrow> bool" where
  "completes now m \<longleftrightarrow>
     status m = Live \<and> team1_score m \<noteq> None \<and> team2_score m \<noteq> None \<and>
     (youtube_live_url m = [] \<or> match_time m < now - grace_period)"

definition live_to_completed_row :: "instant \<Rightarrow> match_row \<Rightarrow> match_row" where
  "live_to_completed_row now m =
     (if completes now m then m\<lparr>status := Completed, completed_at := Some now\<rparr> else m)"

definition live_to_completed :: "instant \<Rightarrow> match_row list \<Rightarrow> match_row list" where
  "live_to_completed now ms = map (live_to_completed_row now) ms"

text \<open>Phases 1 and 2 in sequence; phase 2 does not run when phase 1 raised.\<close>

definition sweep_matches ::
  "tz_database \<Rightarrow> tournament_row list \<Rightarrow> instant \<Rightarrow> match_row list \<Rightarrow> error option \<times> match_row list" where
  "sweep_matches tzdb ts now ms =
     (case upcoming_to_live tzdb ts now ms of
        (Some e, ms') \<Rightarrow> (Some e, ms')
      | (None, ms') \<Rightarrow> (None, live_to_completed now ms'))"

subsection \<open>The contract of section 4.1\<close>

text \<open>The specification's upcoming-to-live rule, with no time zone in it.\<close>

definition go_live :: "instant \<Rightarrow> match_row \<Rightarrow> match_row" where
  "go_live now m =
     (if status m = Upcoming \<and> match_time m \<le> now
      then m\<lparr>status := Live, live_started_at := Some now\<rparr> else m)"

definition sweep_spec :: "instant \<Rightarrow> match_row \<Rightarrow> match_row" where
  "sweep_spec now m = live_to_completed_row now (go_live now m)"

text \<open>
  The precondition under which phase 1 cannot raise: every upcoming match refers to a
  tournament of the table, and the fallback zone is in the zone database.
\<close>

definition sweep_ready :: "tz_database \<Rightarrow> tournament_row list \<Rightarrow> match_row list \<Rightarrow> bool" where
  "sweep_ready tzdb ts ms \<longleftrightarrow>
     tzdb default_tz_name \<noteq> None \<and>
     list_all (\<lambda>m. status m = Upcoming \<longrightarrow> list_ex (\<lambda>t. tournament_id t = tournament m) ts) ms"

subsection \<open>Lifecycle of one match\<close>

text \<open>
  A match is created upcoming with no timestamps; afterwards it changes by sweeps (at any
  instant, with any tournaments and zones) and by admin edits that leave the status
  and the two timestamps alone. The match admin's own form may set all three
  (\<open>AdminForms.admin_save_match\<close>); those edits are outside this relation.
\<close>

inductive match_reach :: "match_row \<Rightarrow> bool" where
  created: "status m = Upcoming \<Longrightarrow> live_started_at m = None \<Longrightarrow> completed_at m = None \<Longrightarrow> match_reach m"
| sweep: "match_reach m \<Longrightarrow> upcoming_to_live_row tzdb ts now m = Inr m' \<Longrightarrow>
            match_reach (live_to_completed_row now m')"
| admin_edit: "match_reach m \<Longrightarrow> status m' = status m \<Longrightarrow> live_started_at m' = live_started_at m \<Longrightarrow>
            completed_at m' = completed_at m \<Longrightarrow> match_reach m'"

definition lifecycle_ok :: "match_row \<Rightarrow> bool" where
  "lifecycle_ok m \<longleftrightarrow>
     (completed_at m \<noteq> None \<longleftrightarrow> status m = Completed) \<and>
     (live_started_at m \<noteq> None \<longleftrightarrow> status m \<noteq> Upcoming)"

fun status_rank :: "match_status \<Rightarrow> nat" where
  "status_rank Upcoming = 0"
| "status_rank Live = 1"
| "status_rank Completed = 2"

text \<open>Concrete rows the witnesses below evaluate on: a tournament whose zone name
  \<open>pytz\<close> does not know, a zone database holding only the fallback zone (UTC+5:30),
  and a scored upcoming final without a stream link.\<close>

definition demo_tournament :: tournament_row where
  "demo_tournament = \<lparr>tournament_id = 1, title = ''GENZE Cup'', tournament_status = Tournament_Live,
     tournament_game = None, teams = Some 8, timezone = Some ''Mars/Olympus'',
     prize_pool = Some 500000, start_date = 739342, featured = True,
     location = ''Mumbai'', end_date = 739343, registration_deadline = None,
     tournament_format = ''Single elimination'', tournament_image = None\<rparr>"

definition demo_tzdb :: tz_database where
  "demo_tzdb n = (if n = default_tz_name then Some (\<lambda>_. 19800) else None)"

definition demo_match :: match_row where
  "demo_match = \<lparr>match_id = 7, tournament = 1, team1 = 1, team2 = 2, match_time = 1000,
     status = Upcoming, stage = ''Grand Final'', team1_score = Some 3, team2_score = Some 1,
     youtube_live_url = [], youtube_recap_url = [], live_started_at = None, completed_at = None, match_game = None,
     viewer_count = 0, viewer_label = [], current_round = None, total_rounds = None, points_team1 = 0, points_team2 = 0\<rparr>"

subsection \<open>Phase 1\<close>

lemma get_tournament_Inr:
  "list_ex (\<lambda>t. tournament_id t = i) ts \<Longrightarrow> \<exists>t. get_tournament ts i = Inr t"
  by (induction ts) (auto simp: get_tournament_def split: option.splits)

lemma upcoming_to_live_row_go_live [row_simps]:
  assumes "tzdb default_tz_name \<noteq> None"
    and "status m = Upcoming \<longrightarrow> list_ex (\<lambda>t. tournament_id t = tournament m) ts"
  shows "upcoming_to_live_row tzdb ts now m = Inr (go_live now m)"
proof (cases "status m = Upcoming")
  case True
  with assms(2) obtain t where t: "get_tournament ts (tournament m) = Inr t"
    using get_tournament_Inr by blast
  from assms(1) obtain z where "resolve_tz tzdb (tz_name_of (timezone t)) = Inr z"
    using resolve_tz_total by blast
  with True t show ?thesis by (simp add: upcoming_to_live_row_def go_live_def)
next
  case False
  then show ?thesis by (simp add: upcoming_to_live_row_def go_live_def)
qed

lemma upcoming_to_live_go_live:
  "sweep_ready tzdb ts ms \<Longrightarrow> upcoming_to_live tzdb ts now ms = (None, map (go_live now) ms)"
  unfolding upcoming_to_live_def sweep_ready_def
  by (rule map_until_error_all_Inr) (simp add: upcoming_to_live_row_go_live list_all_iff)

lemma upcoming_to_live_row_not_upcoming [row_simps]:
  "status m \<noteq> Upcoming \<Longrightarrow> upcoming_to_live_row tzdb ts now m = Inr m"
  by (simp add: upcoming_to_live_row_def)

lemma upcoming_to_live_row_Inr_cases:
  "upcoming_to_live_row tzdb ts now m = Inr m' \<Longrightarrow> m' = go_live now m"
  by (auto simp: upcoming_to_live_row_def go_live_def split: if_splits sum.splits)

subsection \<open>Phase 2\<close>

lemma live_to_completed_row_completes:
  "completes now m \<Longrightarrow> live_to_completed_row now m = m\<lparr>status := Completed, completed_at := Some now\<rparr>"
  by (simp add: live_to_completed_row_def)

lemma live_to_completed_row_id: "\<not> completes now m \<Longrightarrow> live_to_completed_row now m = m"
  by (simp add: live_to_completed_row_def)

lemma not_completes_live_to_completed_row: "\<not> completes now (live_to_completed_row now m)"
  by (cases "completes now m")
     (simp_all add: live_to_completed_row_completes live_to_completed_row_id, simp add: completes_def)

lemma live_to_completed_row_idem:
  "live_to_completed_row now (live_to_completed_row now m) = live_to_completed_row now m"
  by (simp add: live_to_completed_row_id not_completes_live_to_completed_row)

lemma go_live_id:
  assumes "\<not> (status m = Upcoming \<and> match_time m \<le> now)"
  shows "go_live now m = m"
  using assms unfolding go_live_def by (rule if_not_P)

lemma match_time_live_to_completed_row [simp]: "match_time (live_to_completed_row now m) = match_time m"
  by (simp add: live_to_completed_row_def)

lemma status_live_to_completed_row:
  "status (live_to_completed_row now m) = (if completes now m then Completed else status m)"
  by (simp add: live_to_completed_row_def)

lemma status_go_live:
  "status (go_live now m) = (if status m = Upcoming \<and> match_time m \<le> now then Live else status m)"
  by (simp add: go_live_def)

lemma tournament_go_live [simp]: "tournament (go_live now m) = tournament m"
  by (simp add: go_live_def)

lemma tournament_live_to_completed_row [simp]: "tournament (live_to_completed_row now m) = tournament m"
  by (simp add: live_to_completed_row_def)

lemma completes_go_live:
  "completes now (go_live now m) \<longleftrightarrow>
     (status m = Live \<or> status m = Upcoming \<and> match_time m \<le> now) \<and>
     team1_score m \<noteq> None \<and> team2_score m \<noteq> None \<and>
     (youtube_live_url m = [] \<or> match_time m < now - grace_period)"
  by (auto simp: completes_def go_live_def)

lemma sweep_spec_idem: "sweep_spec now (sweep_spec now m) = sweep_spec now m"
proof -
  let ?s = "sweep_spec now m"
  have "\<not> (status ?s = Upcoming \<and> match_time ?s \<le> now)"
  proof (cases "status m = Upcoming \<and> match_time m \<le> now")
    case True
    then show ?thesis by (simp add: sweep_spec_def go_live_def status_live_to_completed_row)
  next
    case False
    then show ?thesis by (auto simp: sweep_spec_def go_live_id status_live_to_completed_row)
  qed
  then have "go_live now ?s = ?s" by (rule go_live_id)
  then show ?thesis by (simp add: sweep_spec_def live_to_completed_row_idem)
qed

lemma sweep_matches_spec:
  "sweep_ready tzdb ts ms \<Longrightarrow> sweep_matches tzdb ts now ms = (None, map (sweep_spec now) ms)"
  by (simp add: sweep_matches_def upcoming_to_live_go_live live_to_completed_def sweep_spec_def)

lemma sweep_spec_keeps_upcoming:
  "status (sweep_spec now m) = Upcoming \<Longrightarrow> status m = Upcoming \<and> tournament (sweep_spec now m) = tournament m"
  by (auto simp: sweep_spec_def status_go_live status_live_to_completed_row split: if_splits)

lemma sweep_ready_sweep_spec:
  "sweep_ready tzdb ts ms \<Longrightarrow> sweep_ready tzdb ts (map (sweep_spec now) ms)"
  by (auto simp: sweep_ready_def list_all_iff dest: sweep_spec_keeps_upcoming)

subsection \<open>Lifecycle\<close>

lemma lifecycle_ok_go_live: "lifecycle_ok m \<Longrightarrow> lifecycle_ok (go_live now m)"
  by (cases "status m = Upcoming \<and> match_time m \<le> now")
     (simp_all add: go_live_id, simp add: go_live_def lifecycle_ok_def)

lemma lifecycle_ok_live_to_completed_row: "lifecycle_ok m \<Longrightarrow> lifecycle_ok (live_to_completed_row now m)"
  by (cases "completes now m")
     (simp_all add: live_to_completed_row_id live_to_completed_row_completes lifecycle_ok_def completes_def)

lemma status_rank_live_to_completed_row:
  "status_rank (status m) \<le> status_rank (status (live_to_completed_row now m))"
  by (cases "status m") (auto simp: status_live_to_completed_row completes_def)

lemma status_rank_go_live: "status_rank (status m) \<le> status_rank (status (go_live now m))"
  by (simp add: go_live_def)

subsection \<open>Properties of the sweeper\<close>

text \<open>C1. Phase 1 implements the contract: when no lookup can fail, it raises nothing and
  turns exactly the upcoming matches whose start time is not after \<open>now\<close> into live
  matches stamped with \<open>now\<close>, leaving every other row as it was.\<close>

theorem upcoming_to_live_contract:
  assumes "sweep_ready tzdb ts ms" and "i < length ms"
  shows "fst (upcoming_to_live tzdb ts now ms) = None \<and>
         snd (upcoming_to_live tzdb ts now ms) ! i =
           (if status (ms ! i) = Upcoming \<and> match_time (ms ! i) \<le> now
            then (ms ! i)\<lparr>status := Live, live_started_at := Some now\<rparr> else ms ! i)"
  using upcoming_to_live_go_live [OF assms(1)] assms(2) by (simp add: go_live_def)

theorem upcoming_to_live_contract_witness:
  "sweep_ready demo_tzdb [demo_tournament] [demo_match] \<and>
   snd (upcoming_to_live demo_tzdb [demo_tournament] 2000 [demo_match]) ! 0 =
     demo_match\<lparr>status := Live, live_started_at := Some 2000\<rparr>"
proof -
  have r: "sweep_ready demo_tzdb [demo_tournament] [demo_match]"
    by (simp add: sweep_ready_def demo_tzdb_def demo_tournament_def demo_match_def)
  show ?thesis
    using upcoming_to_live_contract [OF r, of 0 2000] r by (simp add: demo_match_def)
qed

text \<open>C2. Phase 2 completes a live match that has both scores and no stream link in the
  same sweep, stamping \<open>completed_at\<close> with \<open>now\<close>.\<close>

theorem live_to_completed_no_stream:
  assumes "i < length ms" and "status (ms ! i) = Live"
    and "team1_score (ms ! i) \<noteq> None" and "team2_score (ms ! i) \<noteq> None"
    and "youtube_live_url (ms ! i) = []"
  shows "live_to_completed now ms ! i = (ms ! i)\<lparr>status := Completed, completed_at := Some now\<rparr>"
proof -
  from assms(2-5) have "completes now (ms ! i)" by (simp add: completes_def)
  with assms(1) show ?thesis by (simp add: live_to_completed_def live_to_completed_row_completes)
qed

theorem live_to_completed_no_stream_witness:
  "live_to_completed 2000 [demo_match\<lparr>status := Live\<rparr>] ! 0 =
     demo_match\<lparr>status := Completed, completed_at := Some 2000\<rparr>"
  using live_to_completed_no_stream [of 0 "[demo_match\<lparr>status := Live\<rparr>]" 2000]
  by (simp add: demo_match_def)

text \<open>C3. A live scored match with a stream link is completed only once its start lies
  more than the grace period of 15 minutes (900 seconds) before \<open>now\<close>; until then the
  sweep leaves it as it is.\<close>

theorem live_to_completed_grace:
  assumes "status m = Live" and "team1_score m \<noteq> None" and "team2_score m \<noteq> None"
    and "youtube_live_url m \<noteq> []"
  shows "live_to_completed_row now m =
           (if match_time m < now - 900 then m\<lparr>status := Completed, completed_at := Some now\<rparr> else m)"
proof -
  have "grace_period = 900" by (simp add: grace_period_def minutes_def)
  with assms have "completes now m \<longleftrightarrow> match_time m < now - 900" by (simp add: completes_def)
  then show ?thesis by (simp add: live_to_completed_row_def)
qed

theorem live_to_completed_grace_witness:
  "live_to_completed_row 1500 (demo_match\<lparr>status := Live, youtube_live_url := ''https://youtu.be/x''\<rparr>) =
     demo_match\<lparr>status := Live, youtube_live_url := ''https://youtu.be/x''\<rparr> \<and>
   live_to_completed_row 2000 (demo_match\<lparr>status := Live, youtube_live_url := ''https://youtu.be/x''\<rparr>) =
     demo_match\<lparr>status := Completed, youtube_live_url := ''https://youtu.be/x'', completed_at := Some 2000\<rparr>"
  using live_to_completed_grace [of "demo_match\<lparr>status := Live, youtube_live_url := ''https://youtu.be/x''\<rparr>" 1500]
    live_to_completed_grace [of "demo_match\<lparr>status := Live, youtube_live_url := ''https://youtu.be/x''\<rparr>" 2000]
  by (simp_all add: demo_match_def)

text \<open>The time zone does not change the decision: for an upcoming match whose
  tournament exists, with whatever zone name it has (unknown, empty or absent ones fall
  back to Asia/Kolkata), the row goes live exactly when its start instant is not after
  \<open>now\<close>, as long as the fallback zone is known.\<close>

theorem upcoming_to_live_row_zone_independent:
  assumes "status m = Upcoming" and "get_tournament ts (tournament m) = Inr t"
    and "tzdb default_tz_name \<noteq> None"
  shows "upcoming_to_live_row tzdb ts now m =
           Inr (if match_time m \<le> now then m\<lparr>status := Live, live_started_at := Some now\<rparr> else m)"
proof -
  from assms(3) obtain z where "resolve_tz tzdb (tz_name_of (timezone t)) = Inr z"
    using resolve_tz_total by blast
  with assms(1,2) show ?thesis by (simp add: upcoming_to_live_row_def)
qed

theorem upcoming_to_live_row_zone_independent_witness:
  "upcoming_to_live_row demo_tzdb [demo_tournament] 500 demo_match = Inr demo_match"
proof -
  have t: "get_tournament [demo_tournament] (tournament demo_match) = Inr demo_tournament"
    by (simp add: get_tournament_def demo_tournament_def demo_match_def)
  have z: "demo_tzdb default_tz_name \<noteq> None" by (simp add: demo_tzdb_def)
  have u: "status demo_match = Upcoming" by (simp add: demo_match_def)
  show ?thesis
    using upcoming_to_live_row_zone_independent [where m = demo_match and now = 500
        and ts = "[demo_tournament]" and t = demo_tournament and tzdb = demo_tzdb, OF u t z]
    by (simp add: demo_match_def)
qed

text \<open>C5. When phase 1 raises, the exception comes from an upcoming row; the rows before it
  keep their saved transition, that row and all after it are unchanged.\<close>

theorem upcoming_to_live_error_partial:
  assumes "upcoming_to_live tzdb ts now ms = (Some e, ms')"
  shows "\<exists>i < length ms. status (ms ! i) = Upcoming \<and> upcoming_to_live_row tzdb ts now (ms ! i) = Inl e \<and>
           take i ms' = map (go_live now) (take i ms) \<and> drop i ms' = drop i ms"
proof -
  from map_until_error_Some [OF assms [unfolded upcoming_to_live_def]] obtain i where i: "i < length ms"
    and err: "upcoming_to_live_row tzdb ts now (ms ! i) = Inl e" and dr: "drop i ms' = drop i ms"
    and pre: "list_all2 (\<lambda>x y. upcoming_to_live_row tzdb ts now x = Inr y) (take i ms) (take i ms')"
    by blast
  have up: "status (ms ! i) = Upcoming"
  proof (rule ccontr)
    assume "status (ms ! i) \<noteq> Upcoming"
    then have "upcoming_to_live_row tzdb ts now (ms ! i) = Inr (ms ! i)"
      by (rule upcoming_to_live_row_not_upcoming)
    with err show False by simp
  qed
  from pre have "take i ms' = map (go_live now) (take i ms)"
    by (induction rule: list_all2_induct) (simp_all add: upcoming_to_live_row_Inr_cases)
  with i up err dr show ?thesis by blast
qed

theorem upcoming_to_live_error_partial_witness:
  "upcoming_to_live demo_tzdb [] 2000 [demo_match] = (Some DoesNotExist, [demo_match]) \<and>
   (\<exists>i < length [demo_match]. status ([demo_match] ! i) = Upcoming \<and>
      upcoming_to_live_row demo_tzdb [] 2000 ([demo_match] ! i) = Inl DoesNotExist \<and>
      take i [demo_match] = map (go_live 2000) (take i [demo_match]) \<and>
      drop i [demo_match] = drop i [demo_match])"
proof -
  have h: "upcoming_to_live demo_tzdb [] 2000 [demo_match] = (Some DoesNotExist, [demo_match])"
    by (simp add: upcoming_to_live_def upcoming_to_live_row_def get_tournament_def demo_match_def)
  show ?thesis using h upcoming_to_live_error_partial [OF h] by (rule conjI)
qed

text \<open>C6. A sweep is idempotent: running phases 1 and 2 again at the same instant on the
  table one sweep produced changes nothing.\<close>

theorem sweep_matches_idempotent:
  assumes "sweep_ready tzdb ts ms" and "sweep_matches tzdb ts now ms = (None, ms')"
  shows "sweep_matches tzdb ts now ms' = (None, ms')"
proof -
  from assms have ms': "ms' = map (sweep_spec now) ms" by (simp add: sweep_matches_spec)
  from assms(1) have "sweep_ready tzdb ts ms'" unfolding ms' by (rule sweep_ready_sweep_spec)
  then show ?thesis by (simp add: sweep_matches_spec ms' sweep_spec_idem)
qed

theorem sweep_matches_idempotent_witness:
  "sweep_matches demo_tzdb [demo_tournament] 2000 [demo_match] =
     (None, [demo_match\<lparr>status := Completed, live_started_at := Some 2000, completed_at := Some 2000\<rparr>]) \<and>
   sweep_matches demo_tzdb [demo_tournament] 2000
     [demo_match\<lparr>status := Completed, live_started_at := Some 2000, completed_at := Some 2000\<rparr>] =
     (None, [demo_match\<lparr>status := Completed, live_started_at := Some 2000, completed_at := Some 2000\<rparr>])"
proof -
  have r: "sweep_ready demo_tzdb [demo_tournament] [demo_match]"
    by (simp add: sweep_ready_def demo_tzdb_def demo_tournament_def demo_match_def)
  have s: "sweep_matches demo_tzdb [demo_tournament] 2000 [demo_match] =
     (None, [demo_match\<lparr>status := Completed, live_started_at := Some 2000, completed_at := Some 2000\<rparr>])"
    unfolding sweep_matches_spec [OF r]
    by (simp add: sweep_spec_def go_live_def live_to_completed_row_def completes_def demo_match_def)
  from sweep_matches_idempotent [OF r s] s show ?thesis by simp
qed

text \<open>C7. Every match reachable from its creation by sweeps and by admin edits that leave
  the status and both timestamps alone keeps the
  invariant of the data model: \<open>completed_at\<close> is set exactly when the match is completed,
  and \<open>live_started_at\<close> exactly when it is no longer upcoming.\<close>

theorem match_reach_lifecycle_ok:
  "match_reach m \<Longrightarrow> lifecycle_ok m"
proof (induction rule: match_reach.induct)
  case (created m)
  then show ?case by (simp add: lifecycle_ok_def)
next
  case (sweep m tzdb ts now m')
  then have "m' = go_live now m" by (simp add: upcoming_to_live_row_Inr_cases)
  with sweep.IH show ?case by (simp add: lifecycle_ok_go_live lifecycle_ok_live_to_completed_row)
next
  case (admin_edit m m')
  then show ?case by (simp add: lifecycle_ok_def)
qed

theorem match_reach_lifecycle_ok_witness:
  "match_reach (live_to_completed_row 2000 (demo_match\<lparr>status := Live, live_started_at := Some 2000\<rparr>)) \<and>
   lifecycle_ok (live_to_completed_row 2000 (demo_match\<lparr>status := Live, live_started_at := Some 2000\<rparr>))"
proof -
  have c: "match_reach demo_match" by (rule match_reach.created) (simp_all add: demo_match_def)
  have "upcoming_to_live_row demo_tzdb [demo_tournament] 2000 demo_match =
          Inr (demo_match\<lparr>status := Live, live_started_at := Some 2000\<rparr>)"
    by (simp add: upcoming_to_live_row_def get_tournament_def resolve_tz_def demo_tzdb_def
        demo_tournament_def demo_match_def astimezone_def aware_le_def)
  from match_reach.sweep [OF c this] have r:
    "match_reach (live_to_completed_row 2000 (demo_match\<lparr>status := Live, live_started_at := Some 2000\<rparr>))" .
  with match_reach_lifecycle_ok [OF r] show ?thesis by simp
qed

text \<open>C8. A sweep never moves a match back in the lifecycle: the status rank
  (upcoming 0, live 1, completed 2) after a row's phase 1 and phase 2 is at least the rank
  before, and a completed match is left untouched.\<close>

theorem sweep_row_monotone:
  assumes "upcoming_to_live_row tzdb ts now m = Inr m'"
  shows "status_rank (status m) \<le> status_rank (status (live_to_completed_row now m')) \<and>
         (status m = Completed \<longrightarrow> live_to_completed_row now m' = m)"
proof -
  from assms have m': "m' = go_live now m" by (rule upcoming_to_live_row_Inr_cases)
  have "status_rank (status m) \<le> status_rank (status m')"
    unfolding m' by (rule status_rank_go_live)
  also have "\<dots> \<le> status_rank (status (live_to_completed_row now m'))"
    by (rule status_rank_live_to_completed_row)
  finally have mono: "status_rank (status m) \<le> status_rank (status (live_to_completed_row now m'))" .
  have "status m = Completed \<Longrightarrow> live_to_completed_row now m' = m"
    by (simp add: m' go_live_id live_to_completed_row_id completes_def)
  with mono show ?thesis by blast
qed

theorem sweep_row_monotone_witness:
  "upcoming_to_live_row demo_tzdb [] 2000 (demo_match\<lparr>status := Completed\<rparr>) = Inr (demo_match\<lparr>status := Completed\<rparr>) \<and>
   live_to_completed_row 2000 (demo_match\<lparr>status := Completed\<rparr>) = demo_match\<lparr>status := Completed\<rparr>"
proof -
  have h: "upcoming_to_live_row demo_tzdb [] 2000 (demo_match\<lparr>status := Completed\<rparr>) = Inr (demo_match\<lparr>status := Completed\<rparr>)"
    by (simp add: upcoming_to_live_row_not_upcoming)
  from sweep_row_monotone [OF h] h show ?thesis by simp
qed

end
