(* ===== verification/Reminders.thy ===== *)
theory Reminders
  imports Sweeper
begin

text \<open>
  The two reminder dispatchers.
  \<^item> Phase 3 of \<open>update_match_statuses.Command.handle\<close> (lines 55--86) works on the
    \<open>Reminder\<close> table: every unsent reminder whose send time
    \<open>match_time - notify_minutes_before\<close> has come is mailed, and marked sent only when
    \<open>send_mail\<close> returns; a failure is logged and the reminder stays unsent, to be retried
    by the next run. \<open>select_related\<close> joins the match table with an inner join, so a
    reminder without its match is not iterated.
  \<^item> \<open>send_due_reminders.Command.handle\<close> works on the \<open>MatchReminder\<close> table: a due
    reminder is mailed when it has an address, and marked sent in every case, whether the
    mail went out or not; \<open>reminder.match\<close> raises when the match is missing.
  The mail transport is a parameter: \<open>transport ml\<close> is whether \<open>send_mail\<close> delivers
  \<open>ml\<close> (\<open>False\<close>: it raises). Each run has its own transport, so a failure can be
  transient. A mail is modelled by its kind (the subject line's prefix), recipient, match
  and link line; the rest of the text (team names, tournament title, formatted time) is
  not. The log of a run lists the reminders it mailed, by id.
\<close>

datatype mail_kind = Upcoming_Match | Match_Reminder

datatype reminder_link = Watch_Live string | View_Recap string | No_Link

record mail =
  mail_kind :: mail_kind
  mail_to :: string
  mail_match :: ident
  mail_link :: reminder_link

type_synonym transport = "mail \<Rightarrow> bool"

text \<open>\<open>match.match_time - timedelta(minutes = notify_minutes_before)\<close>.\<close>

definition send_time :: "match_row \<Rightarrow> nat \<Rightarrow> instant" where
  "send_time m n = match_time m - minutes n"

subsection \<open>Phase 3 of update_match_statuses\<close>

text \<open>The inner join of \<open>select_related('match', ...)\<close>.\<close>

definition reminder_match_row :: "match_row list \<Rightarrow> reminder_row \<Rightarrow> match_row option" where
  "reminder_match_row ms r = find (\<lambda>m. match_id m = reminder_match r) ms"

text \<open>The mail of lines 63--77: "Watch Live" with the stream link, or the placeholder text.\<close>

definition reminder_mail :: "match_row \<Rightarrow> reminder_row \<Rightarrow> mail" where
  "reminder_mail m r =
     \<lparr>mail_kind = Upcoming_Match, mail_to = reminder_email r, mail_match = match_id m,
      mail_link = (if youtube_live_url m = [] then No_Link else Watch_Live (youtube_live_url m))\<rparr>"

text \<open>One iteration of lines 59--86 (with the filter \<open>sent=False\<close> of line 57): the
  reminder afterwards and the mail delivered, if any.\<close>

definition dispatch_row ::
  "transport \<Rightarrow> match_row list \<Rightarrow> instant \<Rightarrow> reminder_row \<Rightarrow> reminder_row \<times> mail option" where
  "dispatch_row tr ms now r =
     (if sent r then (r, None)
      else case reminder_match_row ms r of
        None \<Rightarrow> (r, None)
      | Some m \<Rightarrow>
          if send_time m (notify_minutes_before r) \<le> now
          then (if tr (reminder_mail m r) then (r\<lparr>sent := True\<rparr>, Some (reminder_mail m r)) else (r, None))
          else (r, None))"

definition dispatch_reminders ::
  "transport \<Rightarrow> match_row list \<Rightarrow> instant \<Rightarrow> reminder_row list \<Rightarrow> reminder_row list \<times> (ident \<times> mail) list" where
  "dispatch_reminders tr ms now rs =
     (map (\<lambda>r. fst (dispatch_row tr ms now r)) rs,
      List.map_filter (\<lambda>r. map_option (Pair (reminder_id r)) (snd (dispatch_row tr ms now r))) rs)"

text \<open>
  Successive runs of the dispatcher, each with its own transport, clock reading and match
  table (the sweeps in between may have changed the matches): the reminder table after the
  last run and every mail delivered, in order.
\<close>

fun dispatch_runs ::
  "(transport \<times> instant \<times> match_row list) list \<Rightarrow> reminder_row list \<Rightarrow> reminder_row list \<times> (ident \<times> mail) list" where
  "dispatch_runs [] rs = (rs, [])"
| "dispatch_runs ((tr, now, ms) # runs) rs =
     (case dispatch_reminders tr ms now rs of
        (rs', out) \<Rightarrow> (case dispatch_runs runs rs' of (rs'', out') \<Rightarrow> (rs'', out @ out')))"

subsection \<open>send_due_reminders\<close>

text \<open>The link line of lines 31--34.\<close>

definition match_reminder_link :: "match_row \<Rightarrow> reminder_link" where
  "match_reminder_link m =
     (if status m = Live \<and> youtube_live_url m \<noteq> [] then Watch_Live (youtube_live_url m)
      else if status m = Completed \<and> youtube_recap_url m \<noteq> [] then View_Recap (youtube_recap_url m)
      else No_Link)"

definition match_reminder_mail :: "match_row \<Rightarrow> match_reminder_row \<Rightarrow> mail" where
  "match_reminder_mail m r =
     \<lparr>mail_kind = Match_Reminder, mail_to = mr_email r, mail_match = match_id m,
      mail_link = match_reminder_link m\<rparr>"

text \<open>One iteration of lines 17--55: the reminder afterwards and the delivery attempt
  (the mail and whether it went out), if one was made.\<close>

definition send_due_row ::
  "transport \<Rightarrow> match_row list \<Rightarrow> instant \<Rightarrow> match_reminder_row \<Rightarrow>
   error + match_reminder_row \<times> (mail \<times> bool) option" where
  "send_due_row tr ms now r =
     (if mr_sent r then Inr (r, None)
      else case get_match ms (mr_match r) of
        Inl e \<Rightarrow> Inl e
      | Inr m \<Rightarrow>
          if send_time m (mr_notify_minutes_before r) \<le> now
          then Inr (r\<lparr>mr_sent := True\<rparr>,
                    if mr_email r = [] then None
                    else Some (match_reminder_mail m r, tr (match_reminder_mail m r)))
          else Inr (r, None))"

fun send_due_loop ::
  "transport \<Rightarrow> match_row list \<Rightarrow> instant \<Rightarrow> match_reminder_row list \<Rightarrow>
   error option \<times> match_reminder_row list \<times> (ident \<times> mail \<times> bool) list" where
  "send_due_loop tr ms now [] = (None, [], [])"
| "send_due_loop tr ms now (r # rs) =
     (case send_due_row tr ms now r of
        Inl e \<Rightarrow> (Some e, r # rs, [])
      | Inr (r', a) \<Rightarrow>
          (case send_due_loop tr ms now rs of
             (e, rs', log) \<Rightarrow> (e, r' # rs', (case a of None \<Rightarrow> [] | Some x \<Rightarrow> [(mr_id r, x)]) @ log)))"

definition send_due_reminders ::
  "transport \<Rightarrow> match_row list \<Rightarrow> instant \<Rightarrow> match_reminder_row list \<Rightarrow>
   error option \<times> match_reminder_row list \<times> (ident \<times> mail \<times> bool) list" where
  "send_due_reminders tr ms now rs = send_due_loop tr ms now rs"

text \<open>A reminder on a scheduled match an hour ahead, and that match.\<close>

definition demo_reminder :: reminder_row where
  "demo_reminder = \<lparr>reminder_id = 5, reminder_match = 7, reminder_user = None,
     reminder_email = ''fan@example.com'', notify_minutes_before = 60, sent = False\<rparr>"

definition demo_match_reminder :: match_reminder_row where
  "demo_match_reminder = \<lparr>mr_id = 3, mr_match = 7, mr_email = ''fan@example.com'', mr_phone = [],
     mr_notify_minutes_before = 30, mr_created_at = 0, mr_sent = False, mr_user = None\<rparr>"

subsection \<open>Lemmas on phase 3\<close>

lemma dispatch_row_sent [simp]: "sent r \<Longrightarrow> dispatch_row tr ms now r = (r, None)"
  by (simp add: dispatch_row_def)

lemma dispatch_row_cases:
  "dispatch_row tr ms now r = (r, None) \<or>
   (\<not> sent r \<and> dispatch_row tr ms now r = (r\<lparr>sent := True\<rparr>, snd (dispatch_row tr ms now r)) \<and>
    snd (dispatch_row tr ms now r) \<noteq> None)"
  by (auto simp: dispatch_row_def split: option.splits)

lemma reminder_id_dispatch_row [simp]: "reminder_id (fst (dispatch_row tr ms now r)) = reminder_id r"
  using dispatch_row_cases [of tr ms now r] by (metis fst_conv reminder_row.select_convs(1) reminder_row.surjective reminder_row.update_convs(6))

lemma sent_dispatch_row:
  "sent (fst (dispatch_row tr ms now r)) \<longleftrightarrow> sent r \<or> snd (dispatch_row tr ms now r) \<noteq> None"
  using dispatch_row_cases [of tr ms now r] by auto

lemma dispatch_row_mail_unsent: "snd (dispatch_row tr ms now r) \<noteq> None \<Longrightarrow> \<not> sent r"
  by (auto simp: dispatch_row_def)


text \<open>The ids a run mails, and the ids still unsent.\<close>

lemma map_fst_dispatch_out:
  "map fst (snd (dispatch_reminders tr ms now rs)) =
   map reminder_id (filter (\<lambda>r. snd (dispatch_row tr ms now r) \<noteq> None) rs)"
  by (induction rs) (auto simp: dispatch_reminders_def List.map_filter_def)

lemma ids_dispatch_reminders [simp]:
  "map reminder_id (fst (dispatch_reminders tr ms now rs)) = map reminder_id rs"
  by (simp add: dispatch_reminders_def comp_def)

lemma unsent_after_dispatch_list:
  "map reminder_id (filter (\<lambda>r. \<not> sent r) (fst (dispatch_reminders tr ms now rs))) =
   map reminder_id (filter (\<lambda>r. \<not> sent r \<and> snd (dispatch_row tr ms now r) = None) rs)"
  by (induction rs) (simp_all add: dispatch_reminders_def sent_dispatch_row)

lemma unsent_after_dispatch:
  "reminder_id ` {r \<in> set (fst (dispatch_reminders tr ms now rs)). \<not> sent r} =
   reminder_id ` {r \<in> set rs. \<not> sent r \<and> snd (dispatch_row tr ms now r) = None}"
  using arg_cong [OF unsent_after_dispatch_list [of tr ms now rs], of set] by simp

lemma mailed_ids_dispatch:
  "set (map fst (snd (dispatch_reminders tr ms now rs))) =
   reminder_id ` {r \<in> set rs. snd (dispatch_row tr ms now r) \<noteq> None}"
  by (auto simp: map_fst_dispatch_out)

lemma dispatch_out_unsent:
  "set (map fst (snd (dispatch_reminders tr ms now rs))) \<subseteq> reminder_id ` {r \<in> set rs. \<not> sent r}"
  unfolding mailed_ids_dispatch by (auto dest: dispatch_row_mail_unsent)

lemma dispatch_out_distinct:
  "distinct (map reminder_id rs) \<Longrightarrow> distinct (map fst (snd (dispatch_reminders tr ms now rs)))"
  by (simp add: map_fst_dispatch_out distinct_map_filter)

lemma dispatch_runs_Cons:
  "dispatch_runs ((tr, now, ms) # runs) rs =
     (fst (dispatch_runs runs (fst (dispatch_reminders tr ms now rs))),
      snd (dispatch_reminders tr ms now rs) @ snd (dispatch_runs runs (fst (dispatch_reminders tr ms now rs))))"
  by (simp split: prod.split)

lemma dispatch_runs_ids:
  "map reminder_id (fst (dispatch_runs runs rs)) = map reminder_id rs"
proof (induction runs arbitrary: rs)
  case Nil
  then show ?case by simp
next
  case (Cons run runs)
  then show ?case by (cases run) (simp add: dispatch_runs_Cons del: dispatch_runs.simps)
qed

lemma dispatch_reminders_step:
  assumes "distinct (map reminder_id rs)"
  shows "distinct (map reminder_id (fst (dispatch_reminders tr ms now rs))) \<and>
         distinct (map fst (snd (dispatch_reminders tr ms now rs))) \<and>
         set (map fst (snd (dispatch_reminders tr ms now rs))) \<subseteq> reminder_id ` {r \<in> set rs. \<not> sent r} \<and>
         reminder_id ` {r \<in> set (fst (dispatch_reminders tr ms now rs)). \<not> sent r} \<subseteq>
           reminder_id ` {r \<in> set rs. \<not> sent r} - set (map fst (snd (dispatch_reminders tr ms now rs)))"
proof -
  let ?M = "\<lambda>r. snd (dispatch_row tr ms now r) \<noteq> None"
  have disj: "reminder_id ` {r \<in> set rs. ?M r} \<inter> reminder_id ` {r \<in> set rs. \<not> ?M r} = {}"
    using assms by (rule image_filter_disjoint)
  have "reminder_id ` {r \<in> set (fst (dispatch_reminders tr ms now rs)). \<not> sent r} \<subseteq>
        reminder_id ` {r \<in> set rs. \<not> sent r} \<inter> reminder_id ` {r \<in> set rs. \<not> ?M r}"
    unfolding unsent_after_dispatch by blast
  with disj have "reminder_id ` {r \<in> set (fst (dispatch_reminders tr ms now rs)). \<not> sent r} \<subseteq>
        reminder_id ` {r \<in> set rs. \<not> sent r} - set (map fst (snd (dispatch_reminders tr ms now rs)))"
    unfolding mailed_ids_dispatch by blast
  with assms dispatch_out_distinct [OF assms, of tr ms now] dispatch_out_unsent [of tr ms now rs]
  show ?thesis by simp
qed

lemma dispatch_runs_out:
  "distinct (map reminder_id rs) \<Longrightarrow>
   distinct (map fst (snd (dispatch_runs runs rs))) \<and>
   set (map fst (snd (dispatch_runs runs rs))) \<subseteq> reminder_id ` {r \<in> set rs. \<not> sent r}"
proof (induction runs arbitrary: rs)
  case Nil
  then show ?case by simp
next
  case (Cons run runs)
  obtain tr now ms where run: "run = (tr, now, ms)" by (cases run) auto
  let ?rs' = "fst (dispatch_reminders tr ms now rs)" and ?out = "snd (dispatch_reminders tr ms now rs)"
  from dispatch_reminders_step [OF Cons.prems, of tr ms now] have st:
    "distinct (map reminder_id ?rs')" "distinct (map fst ?out)"
    "set (map fst ?out) \<subseteq> reminder_id ` {r \<in> set rs. \<not> sent r}"
    "reminder_id ` {r \<in> set ?rs'. \<not> sent r} \<subseteq> reminder_id ` {r \<in> set rs. \<not> sent r} - set (map fst ?out)"
    by auto
  note ih = Cons.IH [OF st(1)]
  have sub: "set (map fst (snd (dispatch_runs runs ?rs'))) \<subseteq>
      reminder_id ` {r \<in> set rs. \<not> sent r} - set (map fst ?out)"
    using conjunct2 [OF ih] st(4) by (rule subset_trans)
  note ih = conjunct1 [OF ih] sub
  with st(2,3) show ?case
    by (auto simp: run dispatch_runs_Cons simp del: dispatch_runs.simps)
qed






subsection \<open>Lemmas on send_due_reminders\<close>

lemma send_due_loop_ok:
  "send_due_loop tr ms now rs = (None, rs', log) \<Longrightarrow>
   list_all2 (\<lambda>r r'. \<exists>a. send_due_row tr ms now r = Inr (r', a)) rs rs'"
  by (induction rs arbitrary: rs' log) (auto split: sum.splits prod.splits)

lemma send_due_row_due:
  assumes "\<not> mr_sent r" and "get_match ms (mr_match r) = Inr m"
    and "send_time m (mr_notify_minutes_before r) \<le> now"
  shows "send_due_row tr ms now r =
           Inr (r\<lparr>mr_sent := True\<rparr>,
                if mr_email r = [] then None else Some (match_reminder_mail m r, tr (match_reminder_mail m r)))"
  using assms by (simp add: send_due_row_def)


subsection \<open>Properties of the dispatchers\<close>



text \<open>C10. Across any sequence of dispatcher runs (each with its own transport, clock and
  match table), no reminder is mailed twice, and only reminders that were unsent at the
  start are mailed: the sent flag makes delivery at most once per reminder.\<close>

theorem dispatch_runs_at_most_once:
  assumes "distinct (map reminder_id rs)"
  shows "distinct (map fst (snd (dispatch_runs runs rs))) \<and>
         (\<forall>x \<in> set (snd (dispatch_runs runs rs)). \<exists>r \<in> set rs. reminder_id r = fst x \<and> \<not> sent r)"
  using dispatch_runs_out [OF assms, of runs] by fastforce

theorem dispatch_runs_at_most_once_witness:
  "distinct (map reminder_id [demo_reminder]) \<and>
   distinct (map fst (snd (dispatch_runs [(\<lambda>_. True, 0, [demo_match]), (\<lambda>_. True, 60, [demo_match])] [demo_reminder])))"
proof -
  have d: "distinct (map reminder_id [demo_reminder])" by simp
  show ?thesis using d dispatch_runs_at_most_once [OF d] by blast
qed



text \<open>C12. send_due_reminders marks every due reminder sent, for every transport: a
  reminder whose delivery failed (or which has no address) is marked sent all the same and
  is never tried again. The specification (section 4.2) says a failed delivery leaves the
  reminder unsent for the next sweep.\<close>

theorem send_due_reminders_marks_all_due:
  assumes "send_due_reminders tr ms now rs = (None, rs', log)" and "i < length rs"
    and "get_match ms (mr_match (rs ! i)) = Inr m"
    and "send_time m (mr_notify_minutes_before (rs ! i)) \<le> now"
  shows "mr_sent (rs' ! i)"
proof -
  from assms(1) have all: "list_all2 (\<lambda>r r'. \<exists>a. send_due_row tr ms now r = Inr (r', a)) rs rs'"
    unfolding send_due_reminders_def by (rule send_due_loop_ok)
  with assms(2) obtain a where row: "send_due_row tr ms now (rs ! i) = Inr (rs' ! i, a)"
    by (auto dest: list_all2_nthD)
  show ?thesis
  proof (cases "mr_sent (rs ! i)")
    case True
    with row show ?thesis by (simp add: send_due_row_def)
  next
    case False
    from send_due_row_due [OF False assms(3,4), of tr] row show ?thesis by simp
  qed
qed

theorem send_due_reminders_marks_all_due_witness:
  "send_due_reminders (\<lambda>_. False) [demo_match] 0 [demo_match_reminder] =
     (None, [demo_match_reminder\<lparr>mr_sent := True\<rparr>],
      [(3, match_reminder_mail demo_match demo_match_reminder, False)]) \<and>
   mr_sent ([demo_match_reminder\<lparr>mr_sent := True\<rparr>] ! 0)"
proof -
  have g: "get_match [demo_match] (mr_match ([demo_match_reminder] ! 0)) = Inr demo_match"
    by (simp add: get_match_def demo_match_def demo_match_reminder_def)
  have d: "send_time demo_match (mr_notify_minutes_before ([demo_match_reminder] ! 0)) \<le> 0"
    by (simp add: send_time_def minutes_def demo_match_def demo_match_reminder_def)
  have r: "send_due_reminders (\<lambda>_. False) [demo_match] 0 [demo_match_reminder] =
     (None, [demo_match_reminder\<lparr>mr_sent := True\<rparr>],
      [(3, match_reminder_mail demo_match demo_match_reminder, False)])"
  proof -
    have "send_due_row (\<lambda>_. False) [demo_match] 0 demo_match_reminder =
            Inr (demo_match_reminder\<lparr>mr_sent := True\<rparr>,
                 Some (match_reminder_mail demo_match demo_match_reminder, False))"
      using send_due_row_due [OF _ g [simplified] d [simplified], of "\<lambda>_. False"]
      by (simp add: demo_match_reminder_def)
    then show ?thesis by (simp add: send_due_reminders_def demo_match_reminder_def)
  qed
  from send_due_reminders_marks_all_due [OF r _ g d] r show ?thesis by simp
qed

end
