(* ===== verification/Views.thy ===== *)
theory Views
  imports Reminders PyText
begin

text \<open>
  The views of \<open>src/GENZE/core/views.py\<close> that write to the database or compute from
  the request: \<open>create_reminder\<close> (lines 367--440), \<open>delete_reminder\<close> (lines 442--447)
  and \<open>tournament_register\<close> (lines 787--819). A request is its method, its GET and
  POST parameters (one value per key, as \<open>QueryDict.get\<close> returns it) and the
  authenticated user, if any, with that user's \<open>email\<close>. A response is the one the view
  returns, or \<open>Inl\<close> of the exception it lets escape (the server answers 500 then);
  \<open>get_object_or_404\<close> turns a missing row into the response \<open>Not_found\<close>. Every row
  a view creates is committed at once (no view runs in a transaction). A new row's
  primary key is one more than the largest in its table: only its freshness matters.
  Python's \<open>x or y\<close> on two optional strings is \<open>str_or\<close>; \<open>not s\<close> of an optional
  string holds for \<open>None\<close> and the empty string.
\<close>

record request =
  is_post :: bool
  get_params :: "(string \<times> string) list"
  post_params :: "(string \<times> string) list"
  auth_user :: "(ident \<times> string) option"

definition param :: "(string \<times> string) list \<Rightarrow> string \<Rightarrow> string option" where
  "param ps k = map_of ps k"

definition str_or :: "string option \<Rightarrow> string option \<Rightarrow> string option" where
  "str_or a b = (case a of Some s \<Rightarrow> if s = [] then b else a | None \<Rightarrow> b)"

definition truthy :: "string option \<Rightarrow> bool" where
  "truthy a \<longleftrightarrow> a \<noteq> None \<and> a \<noteq> Some []"

text \<open>\<open>int(request.GET.get(key, default))\<close>.\<close>

definition int_param :: "int \<Rightarrow> string option \<Rightarrow> int option" where
  "int_param dflt p = (case p of None \<Rightarrow> Some dflt | Some s \<Rightarrow> py_int_of_string s)"

datatype flash = Flash_error string | Flash_success string

text \<open>\<open>Json ok text status\<close> is \<open>JsonResponse({"ok": ok, ...}, status=status)\<close>, the text
  that of its \<open>error\<close> or \<open>message\<close> key (empty when it has neither).\<close>

datatype response =
    Json bool string nat
  | Bad_request string
  | Not_found
  | Redirect_tournament ident "flash list"
  | Render_register ident "ident option" "flash list"

subsection \<open>create_reminder\<close>

text \<open>The confirmation mail of lines 397--402 (the offset and the number of reminders) and
  of lines 419--425 (the match and the offset), and the transport that sends it.\<close>

datatype confirmation =
    Bulk_confirmation string int nat
  | Single_confirmation string ident int

type_synonym conf_transport = "confirmation \<Rightarrow> bool"

definition next_reminder_id :: "reminder_row list \<Rightarrow> ident" where
  "next_reminder_id rs = Suc (foldr max (map reminder_id rs) 0)"

text \<open>\<open>Reminder.objects.create(...)\<close>: the \<open>PositiveIntegerField\<close>'s check constraint
  rejects a negative offset with \<open>IntegrityError\<close>.\<close>

definition new_reminder :: "reminder_row list \<Rightarrow> ident \<Rightarrow> ident option \<Rightarrow> string \<Rightarrow> nat \<Rightarrow> reminder_row" where
  "new_reminder rs mid u e n =
     \<lparr>reminder_id = next_reminder_id rs, reminder_match = mid, reminder_user = u,
      reminder_email = e, notify_minutes_before = n, sent = False\<rparr>"

definition create_reminder_row ::
  "reminder_row list \<Rightarrow> ident \<Rightarrow> ident option \<Rightarrow> string \<Rightarrow> int \<Rightarrow> error + reminder_row list" where
  "create_reminder_row rs mid u e n =
     (if n < 0 then Inl IntegrityError else Inr (rs @ [new_reminder rs mid u e (nat n)]))"

text \<open>The loop of lines 388--395 over \<open>status='upcoming', match_time__gte=now\<close>.\<close>

definition bulk_matches :: "instant \<Rightarrow> match_row list \<Rightarrow> match_row list" where
  "bulk_matches now ms = filter (\<lambda>m. status m = Upcoming \<and> now \<le> match_time m) ms"

fun create_reminders ::
  "ident option \<Rightarrow> string \<Rightarrow> int \<Rightarrow> match_row list \<Rightarrow> reminder_row list \<Rightarrow> error + reminder_row list" where
  "create_reminders u e n [] rs = Inr rs"
| "create_reminders u e n (m # ms) rs =
     (case create_reminder_row rs (match_id m) u e n of
        Inl err \<Rightarrow> Inl err
      | Inr rs' \<Rightarrow> create_reminders u e n ms rs')"

text \<open>Lines 375--378: the posted address, or the user's own when none is posted.\<close>

definition request_email :: "request \<Rightarrow> string option" where
  "request_email rq =
     (case auth_user rq of
        Some (_, ue) \<Rightarrow> str_or (param (post_params rq) ''email'') (Some ue)
      | None \<Rightarrow> param (post_params rq) ''email'')"

text \<open>Lines 428--439: the reminders stay created whether the mail goes out or not.\<close>

definition confirm :: "conf_transport \<Rightarrow> confirmation \<Rightarrow> db \<Rightarrow> error + response \<times> db \<times> confirmation list" where
  "confirm ct c d =
     Inr (if ct c then (Json True ''Reminder(s) set and email sent'' 200, d, [c])
          else (Json False ''Email sending failed'' 200, d, []))"

definition create_single ::
  "conf_transport \<Rightarrow> ident option \<Rightarrow> string \<Rightarrow> int \<Rightarrow> string \<Rightarrow> db \<Rightarrow>
   error + response \<times> db \<times> confirmation list" where
  "create_single ct u email n s d =
     (case py_int_of_string s of
        None \<Rightarrow> Inl ValueError
      | Some i \<Rightarrow>
          (case find (\<lambda>m. int (match_id m) = i) (matches d) of
             None \<Rightarrow> Inr (Not_found, d, [])
           | Some m \<Rightarrow>
               (case create_reminder_row (reminders d) (match_id m) u email n of
                  Inl err \<Rightarrow> Inl err
                | Inr rs' \<Rightarrow> confirm ct (Single_confirmation email (match_id m) n) (d\<lparr>reminders := rs'\<rparr>))))"

definition create_reminder ::
  "conf_transport \<Rightarrow> instant \<Rightarrow> request \<Rightarrow> db \<Rightarrow> error + response \<times> db \<times> confirmation list" where
  "create_reminder ct now rq d =
     (if \<not> is_post rq then Inr (Json False ''Invalid request'' 400, d, [])
      else
        (case int_param 30 (param (post_params rq) ''notify_minutes_before'') of
           None \<Rightarrow> Inl ValueError
         | Some n \<Rightarrow>
             (let u = map_option fst (auth_user rq) in
              case request_email rq of
                None \<Rightarrow> Inr (Json False ''Email is required'' 400, d, [])
              | Some email \<Rightarrow>
                  if email = [] then Inr (Json False ''Email is required'' 400, d, [])
                  else if param (post_params rq) ''bulk_reminder'' = Some ''true'' then
                    (case create_reminders u email n (bulk_matches now (matches d)) (reminders d) of
                       Inl err \<Rightarrow> Inl err
                     | Inr rs' \<Rightarrow>
                         confirm ct (Bulk_confirmation email n (length (bulk_matches now (matches d))))
                           (d\<lparr>reminders := rs'\<rparr>))
                  else if \<not> truthy (param (post_params rq) ''match_id'') then
                    Inr (Json False ''match_id is required'' 400, d, [])
                  else create_single ct u email n (the (param (post_params rq) ''match_id'')) d)))"

subsection \<open>delete_reminder\<close>

text \<open>Lines 442--447: the row deleted is a \<open>MatchReminder\<close>.\<close>

definition delete_reminder :: "request \<Rightarrow> ident \<Rightarrow> db \<Rightarrow> response \<times> db" where
  "delete_reminder rq pk d =
     (if \<not> is_post rq then (Bad_request ''Invalid method'', d)
      else case find (\<lambda>r. mr_id r = pk) (match_reminders d) of
        None \<Rightarrow> (Not_found, d)
      | Some _ \<Rightarrow> (Json True [] 200, d\<lparr>match_reminders := filter (\<lambda>r. mr_id r \<noteq> pk) (match_reminders d)\<rparr>))"

subsection \<open>tournament_register\<close>

text \<open>\<open>TournamentParticipant.objects.create(...)\<close> of lines 806--811: the
  \<open>unique_together\<close> constraint on \<open>(tournament, team)\<close> raises \<open>IntegrityError\<close> on a
  second registration; \<open>manager_phone\<close> is not passed and stays blank.\<close>

definition add_participant ::
  "instant \<Rightarrow> ident \<Rightarrow> ident \<Rightarrow> string \<Rightarrow> string \<Rightarrow> participant_row list \<Rightarrow> error + participant_row list" where
  "add_participant now t tm mn me ps =
     (if list_ex (\<lambda>p. participant_tournament p = t \<and> participant_team p = tm) ps then Inl IntegrityError
      else Inr (ps @ [\<lparr>participant_tournament = t, participant_team = tm, manager_name = mn,
                       manager_email = me, manager_phone = [], registered_at = now\<rparr>]))"

text \<open>Lines 795--819, once the tournament and the team are looked up.\<close>

definition register_post ::
  "instant \<Rightarrow> request \<Rightarrow> tournament_row \<Rightarrow> team_row option \<Rightarrow> db \<Rightarrow> error + response \<times> db" where
  "register_post now rq t tm d =
     (let page = Render_register (tournament_id t) (map_option team_id tm);
          mn = param (post_params rq) ''manager_name''; me = param (post_params rq) ''manager_email'' in
      if \<not> is_post rq then Inr (page [], d)
      else case tm of
        None \<Rightarrow> Inr (page [Flash_error ''Please select a team to register.''], d)
      | Some tm \<Rightarrow>
          if \<not> truthy mn \<or> \<not> truthy me then Inr (page [Flash_error ''Manager name and email are required.''], d)
          else
            (case add_participant now (tournament_id t) (team_id tm) (the mn) (the me) (participants d) of
               Inl err \<Rightarrow> Inl err
             | Inr ps \<Rightarrow>
                 Inr (Redirect_tournament (tournament_id t)
                        [Flash_success (name tm @ '' has been registered for '' @ title t @ ''.'')],
                      d\<lparr>participants := ps\<rparr>)))"

definition tournament_register :: "instant \<Rightarrow> request \<Rightarrow> ident \<Rightarrow> db \<Rightarrow> error + response \<times> db" where
  "tournament_register now rq pk d =
     (case find (\<lambda>t. tournament_id t = pk) (tournaments d) of
        None \<Rightarrow> Inr (Not_found, d)
      | Some t \<Rightarrow>
          (case str_or (param (get_params rq) ''team_id'') (param (post_params rq) ''team_id'') of
             None \<Rightarrow> register_post now rq t None d
           | Some s \<Rightarrow>
               if s = [] then register_post now rq t None d
               else (case py_int_of_string s of
                       None \<Rightarrow> Inl ValueError
                     | Some i \<Rightarrow>
                         (case find (\<lambda>tm. int (team_id tm) = i) (team_table d) of
                            None \<Rightarrow> Inr (Not_found, d)
                          | Some tm \<Rightarrow> register_post now rq t (Some tm) d))))"

text \<open>\<open>unique_together = ('tournament', 'team')\<close> of \<open>TournamentParticipant\<close>.\<close>

definition participants_unique :: "db \<Rightarrow> bool" where
  "participants_unique d \<longleftrightarrow>
     distinct (map (\<lambda>p. (participant_tournament p, participant_team p)) (participants d))"

text \<open>A team, a database holding the demo tournament, team and match, and three requests:
  a reminder for match 7, bulk reminders, and a registration of team 1.\<close>

definition demo_team :: team_row where
  "demo_team = \<lparr>team_id = 1, name = ''Alpha'', team_game = None, region = None, tag = None, description = None, banner = None,
     logo = None, founded = None, status_indicator = Indicator_none, rank = None\<rparr>"

definition views_db :: db where
  "views_db = \<lparr>tournaments = [demo_tournament], team_table = [demo_team], matches = [demo_match],
     reminders = [], match_reminders = [demo_match_reminder], participants = [],
     games = [], players = [], news = []\<rparr>"

definition single_request :: request where
  "single_request = \<lparr>is_post = True, get_params = [],
     post_params = [(''match_id'', ''7''), (''email'', ''fan@example.com'')], auth_user = None\<rparr>"

definition bulk_request :: request where
  "bulk_request = \<lparr>is_post = True, get_params = [],
     post_params = [(''bulk_reminder'', ''true''), (''notify_minutes_before'', ''15'')], auth_user = Some (4, ''fan@example.com'')\<rparr>"

definition register_request :: request where
  "register_request = \<lparr>is_post = True, get_params = [(''team_id'', ''1'')],
     post_params = [(''manager_name'', ''Kai''), (''manager_email'', ''kai@example.com''), (''manager_phone'', ''555'')],
     auth_user = None\<rparr>"

subsection \<open>Lemmas\<close>

lemma foldr_max_ge: "x \<in> set xs \<Longrightarrow> x \<le> foldr max xs (0::nat)"
  by (induction xs) auto

lemma next_reminder_id_fresh: "next_reminder_id rs \<notin> set (map reminder_id rs)"
  using foldr_max_ge [of "next_reminder_id rs" "map reminder_id rs"] by (auto simp: next_reminder_id_def)

lemma find_key:
  "distinct (map f xs) \<Longrightarrow> x \<in> set xs \<Longrightarrow> find (\<lambda>y. f y = f x) xs = Some x"
  by (induction xs) (auto simp: image_iff)

lemma create_reminder_row_distinct:
  "distinct (map reminder_id rs) \<Longrightarrow> create_reminder_row rs mid u e n = Inr rs' \<Longrightarrow>
   distinct (map reminder_id rs')"
proof -
  assume "distinct (map reminder_id rs)" and "create_reminder_row rs mid u e n = Inr rs'"
  moreover have "next_reminder_id rs \<notin> reminder_id ` set rs" using next_reminder_id_fresh [of rs] by simp
  ultimately show ?thesis by (auto simp: create_reminder_row_def new_reminder_def split: if_splits)
qed

lemma create_reminders_distinct:
  "distinct (map reminder_id rs) \<Longrightarrow> create_reminders u e n ms rs = Inr rs' \<Longrightarrow>
   distinct (map reminder_id rs')"
  by (induction ms arbitrary: rs) (auto split: sum.splits dest: create_reminder_row_distinct)

lemma create_reminders_prefix:
  "create_reminders u e n ms rs = Inr rs' \<Longrightarrow> prefix rs rs'"
proof (induction ms arbitrary: rs)
  case (Cons m ms)
  then obtain rs1 where r1: "create_reminder_row rs (match_id m) u e n = Inr rs1"
    and r2: "create_reminders u e n ms rs1 = Inr rs'" by (auto split: sum.splits)
  from r1 have "prefix rs rs1" by (auto simp: create_reminder_row_def split: if_splits)
  also from Cons.IH [OF r2] have "prefix rs1 rs'" .
  finally show ?case .
qed simp

lemma create_reminders_ok:
  "0 \<le> n \<Longrightarrow>
   \<exists>new. create_reminders u e n ms rs = Inr (rs @ new) \<and> map reminder_match new = map match_id ms \<and>
     (\<forall>r \<in> set new. \<not> sent r \<and> reminder_email r = e \<and> notify_minutes_before r = nat n \<and> reminder_user r = u)"
proof (induction ms arbitrary: rs)
  case Nil
  then show ?case by simp
next
  case (Cons m ms)
  let ?r = "new_reminder rs (match_id m) u e (nat n)"
  from Cons.IH [OF Cons.prems, of "rs @ [?r]"] obtain new where
    "create_reminders u e n ms (rs @ [?r]) = Inr (rs @ [?r] @ new)"
    "map reminder_match new = map match_id ms"
    "\<forall>r \<in> set new. \<not> sent r \<and> reminder_email r = e \<and> notify_minutes_before r = nat n \<and> reminder_user r = u"
    by auto
  with Cons.prems show ?case
    by (intro exI [of _ "?r # new"]) (simp add: create_reminder_row_def new_reminder_def)
qed

lemma create_reminders_unsent:
  "create_reminders u e n ms rs = Inr rs' \<Longrightarrow> \<forall>x \<in> set rs' - set rs. \<not> sent x"
proof (induction ms arbitrary: rs)
  case (Cons m ms)
  then obtain rs1 where r1: "create_reminder_row rs (match_id m) u e n = Inr rs1"
    and r2: "create_reminders u e n ms rs1 = Inr rs'" by (auto split: sum.splits)
  from r1 have "\<forall>x \<in> set rs1 - set rs. \<not> sent x"
    by (auto simp: create_reminder_row_def new_reminder_def split: if_splits)
  with Cons.IH [OF r2] show ?case by blast
qed simp

lemma confirm_eq: "confirm ct c d = Inr (resp, d', cs) \<Longrightarrow> d' = d"
  by (auto simp: confirm_def split: if_splits)

text \<open>The two branches of \<open>create_reminder\<close> that create rows: the database grows by
  fresh reminders and the answer is the confirmation's.\<close>

lemma create_branch_bulk:
  assumes "(case create_reminders u e n ms (reminders d) of
              Inl err \<Rightarrow> Inl err | Inr rs' \<Rightarrow> confirm ct c (d\<lparr>reminders := rs'\<rparr>)) = Inr (resp, d', cs)"
  shows "\<exists>rs' c. d' = d\<lparr>reminders := rs'\<rparr> \<and> confirm ct c d' = Inr (resp, d', cs) \<and> prefix (reminders d) rs' \<and>
            (distinct (map reminder_id (reminders d)) \<longrightarrow> distinct (map reminder_id rs')) \<and>
            (\<forall>x \<in> set rs' - set (reminders d). \<not> sent x)"
proof -
  from assms obtain rs' where r: "create_reminders u e n ms (reminders d) = Inr rs'"
    and c: "confirm ct c (d\<lparr>reminders := rs'\<rparr>) = Inr (resp, d', cs)" by (auto split: sum.splits)
  from c have "d' = d\<lparr>reminders := rs'\<rparr>" by (rule confirm_eq)
  with c r show ?thesis by (blast dest: create_reminders_prefix create_reminders_distinct create_reminders_unsent)
qed

lemma create_branch_single:
  assumes "create_single ct u e n s d = Inr (resp, d', cs)"
  shows "d' = d \<and> cs = [] \<or>
         (\<exists>rs' c. d' = d\<lparr>reminders := rs'\<rparr> \<and> confirm ct c d' = Inr (resp, d', cs) \<and> prefix (reminders d) rs' \<and>
            (distinct (map reminder_id (reminders d)) \<longrightarrow> distinct (map reminder_id rs')) \<and>
            (\<forall>x \<in> set rs' - set (reminders d). \<not> sent x))"
proof (cases "\<exists>i m. py_int_of_string s = Some i \<and> find (\<lambda>m. int (match_id m) = i) (matches d) = Some m")
  case False
  with assms show ?thesis by (auto simp: create_single_def split: option.splits)
next
  case True
  then obtain i m where "py_int_of_string s = Some i" "find (\<lambda>m. int (match_id m) = i) (matches d) = Some m"
    by blast
  with assms obtain rs' where r: "create_reminder_row (reminders d) (match_id m) u e n = Inr rs'"
    and c: "confirm ct (Single_confirmation e (match_id m) n) (d\<lparr>reminders := rs'\<rparr>) = Inr (resp, d', cs)"
    by (auto simp: create_single_def split: sum.splits)
  from c have "d' = d\<lparr>reminders := rs'\<rparr>" by (rule confirm_eq)
  moreover from r have "prefix (reminders d) rs'" by (auto simp: create_reminder_row_def split: if_splits)
  moreover from r have "\<forall>x \<in> set rs' - set (reminders d). \<not> sent x"
    by (auto simp: create_reminder_row_def new_reminder_def split: if_splits)
  ultimately show ?thesis using r c create_reminder_row_distinct by blast
qed

text \<open>Every answer of \<open>create_reminder\<close> leaves the database as it was, or adds reminders
  (fresh keys) and answers as the confirmation mail went.\<close>

lemma create_reminder_cases:
  assumes "create_reminder ct now rq d = Inr (resp, d', cs)"
  shows "d' = d \<and> cs = [] \<or>
         (\<exists>rs' c. d' = d\<lparr>reminders := rs'\<rparr> \<and> confirm ct c d' = Inr (resp, d', cs) \<and> prefix (reminders d) rs' \<and>
            (distinct (map reminder_id (reminders d)) \<longrightarrow> distinct (map reminder_id rs')) \<and>
            (\<forall>x \<in> set rs' - set (reminders d). \<not> sent x))"
  using assms
  by (auto simp: create_reminder_def Let_def split: option.splits if_splits
      dest: create_branch_single create_branch_bulk)

lemma find_int_key:
  "distinct (map match_id ms) \<Longrightarrow> m \<in> set ms \<Longrightarrow> find (\<lambda>x. int (match_id x) = int (match_id m)) ms = Some m"
  using find_key [of match_id ms m] by simp

lemma py_int_of_string_str_of_nat [simp]: "py_int_of_string (str_of_nat n) = Some (int n)"
  by (simp add: str_of_nat_eq_str_of_int)

lemma truthy_str_of_nat [simp]: "truthy (Some (str_of_nat n))"
  by (simp add: truthy_def)

lemma delete_reminder_db:
  "snd (delete_reminder rq pk d) =
     (if is_post rq then d\<lparr>match_reminders := filter (\<lambda>r. mr_id r \<noteq> pk) (match_reminders d)\<rparr> else d)"
proof -
  have "find (\<lambda>r. mr_id r = pk) (match_reminders d) = None \<Longrightarrow>
        filter (\<lambda>r. mr_id r \<noteq> pk) (match_reminders d) = match_reminders d"
    by (simp add: find_None_iff)
  then show ?thesis by (auto simp: delete_reminder_def split: option.split)
qed

lemma add_participant_Inr:
  "add_participant now t tm mn me ps = Inr ps' \<Longrightarrow>
   (t, tm) \<notin> set (map (\<lambda>p. (participant_tournament p, participant_team p)) ps) \<and>
   ps' = ps @ [\<lparr>participant_tournament = t, participant_team = tm, manager_name = mn,
                manager_email = me, manager_phone = [], registered_at = now\<rparr>]"
  by (auto simp: add_participant_def list_ex_iff split: if_splits)

lemma register_post_db:
  "register_post now rq t tm d = Inr (resp, d') \<Longrightarrow>
   d' = d \<or> (\<exists>ps'. d' = d\<lparr>participants := ps'\<rparr> \<and> add_participant now (tournament_id t) (team_id (the tm)) (the (param (post_params rq) ''manager_name'')) (the (param (post_params rq) ''manager_email'')) (participants d) = Inr ps')"
  by (auto simp: register_post_def Let_def split: if_splits option.splits sum.splits)

lemma tournament_register_db:
  "tournament_register now rq pk d = Inr (resp, d') \<Longrightarrow>
   d' = d \<or> (\<exists>t tm mn me ps'. d' = d\<lparr>participants := ps'\<rparr> \<and> add_participant now t tm mn me (participants d) = Inr ps')"
  by (auto simp: tournament_register_def split: option.splits if_splits dest!: register_post_db)

lemma participants_unique_add:
  "participants_unique d \<Longrightarrow> add_participant now t tm mn me (participants d) = Inr ps' \<Longrightarrow>
   participants_unique (d\<lparr>participants := ps'\<rparr>)"
  by (auto simp: participants_unique_def dest!: add_participant_Inr)

text \<open>The demo request for match 7, under any confirmation transport.\<close>

lemma create_reminder_single_request:
  "create_reminder ct 0 single_request views_db =
     (if ct (Single_confirmation ''fan@example.com'' 7 30)
      then Inr (Json True ''Reminder(s) set and email sent'' 200,
                views_db\<lparr>reminders := [new_reminder [] 7 None ''fan@example.com'' 30]\<rparr>,
                [Single_confirmation ''fan@example.com'' 7 30])
      else Inr (Json False ''Email sending failed'' 200,
                views_db\<lparr>reminders := [new_reminder [] 7 None ''fan@example.com'' 30]\<rparr>, []))"
proof -
  have p: "py_int_of_string ''7'' = Some 7" by code_simp
  show ?thesis
    by (simp add: create_reminder_def single_request_def int_param_def param_def request_email_def
        truthy_def create_single_def p views_db_def demo_match_def create_reminder_row_def confirm_def)
qed

subsection \<open>Properties of the views\<close>

text \<open>C25. A POST of \<open>create_reminder\<close> for one match, with a non-negative offset, an
  address and the key of an existing match, appends exactly one unsent reminder for that
  match with that address, offset and user under a fresh key, and answers as the
  confirmation mail goes.\<close>

theorem create_reminder_single:
  assumes "is_post rq"
    and "int_param 30 (param (post_params rq) ''notify_minutes_before'') = Some n" and "0 \<le> n"
    and "request_email rq = Some e" and "e \<noteq> []"
    and "param (post_params rq) ''bulk_reminder'' \<noteq> Some ''true''"
    and "param (post_params rq) ''match_id'' = Some (str_of_nat (match_id m))"
    and "distinct (map match_id (matches d))" and "m \<in> set (matches d)"
  shows "create_reminder ct now rq d =
           confirm ct (Single_confirmation e (match_id m) n)
             (d\<lparr>reminders := reminders d @
                  [new_reminder (reminders d) (match_id m) (map_option fst (auth_user rq)) e (nat n)]\<rparr>)"
  using assms find_int_key [OF assms(8,9)]
  by (simp add: create_reminder_def create_single_def create_reminder_row_def Let_def)

theorem create_reminder_single_witness:
  "create_reminder (\<lambda>_. True) 0 single_request views_db =
     Inr (Json True ''Reminder(s) set and email sent'' 200,
          views_db\<lparr>reminders := [new_reminder [] 7 None ''fan@example.com'' 30]\<rparr>,
          [Single_confirmation ''fan@example.com'' 7 30])"
proof -
  have s: "''7'' = str_of_nat 7" by code_simp
  have h: "is_post single_request"
    "int_param 30 (param (post_params single_request) ''notify_minutes_before'') = Some 30"
    "request_email single_request = Some ''fan@example.com''"
    "param (post_params single_request) ''bulk_reminder'' \<noteq> Some ''true''"
    "param (post_params single_request) ''match_id'' = Some (str_of_nat (match_id demo_match))"
    "distinct (map match_id (matches views_db))" "demo_match \<in> set (matches views_db)"
    by (simp_all add: single_request_def int_param_def param_def request_email_def views_db_def
        demo_match_def s [symmetric])
  have "create_reminder (\<lambda>_. True) 0 single_request views_db =
          confirm (\<lambda>_. True) (Single_confirmation ''fan@example.com'' (match_id demo_match) 30)
            (views_db\<lparr>reminders := reminders views_db @
               [new_reminder (reminders views_db) (match_id demo_match)
                  (map_option fst (auth_user single_request)) ''fan@example.com'' (nat 30)]\<rparr>)"
    by (rule create_reminder_single) (use h in simp_all)
  then show ?thesis by (simp add: confirm_def views_db_def demo_match_def single_request_def)
qed

text \<open>C27. When the confirmation mail cannot be sent, a valid single-match request keeps
  the reminder it created (it was committed before \<open>send_mail\<close>): the database has
  the new unsent row appended, while the answer says \<open>ok: False\<close>, with status 200,
  and no mail goes out.\<close>

theorem create_reminder_mail_failure:
  assumes "is_post rq"
    and "int_param 30 (param (post_params rq) ''notify_minutes_before'') = Some n" and "0 \<le> n"
    and "request_email rq = Some e" and "e \<noteq> []"
    and "param (post_params rq) ''bulk_reminder'' \<noteq> Some ''true''"
    and "param (post_params rq) ''match_id'' = Some (str_of_nat (match_id m))"
    and "distinct (map match_id (matches d))" and "m \<in> set (matches d)"
    and "\<not> ct (Single_confirmation e (match_id m) n)"
  shows "create_reminder ct now rq d =
           Inr (Json False ''Email sending failed'' 200,
                d\<lparr>reminders := reminders d @
                   [new_reminder (reminders d) (match_id m) (map_option fst (auth_user rq)) e (nat n)]\<rparr>, [])"
  using assms find_int_key [OF assms(8,9)]
  by (simp add: create_reminder_def create_single_def create_reminder_row_def confirm_def Let_def)

theorem create_reminder_mail_failure_witness:
  "create_reminder (\<lambda>_. False) 0 single_request views_db =
     Inr (Json False ''Email sending failed'' 200,
          views_db\<lparr>reminders := [new_reminder [] 7 None ''fan@example.com'' 30]\<rparr>, [])"
proof -
  have s: "''7'' = str_of_nat 7" by code_simp
  have h: "is_post single_request"
    "int_param 30 (param (post_params single_request) ''notify_minutes_before'') = Some 30"
    "request_email single_request = Some ''fan@example.com''"
    "param (post_params single_request) ''bulk_reminder'' \<noteq> Some ''true''"
    "param (post_params single_request) ''match_id'' = Some (str_of_nat (match_id demo_match))"
    "distinct (map match_id (matches views_db))" "demo_match \<in> set (matches views_db)"
    by (simp_all add: single_request_def int_param_def param_def request_email_def views_db_def
        demo_match_def s [symmetric])
  have "create_reminder (\<lambda>_. False) 0 single_request views_db =
          Inr (Json False ''Email sending failed'' 200,
            views_db\<lparr>reminders := reminders views_db @
               [new_reminder (reminders views_db) (match_id demo_match)
                  (map_option fst (auth_user single_request)) ''fan@example.com'' (nat 30)]\<rparr>, [])"
    by (rule create_reminder_mail_failure) (use h in simp_all)
  then show ?thesis by (simp add: views_db_def demo_match_def single_request_def)
qed

text \<open>C28. A bulk POST of \<open>create_reminder\<close> with a non-negative offset and an address
  creates one unsent reminder with that address, offset and user for each upcoming match
  not yet started, in table order, and no other row; the confirmation counts them.\<close>

theorem create_reminder_bulk:
  assumes "is_post rq"
    and "int_param 30 (param (post_params rq) ''notify_minutes_before'') = Some n" and "0 \<le> n"
    and "request_email rq = Some e" and "e \<noteq> []"
    and "param (post_params rq) ''bulk_reminder'' = Some ''true''"
  shows "\<exists>new. create_reminder ct now rq d =
                 confirm ct (Bulk_confirmation e n (length new)) (d\<lparr>reminders := reminders d @ new\<rparr>) \<and>
               map reminder_match new = map match_id (filter (\<lambda>m. status m = Upcoming \<and> now \<le> match_time m) (matches d)) \<and>
               (\<forall>r \<in> set new. \<not> sent r \<and> reminder_email r = e \<and> notify_minutes_before r = nat n \<and>
                  reminder_user r = map_option fst (auth_user rq))"
proof -
  from create_reminders_ok [OF assms(3), of "map_option fst (auth_user rq)" e "bulk_matches now (matches d)" "reminders d"]
  obtain new where c: "create_reminders (map_option fst (auth_user rq)) e n (bulk_matches now (matches d)) (reminders d) =
      Inr (reminders d @ new)"
    and k: "map reminder_match new = map match_id (bulk_matches now (matches d))"
    and r: "\<forall>r \<in> set new. \<not> sent r \<and> reminder_email r = e \<and> notify_minutes_before r = nat n \<and>
              reminder_user r = map_option fst (auth_user rq)"
    by blast
  from k have l: "length new = length (bulk_matches now (matches d))" by (metis length_map)
  from assms c k r l show ?thesis
    by (intro exI [of _ new]) (simp add: create_reminder_def bulk_matches_def)
qed

theorem create_reminder_bulk_witness:
  "\<exists>new. create_reminder (\<lambda>_. True) 0 bulk_request views_db =
          confirm (\<lambda>_. True) (Bulk_confirmation ''fan@example.com'' 15 (length new)) (views_db\<lparr>reminders := new\<rparr>) \<and>
        map reminder_match new = [7]"
proof -
  have p: "int_param 30 (param (post_params bulk_request) ''notify_minutes_before'') = Some 15"
    by (simp add: bulk_request_def param_def int_param_def) code_simp
  have h: "is_post bulk_request" "request_email bulk_request = Some ''fan@example.com''"
    "param (post_params bulk_request) ''bulk_reminder'' = Some ''true''"
    by (simp_all add: bulk_request_def request_email_def param_def str_or_def)
  from create_reminder_bulk [OF h(1) p _ h(2) _ h(3), of "\<lambda>_. True" 0 views_db] obtain new where
    n1: "create_reminder (\<lambda>_. True) 0 bulk_request views_db =
      confirm (\<lambda>_. True) (Bulk_confirmation ''fan@example.com'' 15 (length new))
        (views_db\<lparr>reminders := reminders views_db @ new\<rparr>)"
    and n2: "map reminder_match new =
      map match_id (filter (\<lambda>m. status m = Upcoming \<and> 0 \<le> match_time m) (matches views_db))"
    by auto
  have "reminders views_db = []" "map match_id (filter (\<lambda>m. status m = Upcoming \<and> 0 \<le> match_time m) (matches views_db)) = [7]"
    by (simp_all add: views_db_def demo_match_def)
  with n1 n2 show ?thesis by auto
qed

text \<open>\<open>delete_reminder\<close> answers 400 to anything but a POST, 404 when no
  \<open>MatchReminder\<close> has the key, and otherwise deletes that \<open>MatchReminder\<close>; it
  changes no other row, so a reminder made by \<open>create_reminder\<close>, which is a
  \<open>Reminder\<close>, cannot be deleted through it.\<close>

theorem delete_reminder_effect:
  "delete_reminder rq pk d =
     (if \<not> is_post rq then (Bad_request ''Invalid method'', d)
      else if pk \<in> mr_id ` set (match_reminders d)
      then (Json True [] 200, d\<lparr>match_reminders := filter (\<lambda>r. mr_id r \<noteq> pk) (match_reminders d)\<rparr>)
      else (Not_found, d))"
proof -
  have "find (\<lambda>r. mr_id r = pk) (match_reminders d) = None \<longleftrightarrow> pk \<notin> mr_id ` set (match_reminders d)"
    by (auto simp: find_None_iff)
  then show ?thesis by (auto simp: delete_reminder_def split: option.split)
qed

text \<open>C29. A POST of \<open>tournament_register\<close> naming an existing tournament and team
  and a manager's name and address registers the team, redirecting to the tournament page,
  when it is not registered yet, dropping the posted \<open>manager_phone\<close>; a second
  registration raises \<open>IntegrityError\<close> (an error page) instead of a message.\<close>

theorem tournament_register_post:
  assumes "t \<in> set (tournaments d)" and "distinct (map tournament_id (tournaments d))"
    and "tm \<in> set (team_table d)" and "distinct (map team_id (team_table d))"
    and "str_or (param (get_params rq) ''team_id'') (param (post_params rq) ''team_id'') = Some (str_of_nat (team_id tm))"
    and "is_post rq"
    and "param (post_params rq) ''manager_name'' = Some mn" and "mn \<noteq> []"
    and "param (post_params rq) ''manager_email'' = Some me" and "me \<noteq> []"
  shows "tournament_register now rq (tournament_id t) d =
     (if (tournament_id t, team_id tm) \<in> set (map (\<lambda>p. (participant_tournament p, participant_team p)) (participants d))
      then Inl IntegrityError
      else Inr (Redirect_tournament (tournament_id t) [Flash_success (name tm @ '' has been registered for '' @ title t @ ''.'')],
                d\<lparr>participants := participants d @
                   [\<lparr>participant_tournament = tournament_id t, participant_team = team_id tm, manager_name = mn,
                     manager_email = me, manager_phone = [], registered_at = now\<rparr>]\<rparr>))"
proof -
  have t: "find (\<lambda>x. tournament_id x = tournament_id t) (tournaments d) = Some t"
    using find_key [OF assms(2,1)] .
  have m: "find (\<lambda>x. int (team_id x) = int (team_id tm)) (team_table d) = Some tm"
    using find_key [OF assms(4,3)] by simp
  have e: "list_ex (\<lambda>p. participant_tournament p = tournament_id t \<and> participant_team p = team_id tm) (participants d) \<longleftrightarrow>
      (tournament_id t, team_id tm) \<in> set (map (\<lambda>p. (participant_tournament p, participant_team p)) (participants d))"
    by (auto simp: list_ex_iff intro: rev_image_eqI)
  from assms(5-10) t m show ?thesis
    unfolding e [symmetric] by (simp add: tournament_register_def register_post_def add_participant_def truthy_def)
qed

theorem tournament_register_post_witness:
  "tournament_register 0 register_request 1 views_db =
     Inr (Redirect_tournament 1 [Flash_success ''Alpha has been registered for GENZE Cup.''],
          views_db\<lparr>participants := [\<lparr>participant_tournament = 1, participant_team = 1, manager_name = ''Kai'',
             manager_email = ''kai@example.com'', manager_phone = [], registered_at = 0\<rparr>]\<rparr>)"
proof -
  have s: "str_of_nat 1 = ''1''" "str_of_nat (Suc 0) = ''1''" by code_simp+
  have h: "demo_tournament \<in> set (tournaments views_db)" "distinct (map tournament_id (tournaments views_db))"
    "demo_team \<in> set (team_table views_db)" "distinct (map team_id (team_table views_db))"
    "str_or (param (get_params register_request) ''team_id'') (param (post_params register_request) ''team_id'') =
       Some (str_of_nat (team_id demo_team))"
    "is_post register_request"
    "param (post_params register_request) ''manager_name'' = Some ''Kai''"
    "param (post_params register_request) ''manager_email'' = Some ''kai@example.com''"
    by (simp_all add: views_db_def register_request_def param_def str_or_def demo_team_def s)
  from tournament_register_post [OF h(1-6) h(7) _ h(8), of 0] show ?thesis
    by (simp add: views_db_def demo_tournament_def demo_team_def)
qed

end
