(* ===== verification/Dates.thy ===== *)
theory Dates
  imports Timezones
begin

text \<open>
  Python's \<open>datetime.date\<close> as the calendar and schedule views use it: a date is its
  proleptic Gregorian ordinal (\<open>date.toordinal()\<close>, 1 for 0001-01-01), \<open>date(y, m, d)\<close>
  raises \<open>ValueError\<close> outside years 1--9999, months 1--12 and the days of the month,
  \<open>date + timedelta(days = i)\<close> adds \<open>i\<close> to the ordinal and \<open>(e - s).days\<close> subtracts
  ordinals. \<open>ord_to_ymd\<close> is \<open>date.fromordinal\<close> (CPython's \<open>_ord2ymd\<close>). The date
  of an instant in a zone is the day of its wall-clock time there; \<open>utc\<close> is the zone of
  offset 0, the zone of the aware datetimes Django reads from the database.
\<close>

definition is_leap :: "int \<Rightarrow> bool" where
  "is_leap y \<longleftrightarrow> y mod 4 = 0 \<and> (y mod 100 \<noteq> 0 \<or> y mod 400 = 0)"

definition days_in_month :: "int \<Rightarrow> int \<Rightarrow> int" where
  "days_in_month y m =
     (if m = 2 then (if is_leap y then 29 else 28)
      else if m = 4 \<or> m = 6 \<or> m = 9 \<or> m = 11 then 30 else 31)"

definition days_before_month :: "int \<Rightarrow> int \<Rightarrow> int" where
  "days_before_month y m = sum_list (map (\<lambda>k. days_in_month y (int k)) [1..<nat m])"

definition days_before_year :: "int \<Rightarrow> int" where
  "days_before_year y = (let y1 = y - 1 in y1 * 365 + y1 div 4 - y1 div 100 + y1 div 400)"

definition ymd_to_ord :: "int \<Rightarrow> int \<Rightarrow> int \<Rightarrow> int" where
  "ymd_to_ord y m d = days_before_year y + days_before_month y m + d"

definition valid_date :: "int \<Rightarrow> int \<Rightarrow> int \<Rightarrow> bool" where
  "valid_date y m d \<longleftrightarrow> 1 \<le> y \<and> y \<le> 9999 \<and> 1 \<le> m \<and> m \<le> 12 \<and> 1 \<le> d \<and> d \<le> days_in_month y m"

text \<open>An argument the C type \<open>int\<close> holds (32 bits).\<close>

definition c_int :: "int \<Rightarrow> bool" where
  "c_int i \<longleftrightarrow> - (2 ^ 31) \<le> i \<and> i < 2 ^ 31"

text \<open>\<open>date(y, m, d)\<close> of CPython's \<open>_datetime\<close>: its arguments are parsed as C
  \<open>int\<close>s, which raises \<open>OverflowError\<close> for a value outside that type, before the
  range checks raise \<open>ValueError\<close>.\<close>

definition make_date :: "int \<Rightarrow> int \<Rightarrow> int \<Rightarrow> error + int" where
  "make_date y m d =
     (if \<not> (c_int y \<and> c_int m \<and> c_int d) then Inl OverflowError
      else if valid_date y m d then Inr (ymd_to_ord y m d) else Inl ValueError)"

definition ord_to_ymd :: "int \<Rightarrow> int \<times> int \<times> int" where
  "ord_to_ymd o0 =
     (let n = o0 - 1; n400 = n div 146097; r400 = n mod 146097;
          n100 = r400 div 36524; r100 = r400 mod 36524;
          n4 = r100 div 1461; r4 = r100 mod 1461;
          n1 = r4 div 365; r1 = r4 mod 365;
          y = n400 * 400 + 1 + n100 * 100 + n4 * 4 + n1 in
      if n1 = 4 \<or> n100 = 4 then (y - 1, 12, 31)
      else
        (let m0 = (r1 + 50) div 32;
             m = (if r1 < days_before_month y m0 then m0 - 1 else m0) in
         (y, m, r1 - days_before_month y m + 1)))"

definition utc :: zone where
  "utc t = 0"

definition epoch_ord :: int where
  "epoch_ord = 719163"

definition date_of :: "zone \<Rightarrow> instant \<Rightarrow> int" where
  "date_of z t = (t + z t) div 86400 + epoch_ord"

lemma div_pred:
  fixes y k :: int
  assumes "0 < k"
  shows "y div k = (y - 1) div k + (if y mod k = 0 then 1 else 0)"
proof -
  define q r where "q = (y - 1) div k" and "r = (y - 1) mod k"
  have r: "0 \<le> r" "r < k" using assms by (simp_all add: r_def)
  have "y = (r + 1) + q * k" using div_mult_mod_eq [of "y - 1" k] by (simp add: q_def r_def)
  then have y: "y div k = q + (r + 1) div k" "y mod k = (r + 1) mod k" using assms by simp_all
  have "(r + 1) div k = (if r + 1 = k then 1 else 0) \<and> (r + 1) mod k = (if r + 1 = k then 0 else r + 1)"
    using r by (auto simp: div_pos_pos_trivial mod_pos_pos_trivial)
  with y r show ?thesis by (auto simp: q_def)
qed

lemma mod400: "(y::int) mod 400 = 0 \<Longrightarrow> y mod 100 = 0"
proof -
  have "y mod 100 = (y mod 400) mod 100" by (simp add: mod_mod_cancel)
  then show "y mod 400 = 0 \<Longrightarrow> y mod 100 = 0" by simp
qed

lemma mod100: "(y::int) mod 100 = 0 \<Longrightarrow> y mod 4 = 0"
proof -
  have "y mod 4 = (y mod 100) mod 4" by (simp add: mod_mod_cancel)
  then show "y mod 100 = 0 \<Longrightarrow> y mod 4 = 0" by simp
qed

lemma dby_diff:
  "days_before_year (y + 1) - days_before_year y =
     365 + (y div 4 - (y - 1) div 4) - (y div 100 - (y - 1) div 100) + (y div 400 - (y - 1) div 400)"
  by (simp add: days_before_year_def Let_def algebra_simps)

lemma div_step: "(0::int) < k \<Longrightarrow> y div k - (y - 1) div k = (if y mod k = 0 then 1 else 0)"
  using div_pred [of k y] by simp

lemma days_before_year_Suc:
  "days_before_year (y + 1) = days_before_year y + (if is_leap y then 366 else 365)"
proof -
  have "days_before_year (y + 1) - days_before_year y =
     365 + (if y mod 4 = 0 then 1 else 0) - (if y mod 100 = 0 then 1 else 0) + (if y mod 400 = 0 then 1 else 0)"
    unfolding dby_diff by (simp only: div_step zero_less_numeral)
  then show ?thesis
    using mod400 [of y] mod100 [of y] unfolding is_leap_def by (auto split: if_splits)
qed

lemma days_before_month_Suc:
  assumes "1 \<le> m"
  shows "days_before_month y (m + 1) = days_before_month y m + days_in_month y m"
proof -
  from assms have "nat (m + 1) = Suc (nat m)" "1 \<le> nat m" by auto
  with assms show ?thesis by (simp add: days_before_month_def)
qed

lemma days_before_month_1: "days_before_month y 1 = 0"
  by (simp add: days_before_month_def)

lemma days_before_month_13: "days_before_month y 13 = (if is_leap y then 366 else 365)"
  by (simp add: days_before_month_def days_in_month_def numeral_eq_Suc)

lemma days_in_month_bounds: "28 \<le> days_in_month y m \<and> days_in_month y m \<le> 31"
  by (simp add: days_in_month_def)

lemma date_of_mono: "t \<le> u \<Longrightarrow> date_of utc t \<le> date_of utc u"
  by (simp add: date_of_def utc_def zdiv_mono1)

text \<open>The first day of the next month lies \<open>days_in_month y m\<close> days after the first
  of month \<open>m\<close>.\<close>

lemma month_length:
  assumes "1 \<le> m" and "m \<le> 12"
  shows "(if m = 12 then ymd_to_ord (y + 1) 1 1 else ymd_to_ord y (m + 1) 1) - ymd_to_ord y m 1 =
         days_in_month y m"
proof (cases "m = 12")
  case True
  have "days_before_month y 12 + days_in_month y 12 = (if is_leap y then 366 else 365)"
    using days_before_month_Suc [of 12 y] days_before_month_13 [of y] by simp
  with True show ?thesis
    by (simp add: ymd_to_ord_def days_before_year_Suc days_before_month_1)
next
  case False
  with assms show ?thesis by (simp add: ymd_to_ord_def days_before_month_Suc)
qed

end
