(* ===== verification/Schedule.thy ===== *)
theory Schedule
  imports Views Dates
begin

text \<open>
  The date-driven views of \<open>src/GENZE/core/views.py\<close>.
  \<^item> \<open>calendar_view\<close> (lines 297--360): the month and year come from the GET parameters,
    both falling back to the current UTC month and year when either is not an integer;
    \<open>date(year, month, 1)\<close> and the first of the next month bound the queryset, whose
    \<open>match_time__date\<close> lookups convert \<open>match_time\<close> to the current time zone
    \<open>cz\<close> (Django's \<open>TIME_ZONE\<close> setting); the day lists are keyed by
    \<open>match.match_time.date()\<close>, the date of the UTC datetime the ORM returns (the site
    runs with \<open>USE_TZ = True\<close>, which the commands' aware-datetime arithmetic needs).
  \<^item> \<open>schedule_page\<close>: the grouping of the first six matches by date (lines 252--259)
    and the countdown of the upcoming sidebar (lines 261--270). The filtered queryset
    \<open>qs\<close> of lines 225--249 is a parameter.
\<close>

record calendar_page =
  calendar_days :: "(int \<times> match_row list) list"
  cal_today :: int
  cal_month :: int
  cal_year :: int
  prev_month :: int
  prev_year :: int
  next_month :: int
  next_year :: int

subsection \<open>calendar_view\<close>

text \<open>Lines 299--304.\<close>

definition calendar_params :: "instant \<Rightarrow> request \<Rightarrow> int \<times> int" where
  "calendar_params now rq =
     (case ord_to_ymd (date_of utc now) of
        (y0, m0, _) \<Rightarrow>
          (case (int_param m0 (param (get_params rq) ''month''), int_param y0 (param (get_params rq) ''year'')) of
             (Some m, Some y) \<Rightarrow> (m, y)
           | _ \<Rightarrow> (m0, y0)))"

text \<open>Lines 306--313: the first day of the month and of the next one.\<close>

definition month_range :: "int \<Rightarrow> int \<Rightarrow> error + int \<times> int" where
  "month_range y m =
     (case make_date y m 1 of
        Inl err \<Rightarrow> Inl err
      | Inr s \<Rightarrow>
          (case (if m = 12 then make_date (y + 1) 1 1 else make_date y (m + 1) 1) of
             Inl err \<Rightarrow> Inl err
           | Inr e \<Rightarrow> Inr (s, e)))"

text \<open>Lines 316--319.\<close>

definition month_matches :: "zone \<Rightarrow> int \<Rightarrow> int \<Rightarrow> match_row list \<Rightarrow> match_row list" where
  "month_matches cz s e ms =
     sort_key match_time (filter (\<lambda>m. s \<le> date_of cz (match_time m) \<and> date_of cz (match_time m) < e) ms)"

text \<open>Lines 322--334: \<open>matches_by_day.get(day, [])\<close> for each day of the month.\<close>

definition matches_on :: "match_row list \<Rightarrow> int \<Rightarrow> match_row list" where
  "matches_on xs day = filter (\<lambda>m. date_of utc (match_time m) = day) xs"

definition calendar_grid :: "int \<Rightarrow> int \<Rightarrow> match_row list \<Rightarrow> (int \<times> match_row list) list" where
  "calendar_grid s e xs = map (\<lambda>i. (s + int i, matches_on xs (s + int i))) [0..<nat (e - s)]"

text \<open>Lines 337--349.\<close>

definition prev_of :: "int \<Rightarrow> int \<Rightarrow> int \<times> int" where
  "prev_of m y = (if m = 1 then (12, y - 1) else (m - 1, y))"

definition next_of :: "int \<Rightarrow> int \<Rightarrow> int \<times> int" where
  "next_of m y = (if m = 12 then (1, y + 1) else (m + 1, y))"

definition calendar_view :: "zone \<Rightarrow> instant \<Rightarrow> request \<Rightarrow> db \<Rightarrow> error + calendar_page" where
  "calendar_view cz now rq d =
     (case calendar_params now rq of
        (m, y) \<Rightarrow>
          (case month_range y m of
             Inl err \<Rightarrow> Inl err
           | Inr (s, e) \<Rightarrow>
               Inr \<lparr>calendar_days = calendar_grid s e (month_matches cz s e (matches d)),
                    cal_today = date_of utc now, cal_month = m, cal_year = y,
                    prev_month = fst (prev_of m y), prev_year = snd (prev_of m y),
                    next_month = fst (next_of m y), next_year = snd (next_of m y)\<rparr>))"

text \<open>The request of a navigation link \<open>?month=...&year=...\<close>, its numbers printed by
  \<open>str\<close>.\<close>

definition month_link :: "int \<Rightarrow> int \<Rightarrow> request" where
  "month_link m y =
     \<lparr>is_post = False, get_params = [(''month'', str_of_int m), (''year'', str_of_int y)],
      post_params = [], auth_user = None\<rparr>"

subsection \<open>schedule_page\<close>

text \<open>Lines 252--259: \<open>grouped.setdefault(d, []).append(m)\<close> over the first six matches
  in \<open>match_time\<close> order, then the groups in insertion order.\<close>

definition left_matches :: "match_row list \<Rightarrow> match_row list" where
  "left_matches qs = take 6 (sort_key match_time qs)"

definition group_step :: "(int \<times> match_row list) list \<Rightarrow> match_row \<Rightarrow> (int \<times> match_row list) list" where
  "group_step g m =
     (let k = date_of utc (match_time m) in
      if k \<in> set (map fst g) then map (\<lambda>(k', xs). if k' = k then (k', xs @ [m]) else (k', xs)) g
      else g @ [(k, [m])])"

definition grouped_matches :: "match_row list \<Rightarrow> (int \<times> match_row list) list" where
  "grouped_matches xs = foldl group_step [] xs"

text \<open>Lines 264--270: whole hours until the start, \<open>int(total_seconds // 3600)\<close>.\<close>

definition countdown :: "instant \<Rightarrow> match_row \<Rightarrow> string" where
  "countdown now m =
     (let delta = match_time m - now in
      if 0 < delta then
        (let hours = delta div 3600 in
         if 1 \<le> hours then ''In '' @ str_of_int hours @ '' hours'' else ''Less than 1 hour'')
      else ''Starting soon'')"

text \<open>Lines 262--270: the first five upcoming matches of \<open>qs\<close>, each with its countdown.\<close>

definition upcoming_sidebar :: "instant \<Rightarrow> match_row list \<Rightarrow> (match_row \<times> string) list" where
  "upcoming_sidebar now qs =
     map (\<lambda>m. (m, countdown now m)) (take 5 (sort_key match_time (filter (\<lambda>m. status m = Upcoming) qs)))"

text \<open>A match that starts at 20:00 UTC on 31 March 2024, 01:30 on 1 April in Kolkata.\<close>

definition late_match :: match_row where
  "late_match = demo_match\<lparr>match_id := 8, match_time := 1711915200\<rparr>"

text \<open>The groups built so far: keys strictly increasing, each group non-empty and holding
  matches of its date only.\<close>

definition groups_ok :: "(int \<times> match_row list) list \<Rightarrow> bool" where
  "groups_ok g \<longleftrightarrow> sorted_wrt (<) (map fst g) \<and>
     (\<forall>(k, ms) \<in> set g. ms \<noteq> [] \<and> (\<forall>m \<in> set ms. date_of utc (match_time m) = k))"

subsection \<open>Lemmas on the calendar\<close>

lemma month_range_eq:
  "month_range y m =
     (if \<not> (c_int y \<and> c_int m) then Inl OverflowError
      else if 1 \<le> y \<and> y \<le> 9999 \<and> 1 \<le> m \<and> m \<le> 12 \<and> (m = 12 \<longrightarrow> y < 9999)
      then Inr (ymd_to_ord y m 1, ymd_to_ord y m 1 + days_in_month y m) else Inl ValueError)"
proof (cases "1 \<le> y \<and> y \<le> 9999 \<and> 1 \<le> m \<and> m \<le> 12")
  case True
  have d: "1 \<le> days_in_month y' m'" for y' m' using days_in_month_bounds [of y' m'] by simp
  from True have n: "(if m = 12 then ymd_to_ord (y + 1) 1 1 else ymd_to_ord y (m + 1) 1) =
      ymd_to_ord y m 1 + days_in_month y m"
    using month_length [of m y] by simp
  show ?thesis
  proof (cases "m = 12 \<and> y = 9999")
    case True
    then show ?thesis by (simp add: month_range_def make_date_def valid_date_def c_int_def)
  next
    case False
    with False \<open>1 \<le> y \<and> y \<le> 9999 \<and> 1 \<le> m \<and> m \<le> 12\<close> d n show ?thesis
      by (auto simp: month_range_def make_date_def valid_date_def c_int_def)
  qed
next
  case False
  then show ?thesis by (auto simp: month_range_def make_date_def valid_date_def c_int_def)
qed

lemma calendar_params_link [simp]: "calendar_params now (month_link m y) = (m, y)"
  by (simp add: calendar_params_def month_link_def int_param_def param_def split: prod.split)

lemma calendar_view_Inr:
  assumes "calendar_view cz now rq d = Inr p"
  shows "calendar_params now rq = (cal_month p, cal_year p) \<and>
         month_range (cal_year p) (cal_month p) =
           Inr (ymd_to_ord (cal_year p) (cal_month p) 1,
                ymd_to_ord (cal_year p) (cal_month p) 1 + days_in_month (cal_year p) (cal_month p)) \<and>
         calendar_days p =
           calendar_grid (ymd_to_ord (cal_year p) (cal_month p) 1)
             (ymd_to_ord (cal_year p) (cal_month p) 1 + days_in_month (cal_year p) (cal_month p))
             (month_matches cz (ymd_to_ord (cal_year p) (cal_month p) 1)
                (ymd_to_ord (cal_year p) (cal_month p) 1 + days_in_month (cal_year p) (cal_month p)) (matches d)) \<and>
         (prev_month p, prev_year p) = prev_of (cal_month p) (cal_year p) \<and>
         (next_month p, next_year p) = next_of (cal_month p) (cal_year p)"
  using assms
  by (auto simp: calendar_view_def month_range_eq split: prod.splits if_splits)

lemma calendar_view_link:
  "calendar_view cz now (month_link m y) d =
     (if \<not> (c_int y \<and> c_int m) then Inl OverflowError
      else if 1 \<le> y \<and> y \<le> 9999 \<and> 1 \<le> m \<and> m \<le> 12 \<and> (m = 12 \<longrightarrow> y < 9999)
      then Inr \<lparr>calendar_days = calendar_grid (ymd_to_ord y m 1) (ymd_to_ord y m 1 + days_in_month y m)
                   (month_matches cz (ymd_to_ord y m 1) (ymd_to_ord y m 1 + days_in_month y m) (matches d)),
                cal_today = date_of utc now, cal_month = m, cal_year = y,
                prev_month = fst (prev_of m y), prev_year = snd (prev_of m y),
                next_month = fst (next_of m y), next_year = snd (next_of m y)\<rparr>
      else Inl ValueError)"
  by (simp add: calendar_view_def month_range_eq) linarith

lemma map_fst_calendar_grid:
  "map fst (calendar_grid s e xs) = map (\<lambda>i. s + int i) [0..<nat (e - s)]"
  by (simp add: calendar_grid_def comp_def)

lemma sorted_map_mono:
  "sorted (map f xs) \<Longrightarrow> (\<And>a b. a \<le> b \<Longrightarrow> g a \<le> g b) \<Longrightarrow> sorted (map (\<lambda>x. g (f x)) xs)"
  by (induction xs) auto

lemma filter_sorted_append:
  assumes "sorted (map f xs)" and "\<And>x. P x \<Longrightarrow> f x < c" and "\<And>x. Q x \<Longrightarrow> c \<le> f x"
  shows "filter P xs @ filter Q xs = filter (\<lambda>x. P x \<or> Q x) xs"
  using assms(1)
proof (induction xs)
  case (Cons x xs)
  then have s: "sorted (map f xs)" and le: "\<forall>y \<in> set xs. f x \<le> f y" by simp_all
  show ?case
  proof (cases "Q x")
    case True
    with assms(3) le have "\<forall>y \<in> set xs. \<not> P y" using assms(2) by (meson leD order_trans)
    moreover from True assms(2,3) have "\<not> P x" by (meson leD)
    ultimately show ?thesis using True by (simp add: filter_empty_conv cong: filter_cong)
  next
    case False
    with Cons.IH [OF s] show ?thesis by simp
  qed
qed simp

lemma concat_matches_on:
  assumes "sorted (map (\<lambda>m. date_of utc (match_time m)) xs)"
  shows "concat (map (\<lambda>i. matches_on xs (s + int i)) [0..<n]) =
         filter (\<lambda>m. s \<le> date_of utc (match_time m) \<and> date_of utc (match_time m) < s + int n) xs"
proof (induction n)
  case 0
  then show ?case by (simp add: filter_empty_conv)
next
  case (Suc n)
  have "filter (\<lambda>m. s \<le> date_of utc (match_time m) \<and> date_of utc (match_time m) < s + int n) xs @
        matches_on xs (s + int n) =
        filter (\<lambda>m. s \<le> date_of utc (match_time m) \<and> date_of utc (match_time m) < s + int n \<or>
                    date_of utc (match_time m) = s + int n) xs"
    unfolding matches_on_def by (rule filter_sorted_append [OF assms]) auto
  also have "\<dots> = filter (\<lambda>m. s \<le> date_of utc (match_time m) \<and> date_of utc (match_time m) < s + int (Suc n)) xs"
    by (rule filter_cong) auto
  finally show ?case using Suc by simp
qed

lemma sorted_dates_month_matches:
  "sorted (map (\<lambda>m. date_of utc (match_time m)) (month_matches cz s e ms))"
  unfolding month_matches_def
  by (rule sorted_map_mono [where f = match_time]) (simp_all add: date_of_mono)

lemma calendar_grid_month_matches:
  assumes "s \<le> e"
  shows "concat (map snd (calendar_grid s e (month_matches utc s e ms))) = month_matches utc s e ms"
proof -
  have "concat (map snd (calendar_grid s e (month_matches utc s e ms))) =
        concat (map (\<lambda>i. matches_on (month_matches utc s e ms) (s + int i)) [0..<nat (e - s)])"
    by (simp add: calendar_grid_def comp_def)
  also have "\<dots> = filter (\<lambda>m. s \<le> date_of utc (match_time m) \<and> date_of utc (match_time m) < e) (month_matches utc s e ms)"
    using concat_matches_on [OF sorted_dates_month_matches, of utc s e ms s "nat (e - s)"] assms by simp
  also have "\<dots> = month_matches utc s e ms"
    by (simp add: month_matches_def filter_sort)
  finally show ?thesis .
qed

lemma set_month_days:
  "x \<in> set (map (\<lambda>i. s + int i) [0..<nat (e - s)]) \<longleftrightarrow> s \<le> x \<and> x < e"
proof
  assume "s \<le> x \<and> x < e"
  then have "x = s + int (nat (x - s))" "nat (x - s) < nat (e - s)" by simp_all
  then show "x \<in> set (map (\<lambda>i. s + int i) [0..<nat (e - s)])" by (metis atLeastLessThan_iff imageI set_map set_upt zero_le)
qed auto

lemma calendar_grid_before:
  "\<forall>m \<in> set xs. date_of utc (match_time m) < s \<Longrightarrow> concat (map snd (calendar_grid s e xs)) = []"
  by (auto simp: calendar_grid_def matches_on_def filter_empty_conv)

subsection \<open>Lemmas on the schedule page\<close>

lemma div_eq_iff_bounds:
  fixes a h k :: int
  assumes "0 < k"
  shows "a div k = h \<longleftrightarrow> k * h \<le> a \<and> a < k * (h + 1)"
proof
  assume h: "a div k = h"
  have "a = k * (a div k) + a mod k" by simp
  moreover have "0 \<le> a mod k" "a mod k < k" using assms by simp_all
  ultimately show "k * h \<le> a \<and> a < k * (h + 1)" using h by (simp add: algebra_simps)
next
  assume b: "k * h \<le> a \<and> a < k * (h + 1)"
  define r where "r = a - k * h"
  have r: "0 \<le> r" "r < k" using b by (simp_all add: r_def algebra_simps)
  have "a = r + h * k" by (simp add: r_def algebra_simps)
  then have "a div k = h + r div k" using assms by simp
  also have "r div k = 0" using r by (rule div_pos_pos_trivial)
  finally show "a div k = h" by simp
qed

lemma group_update_keys [simp]:
  "fst \<circ> (\<lambda>(k', xs). if k' = k then (k', xs @ [m]) else (k', xs)) = fst"
  by (auto simp: fun_eq_iff)

lemma group_update_concat:
  fixes g :: "(int \<times> match_row list) list"
  shows "sorted_wrt (<) (map fst g) \<Longrightarrow> k \<in> set (map fst g) \<Longrightarrow> \<forall>k' \<in> set (map fst g). k' \<le> k \<Longrightarrow>
   concat (map snd (map (\<lambda>(k', xs). if k' = k then (k', xs @ [m]) else (k', xs)) g)) = concat (map snd g) @ [m]"
proof (induction g)
  case (Cons a g)
  obtain k1 ys where a: "a = (k1, ys)" by fastforce
  show ?case
  proof (cases "k1 = k")
    case True
    have "g = []"
    proof (rule ccontr)
      assume "g \<noteq> []"
      then obtain b r where "g = b # r" by (cases g) auto
      with Cons.prems a True have "k < fst b" "fst b \<le> k" by auto
      then show False by simp
    qed
    with True a show ?thesis by simp
  next
    case False
    with Cons a show ?thesis by auto
  qed
qed simp

lemma group_step_ok:
  assumes "groups_ok g" and "\<forall>k \<in> set (map fst g). k \<le> date_of utc (match_time m)"
  shows "groups_ok (group_step g m) \<and> concat (map snd (group_step g m)) = concat (map snd g) @ [m] \<and>
         (\<forall>k \<in> set (map fst (group_step g m)). k \<le> date_of utc (match_time m))"
proof (cases "date_of utc (match_time m) \<in> set (map fst g)")
  case True
  let ?u = "\<lambda>(k', xs). if k' = date_of utc (match_time m) then (k', xs @ [m]) else (k', xs)"
  have u: "group_step g m = map ?u g" using True by (simp add: group_step_def)
  from assms(1) have "\<forall>(k, ms) \<in> set (map ?u g). ms \<noteq> [] \<and> (\<forall>x \<in> set ms. date_of utc (match_time x) = k)"
    by (fastforce simp: groups_ok_def split: if_splits)
  moreover from assms True have "concat (map snd (map ?u g)) = concat (map snd g) @ [m]"
    by (intro group_update_concat) (simp_all add: groups_ok_def)
  ultimately show ?thesis using assms by (simp add: u groups_ok_def)
next
  case False
  with assms have "\<forall>k \<in> set (map fst g). k < date_of utc (match_time m)" by force
  with False assms show ?thesis
    by (auto simp: group_step_def groups_ok_def sorted_wrt_append)
qed

lemma foldl_group_step:
  "groups_ok g \<Longrightarrow> sorted (map (\<lambda>m. date_of utc (match_time m)) xs) \<Longrightarrow>
   (\<forall>k \<in> set (map fst g). \<forall>x \<in> set xs. k \<le> date_of utc (match_time x)) \<Longrightarrow>
   groups_ok (foldl group_step g xs) \<and> concat (map snd (foldl group_step g xs)) = concat (map snd g) @ xs"
proof (induction xs arbitrary: g)
  case (Cons x xs)
  from Cons.prems have s: "\<forall>y \<in> set xs. date_of utc (match_time x) \<le> date_of utc (match_time y)" by simp
  from Cons.prems have "\<forall>k \<in> set (map fst g). k \<le> date_of utc (match_time x)" by simp
  from group_step_ok [OF Cons.prems(1) this] have g: "groups_ok (group_step g x)"
    and c: "concat (map snd (group_step g x)) = concat (map snd g) @ [x]"
    and k: "\<forall>k \<in> set (map fst (group_step g x)). k \<le> date_of utc (match_time x)" by blast+
  from k s have "\<forall>k \<in> set (map fst (group_step g x)). \<forall>y \<in> set xs. k \<le> date_of utc (match_time y)"
    by (meson order_trans)
  with Cons.IH [OF g] Cons.prems(2) c show ?case by simp
qed simp

lemma sorted_dates_left_matches: "sorted (map (\<lambda>m. date_of utc (match_time m)) (left_matches qs))"
  unfolding left_matches_def
proof (rule sorted_map_mono [where f = match_time])
  have "sorted (take 6 (map match_time (sort_key match_time qs)))" by (rule sorted_wrt_take) simp
  then show "sorted (map match_time (take 6 (sort_key match_time qs)))" by (simp add: take_map)
qed (rule date_of_mono)

lemma calendar_view_link_Inr:
  assumes "1 \<le> y" "y \<le> 9999" "1 \<le> m" "m \<le> 12" "m = 12 \<longrightarrow> y < 9999"
  shows "\<exists>p. calendar_view cz now (month_link m y) d = Inr p \<and> cal_month p = m \<and> cal_year p = y \<and>
           (prev_month p, prev_year p) = prev_of m y \<and> (next_month p, next_year p) = next_of m y \<and>
           calendar_days p = calendar_grid (ymd_to_ord y m 1) (ymd_to_ord y m 1 + days_in_month y m)
             (month_matches cz (ymd_to_ord y m 1) (ymd_to_ord y m 1 + days_in_month y m) (matches d))"
  using assms by (simp add: calendar_view_link c_int_def)

subsection \<open>Properties of the calendar\<close>

text \<open>C30. Every page \<open>calendar_view\<close> renders is a month of a valid year: one entry per
  day of that month, in order from its first day, and the navigation links name months
  1--12.\<close>

theorem calendar_days_cover_month:
  assumes "calendar_view cz now rq d = Inr p"
  shows "map fst (calendar_days p) =
           map (\<lambda>i. ymd_to_ord (cal_year p) (cal_month p) 1 + int i)
             [0..<nat (days_in_month (cal_year p) (cal_month p))] \<and>
         1 \<le> cal_month p \<and> cal_month p \<le> 12 \<and> 1 \<le> cal_year p \<and> cal_year p \<le> 9999 \<and>
         1 \<le> prev_month p \<and> prev_month p \<le> 12 \<and> 1 \<le> next_month p \<and> next_month p \<le> 12"
proof -
  from calendar_view_Inr [OF assms] have r: "month_range (cal_year p) (cal_month p) =
      Inr (ymd_to_ord (cal_year p) (cal_month p) 1,
           ymd_to_ord (cal_year p) (cal_month p) 1 + days_in_month (cal_year p) (cal_month p))"
    and g: "map fst (calendar_days p) =
      map (\<lambda>i. ymd_to_ord (cal_year p) (cal_month p) 1 + int i) [0..<nat (days_in_month (cal_year p) (cal_month p))]"
    and pn: "(prev_month p, prev_year p) = prev_of (cal_month p) (cal_year p)"
       "(next_month p, next_year p) = next_of (cal_month p) (cal_year p)"
    by (simp_all add: map_fst_calendar_grid)
  from r have "1 \<le> cal_month p \<and> cal_month p \<le> 12 \<and> 1 \<le> cal_year p \<and> cal_year p \<le> 9999"
    by (simp add: month_range_eq split: if_splits)
  with g pn show ?thesis by (auto simp: prev_of_def next_of_def split: if_splits)
qed

theorem calendar_days_cover_month_witness:
  "\<exists>p. calendar_view utc 0 (month_link 2 2024) views_db = Inr p \<and> length (calendar_days p) = 29"
proof -
  obtain p where p: "calendar_view utc 0 (month_link 2 2024) views_db = Inr p"
    and c: "cal_month p = 2" "cal_year p = 2024"
    using calendar_view_link_Inr [of 2024 2 utc 0 views_db] by auto
  have "days_in_month 2024 2 = 29" by code_simp
  with calendar_days_cover_month [OF p] c have "length (calendar_days p) = 29"
    by (metis length_map length_upt minus_nat.diff_0 nat_numeral)
  with p show ?thesis by blast
qed

text \<open>C31. With the site's time zone at UTC, the calendar lists exactly the matches whose
  date is one of its days, each under its own date and in \<open>match_time\<close> order.\<close>

theorem calendar_utc_days_exact:
  assumes "calendar_view utc now rq d = Inr p"
  shows "concat (map snd (calendar_days p)) =
           sort_key match_time (filter (\<lambda>m. date_of utc (match_time m) \<in> set (map fst (calendar_days p))) (matches d)) \<and>
         (\<forall>(day, ms) \<in> set (calendar_days p). \<forall>m \<in> set ms. date_of utc (match_time m) = day)"
proof -
  define s where "s = ymd_to_ord (cal_year p) (cal_month p) 1"
  define e where "e = s + days_in_month (cal_year p) (cal_month p)"
  from calendar_view_Inr [OF assms] have g: "calendar_days p = calendar_grid s e (month_matches utc s e (matches d))"
    by (simp add: s_def e_def)
  have se: "s \<le> e" using days_in_month_bounds [of "cal_year p" "cal_month p"] by (simp add: e_def)
  have "concat (map snd (calendar_days p)) = month_matches utc s e (matches d)"
    unfolding g using se by (rule calendar_grid_month_matches)
  also have "\<dots> = sort_key match_time (filter (\<lambda>m. date_of utc (match_time m) \<in> set (map fst (calendar_days p))) (matches d))"
    unfolding month_matches_def g map_fst_calendar_grid set_month_days ..
  finally show ?thesis by (simp add: g calendar_grid_def matches_on_def)
qed

theorem calendar_utc_days_exact_witness:
  "\<exists>p. calendar_view utc 0 (month_link 3 2024) (views_db\<lparr>matches := [late_match]\<rparr>) = Inr p \<and>
       concat (map snd (calendar_days p)) = [late_match]"
proof -
  obtain p where p: "calendar_view utc 0 (month_link 3 2024) (views_db\<lparr>matches := [late_match]\<rparr>) = Inr p"
    and g: "calendar_days p = calendar_grid (ymd_to_ord 2024 3 1) (ymd_to_ord 2024 3 1 + days_in_month 2024 3)
             (month_matches utc (ymd_to_ord 2024 3 1) (ymd_to_ord 2024 3 1 + days_in_month 2024 3) [late_match])"
    using calendar_view_link_Inr [of 2024 3 utc 0 "views_db\<lparr>matches := [late_match]\<rparr>"] by auto
  have o: "ymd_to_ord 2024 3 1 = 738946" "days_in_month 2024 3 = 31" "date_of utc (match_time late_match) = 738976"
    by code_simp+
  have "date_of utc (match_time late_match) \<in> set (map fst (calendar_days p))"
    unfolding g map_fst_calendar_grid set_month_days o by simp
  with conjunct1 [OF calendar_utc_days_exact [OF p]] p show ?thesis by auto
qed

text \<open>With the site's time zone at UTC+05:30, a match starting at 01:30 local time on
  1 April 2024 (20:00 UTC on 31 March) is selected for the April calendar but listed under
  no day of it: the month filter converts to the site's zone, the day keys do not.\<close>

theorem calendar_local_zone_drops_match:
  "\<exists>p. calendar_view (\<lambda>_. 19800) 0 (month_link 4 2024) (views_db\<lparr>matches := [late_match]\<rparr>) = Inr p \<and>
       month_matches (\<lambda>_. 19800) (ymd_to_ord 2024 4 1) (ymd_to_ord 2024 4 1 + days_in_month 2024 4) [late_match] =
         [late_match] \<and>
       calendar_days p \<noteq> [] \<and> concat (map snd (calendar_days p)) = []"
proof -
  have o: "ymd_to_ord 2024 4 1 = 738977" "days_in_month 2024 4 = 30" by code_simp+
  have l: "date_of (\<lambda>_. 19800) (match_time late_match) = 738977" "date_of utc (match_time late_match) = 738976"
    by code_simp+
  have "month_matches (\<lambda>_. 19800) 738977 (738977 + 30) [late_match] = [late_match]"
    using l by (simp add: month_matches_def)
  moreover have "concat (map snd (calendar_grid 738977 (738977 + 30) (month_matches (\<lambda>_. 19800) 738977 (738977 + 30) [late_match]))) = []"
    using l by (intro calendar_grid_before) (simp add: month_matches_def)
  moreover have "calendar_grid 738977 (738977 + 30) xs \<noteq> []" for xs by (simp add: calendar_grid_def)
  ultimately show ?thesis by (simp add: calendar_view_link o c_int_def)
qed

text \<open>C33. Navigation is a round trip: following the page's "previous month" link and
  then that page's "next month" link leads back to the same month and year, and likewise
  in the other order, for every page except the first month of year 1 (backwards) and
  November 9999 (forwards), whose neighbour cannot be shown.\<close>

theorem calendar_navigation_roundtrip:
  assumes "calendar_view cz now rq d = Inr p"
  shows "((cal_month p, cal_year p) \<noteq> (1, 1) \<longrightarrow>
           (\<exists>p'. calendar_view cz now' (month_link (prev_month p) (prev_year p)) d' = Inr p' \<and>
                 (next_month p', next_year p') = (cal_month p, cal_year p))) \<and>
         ((cal_month p, cal_year p) \<noteq> (11, 9999) \<longrightarrow>
           (\<exists>p'. calendar_view cz now' (month_link (next_month p) (next_year p)) d' = Inr p' \<and>
                 (prev_month p', prev_year p') = (cal_month p, cal_year p)))"
proof -
  define m y where "m = cal_month p" and "y = cal_year p"
  from calendar_view_Inr [OF assms] have r: "month_range y m =
      Inr (ymd_to_ord y m 1, ymd_to_ord y m 1 + days_in_month y m)"
    and pn: "(prev_month p, prev_year p) = prev_of m y" "(next_month p, next_year p) = next_of m y"
    by (simp_all add: m_def y_def)
  from r have v: "1 \<le> y" "y \<le> 9999" "1 \<le> m" "m \<le> 12" "m = 12 \<longrightarrow> y < 9999"
    by (simp_all add: month_range_eq split: if_splits)
  show ?thesis
  proof (intro conjI impI)
    assume "(cal_month p, cal_year p) \<noteq> (1, 1)"
    with v have vp: "1 \<le> fst (prev_of m y)" "fst (prev_of m y) \<le> 12" "1 \<le> snd (prev_of m y)"
      "snd (prev_of m y) \<le> 9999" "fst (prev_of m y) = 12 \<longrightarrow> snd (prev_of m y) < 9999"
      and n: "next_of (fst (prev_of m y)) (snd (prev_of m y)) = (m, y)"
      by (auto simp: prev_of_def next_of_def m_def y_def)
    from pn(1) have "prev_month p = fst (prev_of m y)" "prev_year p = snd (prev_of m y)"
      by (metis fst_conv, metis snd_conv)
    with calendar_view_link_Inr [OF vp(3,4,1,2,5), of cz now' d'] n
    show "\<exists>p'. calendar_view cz now' (month_link (prev_month p) (prev_year p)) d' = Inr p' \<and>
                (next_month p', next_year p') = (cal_month p, cal_year p)"
      by (auto simp: m_def y_def)
  next
    assume "(cal_month p, cal_year p) \<noteq> (11, 9999)"
    with v have vp: "1 \<le> fst (next_of m y)" "fst (next_of m y) \<le> 12" "1 \<le> snd (next_of m y)"
      "snd (next_of m y) \<le> 9999" "fst (next_of m y) = 12 \<longrightarrow> snd (next_of m y) < 9999"
      and n: "prev_of (fst (next_of m y)) (snd (next_of m y)) = (m, y)"
      by (auto simp: prev_of_def next_of_def m_def y_def)
    from pn(2) have "next_month p = fst (next_of m y)" "next_year p = snd (next_of m y)"
      by (metis fst_conv, metis snd_conv)
    with calendar_view_link_Inr [OF vp(3,4,1,2,5), of cz now' d'] n
    show "\<exists>p'. calendar_view cz now' (month_link (next_month p) (next_year p)) d' = Inr p' \<and>
                (prev_month p', prev_year p') = (cal_month p, cal_year p)"
      by (auto simp: m_def y_def)
  qed
qed

theorem calendar_navigation_roundtrip_witness:
  "\<exists>p'. calendar_view utc 0 (month_link 12 2023) views_db = Inr p' \<and> (next_month p', next_year p') = (1, 2024)"
proof -
  obtain p where p: "calendar_view utc 0 (month_link 1 2024) views_db = Inr p"
    and c: "cal_month p = 1" "cal_year p = 2024" "(prev_month p, prev_year p) = prev_of 1 2024"
    using calendar_view_link_Inr [of 2024 1 utc 0 views_db] by auto
  from c have "prev_month p = 12" "prev_year p = 2023" by (simp_all add: prev_of_def)
  with c conjunct1 [OF calendar_navigation_roundtrip [OF p, of 0 views_db]] show ?thesis by simp
qed

text \<open>C34. A navigation request fails with an uncaught exception (an error page) exactly
  when its month or year is out of range: \<open>OverflowError\<close> when one of them does not fit a
  C \<open>int\<close> (\<open>int()\<close> accepts any size, \<open>date()\<close> does not), otherwise
  \<open>ValueError\<close> when the month is outside 1--12, the year outside 1--9999, or it is
  December 9999, whose end date \<open>date(10000, 1, 1)\<close> does not exist.\<close>

theorem calendar_out_of_range:
  "(calendar_view cz now (month_link m y) d = Inl OverflowError \<longleftrightarrow> \<not> (c_int m \<and> c_int y)) \<and>
   (calendar_view cz now (month_link m y) d = Inl ValueError \<longleftrightarrow>
      c_int m \<and> c_int y \<and> \<not> (1 \<le> m \<and> m \<le> 12 \<and> 1 \<le> y \<and> y \<le> 9999 \<and> (m = 12 \<longrightarrow> y < 9999)))"
  by (auto simp: calendar_view_link)

theorem calendar_out_of_range_witness:
  "calendar_view utc 0 (month_link 13 2024) views_db = Inl ValueError \<and>
   calendar_view utc 0 (month_link 12 9999) views_db = Inl ValueError \<and>
   calendar_view utc 0 (month_link (2 ^ 31) 2024) views_db = Inl OverflowError"
  using calendar_out_of_range [of utc 0 13 2024 views_db] calendar_out_of_range [of utc 0 12 9999 views_db]
    calendar_out_of_range [of utc 0 "2 ^ 31" 2024 views_db]
  by (simp add: c_int_def)

subsection \<open>Properties of the schedule page\<close>

text \<open>The sidebar countdown says "Starting soon" exactly when the match time has come,
  "Less than 1 hour" exactly when it is less than an hour away, and "In h hours" exactly
  when \<open>h \<ge> 1\<close> whole hours, and less than \<open>h + 1\<close>, remain.\<close>

theorem countdown_text:
  "(countdown now m = ''Starting soon'' \<longleftrightarrow> match_time m \<le> now) \<and>
   (countdown now m = ''Less than 1 hour'' \<longleftrightarrow> now < match_time m \<and> match_time m < now + 3600) \<and>
   (countdown now m = ''In '' @ str_of_int h @ '' hours'' \<longleftrightarrow>
      1 \<le> h \<and> now + 3600 * h \<le> match_time m \<and> match_time m < now + 3600 * (h + 1))"
proof -
  have d: "(match_time m - now) div 3600 = h \<longleftrightarrow> 3600 * h \<le> match_time m - now \<and> match_time m - now < 3600 * (h + 1)"
    by (rule div_eq_iff_bounds) simp
  have one: "1 \<le> (match_time m - now) div 3600 \<longleftrightarrow> now + 3600 \<le> match_time m"
    using div_eq_iff_bounds [of 3600 "match_time m - now" "(match_time m - now) div 3600"]
    by (smt (verit, best) div_pos_pos_trivial zdiv_mono1)
  show ?thesis
    unfolding countdown_def Let_def using d one
    by (auto simp: str_of_int_inj)
qed

theorem countdown_text_witness:
  "countdown 0 demo_match = ''Starting soon'' \<or> countdown 0 demo_match = ''Less than 1 hour''"
  using countdown_text [of 0 demo_match 1] by (simp add: demo_match_def)

text \<open>The schedule grid groups its first six matches by date: reading the groups in
  order gives back those matches in \<open>match_time\<close> order, the dates strictly increase,
  and each group is non-empty and holds matches of its own date only.\<close>

theorem grouped_matches_partition:
  "concat (map snd (grouped_matches (left_matches qs))) = left_matches qs \<and>
   sorted_wrt (<) (map fst (grouped_matches (left_matches qs))) \<and>
   (\<forall>(k, ms) \<in> set (grouped_matches (left_matches qs)). ms \<noteq> [] \<and> (\<forall>m \<in> set ms. date_of utc (match_time m) = k))"
proof -
  have "groups_ok (foldl group_step [] (left_matches qs)) \<and>
        concat (map snd (foldl group_step [] (left_matches qs))) = concat (map snd []) @ left_matches qs"
    using foldl_group_step [of "[]" "left_matches qs"] by (simp add: groups_ok_def sorted_dates_left_matches)
  then show ?thesis by (simp add: grouped_matches_def groups_ok_def)
qed

theorem grouped_matches_partition_witness:
  "concat (map snd (grouped_matches (left_matches [late_match, demo_match]))) = [demo_match, late_match]"
  using grouped_matches_partition [of "[late_match, demo_match]"]
  by (simp add: left_matches_def late_match_def demo_match_def)

end
