(* ===== verification/Stats.thy ===== *)
theory Stats
  imports Models
begin

text \<open>
  The statistics aggregator of \<open>src/GENZE/core/views.py\<close>: per-team wins, losses,
  matches played, championships, win rate and points, the ranking order, and the
  24-hour points delta.
  \<^item> \<open>team_detail\<close> (lines 158--180) and \<open>team_tournaments\<close> (lines 511--537) count
    with separate \<open>.count()\<close> queries: \<open>detail_wins\<close>, \<open>detail_matches_played\<close>,
    \<open>detail_championships\<close>, \<open>won_tournaments\<close>.
  \<^item> \<open>teams_page\<close> (lines 60--126) and \<open>overall_match_stats\<close> (lines 707--735) compute
    the same numbers with one \<open>annotate\<close> holding several \<open>Count\<close>s over the two reverse
    relations \<open>matches_as_team1\<close> and \<open>matches_as_team2\<close>. The ORM evaluates that as one
    query with a LEFT OUTER JOIN per relation, so every row of one side is paired with
    every row of the other, and each \<open>Count\<close> counts pairs. The model builds these joined
    rows (\<open>join_rows\<close>) and counts them as SQL does.
  SQL comparisons with a NULL score are false (\<open>sql_gt\<close>). Python's float win rate
  \<open>round(w / p * 100, 1)\<close> is computed exactly in tenths of a percent, with
  round-half-even on exact ties.
\<close>

subsection \<open>Row predicates of the filters\<close>

definition sql_gt :: "nat option \<Rightarrow> nat option \<Rightarrow> bool" where
  "sql_gt a b = (case (a, b) of (Some x, Some y) \<Rightarrow> y < x | _ \<Rightarrow> False)"

definition completed_scored :: "match_row \<Rightarrow> bool" where
  "completed_scored m \<longleftrightarrow> status m = Completed \<and> team1_score m \<noteq> None \<and> team2_score m \<noteq> None"

definition team1_won :: "match_row \<Rightarrow> bool" where
  "team1_won m = sql_gt (team1_score m) (team2_score m)"

definition team2_won :: "match_row \<Rightarrow> bool" where
  "team2_won m = sql_gt (team2_score m) (team1_score m)"

definition final_stage :: "match_row \<Rightarrow> bool" where
  "final_stage m = icontains (stage m) ''final''"

subsection \<open>team_detail and team_tournaments: one query per count\<close>

definition detail_matches_played :: "match_row list \<Rightarrow> ident \<Rightarrow> nat" where
  "detail_matches_played ms t =
     count_rows (\<lambda>m. team1 m = t \<and> completed_scored m) ms +
     count_rows (\<lambda>m. team2 m = t \<and> completed_scored m) ms"

definition detail_wins :: "match_row list \<Rightarrow> ident \<Rightarrow> nat" where
  "detail_wins ms t =
     count_rows (\<lambda>m. team1 m = t \<and> completed_scored m \<and> team1_won m) ms +
     count_rows (\<lambda>m. team2 m = t \<and> completed_scored m \<and> team2_won m) ms"

definition detail_championships :: "match_row list \<Rightarrow> ident \<Rightarrow> nat" where
  "detail_championships ms t =
     count_rows (\<lambda>m. team1 m = t \<and> final_stage m \<and> completed_scored m \<and> team1_won m) ms +
     count_rows (\<lambda>m. team2 m = t \<and> final_stage m \<and> completed_scored m \<and> team2_won m) ms"

text \<open>\<open>round(x, 1)\<close> of \<open>x = a / b\<close> tenths, ties to even, for \<open>b > 0\<close>.\<close>

definition round_half_even_div :: "nat \<Rightarrow> nat \<Rightarrow> nat" where
  "round_half_even_div a b =
     (let q = a div b; r = a mod b in
      if b < 2 * r then q + 1 else if 2 * r < b then q else if even q then q else q + 1)"

text \<open>\<open>round((wins / matches_played) * 100, 1) if matches_played else 0\<close>, in tenths of a
  percent (lines 108, 180, 528 and 735).\<close>

definition win_rate :: "nat \<Rightarrow> nat \<Rightarrow> nat" where
  "win_rate w p = (if p = 0 then 0 else round_half_even_div (1000 * w) p)"

text \<open>\<open>tournaments_won\<close> of \<open>team_tournaments\<close> (lines 534--537): the tournaments having a
  match the team won whose stage contains "final"; the filter has no status condition.\<close>

definition won_tournaments :: "tournament_row list \<Rightarrow> match_row list \<Rightarrow> ident \<Rightarrow> tournament_row list" where
  "won_tournaments ts ms t =
     filter (\<lambda>tr. list_ex (\<lambda>m. tournament m = tournament_id tr \<and> final_stage m \<and>
                       (team1 m = t \<and> team1_won m \<or> team2 m = t \<and> team2_won m)) ms) ts"

subsection \<open>teams_page and overall_match_stats: one annotate over two joins\<close>

text \<open>A LEFT OUTER JOIN side: the matching rows, or one NULL row when there is none.\<close>

definition outer_rows :: "match_row list \<Rightarrow> match_row option list" where
  "outer_rows xs = (if xs = [] then [None] else map Some xs)"

definition join_rows :: "match_row list \<Rightarrow> ident \<Rightarrow> (match_row option \<times> match_row option) list" where
  "join_rows ms t =
     List.product (outer_rows (filter (\<lambda>m. team1 m = t) ms)) (outer_rows (filter (\<lambda>m. team2 m = t) ms))"

text \<open>\<open>Count('matches_as_team1', filter = P)\<close> and its \<open>team2\<close> twin over the joined rows.\<close>

definition count_side1 :: "(match_row \<Rightarrow> bool) \<Rightarrow> match_row list \<Rightarrow> ident \<Rightarrow> nat" where
  "count_side1 P ms t = count_rows (\<lambda>(a, b). case a of Some m \<Rightarrow> P m | None \<Rightarrow> False) (join_rows ms t)"

definition count_side2 :: "(match_row \<Rightarrow> bool) \<Rightarrow> match_row list \<Rightarrow> ident \<Rightarrow> nat" where
  "count_side2 P ms t = count_rows (\<lambda>(a, b). case b of Some m \<Rightarrow> P m | None \<Rightarrow> False) (join_rows ms t)"

record team_stats =
  stats_team :: team_row
  wins :: nat
  losses :: nat
  matches_played :: nat
  championships :: nat

text \<open>The annotate of \<open>teams_page\<close>, lines 61--99.\<close>

definition annotate_team :: "match_row list \<Rightarrow> team_row \<Rightarrow> team_stats" where
  "annotate_team ms tm =
     (let t = team_id tm in
      \<lparr>stats_team = tm,
       wins = count_side1 (\<lambda>m. completed_scored m \<and> team1_won m) ms t +
              count_side2 (\<lambda>m. completed_scored m \<and> team2_won m) ms t,
       losses = count_side1 (\<lambda>m. completed_scored m \<and> team2_won m) ms t +
                count_side2 (\<lambda>m. completed_scored m \<and> team1_won m) ms t,
       matches_played = count_side1 completed_scored ms t + count_side2 completed_scored ms t,
       championships = count_side1 (\<lambda>m. final_stage m \<and> completed_scored m \<and> team1_won m) ms t +
                       count_side2 (\<lambda>m. final_stage m \<and> completed_scored m \<and> team2_won m) ms t\<rparr>)"

text \<open>The annotate of \<open>overall_match_stats\<close>, lines 707--727: no NULL checks, and
  matches played counts every completed match.\<close>

definition overall_annotate_team :: "match_row list \<Rightarrow> team_row \<Rightarrow> team_stats" where
  "overall_annotate_team ms tm =
     (let t = team_id tm; c = (\<lambda>m. status m = Completed) in
      \<lparr>stats_team = tm,
       wins = count_side1 (\<lambda>m. c m \<and> team1_won m) ms t + count_side2 (\<lambda>m. c m \<and> team2_won m) ms t,
       losses = count_side1 (\<lambda>m. c m \<and> team2_won m) ms t + count_side2 (\<lambda>m. c m \<and> team1_won m) ms t,
       matches_played = count_side1 c ms t + count_side2 c ms t,
       championships = count_side1 (\<lambda>m. final_stage m \<and> c m \<and> team1_won m) ms t +
                       count_side2 (\<lambda>m. final_stage m \<and> c m \<and> team2_won m) ms t\<rparr>)"

text \<open>\<open>points = F('wins') * 3\<close> and \<open>order_by('-points', '-wins', 'name')\<close> (lines
  102--104); rows equal in all three keys keep the table order.\<close>

definition points :: "team_stats \<Rightarrow> nat" where
  "points s = 3 * wins s"

definition rank_key :: "team_stats \<Rightarrow> int \<times> int \<times> string" where
  "rank_key s = (- int (points s), - int (wins s), name (stats_team s))"

definition team_rankings :: "match_row list \<Rightarrow> team_row list \<Rightarrow> team_stats list" where
  "team_rankings ms ts = sort_key rank_key (map (annotate_team ms) ts)"

definition ranking_win_rate :: "team_stats \<Rightarrow> nat" where
  "ranking_win_rate s = win_rate (wins s) (matches_played s)"

subsection \<open>Points delta over the last 24 hours\<close>

definition recent_matches :: "instant \<Rightarrow> match_row list \<Rightarrow> match_row list" where
  "recent_matches now ms = filter (\<lambda>m. status m = Completed \<and> now - 86400 \<le> match_time m) ms"

text \<open>One iteration of the loop of lines 118--123 over the dictionary \<open>recent_wins_map\<close>;
  an id of 0 is falsy.\<close>

definition count_win :: "(ident \<rightharpoonup> nat) \<Rightarrow> match_row \<Rightarrow> (ident \<rightharpoonup> nat)" where
  "count_win mp m =
     (case (team1_score m, team2_score m) of
        (Some a, Some b) \<Rightarrow>
          if b < a \<and> team1 m \<noteq> 0 then mp(team1 m \<mapsto> (case mp (team1 m) of None \<Rightarrow> 0 | Some c \<Rightarrow> c) + 1)
          else if a < b \<and> team2 m \<noteq> 0 then mp(team2 m \<mapsto> (case mp (team2 m) of None \<Rightarrow> 0 | Some c \<Rightarrow> c) + 1)
          else mp
      | _ \<Rightarrow> mp)"

definition recent_wins_map :: "instant \<Rightarrow> match_row list \<Rightarrow> (ident \<rightharpoonup> nat)" where
  "recent_wins_map now ms = fold (\<lambda>m mp. count_win mp m) (recent_matches now ms) Map.empty"

definition points_delta :: "instant \<Rightarrow> match_row list \<Rightarrow> ident \<Rightarrow> nat" where
  "points_delta now ms t = (case recent_wins_map now ms t of None \<Rightarrow> 0 | Some c \<Rightarrow> c) * 3"

text \<open>The specification's reading of the loop: the winner of a scored match, if any.\<close>

definition match_winner :: "match_row \<Rightarrow> ident option" where
  "match_winner m =
     (case (team1_score m, team2_score m) of
        (Some a, Some b) \<Rightarrow> if b < a then Some (team1 m) else if a < b then Some (team2 m) else None
      | _ \<Rightarrow> None)"

text \<open>Rows the witnesses evaluate on: a completed 3--1 grand final of team 1 against
  team 2, and two teams.\<close>

definition final_match :: match_row where
  "final_match = \<lparr>match_id = 1, tournament = 1, team1 = 1, team2 = 2, match_time = 0,
     status = Completed, stage = ''Grand Final'', team1_score = Some 3, team2_score = Some 1,
     youtube_live_url = [], youtube_recap_url = [], live_started_at = None, completed_at = Some 0, match_game = None,
     viewer_count = 0, viewer_label = [], current_round = None, total_rounds = None, points_team1 = 0, points_team2 = 0\<rparr>"

definition team_a :: team_row where
  "team_a = \<lparr>team_id = 1, name = ''Alpha'', team_game = None, region = None, tag = None, description = None, banner = None,
     logo = None, founded = None, status_indicator = Indicator_none, rank = None\<rparr>"

definition team_b :: team_row where
  "team_b = \<lparr>team_id = 2, name = ''Bravo'', team_game = None, region = None, tag = None, description = None, banner = None,
     logo = None, founded = None, status_indicator = Indicator_none, rank = None\<rparr>"

subsection \<open>The joined counts\<close>

lemma count_map_Some:
  "count_rows (\<lambda>a. case a of Some m \<Rightarrow> P m | None \<Rightarrow> False) (map Some xs) = count_rows P xs"
  by (induction xs) simp_all

lemma count_outer_rows:
  "count_rows (\<lambda>a. case a of Some m \<Rightarrow> P m | None \<Rightarrow> False) (outer_rows xs) = count_rows P xs"
  by (simp add: outer_rows_def count_map_Some)

lemma length_outer_rows: "length (outer_rows xs) = max 1 (length xs)"
  by (cases xs) (simp_all add: outer_rows_def)

lemma count_side1_eq:
  "count_side1 P ms t =
     count_rows (\<lambda>m. team1 m = t \<and> P m) ms * max 1 (count_rows (\<lambda>m. team2 m = t) ms)"
  by (simp add: count_side1_def join_rows_def count_rows_product_fst count_outer_rows
      length_outer_rows count_rows_filter) (simp add: count_rows_def)

lemma count_side2_eq:
  "count_side2 P ms t =
     count_rows (\<lambda>m. team2 m = t \<and> P m) ms * max 1 (count_rows (\<lambda>m. team1 m = t) ms)"
  by (simp add: count_side2_def join_rows_def count_rows_product_snd count_outer_rows
      length_outer_rows count_rows_filter) (simp add: count_rows_def)

lemma count_side1_mono: "(\<And>m. P m \<Longrightarrow> Q m) \<Longrightarrow> count_side1 P ms t \<le> count_side1 Q ms t"
  unfolding count_side1_def by (rule count_rows_mono) (auto split: option.splits)

lemma count_side2_mono: "(\<And>m. P m \<Longrightarrow> Q m) \<Longrightarrow> count_side2 P ms t \<le> count_side2 Q ms t"
  unfolding count_side2_def by (rule count_rows_mono) (auto split: option.splits)

lemma count_side1_no_team2:
  "count_rows (\<lambda>m. team2 m = t) ms = 0 \<Longrightarrow> count_side1 P ms t = count_rows (\<lambda>m. team1 m = t \<and> P m) ms"
  by (simp add: count_side1_eq)

lemma count_side2_no_team2:
  "count_rows (\<lambda>m. team2 m = t) ms = 0 \<Longrightarrow> count_side2 P ms t = 0"
  by (simp add: count_side2_eq count_rows_0_iff)

lemma count_side2_no_team1:
  "count_rows (\<lambda>m. team1 m = t) ms = 0 \<Longrightarrow> count_side2 P ms t = count_rows (\<lambda>m. team2 m = t \<and> P m) ms"
  by (simp add: count_side2_eq)

lemma count_side1_no_team1:
  "count_rows (\<lambda>m. team1 m = t) ms = 0 \<Longrightarrow> count_side1 P ms t = 0"
  by (simp add: count_side1_eq count_rows_0_iff)

subsection \<open>Win rate\<close>

lemma round_half_even_div_le:
  assumes "0 < b" and "a \<le> c * b"
  shows "round_half_even_div a b \<le> c"
proof -
  have "a div b \<le> (c * b) div b" using assms(2) by (rule div_le_mono)
  with assms(1) have q: "a div b \<le> c" by simp
  show ?thesis
  proof (cases "a div b = c")
    case True
    have "a div b * b \<le> a" by (rule div_times_less_eq_dividend)
    with True assms(2) have "a = c * b" by simp
    with assms(1) have "a mod b = 0" by simp
    with True assms(1) show ?thesis by (simp add: round_half_even_div_def Let_def)
  next
    case False
    with q have "a div b < c" by simp
    then show ?thesis by (simp add: round_half_even_div_def Let_def)
  qed
qed

lemma win_rate_le_1000: "w \<le> p \<Longrightarrow> win_rate w p \<le> 1000"
  by (cases "p = 0") (simp_all add: win_rate_def round_half_even_div_le)

lemma win_rate_zero [simp]: "win_rate w 0 = 0"
  by (simp add: win_rate_def)

lemma detail_wins_le_played: "detail_wins ms t \<le> detail_matches_played ms t"
  unfolding detail_wins_def detail_matches_played_def
  by (intro add_mono count_rows_mono) auto

lemma annotate_wins_le_played: "wins (annotate_team ms tm) \<le> matches_played (annotate_team ms tm)"
  unfolding annotate_team_def Let_def
  by (simp, intro add_mono count_side1_mono count_side2_mono) auto

lemma overall_wins_le_played: "wins (overall_annotate_team ms tm) \<le> matches_played (overall_annotate_team ms tm)"
  unfolding overall_annotate_team_def Let_def
  by (simp, intro add_mono count_side1_mono count_side2_mono) auto

subsection \<open>Ranking\<close>

lemma rank_key_le_iff:
  "rank_key s \<le> rank_key s' \<longleftrightarrow>
     points s' < points s \<or>
     points s' = points s \<and> (wins s' < wins s \<or> wins s' = wins s \<and> name (stats_team s) \<le> name (stats_team s'))"
  by (auto simp: rank_key_def less_eq_prod_def less_prod_def)

lemma insort_key_strict_mono: "strict_mono h \<Longrightarrow> insort_key (h \<circ> g) x xs = insort_key g x xs"
  by (induction xs) (simp_all add: strict_mono_less_eq)

lemma sort_key_strict_mono: "strict_mono h \<Longrightarrow> sort_key (h \<circ> g) xs = sort_key g xs"
  by (induction xs) (simp_all add: insort_key_strict_mono)

lemma strict_mono_points_key: "strict_mono (\<lambda>(a :: int, n :: string). (3 * a, a, n))"
  by (auto simp: strict_mono_def less_prod_def)

subsection \<open>Points delta\<close>

lemma count_win_count:
  assumes "t \<noteq> 0"
  shows "(case count_win mp m t of None \<Rightarrow> 0 | Some c \<Rightarrow> c) =
         (case mp t of None \<Rightarrow> 0 | Some c \<Rightarrow> c) + (if match_winner m = Some t then 1 else 0)"
  using assms
  by (auto simp: count_win_def match_winner_def split: option.splits if_splits)

lemma fold_count_win:
  "t \<noteq> 0 \<Longrightarrow>
   (case fold (\<lambda>m mp. count_win mp m) xs mp t of None \<Rightarrow> 0 | Some c \<Rightarrow> c) =
   (case mp t of None \<Rightarrow> 0 | Some c \<Rightarrow> c) + count_rows (\<lambda>m. match_winner m = Some t) xs"
  by (induction xs arbitrary: mp) (simp_all add: count_win_count)

subsection \<open>Properties of the aggregator\<close>

text \<open>C13. The win rate every view displays lies between 0 and 100.0 percent (1000
  tenths): in team_detail, in the rankings of teams_page and in overall_match_stats, the
  wins counted never exceed the matches counted.\<close>

theorem win_rates_bounded:
  "win_rate (detail_wins ms t) (detail_matches_played ms t) \<le> 1000 \<and>
   ranking_win_rate (annotate_team ms tm) \<le> 1000 \<and>
   ranking_win_rate (overall_annotate_team ms tm) \<le> 1000"
  by (simp add: ranking_win_rate_def win_rate_le_1000 detail_wins_le_played annotate_wins_le_played
      overall_wins_le_played)

text \<open>A team with no completed, scored match has win rate exactly 0, and no wins, in
  team_detail and in the rankings: the division by zero is never reached.\<close>

theorem win_rate_no_matches:
  assumes "detail_matches_played ms (team_id tm) = 0"
  shows "win_rate (detail_wins ms (team_id tm)) (detail_matches_played ms (team_id tm)) = 0 \<and>
         ranking_win_rate (annotate_team ms tm) = 0 \<and> wins (annotate_team ms tm) = 0"
proof -
  from assms have "count_rows (\<lambda>m. team1 m = team_id tm \<and> completed_scored m) ms = 0"
    and "count_rows (\<lambda>m. team2 m = team_id tm \<and> completed_scored m) ms = 0"
    by (simp_all add: detail_matches_played_def)
  then have p: "matches_played (annotate_team ms tm) = 0"
    by (simp add: annotate_team_def Let_def count_side1_eq count_side2_eq)
  then have "wins (annotate_team ms tm) = 0"
    using annotate_wins_le_played [of ms tm] by simp
  with p assms show ?thesis by (simp add: ranking_win_rate_def)
qed

theorem win_rate_no_matches_witness:
  "detail_matches_played [] (team_id team_a) = 0 \<and> ranking_win_rate (annotate_team [] team_a) = 0"
proof -
  have h: "detail_matches_played [] (team_id team_a) = 0" by (simp add: detail_matches_played_def)
  from win_rate_no_matches [OF h] h show ?thesis by simp
qed

text \<open>C15. The example of section 8: recording a completed match that team A won 3--1
  against team B at stage "Grand Final" adds one win and one championship to A, and one
  match played without a win (a loss) to B, in team_detail's counts.\<close>

theorem detail_counts_final_win:
  assumes "status m = Completed" and "team1_score m = Some x" and "team2_score m = Some y"
    and "y < x" and "team1 m = a" and "team2 m = b" and "a \<noteq> b"
    and "icontains (stage m) ''final''"
  shows "detail_wins (m # ms) a = detail_wins ms a + 1 \<and>
         detail_championships (m # ms) a = detail_championships ms a + 1 \<and>
         detail_matches_played (m # ms) b = detail_matches_played ms b + 1 \<and>
         detail_wins (m # ms) b = detail_wins ms b"
  using assms
  by (simp add: detail_wins_def detail_championships_def detail_matches_played_def completed_scored_def
      team1_won_def team2_won_def sql_gt_def final_stage_def)

theorem detail_counts_final_win_witness:
  "detail_wins [final_match] 1 = 1 \<and> detail_championships [final_match] 1 = 1 \<and>
   detail_matches_played [final_match] 2 = 1 \<and> detail_wins [final_match] 2 = 0"
proof -
  have "icontains ''Grand Final'' ''final''" by code_simp
  then have f: "icontains (stage final_match) ''final''" by (simp add: final_match_def)
  show ?thesis
    using detail_counts_final_win [of final_match 3 1 1 2 "[]", OF _ _ _ _ _ _ _ f]
    by (simp add: final_match_def detail_wins_def detail_championships_def detail_matches_played_def)
qed

text \<open>C16. The rankings of teams_page are the annotated teams, each once, ordered by points
  descending, then wins descending, then name ascending.\<close>

theorem team_rankings_sorted:
  "mset (team_rankings ms ts) = mset (map (annotate_team ms) ts) \<and>
   sorted_wrt (\<lambda>s s'. points s' < points s \<or>
       points s' = points s \<and> (wins s' < wins s \<or> wins s' = wins s \<and> name (stats_team s) \<le> name (stats_team s')))
     (team_rankings ms ts)"
proof -
  have "sorted (map rank_key (team_rankings ms ts))"
    by (simp add: team_rankings_def)
  then have "sorted_wrt (\<lambda>s s'. rank_key s \<le> rank_key s') (team_rankings ms ts)"
    by (simp add: sorted_map)
  then show ?thesis by (simp add: team_rankings_def rank_key_le_iff)
qed

text \<open>The second sort key of the rankings never decides: since points are three
  times the wins, ordering by points, wins and name is ordering by wins and name. The
  specification's ranking example with equal points and different wins cannot occur.\<close>

theorem team_rankings_by_wins:
  "team_rankings ms ts = sort_key (\<lambda>s. (- int (wins s), name (stats_team s))) (map (annotate_team ms) ts)"
proof -
  have k: "rank_key = (\<lambda>(a :: int, n :: string). (3 * a, a, n)) \<circ> (\<lambda>s. (- int (wins s), name (stats_team s)))"
    by (rule ext) (simp add: rank_key_def points_def)
  show ?thesis
    unfolding team_rankings_def k by (rule sort_key_strict_mono [OF strict_mono_points_key])
qed

text \<open>C18. What teams_page shows as wins: each side's winning matches counted once per
  match of the other side (at least once), because the two reverse relations are joined in
  one query.\<close>

theorem annotate_wins_joined:
  "wins (annotate_team ms tm) =
     count_rows (\<lambda>m. team1 m = team_id tm \<and> completed_scored m \<and> team1_won m) ms *
       max 1 (count_rows (\<lambda>m. team2 m = team_id tm) ms) +
     count_rows (\<lambda>m. team2 m = team_id tm \<and> completed_scored m \<and> team2_won m) ms *
       max 1 (count_rows (\<lambda>m. team1 m = team_id tm) ms)"
  by (simp add: annotate_team_def Let_def count_side1_eq count_side2_eq)

text \<open>So teams_page and team_detail disagree: there is a table in which a team that
  won two matches is shown with three wins in the rankings.\<close>

theorem annotate_wins_differs_from_detail:
  "\<exists>ms tm. detail_wins ms (team_id tm) = 2 \<and> wins (annotate_team ms tm) = 3"
proof -
  let ?ms = "[final_match, final_match\<lparr>match_id := 2, team1 := 3, team2 := 1, team1_score := Some 0\<rparr>,
              final_match\<lparr>match_id := 3, team1 := 4, team2 := 1\<rparr>]"
  have "detail_wins ?ms (team_id team_a) = 2 \<and> wins (annotate_team ?ms team_a) = 3"
    by (simp add: detail_wins_def annotate_team_def Let_def count_side1_eq count_side2_eq final_match_def
        team_a_def completed_scored_def team1_won_def team2_won_def sql_gt_def)
  then show ?thesis by blast
qed

text \<open>The two agree for a team that appears on one side only (always team1, or always
  team2): then wins, matches played and championships of the rankings are team_detail's.\<close>

theorem annotate_agrees_one_side:
  assumes "count_rows (\<lambda>m. team1 m = team_id tm) ms = 0 \<or> count_rows (\<lambda>m. team2 m = team_id tm) ms = 0"
  shows "wins (annotate_team ms tm) = detail_wins ms (team_id tm) \<and>
         matches_played (annotate_team ms tm) = detail_matches_played ms (team_id tm) \<and>
         championships (annotate_team ms tm) = detail_championships ms (team_id tm)"
  using assms
proof
  assume h: "count_rows (\<lambda>m. team1 m = team_id tm) ms = 0"
  then have z: "\<And>P. count_rows (\<lambda>m. team1 m = team_id tm \<and> P m) ms = 0"
    by (simp add: count_rows_0_iff)
  from h show ?thesis
    by (simp add: annotate_team_def Let_def count_side1_no_team1 count_side2_no_team1 detail_wins_def
        detail_matches_played_def detail_championships_def z)
next
  assume h: "count_rows (\<lambda>m. team2 m = team_id tm) ms = 0"
  then have z: "\<And>P. count_rows (\<lambda>m. team2 m = team_id tm \<and> P m) ms = 0"
    by (simp add: count_rows_0_iff)
  from h show ?thesis
    by (simp add: annotate_team_def Let_def count_side1_no_team2 count_side2_no_team2 detail_wins_def
        detail_matches_played_def detail_championships_def z)
qed

theorem annotate_agrees_one_side_witness:
  "wins (annotate_team [final_match] team_a) = detail_wins [final_match] 1"
proof -
  have h: "count_rows (\<lambda>m. team1 m = team_id team_a) [final_match] = 0 \<or>
           count_rows (\<lambda>m. team2 m = team_id team_a) [final_match] = 0"
    by (simp add: final_match_def team_a_def)
  from annotate_agrees_one_side [OF h] show ?thesis by (simp add: team_a_def)
qed

text \<open>C21. The 24-hour points delta of teams_page is three points per completed match
  started in the last 24 hours that the team won, for every real team id.\<close>

theorem points_delta_counts_recent_wins:
  assumes "t \<noteq> 0"
  shows "points_delta now ms t =
           3 * count_rows (\<lambda>m. status m = Completed \<and> now - 86400 \<le> match_time m \<and> match_winner m = Some t) ms"
  using fold_count_win [OF assms, of "recent_matches now ms" Map.empty]
  by (simp add: points_delta_def recent_wins_map_def recent_matches_def count_rows_filter conj_assoc)

theorem points_delta_counts_recent_wins_witness:
  "points_delta 1000 [final_match] 1 = 3"
proof -
  have "(1::nat) \<noteq> 0" by simp
  from points_delta_counts_recent_wins [OF this, of 1000 "[final_match]"] show ?thesis
    by (simp add: final_match_def match_winner_def)
qed

text \<open>team_tournaments counts a tournament as won as soon as the team won any of its
  matches whose stage contains "final", whatever the match's status: a semifinal, or a
  live match with provisional scores, makes a tournament won.\<close>

theorem won_tournaments_any_final_stage:
  assumes "m \<in> set ms" and "tr \<in> set ts" and "tournament m = tournament_id tr"
    and "team1 m = t" and "sql_gt (team1_score m) (team2_score m)" and "icontains (stage m) ''final''"
  shows "tr \<in> set (won_tournaments ts ms t)"
  using assms by (auto simp: won_tournaments_def list_ex_iff final_stage_def team1_won_def)

theorem won_tournaments_any_final_stage_witness:
  "\<lparr>tournament_id = 1, title = ''Cup'', tournament_status = Tournament_Live, tournament_game = None,
     teams = None, timezone = None, prize_pool = None, start_date = 0,
     featured = False, location = [], end_date = 0,
     registration_deadline = None, tournament_format = [], tournament_image = None\<rparr>
   \<in> set (won_tournaments
      [\<lparr>tournament_id = 1, title = ''Cup'', tournament_status = Tournament_Live, tournament_game = None,
         teams = None, timezone = None, prize_pool = None, start_date = 0,
     featured = False, location = [], end_date = 0,
     registration_deadline = None, tournament_format = [], tournament_image = None\<rparr>]
      [final_match\<lparr>status := Live, stage := ''Semifinal''\<rparr>] 1)"
proof -
  have "icontains ''Semifinal'' ''final''" by code_simp
  then have f: "icontains (stage (final_match\<lparr>status := Live, stage := ''Semifinal''\<rparr>)) ''final''" by simp
  show ?thesis
    by (rule won_tournaments_any_final_stage [OF _ _ _ _ _ f]) (simp_all add: final_match_def sql_gt_def)
qed

end
