(* ===== verification/Pages.thy ===== *)
theory Pages
  imports Schedule Stats
begin

text \<open>
  The read-only pages of \<open>src/GENZE/core/views.py\<close> that filter, order and count rows:
  \<open>teams_page\<close> (lines 35--153), the whole of \<open>team_detail\<close> (lines 155--214),
  \<open>schedule_page\<close> (lines 217--295), \<open>results_page\<close> (lines 449--505) and
  \<open>team_tournaments\<close> (lines 508--546). Each page is the context dictionary it hands to
  \<open>render\<close>, as a record; \<open>get_object_or_404\<close> gives \<open>Http404\<close>, an exception a
  page lets escape is \<open>Inl\<close>.

  Lookups are translated as the database evaluates them. \<open>fk__name__iexact = g\<close>
  follows the foreign key and compares the name case-insensitively
  (\<open>game_name_iexact\<close>); \<open>fk__iexact = g\<close> ends on the foreign key itself, which
  supports only the related lookups (exact, in, the comparisons, isnull), so building the
  filter raises \<open>FieldError\<close> (\<open>build_lookup\<close>); \<open>fk_id = s\<close> with a string prepares \<open>s\<close> with
  \<open>int()\<close> and raises \<open>ValueError\<close> when that fails (\<open>key_param\<close>).
  \<open>aggregate(Sum(...))\<close> ignores NULLs and is \<open>None\<close> on no value (\<open>sql_sum\<close>).
  \<open>values(f).distinct().count()\<close> counts the distinct values of \<open>f\<close>, NULL included.
  Ordering by a nullable column puts NULL first ascending and last descending (the
  SQLite order). Rows equal in the ordering keys keep table order.
\<close>

datatype 'a page = Render 'a | Http404

subsection \<open>Lookups shared by the pages\<close>

definition iexact :: "string \<Rightarrow> string \<Rightarrow> bool" where
  "iexact a b \<longleftrightarrow> map lower_char a = map lower_char b"

definition get_team :: "team_row list \<Rightarrow> ident \<Rightarrow> team_row page" where
  "get_team ts i = (case find (\<lambda>t. team_id t = i) ts of None \<Rightarrow> Http404 | Some t \<Rightarrow> Render t)"

definition game_name_iexact :: "game_row list \<Rightarrow> ident option \<Rightarrow> string \<Rightarrow> bool" where
  "game_name_iexact gs gi g =
     (case gi of None \<Rightarrow> False | Some i \<Rightarrow> list_ex (\<lambda>x. game_id x = i \<and> iexact (game_name x) g) gs)"

text \<open>A condition on the team row a match's \<open>team1\<close> or \<open>team2\<close> key joins.\<close>

definition team_has :: "team_row list \<Rightarrow> (team_row \<Rightarrow> bool) \<Rightarrow> ident \<Rightarrow> bool" where
  "team_has ts P i = list_ex (\<lambda>t. team_id t = i \<and> P t) ts"

subsection \<open>Building a lookup\<close>

text \<open>\<open>Query.build_filter\<close> splits a keyword argument at \<open>__\<close> (\<open>LOOKUP_SEP\<close>),
  follows the fields and relations the path names (\<open>names_to_path\<close>: a first name that
  is no field of the model raises \<open>FieldError\<close>; after a relation, a name that is no
  field of the related model starts the lookups, and after any other field all the rest
  are lookups) and reads what remains as transforms and a final lookup, \<open>exact\<close> when
  nothing remains (\<open>build_lookup\<close>). A relation registers only the related lookups and no
  transform (\<open>ForeignObject.get_class_lookups\<close>); every other column has the lookups of
  \<open>Field\<close>, and the date columns the date transforms. A final name that is no lookup of
  the column is tried as a transform followed by \<open>exact\<close>; anything else raises
  \<open>FieldError\<close>. \<open>pk\<close> names the primary key.\<close>

fun split_lookup :: "string \<Rightarrow> string \<Rightarrow> string list" where
  "split_lookup acc [] = [rev acc]"
| "split_lookup acc [c] = [rev (c # acc)]"
| "split_lookup acc (c # c' # cs) =
     (if c = CHR ''_'' \<and> c' = CHR ''_'' then rev acc # split_lookup [] cs
      else split_lookup (c # acc) (c' # cs))"

definition field_of :: "model_name \<Rightarrow> string \<Rightarrow> column option" where
  "field_of mdl p = map_of (model_fields mdl) (if p = ''pk'' then ''id'' else p)"

fun resolve_path :: "model_name \<Rightarrow> string list \<Rightarrow> error + column \<times> string list" where
  "resolve_path mdl [] = Inl FieldError"
| "resolve_path mdl (p # ps) =
     (case field_of mdl p of
        None \<Rightarrow> Inl FieldError
      | Some (Key_column m') \<Rightarrow>
          (case ps of
             q # _ \<Rightarrow> if field_of m' q \<noteq> None then resolve_path m' ps else Inr (Key_column m', ps)
           | [] \<Rightarrow> Inr (Key_column m', []))
      | Some c \<Rightarrow> Inr (c, ps))"

definition date_transforms :: "(string \<times> column) list" where
  "date_transforms =
     map (\<lambda>n. (n, Number_column)) [''year'', ''iso_year'', ''month'', ''day'', ''week_day'', ''iso_week_day'', ''week'', ''quarter'']"

definition transforms :: "column \<Rightarrow> (string \<times> column) list" where
  "transforms c =
     (case c of
        Date_column \<Rightarrow> date_transforms
      | DateTime_column \<Rightarrow>
          (''date'', Date_column) # (''time'', Time_column) # date_transforms @
          map (\<lambda>n. (n, Number_column)) [''hour'', ''minute'', ''second'']
      | Time_column \<Rightarrow> map (\<lambda>n. (n, Number_column)) [''hour'', ''minute'', ''second'']
      | _ \<Rightarrow> [])"

fun apply_transforms :: "column \<Rightarrow> string list \<Rightarrow> error + column" where
  "apply_transforms c [] = Inr c"
| "apply_transforms c (t # ts) =
     (case map_of (transforms c) t of None \<Rightarrow> Inl FieldError | Some c' \<Rightarrow> apply_transforms c' ts)"

definition field_lookups :: "string list" where
  "field_lookups =
     [''exact'', ''iexact'', ''gt'', ''gte'', ''lt'', ''lte'', ''in'', ''contains'', ''icontains'',
      ''startswith'', ''istartswith'', ''endswith'', ''iendswith'', ''range'', ''isnull'',
      ''regex'', ''iregex'']"

definition related_lookups :: "string list" where
  "related_lookups = [''exact'', ''in'', ''gt'', ''gte'', ''lt'', ''lte'', ''isnull'']"

definition lookups_of :: "column \<Rightarrow> string list" where
  "lookups_of c = (case c of Key_column _ \<Rightarrow> related_lookups | _ \<Rightarrow> field_lookups)"

definition build_lookup :: "model_name \<Rightarrow> string \<Rightarrow> error + column \<times> string" where
  "build_lookup mdl kw =
     (case resolve_path mdl (split_lookup [] kw) of
        Inl e \<Rightarrow> Inl e
      | Inr (c, ls) \<Rightarrow>
          (let ts = butlast ls; l = (if ls = [] then ''exact'' else last ls) in
           case apply_transforms c ts of
             Inl e \<Rightarrow> Inl e
           | Inr c' \<Rightarrow>
               if l \<in> set (lookups_of c') then Inr (c', l)
               else (case map_of (transforms c') l of
                       None \<Rightarrow> Inl FieldError
                     | Some c'' \<Rightarrow> Inr (c'', ''exact''))))"

text \<open>A text condition on a nullable key: the database casts the key to text.\<close>

definition key_iexact :: "ident option \<Rightarrow> string \<Rightarrow> bool" where
  "key_iexact k g = (case k of None \<Rightarrow> False | Some i \<Rightarrow> iexact (str_of_nat i) g)"

definition key_param :: "string \<Rightarrow> error + int" where
  "key_param s = (case py_int_of_string s of None \<Rightarrow> Inl ValueError | Some k \<Rightarrow> Inr k)"

definition sql_sum :: "int option list \<Rightarrow> int option" where
  "sql_sum xs = (if list_all (\<lambda>x. x = None) xs then None else Some (sum_list (map (case_option 0 id) xs)))"

text \<open>\<open>aggregate(Sum('prize_pool'))['prize_pool__sum'] or 0\<close>.\<close>

definition prize_total :: "tournament_row list \<Rightarrow> int" where
  "prize_total ts = (case sql_sum (map prize_pool ts) of None \<Rightarrow> 0 | Some v \<Rightarrow> v)"

definition distinct_count :: "'a list \<Rightarrow> nat" where
  "distinct_count xs = length (remdups xs)"

text \<open>\<open>if c: qs = qs.filter(P)\<close>.\<close>

definition filter_if :: "bool \<Rightarrow> ('a \<Rightarrow> bool) \<Rightarrow> 'a list \<Rightarrow> 'a list" where
  "filter_if c P xs = (if c then filter P xs else xs)"

text \<open>A loop that appends one result per iteration and lets the first exception escape.\<close>

fun collect :: "('e + 'a) list \<Rightarrow> 'e + 'a list" where
  "collect [] = Inr []"
| "collect (x # xs) = (case x of Inl e \<Rightarrow> Inl e | Inr a \<Rightarrow> (case collect xs of Inl e \<Rightarrow> Inl e | Inr as \<Rightarrow> Inr (a # as)))"

subsection \<open>teams_page\<close>

record ranked_team =
  ranked_stats :: team_stats
  next_match_date :: "instant option"
  ranked_win_rate :: nat
  ranked_points_delta :: nat

record teams_context =
  tc_tab :: string
  tc_game_filter :: "string option"
  tc_highlight_id :: "string option"
  professional_teams_count :: nat
  countries_count :: nat
  tc_matches_played :: nat
  tc_total_prize_pool :: int
  championships_count :: nat
  tc_top_teams :: "ranked_team list"
  tc_top_performers :: "ranked_team list"
  tc_teams :: "ranked_team list"
  tc_games :: "game_row list"

text \<open>Lines 55--58: the earliest \<open>match_time\<close> not before now of the team's matches.\<close>

definition next_match :: "instant \<Rightarrow> match_row list \<Rightarrow> ident \<Rightarrow> instant option" where
  "next_match now ms t =
     (case sort_key match_time (filter (\<lambda>m. (team1 m = t \<or> team2 m = t) \<and> now \<le> match_time m) ms) of
        [] \<Rightarrow> None
      | m # _ \<Rightarrow> Some (match_time m))"

text \<open>Lines 36--52: the three base querysets and the game filter.\<close>

definition teams_qs :: "db \<Rightarrow> string option \<Rightarrow> team_row list" where
  "teams_qs d g =
     filter_if (truthy g) (\<lambda>t. game_name_iexact (games d) (team_game t) (the g)) (team_table d)"

definition teams_matches_qs :: "db \<Rightarrow> string option \<Rightarrow> match_row list" where
  "teams_matches_qs d g =
     filter_if (truthy g)
       (\<lambda>m. team_has (team_table d) (\<lambda>t. game_name_iexact (games d) (team_game t) (the g)) (team1 m) \<or>
            team_has (team_table d) (\<lambda>t. game_name_iexact (games d) (team_game t) (the g)) (team2 m))
       (filter (\<lambda>m. status m \<in> {Completed, Live, Upcoming}) (matches d))"

definition game_tournaments_qs :: "db \<Rightarrow> string option \<Rightarrow> tournament_row list" where
  "game_tournaments_qs d g =
     filter_if (truthy g) (\<lambda>tr. game_name_iexact (games d) (tournament_game tr) (the g)) (tournaments d)"

text \<open>Lines 101--126: a ranked row carries its next match, its win rate and its points
  delta (the attributes the loops set on the cached rows).\<close>

definition ranked_rows :: "instant \<Rightarrow> match_row list \<Rightarrow> team_row list \<Rightarrow> ranked_team list" where
  "ranked_rows now ms ts =
     map (\<lambda>s. \<lparr>ranked_stats = s, next_match_date = next_match now ms (team_id (stats_team s)),
              ranked_win_rate = ranking_win_rate s,
              ranked_points_delta = points_delta now ms (team_id (stats_team s))\<rparr>)
       (team_rankings ms ts)"

definition teams_page :: "instant \<Rightarrow> request \<Rightarrow> db \<Rightarrow> teams_context" where
  "teams_page now rq d =
     (let tab = the (str_or (param (get_params rq) ''tab'') (Some ''rankings''));
          g = param (get_params rq) ''game'';
          ts = teams_qs d g;
          ranked = ranked_rows now (matches d) ts;
          top = take 4 ranked in
      \<lparr>tc_tab = tab, tc_game_filter = g, tc_highlight_id = param (get_params rq) ''highlight'',
       professional_teams_count = length ts,
       countries_count = distinct_count (filter (\<lambda>r. r \<noteq> []) (List.map_filter region ts)),
       tc_matches_played = length (filter (\<lambda>m. status m = Completed) (teams_matches_qs d g)),
       tc_total_prize_pool = prize_total (game_tournaments_qs d g),
       championships_count =
         length (filter (\<lambda>tr. tournament_status tr = Tournament_Completed) (game_tournaments_qs d g)),
       tc_top_teams = top, tc_top_performers = top,
       tc_teams = (if tab = ''all'' then ranked else top),
       tc_games = games d\<rparr>)"

subsection \<open>team_detail\<close>

record team_detail_context =
  td_team :: team_row
  td_players :: "player_row list"
  td_matches_played :: nat
  td_wins :: nat
  td_championships :: nat
  td_win_rate :: nat
  td_upcoming_matches :: "match_row list"
  td_recent_results :: "match_row list"
  td_tournaments :: "participant_row list"

text \<open>\<open>order_by('-completed_at')\<close>: latest first, NULL last.\<close>

definition completed_desc :: "match_row \<Rightarrow> int \<times> int" where
  "completed_desc m = (case completed_at m of None \<Rightarrow> (1, 0) | Some c \<Rightarrow> (0, - c))"

definition team_detail :: "db \<Rightarrow> ident \<Rightarrow> team_detail_context page" where
  "team_detail d t =
     (case get_team (team_table d) t of
        Http404 \<Rightarrow> Http404
      | Render tm \<Rightarrow>
          (let ms = matches d in
           Render \<lparr>td_team = tm, td_players = filter (\<lambda>p. player_team p = t) (players d),
             td_matches_played = detail_matches_played ms t, td_wins = detail_wins ms t,
             td_championships = detail_championships ms t,
             td_win_rate = win_rate (detail_wins ms t) (detail_matches_played ms t),
             td_upcoming_matches =
               take 5 (sort_key match_time (filter (\<lambda>m. status m = Upcoming \<and> (team1 m = t \<or> team2 m = t)) ms)),
             td_recent_results =
               take 5 (sort_key completed_desc (filter (\<lambda>m. status m = Completed \<and> (team1 m = t \<or> team2 m = t)) ms)),
             td_tournaments = filter (\<lambda>p. participant_team p = t) (participants d)\<rparr>))"

subsection \<open>schedule_page\<close>

record schedule_context =
  sc_grouped_matches :: "(int \<times> match_row list) list"
  sc_upcoming_sidebar :: "(match_row \<times> string) list"
  sc_games :: "game_row list"
  sc_regions :: "string list"
  sc_game_filter :: string
  sc_region_filter :: string
  sc_timeframe_filter :: string
  sc_location_filter :: string
  sc_matches_today :: nat
  sc_matches_week :: nat
  sc_timezones_count :: nat

text \<open>The year and month of a day ordinal.\<close>

definition year_month :: "int \<Rightarrow> int \<times> int" where
  "year_month o0 = (case ord_to_ymd o0 of (y, m, _) \<Rightarrow> (y, m))"

text \<open>Lines 218--249. \<open>date.today()\<close> is the date in the site zone \<open>cz\<close> (Django sets
  the process time zone to \<open>TIME_ZONE\<close>), \<open>now.year\<close> and \<open>now.month\<close> are those of
  the UTC datetime \<open>timezone.now()\<close>, and the \<open>match_time__date\<close>, \<open>__year\<close> and
  \<open>__month\<close> lookups read \<open>match_time\<close> in \<open>cz\<close>.\<close>

definition schedule_qs :: "zone \<Rightarrow> instant \<Rightarrow> db \<Rightarrow> string \<Rightarrow> string \<Rightarrow> string \<Rightarrow> match_row list" where
  "schedule_qs cz now d g r tf =
     (let gs = games d; ts = team_table d; today = date_of cz now;
          day = (\<lambda>m. date_of cz (match_time m));
          q1 = filter_if (g \<noteq> [])
                 (\<lambda>m. team_has ts (\<lambda>t. game_name_iexact gs (team_game t) g) (team1 m) \<or>
                      team_has ts (\<lambda>t. game_name_iexact gs (team_game t) g) (team2 m) \<or>
                      game_name_iexact gs (match_game m) g) (matches d);
          q2 = filter_if (r \<noteq> [])
                 (\<lambda>m. team_has ts (\<lambda>t. case region t of None \<Rightarrow> False | Some x \<Rightarrow> iexact x r) (team1 m) \<or>
                      team_has ts (\<lambda>t. case region t of None \<Rightarrow> False | Some x \<Rightarrow> iexact x r) (team2 m)) q1;
          q3 = (if tf = ''today'' then filter (\<lambda>m. day m = today) q2
                else if tf = ''week'' then filter (\<lambda>m. today \<le> day m \<and> day m \<le> today + 7) q2
                else if tf = ''month'' then filter (\<lambda>m. year_month (day m) = year_month (date_of utc now)) q2
                else q2) in
      sort_key match_time q3)"

text \<open>Lines 217--295: the grid and the sidebar of \<open>Schedule\<close> over \<open>qs\<close>, the regions, and
  the hero counts, whose \<open>timezone.now().date()\<close> is the UTC date.\<close>

definition schedule_page :: "zone \<Rightarrow> instant \<Rightarrow> request \<Rightarrow> db \<Rightarrow> schedule_context" where
  "schedule_page cz now rq d =
     (let p = (\<lambda>k. the (str_or (param (get_params rq) k) (Some [])));
          g = p ''game''; r = p ''region''; tf = p ''timeframe''; loc = p ''location'';
          qs = schedule_qs cz now d g r tf;
          today = date_of utc now;
          day = (\<lambda>m. date_of cz (match_time m)) in
      \<lparr>sc_grouped_matches = grouped_matches (left_matches qs),
       sc_upcoming_sidebar = upcoming_sidebar now qs,
       sc_games = games d,
       sc_regions = sort (remdups (filter (\<lambda>x. x \<noteq> []) (List.map_filter region (team_table d)))),
       sc_game_filter = g, sc_region_filter = r, sc_timeframe_filter = tf, sc_location_filter = loc,
       sc_matches_today = length (filter (\<lambda>m. day m = today) (matches d)),
       sc_matches_week = length (filter (\<lambda>m. today \<le> day m \<and> day m \<le> today + 7) (matches d)),
       sc_timezones_count = 12\<rparr>)"

subsection \<open>results_page\<close>

record results_context =
  rs_live_matches :: "match_row list"
  rs_recent_results :: "match_row list"
  rs_brackets :: "(tournament_row \<times> match_row list) list"
  rs_games :: "game_row list"
  rs_game_filter :: "string option"

text \<open>\<open>if team_id: qs = qs.filter(Q(team1_id=team_id) | Q(team2_id=team_id))\<close>.\<close>

definition team_key_filter :: "string option \<Rightarrow> match_row list \<Rightarrow> error + match_row list" where
  "team_key_filter tid ms =
     (if truthy tid then
        (case key_param (the tid) of
           Inl e \<Rightarrow> Inl e
         | Inr k \<Rightarrow> Inr (filter (\<lambda>m. int (team1 m) = k \<or> int (team2 m) = k) ms))
      else Inr ms)"

text \<open>Lines 468--474: \<open>Q(team1__game__iexact=g) | Q(team2__game__iexact=g)\<close>. Both
  lookups are built, left to right, before the query runs; the matches kept are those in
  which either team's game key reads as \<open>g\<close> ignoring case.\<close>

definition results_game_filter ::
  "team_row list \<Rightarrow> string option \<Rightarrow> match_row list \<Rightarrow> error + match_row list" where
  "results_game_filter ts g ms =
     (if truthy g then
        (case build_lookup Match_model ''team1__game__iexact'' of
           Inl e \<Rightarrow> Inl e
         | Inr _ \<Rightarrow>
         (case build_lookup Match_model ''team2__game__iexact'' of
           Inl e \<Rightarrow> Inl e
         | Inr _ \<Rightarrow>
             Inr (filter (\<lambda>m. team_has ts (\<lambda>t. key_iexact (team_game t) (the g)) (team1 m) \<or>
                              team_has ts (\<lambda>t. key_iexact (team_game t) (the g)) (team2 m)) ms)))
      else Inr ms)"

text \<open>Lines 480--496: a bracket per tournament of the game (by name), with its upcoming
  matches.\<close>

definition bracket :: "db \<Rightarrow> string option \<Rightarrow> tournament_row \<Rightarrow> error + tournament_row \<times> match_row list" where
  "bracket d tid tr =
     (case team_key_filter tid (sort_key match_time
             (filter (\<lambda>m. tournament m = tournament_id tr \<and> status m = Upcoming) (matches d))) of
        Inl e \<Rightarrow> Inl e
      | Inr ms \<Rightarrow> Inr (tr, ms))"

definition results_page :: "request \<Rightarrow> db \<Rightarrow> error + results_context" where
  "results_page rq d =
     (let tid = param (get_params rq) ''team''; g = param (get_params rq) ''game'';
          live = sort_key match_time (filter (\<lambda>m. status m = Live) (matches d));
          recent = sort_key (\<lambda>m. - match_time m) (filter (\<lambda>m. status m = Completed) (matches d));
          tqs = filter_if (truthy g) (\<lambda>tr. game_name_iexact (games d) (tournament_game tr) (the g)) (tournaments d) in
      case results_game_filter (team_table d) g live of
        Inl e \<Rightarrow> Inl e
      | Inr live1 \<Rightarrow>
      (case results_game_filter (team_table d) g recent of
        Inl e \<Rightarrow> Inl e
      | Inr recent1 \<Rightarrow>
      (case team_key_filter tid live1 of
        Inl e \<Rightarrow> Inl e
      | Inr live2 \<Rightarrow>
      (case team_key_filter tid recent1 of
        Inl e \<Rightarrow> Inl e
      | Inr recent2 \<Rightarrow>
      (case collect (map (bracket d tid) tqs) of
        Inl e \<Rightarrow> Inl e
      | Inr bs \<Rightarrow> Inr \<lparr>rs_live_matches = live2, rs_recent_results = recent2, rs_brackets = bs,
                     rs_games = games d, rs_game_filter = g\<rparr>)))))"

subsection \<open>team_tournaments\<close>

record team_tournaments_context =
  tt_team :: team_row
  tt_matches_played :: nat
  tt_matches_won :: nat
  tt_win_rate :: nat
  tt_tournaments_played :: nat
  tt_tournaments_won :: nat

text \<open>Lines 530--532: the tournaments having a match of the team.\<close>

definition played_tournaments :: "tournament_row list \<Rightarrow> match_row list \<Rightarrow> ident \<Rightarrow> tournament_row list" where
  "played_tournaments ts ms t =
     filter (\<lambda>tr. list_ex (\<lambda>m. tournament m = tournament_id tr \<and> (team1 m = t \<or> team2 m = t)) ms) ts"

definition team_tournaments :: "db \<Rightarrow> ident \<Rightarrow> team_tournaments_context page" where
  "team_tournaments d t =
     (case get_team (team_table d) t of
        Http404 \<Rightarrow> Http404
      | Render tm \<Rightarrow>
          (let ms = matches d in
           Render \<lparr>tt_team = tm, tt_matches_played = detail_matches_played ms t,
             tt_matches_won = detail_wins ms t,
             tt_win_rate = win_rate (detail_wins ms t) (detail_matches_played ms t),
             tt_tournaments_played = distinct_count (played_tournaments (tournaments d) ms t),
             tt_tournaments_won = distinct_count (won_tournaments (tournaments d) ms t)\<rparr>))"

text \<open>Two Valorant teams (game 3) playing a live match, a request with no parameter
  and a request filtering by the game Valorant.\<close>

definition demo_game :: game_row where
  "demo_game = \<lparr>game_id = 3, game_name = ''Valorant''\<rparr>"

definition valorant_db :: db where
  "valorant_db = views_db\<lparr>games := [demo_game],
     team_table := [demo_team\<lparr>team_game := Some 3\<rparr>, demo_team\<lparr>team_id := 2, name := ''Bravo'', team_game := Some 3\<rparr>],
     matches := [demo_match\<lparr>status := Live\<rparr>]\<rparr>"

definition plain_request :: request where
  "plain_request = \<lparr>is_post = False, get_params = [], post_params = [], auth_user = None\<rparr>"

definition valorant_request :: request where
  "valorant_request = \<lparr>is_post = False, get_params = [(''game'', ''Valorant'')], post_params = [], auth_user = None\<rparr>"

subsection \<open>Lemmas on the lookups\<close>

lemma collect_map_Inr [simp]: "collect (map (\<lambda>x. Inr (f x)) xs) = Inr (map f xs)"
  by (induction xs) simp_all

lemma team_key_filter_None [simp]: "team_key_filter None ms = Inr ms"
  by (simp add: team_key_filter_def truthy_def)

lemma bracket_None:
  "bracket d None = (\<lambda>tr. Inr (tr, sort_key match_time
     (filter (\<lambda>m. tournament m = tournament_id tr \<and> status m = Upcoming) (matches d))))"
  by (rule ext) (simp add: bracket_def)

subsection \<open>Lemmas on the pages\<close>

text \<open>The tournaments \<open>team_tournaments\<close> counts as won are among those it counts as
  played, and its rates are bounded.\<close>

lemma game_key_lookups:
  "build_lookup Match_model ''team1__game__iexact'' = Inl FieldError"
  "build_lookup Match_model ''team2__game__iexact'' = Inl FieldError"
  "build_lookup Team_model ''game__iexact'' = Inl FieldError"
  "build_lookup Tournament_model ''game__name__iexact'' = Inr (Text_column, ''iexact'')"
  by code_simp+

lemma results_game_filter_error:
  "truthy g \<Longrightarrow> results_game_filter ts g ms = Inl FieldError"
  by (simp add: results_game_filter_def game_key_lookups)

lemma won_subset_played: "set (won_tournaments ts ms t) \<subseteq> set (played_tournaments ts ms t)"
  by (auto simp: won_tournaments_def played_tournaments_def list_ex_iff)

lemma team_tournaments_bounds:
  assumes "team_tournaments d t = Render c"
  shows "tt_tournaments_won c \<le> tt_tournaments_played c \<and> tt_matches_won c \<le> tt_matches_played c \<and>
    tt_win_rate c \<le> 1000"
proof -
  have "card (set (won_tournaments (tournaments d) (matches d) t)) \<le>
        card (set (played_tournaments (tournaments d) (matches d) t))"
    by (rule card_mono [OF _ won_subset_played]) simp
  with assms show ?thesis
    by (auto simp: team_tournaments_def distinct_count_def length_remdups_card_conv detail_wins_le_played Let_def
        win_rate_le_1000 split: page.splits)
qed

text \<open>\<open>schedule_page\<close> reads the \<open>location\<close> parameter only to echo it: two requests
  that differ in nothing else give the same page but for that echo.\<close>

lemma schedule_page_location_ignored:
  assumes "\<And>k. k \<noteq> ''location'' \<Longrightarrow> param (get_params rq') k = param (get_params rq) k"
  shows "schedule_page cz now rq' d =
    (schedule_page cz now rq d)\<lparr>sc_location_filter := sc_location_filter (schedule_page cz now rq' d)\<rparr>"
proof -
  have "param (get_params rq') ''game'' = param (get_params rq) ''game''"
    "param (get_params rq') ''region'' = param (get_params rq) ''region''"
    "param (get_params rq') ''timeframe'' = param (get_params rq) ''timeframe''"
    using assms by simp_all
  then show ?thesis by (simp add: schedule_page_def Let_def)
qed

text \<open>With the site zone at UTC+05:30, at 19:59 UTC on 31 March 2024 (01:29 on 1 April in
  the site zone), the "today" filter of the schedule shows the match of 01:30 on 1 April,
  while the hero's "matches today", which compares with the UTC date, counts none.\<close>

lemma schedule_today_differs_from_hero:
  "schedule_qs (\<lambda>_. 19800) 1711915140 (views_db\<lparr>matches := [late_match]\<rparr>) [] [] ''today'' = [late_match] \<and>
   sc_matches_today (schedule_page (\<lambda>_. 19800) 1711915140 plain_request (views_db\<lparr>matches := [late_match]\<rparr>)) = 0"
proof -
  have l: "date_of (\<lambda>_. 19800) (match_time late_match) = 738977" "date_of (\<lambda>_. 19800) 1711915140 = 738977"
    "date_of utc 1711915140 = 738976"
    by code_simp+
  then show ?thesis
    by (simp add: schedule_qs_def schedule_page_def filter_if_def plain_request_def param_def str_or_def Let_def)
qed

end
