(* ===== verification/Register.thy ===== *)
theory Register
  imports Pages "HOL-Library.While_Combinator"
begin

text \<open>
  \<open>register_page\<close> of \<open>src/GENZE/core/views.py\<close> (lines 548--608). A POST naming a
  team, a tag and a game creates the team (\<open>Team.objects.create\<close>), then runs the loop
  \<open>for i in range(1, 6)\<close> that creates a player for every index whose name is posted or
  whose avatar is uploaded, and redirects to the team's highlighted row of
  \<open>teams_page\<close>; any other request renders the registration page with the tournaments
  open for registration. \<open>request.FILES\<close> is the list \<open>fs\<close> of uploaded files, each the
  field name and the stored file name (a \<open>File\<close> is true when its name is non-empty).
  The loop is the \<open>while_option\<close> of its counter and the player table, so the page's
  result is \<open>None\<close> exactly when the loop would not stop; the lemmas show it always
  stops, after five iterations, and equals a \<open>fold\<close> over \<open>[1..<6]\<close>.
\<close>

type_synonym uploads = "(string \<times> string) list"

record register_context =
  rg_open_tournaments :: "tournament_row list"
  rg_games :: "game_row list"
  rg_open_tournaments_count :: nat
  rg_total_prize_pool :: int
  rg_registration_deadline_hours :: nat

datatype register_response =
    Redirect string
  | Render_register_page register_context
  | Register_not_found

text \<open>The key \<open>Model.objects.create\<close> gives a new row: one more than the largest.\<close>

definition next_id :: "ident list \<Rightarrow> ident" where
  "next_id ks = Suc (foldr max ks 0)"

text \<open>Lines 560--570.\<close>

definition new_team ::
  "team_row list \<Rightarrow> string \<Rightarrow> string \<Rightarrow> ident \<Rightarrow> string option \<Rightarrow> string option \<Rightarrow> string option \<Rightarrow>
   string option \<Rightarrow> team_row" where
  "new_team ts nm tg gid rg desc bn lg =
     \<lparr>team_id = next_id (map team_id ts), name = nm, team_game = Some gid, region = rg, tag = Some tg,
      description = desc, banner = bn, logo = lg, founded = None, status_indicator = Indicator_none,
      rank = None\<rparr>"

text \<open>Lines 578--583: the player of index \<open>i\<close>, named \<open>'Player i'\<close> when no name is
  posted.\<close>

definition new_player ::
  "player_row list \<Rightarrow> ident \<Rightarrow> nat \<Rightarrow> string option \<Rightarrow> string option \<Rightarrow> string option \<Rightarrow> player_row" where
  "new_player ps t i nm rl av =
     \<lparr>player_id = next_id (map player_id ps), player_name = the (str_or nm (Some (''Player '' @ str_of_nat i))),
      player_role = str_or rl (Some []), player_team = t, player_avatar = av,
      player_email = ''no-email@example.com'', discord = [], is_substitute = False\<rparr>"

text \<open>\<open>request.POST.get(f'{field}{i}')\<close> and \<open>request.FILES.get(f'player_avatar_{i}')\<close>.\<close>

definition player_post :: "request \<Rightarrow> string \<Rightarrow> nat \<Rightarrow> string option" where
  "player_post rq f i = param (post_params rq) (f @ str_of_nat i)"

definition player_file :: "uploads \<Rightarrow> nat \<Rightarrow> string option" where
  "player_file fs i = param fs (''player_avatar_'' @ str_of_nat i)"

text \<open>\<open>if player_name or player_avatar\<close>.\<close>

definition player_posted :: "request \<Rightarrow> uploads \<Rightarrow> nat \<Rightarrow> bool" where
  "player_posted rq fs i \<longleftrightarrow> truthy (player_post rq ''player_name_'' i) \<or> truthy (player_file fs i)"

text \<open>One iteration of the loop of lines 573--583.\<close>

definition player_step :: "request \<Rightarrow> uploads \<Rightarrow> ident \<Rightarrow> nat \<times> player_row list \<Rightarrow> nat \<times> player_row list" where
  "player_step rq fs t s =
     (case s of (i, ps) \<Rightarrow>
        (Suc i, if player_posted rq fs i
                then ps @ [new_player ps t i (player_post rq ''player_name_'' i) (player_post rq ''player_role_'' i)
                             (player_file fs i)]
                else ps))"

definition create_players :: "request \<Rightarrow> uploads \<Rightarrow> ident \<Rightarrow> player_row list \<Rightarrow> player_row list option" where
  "create_players rq fs t ps =
     map_option snd (while_option (\<lambda>(i, _). i < 6) (player_step rq fs t) (1, ps))"

text \<open>Lines 587--608: the context of the rendered page.\<close>

definition register_page_context :: "db \<Rightarrow> register_context" where
  "register_page_context d =
     (let ot = filter (\<lambda>tr. tournament_status tr = Registration_Open) (tournaments d) in
      \<lparr>rg_open_tournaments = ot, rg_games = games d, rg_open_tournaments_count = length ot,
       rg_total_prize_pool = prize_total ot, rg_registration_deadline_hours = 48\<rparr>)"

text \<open>Lines 548--608. \<open>get_object_or_404(Game, pk=team_game_id)\<close> prepares the posted
  key with \<open>int()\<close>.\<close>

definition register_page :: "request \<Rightarrow> uploads \<Rightarrow> db \<Rightarrow> (error + register_response \<times> db) option" where
  "register_page rq fs d =
     (let pp = post_params rq; nm = param pp ''teamName''; tg = param pp ''teamTag'';
          gid = param pp ''teamGame'' in
      if is_post rq \<and> truthy nm \<and> truthy tg \<and> truthy gid then
        (case key_param (the gid) of
           Inl e \<Rightarrow> Some (Inl e)
         | Inr k \<Rightarrow>
             (case find (\<lambda>x. int (game_id x) = k) (games d) of
                None \<Rightarrow> Some (Inr (Register_not_found, d))
              | Some gm \<Rightarrow>
                  (let tm = new_team (team_table d) (the nm) (the tg) (game_id gm) (param pp ''teamRegion'')
                              (param pp ''teamDescription'') (param fs ''banner'') (param fs ''logo'');
                       d1 = d\<lparr>team_table := team_table d @ [tm]\<rparr> in
                   case create_players rq fs (team_id tm) (players d1) of
                     None \<Rightarrow> None
                   | Some ps \<Rightarrow>
                       Some (Inr (Redirect (''/teams/?highlight='' @ str_of_nat (team_id tm) @ ''&tab=rankings''),
                                  d1\<lparr>players := ps\<rparr>)))))
      else Some (Inr (Render_register_page (register_page_context d), d)))"

text \<open>The database of \<open>Views\<close> holding the game Valorant, and a registration of team
  Nova with a named first player and a second player known only by an uploaded avatar.\<close>

definition register_db :: db where
  "register_db = views_db\<lparr>games := [demo_game]\<rparr>"

definition team_request :: request where
  "team_request = \<lparr>is_post = True, get_params = [],
     post_params = [(''teamName'', ''Nova''), (''teamTag'', ''NVA''), (''teamGame'', ''3''),
                    (''player_name_1'', ''Ace''), (''player_role_2'', ''Support'')],
     auth_user = None\<rparr>"

definition team_uploads :: uploads where
  "team_uploads = [(''player_avatar_2'', ''p2.png'')]"

subsection \<open>The player loop\<close>

lemma next_id_fresh: "k \<in> set ks \<Longrightarrow> k < next_id ks"
  using foldr_max_ge [of k ks] by (simp add: next_id_def)

lemma player_step_Suc [simp]: "fst (player_step rq fs t (i, ps)) = Suc i"
  by (simp add: player_step_def)

text \<open>The loop from counter \<open>i\<close> stops at 6 with the fold of its body over \<open>[i..<6]\<close>.\<close>

lemma player_loop_from:
  "i \<le> 6 \<Longrightarrow> while_option (\<lambda>(i, _). i < 6) (player_step rq fs t) (i, ps) =
     Some (6, fold (\<lambda>j ps. snd (player_step rq fs t (j, ps))) [i..<6] ps)"
proof (induction "6 - i" arbitrary: i ps)
  case 0
  then have "i = 6" by simp
  then show ?case by (subst while_option_unfold) simp
next
  case (Suc n)
  then have i: "i < 6" by simp
  have s: "player_step rq fs t (i, ps) = (Suc i, snd (player_step rq fs t (i, ps)))"
    by (metis player_step_Suc prod.collapse)
  have "while_option (\<lambda>(i, _). i < 6) (player_step rq fs t) (i, ps) =
        while_option (\<lambda>(i, _). i < 6) (player_step rq fs t) (Suc i, snd (player_step rq fs t (i, ps)))"
    using i s by (subst while_option_unfold) simp
  also have "\<dots> = Some (6, fold (\<lambda>j ps. snd (player_step rq fs t (j, ps))) [Suc i..<6]
                      (snd (player_step rq fs t (i, ps))))"
    using Suc.hyps(1) [of "Suc i"] Suc.hyps(2) i by simp
  finally show ?case using i by (simp add: upt_conv_Cons)
qed

lemma create_players_fold:
  "create_players rq fs t ps = Some (fold (\<lambda>j ps. snd (player_step rq fs t (j, ps))) [1..<6] ps)"
  by (simp add: create_players_def player_loop_from)

text \<open>The fold appends, in index order, one player per index posted, each of team \<open>t\<close>
  with a key above every key before it.\<close>

lemma fold_player_step:
  "\<exists>qs. fold (\<lambda>j ps. snd (player_step rq fs t (j, ps))) js ps = ps @ qs \<and>
     map (\<lambda>p. (player_name p, player_role p, player_avatar p, player_team p)) qs =
       map (\<lambda>i. (the (str_or (player_post rq ''player_name_'' i) (Some (''Player '' @ str_of_nat i))),
                 str_or (player_post rq ''player_role_'' i) (Some []), player_file fs i, t))
         (filter (player_posted rq fs) js) \<and>
     sorted_wrt (<) (map player_id qs) \<and>
     (\<forall>q \<in> set qs. \<forall>p \<in> set ps. player_id p < player_id q)"
proof (induction js arbitrary: ps)
  case Nil
  show ?case by simp
next
  case (Cons j js)
  let ?ps1 = "snd (player_step rq fs t (j, ps))"
  obtain qs where qs: "fold (\<lambda>j ps. snd (player_step rq fs t (j, ps))) js ?ps1 = ?ps1 @ qs"
    "map (\<lambda>p. (player_name p, player_role p, player_avatar p, player_team p)) qs =
       map (\<lambda>i. (the (str_or (player_post rq ''player_name_'' i) (Some (''Player '' @ str_of_nat i))),
                 str_or (player_post rq ''player_role_'' i) (Some []), player_file fs i, t))
         (filter (player_posted rq fs) js)"
    "sorted_wrt (<) (map player_id qs)"
    "\<forall>q \<in> set qs. \<forall>p \<in> set ?ps1. player_id p < player_id q"
    using Cons.IH [of ?ps1] by blast
  show ?case
  proof (cases "player_posted rq fs j")
    case True
    let ?x = "new_player ps t j (player_post rq ''player_name_'' j) (player_post rq ''player_role_'' j) (player_file fs j)"
    have ps1: "?ps1 = ps @ [?x]" using True by (simp add: player_step_def)
    have fresh: "\<forall>p \<in> set ps. player_id p < player_id ?x"
      by (simp add: new_player_def next_id_fresh)
    with qs ps1 True show ?thesis
      by (intro exI [of _ "?x # qs"]) (auto simp: new_player_def)
  next
    case False
    then have "?ps1 = ps" by (simp add: player_step_def)
    with qs False show ?thesis by (intro exI [of _ qs]) simp
  qed
qed

lemma create_players_Some:
  "\<exists>qs. create_players rq fs t ps = Some (ps @ qs) \<and>
     map (\<lambda>p. (player_name p, player_role p, player_avatar p, player_team p)) qs =
       map (\<lambda>i. (the (str_or (player_post rq ''player_name_'' i) (Some (''Player '' @ str_of_nat i))),
                 str_or (player_post rq ''player_role_'' i) (Some []), player_file fs i, t))
         (filter (player_posted rq fs) [1..<6]) \<and>
     (distinct (map player_id ps) \<longrightarrow> distinct (map player_id (ps @ qs)))"
proof -
  obtain qs where qs: "fold (\<lambda>j ps. snd (player_step rq fs t (j, ps))) [1..<6] ps = ps @ qs"
    "map (\<lambda>p. (player_name p, player_role p, player_avatar p, player_team p)) qs =
       map (\<lambda>i. (the (str_or (player_post rq ''player_name_'' i) (Some (''Player '' @ str_of_nat i))),
                 str_or (player_post rq ''player_role_'' i) (Some []), player_file fs i, t))
         (filter (player_posted rq fs) [1..<6])"
    "sorted_wrt (<) (map player_id qs)" "\<forall>q \<in> set qs. \<forall>p \<in> set ps. player_id p < player_id q"
    using fold_player_step by blast
  have "distinct (map player_id qs)" using qs(3) by (simp add: strict_sorted_iff)
  moreover have "set (map player_id ps) \<inter> set (map player_id qs) = {}" using qs(4) by fastforce
  ultimately have "distinct (map player_id ps) \<longrightarrow> distinct (map player_id (ps @ qs))" by simp
  with qs show ?thesis by (auto simp: create_players_fold)
qed

subsection \<open>register_page\<close>

lemma find_game_key:
  "distinct (map game_id gs) \<Longrightarrow> gm \<in> set gs \<Longrightarrow> find (\<lambda>x. int (game_id x) = int (game_id gm)) gs = Some gm"
  by (rule find_key) (simp_all add: distinct_map inj_on_def)

lemma next_id_map_notin [simp]: "next_id (map f xs) \<notin> f ` set xs"
  using next_id_fresh [of "next_id (map f xs)" "map f xs"] by auto

text \<open>A request that is not a POST or lacks the team name, the tag or the game re-renders
  the form, unchanged and with no message; a game key \<open>int()\<close> rejects raises
  \<open>ValueError\<close> (a 500, not a 404), and after the team is created nothing can fail.\<close>

lemma register_page_incomplete:
  "\<not> (is_post rq \<and> truthy (param (post_params rq) ''teamName'') \<and> truthy (param (post_params rq) ''teamTag'') \<and>
      truthy (param (post_params rq) ''teamGame'')) \<Longrightarrow>
   register_page rq fs d = Some (Inr (Render_register_page (register_page_context d), d))"
  unfolding register_page_def Let_def by (simp only: if_False)

lemma register_page_bad_game_key:
  "is_post rq \<Longrightarrow> truthy (param (post_params rq) ''teamName'') \<Longrightarrow> truthy (param (post_params rq) ''teamTag'') \<Longrightarrow>
   param (post_params rq) ''teamGame'' = Some s \<Longrightarrow> s \<noteq> [] \<Longrightarrow> py_int_of_string s = None \<Longrightarrow>
   register_page rq fs d = Some (Inl ValueError)"
  by (simp add: register_page_def key_param_def truthy_def Let_def)

subsection \<open>Properties of register_page\<close>

text \<open>C17. A POST with a team name, a tag and the key of an existing game adds exactly one
  team, under a fresh key and with the posted fields, adds one player of that team for each
  index 1--5 whose name is posted or whose avatar is uploaded (named \<open>Player i\<close> when no
  name is posted, role '' when none is), in index order, changes nothing else, keeps every
  table's keys unique and redirects to that team's highlighted row of the rankings.\<close>

theorem register_page_creates_team:
  assumes "is_post rq"
    and "param (post_params rq) ''teamName'' = Some nm" and "nm \<noteq> []"
    and "param (post_params rq) ''teamTag'' = Some tg" and "tg \<noteq> []"
    and "param (post_params rq) ''teamGame'' = Some (str_of_nat (game_id gm))"
    and "gm \<in> set (games d)" and "keys_unique d"
  shows "\<exists>qs. register_page rq fs d =
      Some (Inr (Redirect (''/teams/?highlight='' @ str_of_nat (next_id (map team_id (team_table d))) @ ''&tab=rankings''),
        d\<lparr>team_table := team_table d @ [new_team (team_table d) nm tg (game_id gm)
                          (param (post_params rq) ''teamRegion'') (param (post_params rq) ''teamDescription'')
                          (param fs ''banner'') (param fs ''logo'')],
          players := players d @ qs\<rparr>)) \<and>
    map (\<lambda>p. (player_name p, player_role p, player_avatar p, player_team p)) qs =
      map (\<lambda>i. (the (str_or (player_post rq ''player_name_'' i) (Some (''Player '' @ str_of_nat i))),
                str_or (player_post rq ''player_role_'' i) (Some []), player_file fs i,
                next_id (map team_id (team_table d))))
        (filter (player_posted rq fs) [1..<6]) \<and>
    keys_unique (d\<lparr>team_table := team_table d @ [new_team (team_table d) nm tg (game_id gm)
                          (param (post_params rq) ''teamRegion'') (param (post_params rq) ''teamDescription'')
                          (param fs ''banner'') (param fs ''logo'')],
          players := players d @ qs\<rparr>)"
proof -
  let ?t = "next_id (map team_id (team_table d))"
  obtain qs where qs: "create_players rq fs ?t (players d) = Some (players d @ qs)"
    "map (\<lambda>p. (player_name p, player_role p, player_avatar p, player_team p)) qs =
       map (\<lambda>i. (the (str_or (player_post rq ''player_name_'' i) (Some (''Player '' @ str_of_nat i))),
                 str_or (player_post rq ''player_role_'' i) (Some []), player_file fs i, ?t))
         (filter (player_posted rq fs) [1..<6])"
    "distinct (map player_id (players d)) \<longrightarrow> distinct (map player_id (players d @ qs))"
    using create_players_Some by blast
  have "distinct (map game_id (games d))" using assms(8) by (simp add: keys_unique_def)
  from find_game_key [OF this assms(7)]
  have g: "find (\<lambda>x. game_id x = game_id gm) (games d) = Some gm" by simp
  have k: "key_param (str_of_nat (game_id gm)) = Inr (int (game_id gm))" by (simp add: key_param_def)
  have "distinct (map team_id (team_table d) @ [?t])"
    using assms(8) by (simp add: keys_unique_def)
  then have u: "keys_unique (d\<lparr>team_table := team_table d @ [new_team (team_table d) nm tg (game_id gm)
                          (param (post_params rq) ''teamRegion'') (param (post_params rq) ''teamDescription'')
                          (param fs ''banner'') (param fs ''logo'')],
          players := players d @ qs\<rparr>)"
    using assms(8) qs(3) by (simp add: keys_unique_def new_team_def)
  have "register_page rq fs d =
      Some (Inr (Redirect (''/teams/?highlight='' @ str_of_nat ?t @ ''&tab=rankings''),
        d\<lparr>team_table := team_table d @ [new_team (team_table d) nm tg (game_id gm)
                          (param (post_params rq) ''teamRegion'') (param (post_params rq) ''teamDescription'')
                          (param fs ''banner'') (param fs ''logo'')],
          players := players d @ qs\<rparr>))"
    using assms(1-6) g k qs(1) by (simp add: register_page_def truthy_def new_team_def Let_def)
  with qs(2) u show ?thesis by blast
qed

theorem register_page_creates_team_witness:
  "\<exists>qs. register_page team_request team_uploads register_db =
      Some (Inr (Redirect (''/teams/?highlight='' @ str_of_nat (next_id (map team_id (team_table register_db))) @ ''&tab=rankings''),
        register_db\<lparr>team_table := team_table register_db @ [new_team (team_table register_db) ''Nova'' ''NVA'' 3
                          None None None None],
          players := players register_db @ qs\<rparr>)) \<and>
    map (\<lambda>p. (player_name p, player_role p, player_avatar p, player_team p)) qs =
      [(''Ace'', Some [], None, 2), (''Player 2'', Some ''Support'', Some ''p2.png'', 2)]"
proof -
  have n: "next_id (map team_id (team_table register_db)) = 2"
    by (simp add: next_id_def register_db_def views_db_def demo_team_def)
  have s3: "str_of_nat 3 = ''3''" by code_simp
  have p: "param (post_params team_request) ''teamGame'' = Some (str_of_nat (game_id demo_game))"
    by (simp add: s3 team_request_def param_def demo_game_def)
  have k: "keys_unique register_db"
    by (simp add: keys_unique_def register_db_def views_db_def demo_tournament_def demo_team_def demo_match_def
        demo_match_reminder_def demo_game_def)
  have posted: "filter (player_posted team_request team_uploads) [1..<6] = [1, 2]" by code_simp
  have names: "map (\<lambda>i. (the (str_or (player_post team_request ''player_name_'' i) (Some (''Player '' @ str_of_nat i))),
                str_or (player_post team_request ''player_role_'' i) (Some []), player_file team_uploads i, 2::nat)) [1, 2] =
      [(''Ace'', Some [], None, 2), (''Player 2'', Some ''Support'', Some ''p2.png'', 2)]" by code_simp
  have "param (post_params team_request) ''teamRegion'' = None" "param (post_params team_request) ''teamDescription'' = None"
    "param team_uploads ''banner'' = None" "param team_uploads ''logo'' = None"
    by (simp_all add: team_request_def team_uploads_def param_def)
  with register_page_creates_team [OF _ _ _ _ _ p, where nm = "''Nova''" and tg = "''NVA''" and fs = team_uploads and d = register_db] k n posted names
  show ?thesis by (simp add: team_request_def param_def register_db_def demo_game_def) (elim exE conjE; intro exI conjI; assumption)
qed

end
