(* ===== verification/Listings.thy ===== *)
theory Listings
  imports Pages
begin

text \<open>
  The listing pages of \<open>src/GENZE/core/views.py\<close>: \<open>home_page\<close> (lines 16--33),
  \<open>tournament_detail_page\<close> and \<open>news_detail\<close> (lines 610--627), \<open>news_page\<close> with
  Django's \<open>Paginator.get_page\<close> (lines 630--638), \<open>tournaments_page\<close> with its
  search, filters, sorting and totals (lines 641--684) and \<open>overall_match_stats\<close>
  (lines 686--785, whose annotate is \<open>overall_annotate_team\<close> of \<open>Stats\<close>). The
  conventions are those of \<open>Pages\<close>; a \<open>NewsArticle\<close>'s \<open>date\<close> is a day ordinal.
\<close>

subsection \<open>home_page\<close>

record home_context =
  featured_tournaments :: "tournament_row list"
  main_article :: "news_row option"
  other_articles :: "news_row list"

text \<open>\<open>NewsArticle.objects.order_by('-date')\<close>.\<close>

definition news_by_date :: "news_row list \<Rightarrow> news_row list" where
  "news_by_date as = sort_key (\<lambda>a. - news_date a) as"

definition home_page :: "db \<Rightarrow> home_context" where
  "home_page d =
     (let main = (case news_by_date (news d) of [] \<Rightarrow> None | a # _ \<Rightarrow> Some a) in
      \<lparr>featured_tournaments = sort_key start_date (filter featured (tournaments d)),
       main_article = main,
       other_articles =
         (case main of
            Some a \<Rightarrow> take 6 (news_by_date (filter (\<lambda>b. news_id b \<noteq> news_id a) (news d)))
          | None \<Rightarrow> take 6 (news_by_date (news d)))\<rparr>)"

subsection \<open>tournament_detail_page and news_detail\<close>

definition tournament_detail_page :: "db \<Rightarrow> ident \<Rightarrow> tournament_row page" where
  "tournament_detail_page d pk =
     (case find (\<lambda>t. tournament_id t = pk) (tournaments d) of None \<Rightarrow> Http404 | Some t \<Rightarrow> Render t)"

definition news_detail :: "db \<Rightarrow> ident \<Rightarrow> news_row page" where
  "news_detail d pk = (case find (\<lambda>a. news_id a = pk) (news d) of None \<Rightarrow> Http404 | Some a \<Rightarrow> Render a)"

subsection \<open>news_page\<close>

record news_page_obj =
  page_articles :: "news_row list"
  page_no :: nat
  page_count :: nat

text \<open>\<open>Paginator.num_pages\<close> with no orphans and an allowed empty first page:
  \<open>ceil(max(1, count) / per_page)\<close>.\<close>

definition num_pages :: "nat \<Rightarrow> nat \<Rightarrow> nat" where
  "num_pages n per = (max 1 n + per - 1) div per"

text \<open>\<open>Paginator.get_page(number)\<close>: a number \<open>int()\<close> rejects (or \<open>None\<close>) gives
  page 1, a number below 1 or above the last page gives the last page.\<close>

definition get_page_number :: "nat \<Rightarrow> string option \<Rightarrow> nat" where
  "get_page_number np p =
     (case p of
        None \<Rightarrow> 1
      | Some s \<Rightarrow> (case py_int_of_string s of
                    None \<Rightarrow> 1
                  | Some k \<Rightarrow> if k < 1 \<or> int np < k then np else nat k))"

text \<open>\<open>Paginator.page(number)\<close>: \<open>object_list[(number - 1) * per_page : number * per_page]\<close>.\<close>

definition page_slice :: "nat \<Rightarrow> 'a list \<Rightarrow> nat \<Rightarrow> 'a list" where
  "page_slice per xs k = take per (drop ((k - 1) * per) xs)"

definition news_page :: "request \<Rightarrow> db \<Rightarrow> news_page_obj" where
  "news_page rq d =
     (let arts = news_by_date (news d); np = num_pages (length arts) 9;
          k = get_page_number np (param (get_params rq) ''page'') in
      \<lparr>page_articles = page_slice 9 arts k, page_no = k, page_count = np\<rparr>)"

subsection \<open>tournaments_page\<close>

record tournaments_context =
  tl_tournaments :: "tournament_row list"
  tl_games :: "game_row list"
  tl_statuses :: "(string \<times> string) list"
  tl_total_prize_pool :: int
  tl_total_participants :: nat
  tl_unique_game_count :: nat

text \<open>The stored code of a status and \<open>Tournament.STATUS_CHOICES\<close> (\<open>models.py\<close>,
  lines 14--19).\<close>

definition status_code :: "tournament_status \<Rightarrow> string" where
  "status_code s =
     (case s of
        Registration_Open \<Rightarrow> ''registration''
      | Tournament_Live \<Rightarrow> ''live''
      | Tournament_Completed \<Rightarrow> ''completed''
      | Tournament_Upcoming \<Rightarrow> ''upcoming'')"

definition status_choices :: "(string \<times> string) list" where
  "status_choices =
     [(''registration'', ''Registration Open''), (''live'', ''Live''), (''completed'', ''Completed''),
      (''upcoming'', ''Upcoming'')]"

text \<open>\<open>order_by('-prize_pool')\<close>: largest first, NULL last.\<close>

definition prize_desc :: "tournament_row \<Rightarrow> int \<times> int" where
  "prize_desc t = (case prize_pool t of None \<Rightarrow> (1, 0) | Some p \<Rightarrow> (0, - p))"

text \<open>Lines 650--663: search, game and status filters.\<close>

definition tournaments_filtered :: "request \<Rightarrow> db \<Rightarrow> tournament_row list" where
  "tournaments_filtered rq d =
     (let p = param (get_params rq); s = p ''search''; g = p ''game''; st = p ''status'';
          t1 = filter_if (truthy s) (\<lambda>tr. icontains (title tr) (the s)) (tournaments d);
          t2 = filter_if (truthy g) (\<lambda>tr. game_name_iexact (games d) (tournament_game tr) (the g)) t1 in
      filter_if (truthy st) (\<lambda>tr. status_code (tournament_status tr) = the st) t2)"

text \<open>Lines 665--670.\<close>

definition tournaments_sorted :: "string option \<Rightarrow> tournament_row list \<Rightarrow> tournament_row list" where
  "tournaments_sorted so ts =
     (if so = Some ''prize'' then sort_key prize_desc ts
      else if so = Some ''date'' then sort_key start_date ts
      else ts)"

text \<open>Lines 672--684: \<open>(t.teams or 0) * 4\<close> participants per tournament.\<close>

definition tournaments_page :: "request \<Rightarrow> db \<Rightarrow> tournaments_context" where
  "tournaments_page rq d =
     (let ts = tournaments_sorted (param (get_params rq) ''sort'') (tournaments_filtered rq d) in
      \<lparr>tl_tournaments = ts, tl_games = games d, tl_statuses = status_choices,
       tl_total_prize_pool = prize_total ts,
       tl_total_participants = sum_list (map (\<lambda>t. (case teams t of None \<Rightarrow> 0 | Some n \<Rightarrow> n) * 4) ts),
       tl_unique_game_count = distinct_count (map tournament_game ts)\<rparr>)"

subsection \<open>overall_match_stats\<close>

record game_stats =
  gs_game_name :: string
  gs_active_teams :: nat
  gs_matches_played :: nat
  gs_total_prize_pool :: int
  gs_championships :: nat

record overall_context =
  om_professional_teams_count :: nat
  om_matches_played_count :: nat
  om_total_prize_pool :: int
  om_championships_count :: nat
  om_tournament_stats_by_game :: "game_stats list"
  om_top_performers :: "(team_stats \<times> nat) list"
  om_top_teams :: "(team_stats \<times> nat) list"
  om_team_names :: "string list"
  om_team_points :: "nat list"
  om_games :: "game_row list"
  om_game_filter :: "string option"

text \<open>Lines 688--704: with a game filter the three querysets are filtered in turn:
  \<open>teams_qs.filter(game__iexact=...)\<close>, the matches by the \<open>Q\<close> of
  \<open>results_page\<close> (\<open>Pages.results_game_filter\<close>), the tournaments by
  \<open>game__name__iexact\<close>; each lookup is built as its filter is. The team filter then
  prepares its key with \<open>int()\<close>.\<close>

definition overall_querysets ::
  "request \<Rightarrow> db \<Rightarrow> error + team_row list \<times> match_row list \<times> tournament_row list" where
  "overall_querysets rq d =
     (let g = param (get_params rq) ''game''; tid = param (get_params rq) ''team'';
          ms0 = filter (\<lambda>m. status m \<in> {Completed, Live, Upcoming}) (matches d);
          gq = (if truthy g then
                  (case build_lookup Team_model ''game__iexact'' of
                     Inl e \<Rightarrow> Inl e
                   | Inr _ \<Rightarrow>
                   (case results_game_filter (team_table d) g ms0 of
                     Inl e \<Rightarrow> Inl e
                   | Inr ms1 \<Rightarrow>
                       Inr (filter (\<lambda>t. key_iexact (team_game t) (the g)) (team_table d), ms1,
                            filter (\<lambda>tr. game_name_iexact (games d) (tournament_game tr) (the g))
                              (tournaments d))))
                else Inr (team_table d, ms0, tournaments d)) in
      case gq of
        Inl e \<Rightarrow> Inl e
      | Inr (ts, ms, trs) \<Rightarrow>
          if truthy tid then
            (case key_param (the tid) of
               Inl e \<Rightarrow> Inl e
             | Inr k \<Rightarrow> Inr (filter (\<lambda>t. int (team_id t) = k) ts,
                             filter (\<lambda>m. int (team1 m) = k \<or> int (team2 m) = k) ms, trs))
          else Inr (ts, ms, trs))"

text \<open>Lines 729--735: the ranking of the relaxed annotate, each row with its win rate.\<close>

definition overall_rankings :: "match_row list \<Rightarrow> team_row list \<Rightarrow> (team_stats \<times> nat) list" where
  "overall_rankings ms ts =
     map (\<lambda>s. (s, ranking_win_rate s)) (sort_key rank_key (map (overall_annotate_team ms) ts))"

text \<open>Lines 753--771: one dictionary per game; a team is active when it played, on
  either side, a match of one of the game's tournaments.\<close>

definition game_stats_of :: "db \<Rightarrow> game_row \<Rightarrow> game_stats" where
  "game_stats_of d gm =
     (let gt = filter (\<lambda>tr. tournament_game tr = Some (game_id gm)) (tournaments d);
          in_gt = (\<lambda>m. tournament m \<in> set (map tournament_id gt)) in
      \<lparr>gs_game_name = game_name gm,
       gs_active_teams =
         distinct_count (filter (\<lambda>t. list_ex (\<lambda>m. (team1 m = team_id t \<or> team2 m = team_id t) \<and> in_gt m)
                                  (matches d)) (team_table d)),
       gs_matches_played = length (filter (\<lambda>m. in_gt m \<and> status m = Completed) (matches d)),
       gs_total_prize_pool = prize_total gt,
       gs_championships = length (filter (\<lambda>tr. tournament_status tr = Tournament_Completed) gt)\<rparr>)"

definition overall_match_stats :: "request \<Rightarrow> db \<Rightarrow> error + overall_context" where
  "overall_match_stats rq d =
     (case overall_querysets rq d of
        Inl e \<Rightarrow> Inl e
      | Inr (ts, ms, trs) \<Rightarrow>
          (let ranked = overall_rankings (matches d) ts; top = take 10 ranked;
               names = map (\<lambda>(s, _). name (stats_team s)) top; pts = map (\<lambda>(s, _). points s) top in
           Inr \<lparr>om_professional_teams_count = length ts,
                om_matches_played_count = length (filter (\<lambda>m. status m = Completed) ms),
                om_total_prize_pool = prize_total trs,
                om_championships_count = length (filter (\<lambda>tr. tournament_status tr = Tournament_Completed) trs),
                om_tournament_stats_by_game = map (game_stats_of d) (games d),
                om_top_performers = top, om_top_teams = ranked,
                om_team_names = (if names = [] then [''No Data''] else names),
                om_team_points = (if names = [] then [0] else pts),
                om_games = games d, om_game_filter = param (get_params rq) ''game''\<rparr>))"

subsection \<open>Lemmas on the paginator\<close>

lemma take_page_slices: "concat (map (page_slice per xs) [1..<Suc n]) = take (n * per) xs"
proof (induction n)
  case 0
  show ?case by simp
next
  case (Suc n)
  have "take (Suc n * per) xs = take (n * per) xs @ take per (drop (n * per) xs)"
    by (metis take_add mult_Suc add.commute)
  with Suc show ?case by (simp add: page_slice_def)
qed

lemma num_pages_bounds:
  assumes "0 < per" shows "n \<le> num_pages n per * per" and "1 \<le> num_pages n per"
proof -
  define q r where "q = (max 1 n + per - 1) div per" and "r = (max 1 n + per - 1) mod per"
  have "q * per + r = max 1 n + per - 1" by (simp add: q_def r_def)
  then have e: "q * per + r + 1 = max 1 n + per" by simp
  have "r < per" using assms by (simp add: r_def)
  with e have "n \<le> q * per" by linarith
  then show "n \<le> num_pages n per * per" by (simp add: num_pages_def q_def)
  have "per \<le> max 1 n + per - 1" by simp
  then have "0 < q" using assms by (simp only: q_def div_greater_zero_iff)
  then show "1 \<le> num_pages n per" by (simp add: num_pages_def q_def)
qed

lemma get_page_number_bounds:
  "1 \<le> np \<Longrightarrow> 1 \<le> get_page_number np p \<and> get_page_number np p \<le> np"
  by (auto simp: get_page_number_def split: option.split)

text \<open>The pages \<open>1 .. num_pages\<close> of a list, concatenated, give back the list.\<close>

lemma page_slices_concat:
  assumes "0 < per" shows "concat (map (page_slice per xs) [1..<Suc (num_pages (length xs) per)]) = xs"
proof -
  have "concat (map (page_slice per xs) [1..<Suc (num_pages (length xs) per)]) = take (num_pages (length xs) per * per) xs"
    by (rule take_page_slices)
  also have "\<dots> = xs" using num_pages_bounds(1) [OF assms, of "length xs"] by simp
  finally show ?thesis .
qed

subsection \<open>Lemmas on tournaments_page\<close>

lemma sum_list_map_mset:
  fixes f :: "'a \<Rightarrow> 'b::comm_monoid_add"
  assumes "mset xs = mset ys" shows "sum_list (map f xs) = sum_list (map f ys)"
proof -
  have "sum_list (map f xs) = sum_mset (mset (map f xs))" by (rule sum_mset_sum_list [symmetric])
  also have "\<dots> = sum_mset (mset (map f ys))" using assms by (simp only: mset_map)
  also have "\<dots> = sum_list (map f ys)" by (rule sum_mset_sum_list)
  finally show ?thesis .
qed

lemma prize_total_mset: "mset xs = mset ys \<Longrightarrow> prize_total xs = prize_total ys"
proof -
  assume m: "mset xs = mset ys"
  then have "set xs = set ys" by (metis set_mset_mset)
  then have "set (map prize_pool xs) = set (map prize_pool ys)" by simp
  with sum_list_map_mset [OF m, of "\<lambda>t. case_option 0 id (prize_pool t)"] show ?thesis
    by (simp add: prize_total_def sql_sum_def list_all_iff comp_def)
qed

lemma tournaments_sorted_mset [simp]: "mset (tournaments_sorted so ts) = mset ts"
  by (simp add: tournaments_sorted_def)

text \<open>The totals of \<open>tournaments_page\<close> are those of the filtered tournaments, whatever
  the sort order; the game count counts the distinct values of the nullable \<open>game\<close>
  column, so the tournaments without a game add one.\<close>

lemma tournaments_page_totals:
  "mset (tl_tournaments (tournaments_page rq d)) = mset (tournaments_filtered rq d) \<and>
   tl_total_prize_pool (tournaments_page rq d) = prize_total (tournaments_filtered rq d) \<and>
   tl_total_participants (tournaments_page rq d) =
     sum_list (map (\<lambda>t. (case teams t of None \<Rightarrow> 0 | Some n \<Rightarrow> n) * 4) (tournaments_filtered rq d)) \<and>
   tl_unique_game_count (tournaments_page rq d) = card (tournament_game ` set (tournaments_filtered rq d))"
proof -
  let ?f = "tournaments_filtered rq d"
  let ?s = "tournaments_sorted (param (get_params rq) ''sort'') ?f"
  have p: "tournaments_page rq d =
     \<lparr>tl_tournaments = ?s, tl_games = games d, tl_statuses = status_choices, tl_total_prize_pool = prize_total ?s,
      tl_total_participants = sum_list (map (\<lambda>t. (case teams t of None \<Rightarrow> 0 | Some n \<Rightarrow> n) * 4) ?s),
      tl_unique_game_count = distinct_count (map tournament_game ?s)\<rparr>"
    by (simp only: tournaments_page_def Let_def)
  have m: "mset ?s = mset ?f" by simp
  then have st: "set ?s = set ?f" by (metis set_mset_mset)
  have "distinct_count (map tournament_game ?s) = card (tournament_game ` set ?f)"
    by (simp only: distinct_count_def length_remdups_card_conv set_map st)
  with p m prize_total_mset [OF m] sum_list_map_mset [OF m] show ?thesis by simp
qed

subsection \<open>The game filter of results_page and overall_match_stats\<close>

text \<open>C20. \<open>results_page\<close> and \<open>overall_match_stats\<close> filter with an \<open>iexact\<close>
  lookup on the foreign key \<open>game\<close> (\<open>team1__game__iexact\<close>, \<open>game__iexact\<close>).
  Resolved against the schema of \<open>models.py\<close>, the path ends on a relation, which has
  no \<open>iexact\<close> lookup: every request of either page with a non-empty game filter fails
  with \<open>FieldError\<close>. Without a game or team filter both pages render, the results
  page with one bracket per tournament and the statistics page counting every team.\<close>

theorem game_filter_field_error:
  "(truthy (param (get_params rq) ''game'') \<longrightarrow>
      results_page rq d = Inl FieldError \<and> overall_match_stats rq d = Inl FieldError) \<and>
   (param (get_params rq) ''game'' = None \<and> param (get_params rq) ''team'' = None \<longrightarrow>
      (\<exists>c. results_page rq d = Inr c \<and> map fst (rs_brackets c) = tournaments d) \<and>
      (\<exists>c. overall_match_stats rq d = Inr c \<and> om_professional_teams_count c = length (team_table d)))"
proof (intro conjI impI)
  assume g: "truthy (param (get_params rq) ''game'')"
  then show "results_page rq d = Inl FieldError"
    by (simp add: results_page_def results_game_filter_error Let_def)
  from g show "overall_match_stats rq d = Inl FieldError"
    by (simp add: overall_match_stats_def overall_querysets_def game_key_lookups Let_def)
next
  assume n: "param (get_params rq) ''game'' = None \<and> param (get_params rq) ''team'' = None"
  then show "\<exists>c. results_page rq d = Inr c \<and> map fst (rs_brackets c) = tournaments d"
    by (simp add: results_page_def results_game_filter_def bracket_None filter_if_def truthy_def Let_def comp_def)
  from n show "\<exists>c. overall_match_stats rq d = Inr c \<and> om_professional_teams_count c = length (team_table d)"
    by (simp add: overall_match_stats_def overall_querysets_def truthy_def Let_def)
qed

theorem game_filter_field_error_witness:
  "results_page valorant_request valorant_db = Inl FieldError \<and>
   overall_match_stats valorant_request valorant_db = Inl FieldError \<and>
   (\<exists>c. results_page plain_request valorant_db = Inr c \<and> map fst (rs_brackets c) = tournaments valorant_db) \<and>
   (\<exists>c. overall_match_stats plain_request valorant_db = Inr c \<and>
      om_professional_teams_count c = length (team_table valorant_db))"
proof -
  have "truthy (param (get_params valorant_request) ''game'')"
    by (simp add: valorant_request_def param_def truthy_def)
  moreover have "param (get_params plain_request) ''game'' = None \<and> param (get_params plain_request) ''team'' = None"
    by (simp add: plain_request_def param_def)
  ultimately show ?thesis
    using game_filter_field_error [of valorant_request valorant_db] game_filter_field_error [of plain_request valorant_db]
    by blast
qed

end
