(* ===== verification/Routes.thy ===== *)
theory Routes
  imports Views
begin

text \<open>
  The URL configuration \<open>src/GENZE/core/urls.py\<close> and the Django functions that read
  it. A route of \<open>path()\<close> is a list of pieces: literal text and \<open><int:name>\<close>
  converters, which match \<open>[0-9]+\<close> and pass \<open>int()\<close> of the digits. \<open>resolve\<close>
  maps a request path to the view and its keyword arguments: it drops the leading
  \<open>'/'\<close> and takes the first pattern, in list order, that matches the whole rest
  (\<open>None\<close> is \<open>Resolver404\<close>). \<open>reverse_url\<close> maps a URL name and keyword arguments
  to a path, trying the patterns of that name whose converters are exactly the given
  keywords (\<open>None\<close> is \<open>NoReverseMatch\<close>); \<open>resolve_url\<close> is what \<open>redirect\<close>
  does with its first argument. The \<open>static()\<close> media patterns the module appends
  serve uploads only when \<open>DEBUG\<close> is on and are not routes of the app.
\<close>

datatype view =
    Home_page | Tournaments_page | Teams_page | Schedule_page | Results_page | Register_page
  | Tournament_detail_page | News_detail | News_page | Create_reminder | Delete_reminder
  | Team_detail | Team_tournaments | Calendar_view | Overall_match_stats | Tournament_register

datatype piece = Lit string | Int_conv string

record url_pattern =
  route :: "piece list"
  url_view :: view
  url_name :: string

text \<open>Lines 6--25, in order; \<open>schedule/\<close> and \<open>results/\<close> appear twice.\<close>

definition urlpatterns :: "url_pattern list" where
  "urlpatterns =
    [\<lparr>route = [], url_view = Home_page, url_name = ''home''\<rparr>,
     \<lparr>route = [Lit ''tournaments/''], url_view = Tournaments_page, url_name = ''tournaments''\<rparr>,
     \<lparr>route = [Lit ''teams/''], url_view = Teams_page, url_name = ''teams''\<rparr>,
     \<lparr>route = [Lit ''schedule/''], url_view = Schedule_page, url_name = ''schedule''\<rparr>,
     \<lparr>route = [Lit ''results/''], url_view = Results_page, url_name = ''results''\<rparr>,
     \<lparr>route = [Lit ''register/''], url_view = Register_page, url_name = ''register''\<rparr>,
     \<lparr>route = [Lit ''tournaments/'', Int_conv ''pk'', Lit ''/''], url_view = Tournament_detail_page,
      url_name = ''tournament_detail''\<rparr>,
     \<lparr>route = [Lit ''news/'', Int_conv ''pk'', Lit ''/''], url_view = News_detail, url_name = ''news_detail''\<rparr>,
     \<lparr>route = [Lit ''news/''], url_view = News_page, url_name = ''news''\<rparr>,
     \<lparr>route = [Lit ''schedule/''], url_view = Schedule_page, url_name = ''schedule''\<rparr>,
     \<lparr>route = [Lit ''results/''], url_view = Results_page, url_name = ''results''\<rparr>,
     \<lparr>route = [Lit ''create-reminder/''], url_view = Create_reminder, url_name = ''create_reminder''\<rparr>,
     \<lparr>route = [Lit ''delete-reminder/'', Int_conv ''pk'', Lit ''/''], url_view = Delete_reminder,
      url_name = ''delete_reminder''\<rparr>,
     \<lparr>route = [Lit ''teams/'', Int_conv ''team_id'', Lit ''/''], url_view = Team_detail, url_name = ''team_detail''\<rparr>,
     \<lparr>route = [Lit ''teams/'', Int_conv ''team_id'', Lit ''/tournaments/''], url_view = Team_tournaments,
      url_name = ''team_tournaments''\<rparr>,
     \<lparr>route = [Lit ''calendar/''], url_view = Calendar_view, url_name = ''calendar_view''\<rparr>,
     \<lparr>route = [Lit ''match-stats/''], url_view = Overall_match_stats, url_name = ''overall_match_stats''\<rparr>,
     \<lparr>route = [Lit ''tournaments/'', Int_conv ''pk'', Lit ''/register/''], url_view = Tournament_register,
      url_name = ''tournament_register''\<rparr>]"

text \<open>The pattern of a route against a path. The converter's \<open>[0-9]+\<close> is greedy; in
  these routes a converter is always followed by \<open>'/'\<close>, so backtracking never finds
  another match.\<close>

fun match_route :: "piece list \<Rightarrow> string \<Rightarrow> (string \<times> nat) list option" where
  "match_route [] s = (if s = [] then Some [] else None)"
| "match_route (Lit l # ps) s = (if take (length l) s = l then match_route ps (drop (length l) s) else None)"
| "match_route (Int_conv n # ps) s =
     (let ds = takeWhile is_digit s in
      if ds = [] then None
      else map_option (\<lambda>kw. (n, digits_value 0 ds) # kw) (match_route ps (dropWhile is_digit s)))"

definition resolve :: "string \<Rightarrow> (view \<times> (string \<times> nat) list) option" where
  "resolve path =
     (case path of
        c # p \<Rightarrow>
          if c = CHR ''/'' then
            (case find (\<lambda>u. match_route (route u) p \<noteq> None) urlpatterns of
               None \<Rightarrow> None
             | Some u \<Rightarrow> map_option (\<lambda>kw. (url_view u, kw)) (match_route (route u) p))
          else None
      | [] \<Rightarrow> None)"

fun route_params :: "piece list \<Rightarrow> string list" where
  "route_params [] = []"
| "route_params (Lit _ # ps) = route_params ps"
| "route_params (Int_conv n # ps) = n # route_params ps"

text \<open>The path of a route with its converters replaced by \<open>str()\<close> of the arguments.\<close>

fun render_route :: "piece list \<Rightarrow> (string \<times> nat) list \<Rightarrow> string option" where
  "render_route [] kw = Some []"
| "render_route (Lit l # ps) kw = map_option (\<lambda>r. l @ r) (render_route ps kw)"
| "render_route (Int_conv n # ps) kw =
     (case map_of kw n of
        None \<Rightarrow> None
      | Some v \<Rightarrow> map_option (\<lambda>r. str_of_nat v @ r) (render_route ps kw))"

text \<open>\<open>reverse(name, kwargs=kw)\<close>: the resolver lists the patterns of a name last one
  first.\<close>

definition reverse_url :: "string \<Rightarrow> (string \<times> nat) list \<Rightarrow> string option" where
  "reverse_url nm kw =
     (case find (\<lambda>u. url_name u = nm \<and> set (route_params (route u)) = set (map fst kw)) (rev urlpatterns) of
        None \<Rightarrow> None
      | Some u \<Rightarrow> map_option (\<lambda>r. CHR ''/'' # r) (render_route (route u) kw))"

text \<open>\<open>django.shortcuts.resolve_url(to, **kwargs)\<close> for a string \<open>to\<close>: a relative URL as
  it is, else \<open>reverse\<close>; when that fails, \<open>to\<close> itself if it contains \<open>'/'\<close> or
  \<open>'.'\<close>, else the \<open>NoReverseMatch\<close> is raised.\<close>

definition resolve_url :: "string \<Rightarrow> (string \<times> nat) list \<Rightarrow> error + string" where
  "resolve_url to kw =
     (if take 2 to = ''./'' \<or> take 3 to = ''../'' then Inr to
      else case reverse_url to kw of
             Some u \<Rightarrow> Inr u
           | None \<Rightarrow> if CHR ''/'' \<in> set to \<or> CHR ''.'' \<in> set to then Inr to else Inl NoReverseMatch)"

text \<open>The \<open>Location\<close> of a response of \<open>Views\<close>: \<open>tournament_register\<close>'s success
  answers \<open>redirect('tournament_detail_page', pk=tournament.id)\<close> (line 813).\<close>

definition redirect_location :: "response \<Rightarrow> error + string option" where
  "redirect_location r =
     (case r of
        Redirect_tournament t _ \<Rightarrow>
          (case resolve_url ''tournament_detail_page'' [(''pk'', t)] of Inl e \<Rightarrow> Inl e | Inr u \<Rightarrow> Inr (Some u))
      | _ \<Rightarrow> Inr None)"

subsection \<open>Lemmas on the routes\<close>

lemma register_post_changed:
  "register_post now rq t tm d = Inr (resp, d') \<Longrightarrow> d' \<noteq> d \<Longrightarrow>
   (\<exists>fl. resp = Redirect_tournament (tournament_id t) fl) \<and>
   (\<exists>ps'. d' = d\<lparr>participants := ps'\<rparr> \<and> length ps' = Suc (length (participants d)))"
  by (auto simp: register_post_def add_participant_def Let_def split: if_splits option.splits sum.splits)

text \<open>A call of \<open>tournament_register\<close> that changes the database adds one participant
  and answers the redirect to the tournament.\<close>

lemma tournament_register_commits:
  assumes "tournament_register now rq pk d = Inr (resp, d')" and "d' \<noteq> d"
  shows "(\<exists>fl. resp = Redirect_tournament pk fl) \<and>
    (\<exists>ps'. d' = d\<lparr>participants := ps'\<rparr> \<and> length ps' = Suc (length (participants d)))"
proof -
  obtain t where t: "find (\<lambda>t. tournament_id t = pk) (tournaments d) = Some t"
    using assms by (auto simp: tournament_register_def split: option.splits)
  then have "tournament_id t = pk" by (auto simp: find_Some_iff)
  moreover have "\<exists>tm. register_post now rq t tm d = Inr (resp, d')"
    using assms t by (auto simp: tournament_register_def split: option.splits if_splits)
  ultimately show ?thesis using assms(2) register_post_changed by blast
qed

lemma is_digit_slash [simp]: "\<not> is_digit (CHR ''/'')"
  by (simp add: is_digit_def less_eq_char_def)

lemma takeWhile_str_of_nat [simp]: "\<not> is_digit c \<Longrightarrow> takeWhile is_digit (str_of_nat k @ c # r) = str_of_nat k"
  using str_of_nat_digits [of k] by (simp add: takeWhile_append2)

lemma dropWhile_str_of_nat [simp]: "\<not> is_digit c \<Longrightarrow> dropWhile is_digit (str_of_nat k @ c # r) = c # r"
  using str_of_nat_digits [of k] by (simp add: dropWhile_append2)

lemma digits_value_str_of_nat [simp]: "digits_value 0 (str_of_nat k) = k"
  by (rule str_of_nat_value)

text \<open>\<open>redirect('tournament_detail_page', ...)\<close> names the view function, which is no URL
  name of \<open>urls.py\<close> and has neither \<open>'/'\<close> nor \<open>'.'\<close>: \<open>NoReverseMatch\<close>.\<close>

lemma redirect_tournament_no_reverse: "redirect_location (Redirect_tournament t fl) = Inl NoReverseMatch"
  by (simp add: redirect_location_def resolve_url_def reverse_url_def urlpatterns_def)

text \<open>The URL name of \<open>tournament_detail_page\<close> reverses to \<open>/tournaments/<pk>/\<close>, which
  resolves back to that view with that key.\<close>

lemma reverse_tournament_detail:
  "reverse_url ''tournament_detail'' [(''pk'', k)] = Some (''/tournaments/'' @ str_of_nat k @ ''/'')"
  by (simp add: reverse_url_def urlpatterns_def)

lemma resolve_tournament_detail:
  "resolve (''/tournaments/'' @ str_of_nat k @ ''/'') = Some (Tournament_detail_page, [(''pk'', k)])"
  by (simp add: resolve_def urlpatterns_def)

text \<open>The round trip of every URL name, evaluated over the pattern list.\<close>

lemma reverse_resolve_no_args:
  "list_all (\<lambda>u. route_params (route u) = [] \<longrightarrow>
       map_option resolve (reverse_url (url_name u) []) = Some (Some (url_view u, []))) urlpatterns"
  by (simp add: urlpatterns_def reverse_url_def resolve_def)

lemma reverse_resolve_one_arg:
  "list_all (\<lambda>u. \<forall>n. route_params (route u) = [n] \<longrightarrow>
       map_option resolve (reverse_url (url_name u) [(n, k)]) = Some (Some (url_view u, [(n, k)]))) urlpatterns"
  by (simp add: urlpatterns_def reverse_url_def resolve_def)

text \<open>C35. Every URL name of \<open>urls.py\<close> is a round trip: reversing it, with an argument
  for its converter when it has one, gives a path that \<open>resolve\<close> maps back to the view
  of that name with that argument. (The second \<open>schedule/\<close> and \<open>results/\<close> patterns
  repeat the first ones and are never reached.)\<close>

theorem reverse_resolve_roundtrip:
  assumes "u \<in> set urlpatterns"
  shows "(route_params (route u) = [] \<longrightarrow>
            map_option resolve (reverse_url (url_name u) []) = Some (Some (url_view u, []))) \<and>
         (route_params (route u) = [n] \<longrightarrow>
            map_option resolve (reverse_url (url_name u) [(n, k)]) = Some (Some (url_view u, [(n, k)])))"
  using assms reverse_resolve_no_args reverse_resolve_one_arg [of k] unfolding list_all_iff by blast

theorem reverse_resolve_roundtrip_witness:
  "map_option resolve (reverse_url ''team_tournaments'' [(''team_id'', 5)]) =
     Some (Some (Team_tournaments, [(''team_id'', 5)]))"
proof -
  have "\<lparr>route = [Lit ''teams/'', Int_conv ''team_id'', Lit ''/tournaments/''], url_view = Team_tournaments,
      url_name = ''team_tournaments''\<rparr> \<in> set urlpatterns"
    by (simp add: urlpatterns_def)
  from reverse_resolve_roundtrip [OF this, of "''team_id''" 5] show ?thesis by simp
qed

end
