(* ===== verification/Admin.thy ===== *)
theory Admin
  imports Pages
begin

text \<open>
  The admin configuration \<open>src/GENZE/core/admin.py\<close>. Beyond Django's generic forms,
  what an admin class decides is which models are registered, how its change list is
  searched (\<open>search_fields\<close>) and how it is ordered (\<open>ordering\<close>). Django's
  \<open>ModelAdmin.get_search_results\<close> turns each search field into an \<open>icontains\<close>
  lookup (\<open>construct_search\<close>) and keeps the rows in which every term of the query
  matches at least one field; the terms are \<open>smart_split\<close> of the query, a parameter
  here. A field that names a relation without a field of the related model gives
  \<open><fk>__icontains\<close>, which the ORM refuses with \<open>FieldError\<close> when the filter is built
  (\<open>Relation_field\<close>). A NULL value matches no term. The change list is ordered by
  \<open>ordering\<close>, then by \<open>-pk\<close>, Django's default and its tie-break; a table is in
  \<open>pk\<close> order, so \<open>-pk\<close> is its reverse. The user of a \<open>MatchReminder\<close> belongs
  to Django's auth app, so its email is a parameter.
\<close>

datatype admin_model =
    NewsArticle_admin | Tournament_admin | Team_admin | Player_admin | Match_admin
  | MatchReminder_admin | TournamentParticipant_admin | Game_admin

text \<open>Lines 5--97: the models registered, in order. \<open>unregister(NewsArticle)\<close> on the
  fresh registry raises \<open>NotRegistered\<close>, which lines 6--9 ignore; \<open>Reminder\<close> is not
  registered.\<close>

definition admin_models :: "admin_model list" where
  "admin_models =
     [NewsArticle_admin, Tournament_admin, Team_admin, Player_admin, Match_admin, MatchReminder_admin,
      TournamentParticipant_admin, Game_admin]"

datatype 'a search_field = Text_field "'a \<Rightarrow> string option" | Relation_field

definition is_relation :: "'a search_field \<Rightarrow> bool" where
  "is_relation f = (case f of Relation_field \<Rightarrow> True | Text_field _ \<Rightarrow> False)"

definition field_matches :: "'a search_field \<Rightarrow> string \<Rightarrow> 'a \<Rightarrow> bool" where
  "field_matches f t r =
     (case f of Text_field v \<Rightarrow> (case v r of None \<Rightarrow> False | Some s \<Rightarrow> icontains s t) | Relation_field \<Rightarrow> False)"

text \<open>\<open>ModelAdmin.get_search_results\<close>.\<close>

definition admin_search :: "'a search_field list \<Rightarrow> string list \<Rightarrow> 'a list \<Rightarrow> error + 'a list" where
  "admin_search fs terms rows =
     (case (fs, terms) of
        ([], _) \<Rightarrow> Inr rows
      | (_, []) \<Rightarrow> Inr rows
      | _ \<Rightarrow> if list_ex is_relation fs then Inl FieldError
             else Inr (filter (\<lambda>r. list_all (\<lambda>t. list_ex (\<lambda>f. field_matches f t r) fs) terms) rows))"

subsection \<open>The search fields of each admin\<close>

text \<open>Line 15.\<close>

definition news_search_fields :: "news_row search_field list" where
  "news_search_fields =
     [Text_field (\<lambda>a. Some (news_title a)), Text_field news_summary, Text_field (\<lambda>a. Some (news_content a))]"

text \<open>Line 31: \<open>game__name\<close> follows the foreign key to the game's name.\<close>

definition tournament_search_fields :: "db \<Rightarrow> tournament_row search_field list" where
  "tournament_search_fields d =
     [Text_field (\<lambda>t. Some (title t)),
      Text_field (\<lambda>t. case tournament_game t of
                        None \<Rightarrow> None
                      | Some g \<Rightarrow> map_option game_name (find (\<lambda>x. game_id x = g) (games d))),
      Text_field (\<lambda>t. Some (location t))]"

text \<open>Line 36: \<open>'game'\<close> is the foreign key \<open>Team.game\<close> itself.\<close>

definition team_search_fields :: "team_row search_field list" where
  "team_search_fields = [Text_field (\<lambda>t. Some (name t)), Text_field tag, Relation_field, Text_field region]"

definition team_name_of :: "db \<Rightarrow> ident \<Rightarrow> string option" where
  "team_name_of d i = map_option name (find (\<lambda>t. team_id t = i) (team_table d))"

text \<open>Line 47.\<close>

definition player_search_fields :: "db \<Rightarrow> player_row search_field list" where
  "player_search_fields d =
     [Text_field (\<lambda>p. Some (player_name p)), Text_field player_role,
      Text_field (\<lambda>p. team_name_of d (player_team p))]"

text \<open>Line 65.\<close>

definition match_search_fields :: "db \<Rightarrow> match_row search_field list" where
  "match_search_fields d =
     [Text_field (\<lambda>m. map_option title (find (\<lambda>t. tournament_id t = tournament m) (tournaments d))),
      Text_field (\<lambda>m. team_name_of d (team1 m)), Text_field (\<lambda>m. team_name_of d (team2 m))]"

text \<open>Line 85, with \<open>ue\<close> the email of a user key.\<close>

definition match_reminder_search_fields :: "(ident \<Rightarrow> string option) \<Rightarrow> match_reminder_row search_field list" where
  "match_reminder_search_fields ue =
     [Text_field (\<lambda>r. Some (mr_email r)), Text_field (\<lambda>r. Some (mr_phone r)),
      Text_field (\<lambda>r. case mr_user r of None \<Rightarrow> None | Some u \<Rightarrow> ue u)]"

text \<open>Line 91.\<close>

definition participant_search_fields :: "db \<Rightarrow> participant_row search_field list" where
  "participant_search_fields d =
     [Text_field (\<lambda>p. team_name_of d (participant_team p)), Text_field (\<lambda>p. Some (manager_name p)),
      Text_field (\<lambda>p. Some (manager_email p)), Text_field (\<lambda>p. Some (manager_phone p))]"

text \<open>Line 97.\<close>

definition game_search_fields :: "game_row search_field list" where
  "game_search_fields = [Text_field (\<lambda>g. Some (game_name g))]"

subsection \<open>Change lists\<close>

text \<open>A change list: the search, then the order.\<close>

definition changelist :: "('a list \<Rightarrow> 'a list) \<Rightarrow> 'a search_field list \<Rightarrow> string list \<Rightarrow> 'a list \<Rightarrow> error + 'a list" where
  "changelist ord fs terms rows = (case admin_search fs terms rows of Inl e \<Rightarrow> Inl e | Inr rs \<Rightarrow> Inr (ord rs))"

text \<open>Line 17: \<open>ordering = ('-date',)\<close>, then \<open>-pk\<close>.\<close>

definition news_admin_list :: "string list \<Rightarrow> db \<Rightarrow> error + news_row list" where
  "news_admin_list terms d = changelist (\<lambda>rs. sort_key (\<lambda>a. - news_date a) (rev rs)) news_search_fields terms (news d)"

text \<open>Line 92: \<open>ordering = ('-registered_at',)\<close>, then \<open>-pk\<close>.\<close>

definition participant_admin_list :: "string list \<Rightarrow> db \<Rightarrow> error + participant_row list" where
  "participant_admin_list terms d =
     changelist (\<lambda>rs. sort_key (\<lambda>p. - registered_at p) (rev rs)) (participant_search_fields d) terms (participants d)"

text \<open>Lines 33--41: no \<open>ordering\<close>, so \<open>-pk\<close>.\<close>

definition team_admin_list :: "string list \<Rightarrow> db \<Rightarrow> error + team_row list" where
  "team_admin_list terms d = changelist rev team_search_fields terms (team_table d)"

definition player_admin_list :: "string list \<Rightarrow> db \<Rightarrow> error + player_row list" where
  "player_admin_list terms d = changelist rev (player_search_fields d) terms (players d)"

definition tournament_admin_list :: "string list \<Rightarrow> db \<Rightarrow> error + tournament_row list" where
  "tournament_admin_list terms d = changelist rev (tournament_search_fields d) terms (tournaments d)"

definition match_admin_list :: "string list \<Rightarrow> db \<Rightarrow> error + match_row list" where
  "match_admin_list terms d = changelist rev (match_search_fields d) terms (matches d)"

definition match_reminder_admin_list ::
  "(ident \<Rightarrow> string option) \<Rightarrow> string list \<Rightarrow> db \<Rightarrow> error + match_reminder_row list" where
  "match_reminder_admin_list ue terms d = changelist rev (match_reminder_search_fields ue) terms (match_reminders d)"

definition game_admin_list :: "string list \<Rightarrow> db \<Rightarrow> error + game_row list" where
  "game_admin_list terms d = changelist rev game_search_fields terms (games d)"


subsection \<open>Properties of the admin\<close>

lemma admin_search_text_fields:
  "fs \<noteq> [] \<Longrightarrow> \<not> list_ex is_relation fs \<Longrightarrow>
   admin_search fs terms rows = Inr (filter (\<lambda>r. list_all (\<lambda>t. list_ex (\<lambda>f. field_matches f t r) fs) terms) rows)"
  by (cases fs; cases terms) (simp_all add: admin_search_def)

lemma admin_search_relation:
  "list_ex is_relation fs \<Longrightarrow> terms \<noteq> [] \<Longrightarrow> admin_search fs terms rows = Inl FieldError"
  by (cases fs; cases terms) (simp_all add: admin_search_def)

lemma changelist_text_fields:
  "fs \<noteq> [] \<Longrightarrow> \<not> list_ex is_relation fs \<Longrightarrow>
   changelist ord fs terms rows = Inr (ord (filter (\<lambda>r. list_all (\<lambda>t. list_ex (\<lambda>f. field_matches f t r) fs) terms) rows))"
  by (simp add: changelist_def admin_search_text_fields)

lemmas text_search_fields = news_search_fields_def tournament_search_fields_def player_search_fields_def
  match_search_fields_def match_reminder_search_fields_def participant_search_fields_def game_search_fields_def

text \<open>C32. The team change list of the admin cannot be searched: its search field
  \<open>'game'\<close> is the foreign key \<open>Team.game\<close>, so every query with a term fails with
  \<open>FieldError\<close>; without a term it lists every team, newest first. The search fields of
  every other admin are text columns or follow a relation to one, so their searches never
  fail.\<close>

theorem admin_team_search_fails:
  "(terms \<noteq> [] \<longrightarrow> team_admin_list terms d = Inl FieldError) \<and>
   team_admin_list [] d = Inr (rev (team_table d)) \<and>
   (\<exists>rs. news_admin_list terms d = Inr rs) \<and> (\<exists>rs. tournament_admin_list terms d = Inr rs) \<and>
   (\<exists>rs. player_admin_list terms d = Inr rs) \<and> (\<exists>rs. match_admin_list terms d = Inr rs) \<and>
   (\<exists>rs. match_reminder_admin_list ue terms d = Inr rs) \<and> (\<exists>rs. participant_admin_list terms d = Inr rs) \<and>
   (\<exists>rs. game_admin_list terms d = Inr rs)"
proof (intro conjI impI)
  assume "terms \<noteq> []"
  then show "team_admin_list terms d = Inl FieldError"
    by (simp add: team_admin_list_def changelist_def admin_search_relation team_search_fields_def is_relation_def)
next
  show "team_admin_list [] d = Inr (rev (team_table d))"
    by (simp add: team_admin_list_def changelist_def admin_search_def team_search_fields_def)
qed (simp_all add: news_admin_list_def tournament_admin_list_def player_admin_list_def match_admin_list_def
      match_reminder_admin_list_def participant_admin_list_def game_admin_list_def changelist_text_fields
      text_search_fields is_relation_def)

theorem admin_team_search_fails_witness:
  "team_admin_list [''Alpha''] views_db = Inl FieldError \<and> team_admin_list [] views_db = Inr [demo_team] \<and>
   (\<exists>rs. news_admin_list [''Alpha''] views_db = Inr rs) \<and> (\<exists>rs. tournament_admin_list [''Alpha''] views_db = Inr rs) \<and>
   (\<exists>rs. player_admin_list [''Alpha''] views_db = Inr rs) \<and> (\<exists>rs. match_admin_list [''Alpha''] views_db = Inr rs) \<and>
   (\<exists>rs. match_reminder_admin_list (\<lambda>_. None) [''Alpha''] views_db = Inr rs) \<and>
   (\<exists>rs. participant_admin_list [''Alpha''] views_db = Inr rs) \<and> (\<exists>rs. game_admin_list [''Alpha''] views_db = Inr rs)"
  using admin_team_search_fails [of "[''Alpha'']" views_db "\<lambda>_. None"] by (simp add: views_db_def)

end
