(* ===== verification/AdminForms.thy ===== *)
theory AdminForms
  imports Admin Register
begin

text \<open>
  The writes of Django's admin site on the models \<open>src/GENZE/core/admin.py\<close> registers:
  the cascading delete of the delete view and of the ``delete selected'' action, and the
  add and change forms of \<open>MatchAdmin\<close>, whose fields are its \<open>fieldsets\<close>. Every
  foreign key of \<open>models.py\<close> is \<open>on_delete=CASCADE\<close> (the two keys to Django's user
  table aside, which is not modelled), so a delete removes the selected rows and, through
  Django's \<open>Collector\<close>, every row that refers to a removed row. The referential
  integrity of the database, \<open>fk_ok\<close>, is the invariant these writes keep.
\<close>

section \<open>Referential integrity\<close>

text \<open>A nullable foreign key (\<open>null=True\<close>) is either empty or names an existing row.\<close>

definition ref_ok :: "ident option \<Rightarrow> ident list \<Rightarrow> bool" where
  "ref_ok r ks = (case r of None \<Rightarrow> True | Some k \<Rightarrow> k \<in> set ks)"

text \<open>Every foreign key of \<open>models.py\<close> names an existing row: \<open>Tournament.game\<close>
  (line 22), \<open>Team.game\<close> (66), \<open>Player.team\<close> (85), \<open>Match.tournament\<close>,
  \<open>team1\<close>, \<open>team2\<close>, \<open>game\<close> (101--109), \<open>MatchReminder.match\<close> (127),
  \<open>Reminder.match\<close> (155) and \<open>TournamentParticipant.tournament\<close>, \<open>team\<close>
  (168--169).\<close>

definition fk_ok :: "db \<Rightarrow> bool" where
  "fk_ok d \<longleftrightarrow>
     list_all (\<lambda>t. ref_ok (tournament_game t) (map game_id (games d))) (tournaments d) \<and>
     list_all (\<lambda>t. ref_ok (team_game t) (map game_id (games d))) (team_table d) \<and>
     list_all (\<lambda>p. player_team p \<in> set (map team_id (team_table d))) (players d) \<and>
     list_all (\<lambda>m. tournament m \<in> set (map tournament_id (tournaments d)) \<and>
                   team1 m \<in> set (map team_id (team_table d)) \<and> team2 m \<in> set (map team_id (team_table d)) \<and>
                   ref_ok (match_game m) (map game_id (games d))) (matches d) \<and>
     list_all (\<lambda>r. reminder_match r \<in> set (map match_id (matches d))) (reminders d) \<and>
     list_all (\<lambda>r. mr_match r \<in> set (map match_id (matches d))) (match_reminders d) \<and>
     list_all (\<lambda>p. participant_tournament p \<in> set (map tournament_id (tournaments d)) \<and>
                   participant_team p \<in> set (map team_id (team_table d))) (participants d)"

section \<open>Cascading delete\<close>

text \<open>The rows an admin deletes, by model: the object of the delete view, or the rows
  ticked for the ``delete selected'' action. A participant is named by its
  \<open>unique_together\<close> pair (tournament, team). \<open>Reminder\<close> is not registered, so
  its rows are deleted only through their match.\<close>

record delete_roots =
  del_games :: "ident list"
  del_tournaments :: "ident list"
  del_teams :: "ident list"
  del_players :: "ident list"
  del_matches :: "ident list"
  del_match_reminders :: "ident list"
  del_news :: "ident list"
  del_participants :: "(ident \<times> ident) list"

text \<open>A nullable key that points into the deleted rows.\<close>

definition ref_hits :: "ident option \<Rightarrow> ident list \<Rightarrow> bool" where
  "ref_hits r ks = (case r of None \<Rightarrow> False | Some k \<Rightarrow> k \<in> set ks)"

text \<open>\<open>Collector.collect\<close> with \<open>CASCADE\<close> on every key: the deleted tournaments and
  teams are the selected ones and those of a deleted game; the deleted matches are the
  selected ones and those of a deleted tournament, team or game; players, participants and
  both kinds of reminder follow their team, tournament or match. A row whose key names no
  existing row is not collected through it.\<close>

definition deleted_tournaments :: "delete_roots \<Rightarrow> db \<Rightarrow> ident list" where
  "deleted_tournaments r d =
     del_tournaments r @ map tournament_id (filter (\<lambda>t. ref_hits (tournament_game t) (del_games r)) (tournaments d))"

definition deleted_teams :: "delete_roots \<Rightarrow> db \<Rightarrow> ident list" where
  "deleted_teams r d =
     del_teams r @ map team_id (filter (\<lambda>t. ref_hits (team_game t) (del_games r)) (team_table d))"

definition deleted_matches :: "delete_roots \<Rightarrow> db \<Rightarrow> ident list" where
  "deleted_matches r d =
     del_matches r @
     map match_id (filter (\<lambda>m. tournament m \<in> set (deleted_tournaments r d) \<or> team1 m \<in> set (deleted_teams r d) \<or>
                             team2 m \<in> set (deleted_teams r d) \<or> ref_hits (match_game m) (del_games r)) (matches d))"

text \<open>\<open>Collector.delete\<close>: the collected rows of each table are removed.\<close>

definition cascade_delete :: "delete_roots \<Rightarrow> db \<Rightarrow> db" where
  "cascade_delete r d =
     (let dt = deleted_tournaments r d; dtm = deleted_teams r d; dm = deleted_matches r d in
      d\<lparr>games := filter (\<lambda>g. game_id g \<notin> set (del_games r)) (games d),
        tournaments := filter (\<lambda>t. tournament_id t \<notin> set dt) (tournaments d),
        team_table := filter (\<lambda>t. team_id t \<notin> set dtm) (team_table d),
        matches := filter (\<lambda>m. match_id m \<notin> set dm) (matches d),
        players := filter (\<lambda>p. player_id p \<notin> set (del_players r) \<and> player_team p \<notin> set dtm) (players d),
        reminders := filter (\<lambda>x. reminder_match x \<notin> set dm) (reminders d),
        match_reminders := filter (\<lambda>x. mr_id x \<notin> set (del_match_reminders r) \<and> mr_match x \<notin> set dm)
                             (match_reminders d),
        participants := filter (\<lambda>p. (participant_tournament p, participant_team p) \<notin> set (del_participants r) \<and>
                          participant_tournament p \<notin> set dt \<and> participant_team p \<notin> set dtm) (participants d),
        news := filter (\<lambda>n. news_id n \<notin> set (del_news r)) (news d)\<rparr>)"

text \<open>The specification of a delete: a sub-database (each table a subsequence of the
  old one) that keeps none of the selected rows.\<close>

definition sub_db :: "db \<Rightarrow> db \<Rightarrow> bool" where
  "sub_db d' d \<longleftrightarrow>
     subseq (games d') (games d) \<and> subseq (tournaments d') (tournaments d) \<and>
     subseq (team_table d') (team_table d) \<and> subseq (matches d') (matches d) \<and>
     subseq (players d') (players d) \<and> subseq (reminders d') (reminders d) \<and>
     subseq (match_reminders d') (match_reminders d) \<and> subseq (participants d') (participants d) \<and>
     subseq (news d') (news d)"

definition holds_no_root :: "delete_roots \<Rightarrow> db \<Rightarrow> bool" where
  "holds_no_root r d \<longleftrightarrow>
     list_all (\<lambda>g. game_id g \<notin> set (del_games r)) (games d) \<and>
     list_all (\<lambda>t. tournament_id t \<notin> set (del_tournaments r)) (tournaments d) \<and>
     list_all (\<lambda>t. team_id t \<notin> set (del_teams r)) (team_table d) \<and>
     list_all (\<lambda>p. player_id p \<notin> set (del_players r)) (players d) \<and>
     list_all (\<lambda>m. match_id m \<notin> set (del_matches r)) (matches d) \<and>
     list_all (\<lambda>x. mr_id x \<notin> set (del_match_reminders r)) (match_reminders d) \<and>
     list_all (\<lambda>p. (participant_tournament p, participant_team p) \<notin> set (del_participants r)) (participants d) \<and>
     list_all (\<lambda>n. news_id n \<notin> set (del_news r)) (news d)"

section \<open>The change form of \<open>MatchAdmin\<close>\<close>

text \<open>
  The fields of \<open>MatchAdmin.fieldsets\<close> (\<open>admin.py\<close> lines 67--79), in that order, as
  the widgets decode a POST: a select of a foreign key gives the chosen key or nothing,
  the number inputs an integer or nothing, the split date/time input an instant or
  nothing, a text input its raw string. Every editable field of \<open>Match\<close> is in the
  fieldsets, so the form writes the whole row. A number or date the widget cannot
  decode (\<open>Enter a whole number.\<close>) is outside this input type.
\<close>

record match_form =
  f_tournament :: "ident option"
  f_game :: "ident option"
  f_stage :: string
  f_status :: string
  f_match_time :: "instant option"
  f_team1 :: "ident option"
  f_team2 :: "ident option"
  f_team1_score :: "int option"
  f_team2_score :: "int option"
  f_current_round :: "int option"
  f_total_rounds :: "int option"
  f_points_team1 :: "int option"
  f_points_team2 :: "int option"
  f_live_started_at :: "instant option"
  f_completed_at :: "instant option"
  f_viewer_count :: "int option"
  f_viewer_label :: string
  f_youtube_live_url :: string
  f_youtube_recap_url :: string

text \<open>The messages of Django's form fields: \<open>This field is required.\<close>, \<open>Select a
  valid choice.\<close>, \<open>Ensure this value is greater than or equal to 0.\<close>, \<open>Ensure this
  value has at most n characters (it has m).\<close>, \<open>Enter a valid URL.\<close>, \<open>Enter a valid
  email address.\<close>, the slug message, \<open>Ensure that there are no more than n digits in
  total.\<close>, and the \<open>... with this ... already exists.\<close> of \<open>validate_unique\<close>.\<close>

datatype form_error =
    Required | Invalid_choice | Below_min | Too_long nat nat | Invalid_url | Invalid_email | Invalid_slug
  | Max_digits nat | Not_unique

text \<open>A \<open>ModelChoiceField\<close> of a foreign key; it is required unless the key is
  \<open>blank=True\<close>.\<close>

definition fk_field :: "bool \<Rightarrow> ident list \<Rightarrow> ident option \<Rightarrow> form_error list" where
  "fk_field req ks v =
     (case v of None \<Rightarrow> if req then [Required] else [] | Some k \<Rightarrow> if k \<in> set ks then [] else [Invalid_choice])"

text \<open>An \<open>IntegerField\<close>; a \<open>PositiveIntegerField\<close> has \<open>min_value=0\<close>.\<close>

definition int_field :: "bool \<Rightarrow> bool \<Rightarrow> int option \<Rightarrow> form_error list" where
  "int_field req pos v =
     (case v of None \<Rightarrow> if req then [Required] else [] | Some i \<Rightarrow> if pos \<and> i < 0 then [Below_min] else [])"

definition time_field :: "instant option \<Rightarrow> form_error list" where
  "time_field v = (case v of None \<Rightarrow> [Required] | Some _ \<Rightarrow> [])"

text \<open>A \<open>CharField\<close> strips its input, then checks \<open>max_length\<close>; \<open>blank=True\<close> admits
  the empty string.\<close>

definition char_field :: "bool \<Rightarrow> nat \<Rightarrow> string \<Rightarrow> form_error list" where
  "char_field req n s =
     (let v = py_strip s in
      if v = [] then (if req then [Required] else [])
      else if n < length v then [Too_long n (length v)] else [])"

text \<open>The \<open>status\<close> select of \<open>Match.STATUS_CHOICES\<close> (\<open>models.py\<close> lines 95--99).\<close>

definition match_status_of :: "string \<Rightarrow> match_status option" where
  "match_status_of s =
     (if s = ''upcoming'' then Some Upcoming else if s = ''live'' then Some Live
      else if s = ''completed'' then Some Completed else None)"

definition choice_field :: "string \<Rightarrow> form_error list" where
  "choice_field s = (if s = [] then [Required] else if match_status_of s = None then [Invalid_choice] else [])"

text \<open>A \<open>URLField\<close> (\<open>max_length=200\<close>, \<open>blank=True\<close>): the stripped input is
  completed and checked by \<open>URLValidator\<close>, the parameter \<open>url\<close> (\<open>None\<close> for an
  invalid address), then by the length check.\<close>

definition url_field :: "(string \<Rightarrow> string option) \<Rightarrow> string \<Rightarrow> form_error list" where
  "url_field url s =
     (let v = py_strip s in
      if v = [] then []
      else (case url v of None \<Rightarrow> [Invalid_url] | Some _ \<Rightarrow> []) @
           (if 200 < length v then [Too_long 200 (length v)] else []))"

definition clean_url :: "(string \<Rightarrow> string option) \<Rightarrow> string \<Rightarrow> string" where
  "clean_url url s = (let v = py_strip s in if v = [] then [] else the (url v))"

text \<open>The errors of the form, field by field, with the constraints of \<open>models.py\<close>
  lines 101--121: \<open>tournament\<close>, \<open>team1\<close>, \<open>team2\<close>, \<open>match_time\<close> and
  \<open>status\<close> are required, \<open>points_team1\<close>, \<open>points_team2\<close> and
  \<open>viewer_count\<close> too (their defaults do not make them \<open>blank\<close>).\<close>

definition match_form_errors ::
  "(string \<Rightarrow> string option) \<Rightarrow> db \<Rightarrow> match_form \<Rightarrow> (string \<times> form_error list) list" where
  "match_form_errors url d f =
     filter (\<lambda>(_, es). es \<noteq> [])
       [(''tournament'', fk_field True (map tournament_id (tournaments d)) (f_tournament f)),
        (''game'', fk_field False (map game_id (games d)) (f_game f)),
        (''stage'', char_field False 100 (f_stage f)),
        (''status'', choice_field (f_status f)),
        (''match_time'', time_field (f_match_time f)),
        (''team1'', fk_field True (map team_id (team_table d)) (f_team1 f)),
        (''team2'', fk_field True (map team_id (team_table d)) (f_team2 f)),
        (''team1_score'', int_field False True (f_team1_score f)),
        (''team2_score'', int_field False True (f_team2_score f)),
        (''current_round'', int_field False True (f_current_round f)),
        (''total_rounds'', int_field False True (f_total_rounds f)),
        (''points_team1'', int_field True False (f_points_team1 f)),
        (''points_team2'', int_field True False (f_points_team2 f)),
        (''viewer_count'', int_field True True (f_viewer_count f)),
        (''viewer_label'', char_field False 20 (f_viewer_label f)),
        (''youtube_live_url'', url_field url (f_youtube_live_url f)),
        (''youtube_recap_url'', url_field url (f_youtube_recap_url f))]"

text \<open>\<open>form.save()\<close> on a valid form: the instance with key \<open>k\<close> takes every cleaned
  value.\<close>

definition match_of_form :: "(string \<Rightarrow> string option) \<Rightarrow> ident \<Rightarrow> match_form \<Rightarrow> match_row" where
  "match_of_form url k f =
     \<lparr>match_id = k, tournament = the (f_tournament f), team1 = the (f_team1 f), team2 = the (f_team2 f),
      match_time = the (f_match_time f), status = the (match_status_of (f_status f)), stage = py_strip (f_stage f),
      team1_score = map_option nat (f_team1_score f), team2_score = map_option nat (f_team2_score f),
      youtube_live_url = clean_url url (f_youtube_live_url f),
      youtube_recap_url = clean_url url (f_youtube_recap_url f),
      live_started_at = f_live_started_at f, completed_at = f_completed_at f, match_game = f_game f,
      viewer_count = nat (the (f_viewer_count f)), viewer_label = py_strip (f_viewer_label f),
      current_round = map_option nat (f_current_round f), total_rounds = map_option nat (f_total_rounds f),
      points_team1 = the (f_points_team1 f), points_team2 = the (f_points_team2 f)\<rparr>"

text \<open>What the admin answers a POST of the form: the database after the save, the form
  again with its errors (nothing saved), or, for a key no match has, the redirect to the
  admin index with \<open>Match with ID ... doesn't exist\<close>.\<close>

datatype admin_result = Saved db | Form_invalid "(string \<times> form_error list) list" | Object_missing

text \<open>\<open>ModelAdmin.changeform_view\<close> for \<open>MatchAdmin\<close>: the add view (\<open>None\<close>), whose
  new row takes the next key, and the change view of key \<open>k\<close>, which looks the object up
  before it validates the form.\<close>

definition admin_save_match ::
  "(string \<Rightarrow> string option) \<Rightarrow> ident option \<Rightarrow> match_form \<Rightarrow> db \<Rightarrow> admin_result" where
  "admin_save_match url target f d =
     (let errs = match_form_errors url d f in
      case target of
        None \<Rightarrow>
          if errs = [] then Saved (d\<lparr>matches := matches d @ [match_of_form url (next_id (map match_id (matches d))) f]\<rparr>)
          else Form_invalid errs
      | Some k \<Rightarrow>
          if k \<notin> set (map match_id (matches d)) then Object_missing
          else if errs = [] then
            Saved (d\<lparr>matches := map (\<lambda>m. if match_id m = k then match_of_form url k f else m) (matches d)\<rparr>)
          else Form_invalid errs)"

text \<open>The change form shows the stored row (\<open>model_to_dict\<close>): a key or number as
  itself, a \<open>NULL\<close> as an empty input, the status as its choice value.\<close>

definition status_value :: "match_status \<Rightarrow> string" where
  "status_value s = (case s of Upcoming \<Rightarrow> ''upcoming'' | Live \<Rightarrow> ''live'' | Completed \<Rightarrow> ''completed'')"

definition form_of_match :: "match_row \<Rightarrow> match_form" where
  "form_of_match m =
     \<lparr>f_tournament = Some (tournament m), f_game = match_game m, f_stage = stage m, f_status = status_value (status m),
      f_match_time = Some (match_time m), f_team1 = Some (team1 m), f_team2 = Some (team2 m),
      f_team1_score = map_option int (team1_score m), f_team2_score = map_option int (team2_score m),
      f_current_round = map_option int (current_round m), f_total_rounds = map_option int (total_rounds m),
      f_points_team1 = Some (points_team1 m), f_points_team2 = Some (points_team2 m),
      f_live_started_at = live_started_at m, f_completed_at = completed_at m,
      f_viewer_count = Some (int (viewer_count m)), f_viewer_label = viewer_label m,
      f_youtube_live_url = youtube_live_url m, f_youtube_recap_url = youtube_recap_url m\<rparr>"

text \<open>The sweeps of \<open>update_match_statuses\<close> a row goes through after a save: phase 1 then
  phase 2 of one run, any number of runs, at any instants.\<close>

inductive swept :: "match_row \<Rightarrow> match_row \<Rightarrow> bool" where
  swept_refl: "swept m m"
| swept_step: "swept m m' \<Longrightarrow> upcoming_to_live_row tzdb ts now m' = Inr m'' \<Longrightarrow>
                 swept m (live_to_completed_row now m'')"

text \<open>Two POSTs of the add form on \<open>valorant_db\<close>: a live final between its two teams
  with no start stamp, and a form with a blank tournament, an unknown second team, a
  negative score and a status that is not a choice.\<close>

definition live_form :: match_form where
  "live_form =
     \<lparr>f_tournament = Some 1, f_game = None, f_stage = ''Final'', f_status = ''live'', f_match_time = Some 1000,
      f_team1 = Some 1, f_team2 = Some 2, f_team1_score = None, f_team2_score = None, f_current_round = None,
      f_total_rounds = None, f_points_team1 = Some 0, f_points_team2 = Some 0, f_live_started_at = None,
      f_completed_at = None, f_viewer_count = Some 0, f_viewer_label = [], f_youtube_live_url = [],
      f_youtube_recap_url = []\<rparr>"

definition bad_form :: match_form where
  "bad_form = live_form\<lparr>f_tournament := None, f_team2 := Some 9, f_team1_score := Some (-1), f_status := ''final''\<rparr>"

section \<open>Lemmas on the cascade\<close>

lemma subseq_mem: "subseq xs ys \<Longrightarrow> x \<in> set xs \<Longrightarrow> x \<in> set ys"
  by (induction rule: list_emb.induct) auto

lemma subseq_filter_all: "subseq xs ys \<Longrightarrow> \<forall>x\<in>set xs. P x \<Longrightarrow> subseq xs (filter P ys)"
  using subseq_filter [of xs ys P] by (simp add: filter_id_conv)

text \<open>The tables after the delete, one by one.\<close>

lemma cascade_delete_tables:
  "games (cascade_delete r d) = filter (\<lambda>g. game_id g \<notin> set (del_games r)) (games d)"
  "tournaments (cascade_delete r d) = filter (\<lambda>t. tournament_id t \<notin> set (deleted_tournaments r d)) (tournaments d)"
  "team_table (cascade_delete r d) = filter (\<lambda>t. team_id t \<notin> set (deleted_teams r d)) (team_table d)"
  "matches (cascade_delete r d) = filter (\<lambda>m. match_id m \<notin> set (deleted_matches r d)) (matches d)"
  "players (cascade_delete r d) =
     filter (\<lambda>p. player_id p \<notin> set (del_players r) \<and> player_team p \<notin> set (deleted_teams r d)) (players d)"
  "reminders (cascade_delete r d) = filter (\<lambda>x. reminder_match x \<notin> set (deleted_matches r d)) (reminders d)"
  "match_reminders (cascade_delete r d) =
     filter (\<lambda>x. mr_id x \<notin> set (del_match_reminders r) \<and> mr_match x \<notin> set (deleted_matches r d)) (match_reminders d)"
  "participants (cascade_delete r d) =
     filter (\<lambda>p. (participant_tournament p, participant_team p) \<notin> set (del_participants r) \<and>
       participant_tournament p \<notin> set (deleted_tournaments r d) \<and> participant_team p \<notin> set (deleted_teams r d))
       (participants d)"
  "news (cascade_delete r d) = filter (\<lambda>n. news_id n \<notin> set (del_news r)) (news d)"
  by (simp_all add: cascade_delete_def Let_def)

lemma cascade_delete_sub: "sub_db (cascade_delete r d) d"
  by (simp add: sub_db_def cascade_delete_def Let_def)

lemma cascade_delete_no_root: "holds_no_root r (cascade_delete r d)"
  by (simp add: holds_no_root_def cascade_delete_def Let_def list_all_iff deleted_tournaments_def
      deleted_teams_def deleted_matches_def)

lemma cascade_delete_keys_unique: "keys_unique d \<Longrightarrow> keys_unique (cascade_delete r d)"
  by (simp add: keys_unique_def cascade_delete_def Let_def distinct_map_filter)

text \<open>With unique keys, a row is collected exactly when it is selected or refers to a
  collected row.\<close>

lemma key_in_map_filter:
  assumes "distinct (map f xs)" and "x \<in> set xs"
  shows "f x \<in> set (map f (filter P xs)) \<longleftrightarrow> P x"
  using assms by (auto simp: distinct_map inj_on_def)

lemma deleted_tournaments_iff:
  "keys_unique d \<Longrightarrow> t \<in> set (tournaments d) \<Longrightarrow>
   tournament_id t \<in> set (deleted_tournaments r d) \<longleftrightarrow>
   tournament_id t \<in> set (del_tournaments r) \<or> ref_hits (tournament_game t) (del_games r)"
  using key_in_map_filter [of tournament_id "tournaments d" t] by (simp add: deleted_tournaments_def keys_unique_def)

lemma deleted_teams_iff:
  "keys_unique d \<Longrightarrow> t \<in> set (team_table d) \<Longrightarrow>
   team_id t \<in> set (deleted_teams r d) \<longleftrightarrow> team_id t \<in> set (del_teams r) \<or> ref_hits (team_game t) (del_games r)"
  using key_in_map_filter [of team_id "team_table d" t] by (simp add: deleted_teams_def keys_unique_def)

lemma deleted_matches_iff:
  "keys_unique d \<Longrightarrow> m \<in> set (matches d) \<Longrightarrow>
   match_id m \<in> set (deleted_matches r d) \<longleftrightarrow>
   match_id m \<in> set (del_matches r) \<or> tournament m \<in> set (deleted_tournaments r d) \<or>
   team1 m \<in> set (deleted_teams r d) \<or> team2 m \<in> set (deleted_teams r d) \<or> ref_hits (match_game m) (del_games r)"
  using key_in_map_filter [of match_id "matches d" m] by (simp add: deleted_matches_def keys_unique_def)

text \<open>Without that hypothesis: a row that refers to a collected row is collected.\<close>

lemma deleted_collects:
  "t \<in> set (tournaments d) \<Longrightarrow> ref_hits (tournament_game t) (del_games r) \<Longrightarrow>
     tournament_id t \<in> set (deleted_tournaments r d)"
  "t' \<in> set (team_table d) \<Longrightarrow> ref_hits (team_game t') (del_games r) \<Longrightarrow> team_id t' \<in> set (deleted_teams r d)"
  "m \<in> set (matches d) \<Longrightarrow>
     tournament m \<in> set (deleted_tournaments r d) \<or> team1 m \<in> set (deleted_teams r d) \<or>
     team2 m \<in> set (deleted_teams r d) \<or> ref_hits (match_game m) (del_games r) \<Longrightarrow>
     match_id m \<in> set (deleted_matches r d)"
  by (auto simp: deleted_tournaments_def deleted_teams_def deleted_matches_def)

lemma mem_map_filter_keep: "k \<in> set (map f xs) \<Longrightarrow> k \<notin> S \<Longrightarrow> k \<in> set (map f (filter (\<lambda>x. f x \<notin> S) xs))"
  by auto

lemma ref_ok_keep: "ref_ok x (map f xs) \<Longrightarrow> \<not> ref_hits x S \<Longrightarrow> ref_ok x (map f (filter (\<lambda>y. f y \<notin> set S) xs))"
  by (auto simp: ref_ok_def ref_hits_def split: option.splits)

lemma ref_ok_not_hits: "ref_ok x (map f xs) \<Longrightarrow> \<forall>y\<in>set xs. f y \<notin> set S \<Longrightarrow> \<not> ref_hits x S"
  by (auto simp: ref_ok_def ref_hits_def split: option.splits)

lemma cascade_delete_greatest:
  assumes ku: "keys_unique d" and sub: "sub_db d' d" and fk: "fk_ok d'" and nr: "holds_no_root r d'"
  shows "sub_db d' (cascade_delete r d)"
proof -
  have s: "set (games d') \<subseteq> set (games d)" "set (tournaments d') \<subseteq> set (tournaments d)"
    "set (team_table d') \<subseteq> set (team_table d)" "set (matches d') \<subseteq> set (matches d)"
    using sub subseq_mem by (fastforce simp: sub_db_def)+
  have g: "\<forall>g\<in>set (games d'). game_id g \<notin> set (del_games r)" using nr by (simp add: holds_no_root_def list_all_iff)
  have t: "\<forall>t\<in>set (tournaments d'). tournament_id t \<notin> set (deleted_tournaments r d)"
  proof
    fix t assume t: "t \<in> set (tournaments d')"
    from fk t have "ref_ok (tournament_game t) (map game_id (games d'))" by (simp add: fk_ok_def list_all_iff)
    from ref_ok_not_hits [OF this g] have "\<not> ref_hits (tournament_game t) (del_games r)" .
    with t nr s(2) ku show "tournament_id t \<notin> set (deleted_tournaments r d)"
      by (auto simp: deleted_tournaments_iff holds_no_root_def list_all_iff)
  qed
  have tm: "\<forall>t\<in>set (team_table d'). team_id t \<notin> set (deleted_teams r d)"
  proof
    fix t assume t: "t \<in> set (team_table d')"
    from fk t have "ref_ok (team_game t) (map game_id (games d'))" by (simp add: fk_ok_def list_all_iff)
    from ref_ok_not_hits [OF this g] have "\<not> ref_hits (team_game t) (del_games r)" .
    with t nr s(3) ku show "team_id t \<notin> set (deleted_teams r d)"
      by (auto simp: deleted_teams_iff holds_no_root_def list_all_iff)
  qed
  have m: "\<forall>m\<in>set (matches d'). match_id m \<notin> set (deleted_matches r d)"
  proof
    fix m assume m: "m \<in> set (matches d')"
    from fk m have "ref_ok (match_game m) (map game_id (games d'))" by (simp add: fk_ok_def list_all_iff)
    from ref_ok_not_hits [OF this g] have "\<not> ref_hits (match_game m) (del_games r)" .
    moreover from fk m t tm have "tournament m \<notin> set (deleted_tournaments r d)" "team1 m \<notin> set (deleted_teams r d)"
      "team2 m \<notin> set (deleted_teams r d)"
      by (auto simp: fk_ok_def list_all_iff)
    ultimately show "match_id m \<notin> set (deleted_matches r d)"
      using m nr s(4) ku by (auto simp: deleted_matches_iff holds_no_root_def list_all_iff)
  qed
  from fk nr tm have p: "\<forall>p\<in>set (players d'). player_id p \<notin> set (del_players r) \<and> player_team p \<notin> set (deleted_teams r d)"
    by (auto simp: fk_ok_def holds_no_root_def list_all_iff)
  from fk nr m have x: "\<forall>x\<in>set (reminders d'). reminder_match x \<notin> set (deleted_matches r d)"
    "\<forall>x\<in>set (match_reminders d'). mr_id x \<notin> set (del_match_reminders r) \<and> mr_match x \<notin> set (deleted_matches r d)"
    by (auto simp: fk_ok_def holds_no_root_def list_all_iff)
  from fk nr t tm have pa: "\<forall>p\<in>set (participants d').
      (participant_tournament p, participant_team p) \<notin> set (del_participants r) \<and>
      participant_tournament p \<notin> set (deleted_tournaments r d) \<and> participant_team p \<notin> set (deleted_teams r d)"
    by (auto simp: fk_ok_def holds_no_root_def list_all_iff)
  from nr have n: "\<forall>n\<in>set (news d'). news_id n \<notin> set (del_news r)" by (simp add: holds_no_root_def list_all_iff)
  from sub g t tm m p x pa n show ?thesis
    by (simp add: sub_db_def cascade_delete_tables subseq_filter_all)
qed

lemma cascade_delete_fk_ok:
  assumes fk: "fk_ok d" shows "fk_ok (cascade_delete r d)"
proof -
  let ?d' = "cascade_delete r d"
  note keep = mem_map_filter_keep ref_ok_keep
  have t: "list_all (\<lambda>t. ref_ok (tournament_game t) (map game_id (games ?d'))) (tournaments ?d')"
    using fk deleted_collects(1) [of _ d r]
    by (fastforce simp: list_all_iff fk_ok_def cascade_delete_tables intro: ref_ok_keep)
  have tm: "list_all (\<lambda>t. ref_ok (team_game t) (map game_id (games ?d'))) (team_table ?d')"
    using fk deleted_collects(2) [of _ d r]
    by (fastforce simp: list_all_iff fk_ok_def cascade_delete_tables intro: ref_ok_keep)
  have p: "list_all (\<lambda>p. player_team p \<in> set (map team_id (team_table ?d'))) (players ?d')"
    using fk by (simp add: list_all_iff fk_ok_def cascade_delete_tables mem_map_filter_keep del: set_map)
  have m: "list_all (\<lambda>m. tournament m \<in> set (map tournament_id (tournaments ?d')) \<and>
             team1 m \<in> set (map team_id (team_table ?d')) \<and> team2 m \<in> set (map team_id (team_table ?d')) \<and>
             ref_ok (match_game m) (map game_id (games ?d'))) (matches ?d')"
    unfolding list_all_iff
  proof
    fix m assume "m \<in> set (matches ?d')"
    then have m: "m \<in> set (matches d)" "match_id m \<notin> set (deleted_matches r d)"
      by (simp_all add: cascade_delete_tables)
    then have "tournament m \<notin> set (deleted_tournaments r d)" "team1 m \<notin> set (deleted_teams r d)"
      "team2 m \<notin> set (deleted_teams r d)" "\<not> ref_hits (match_game m) (del_games r)"
      using deleted_collects(3) [of m d r] by auto
    moreover from fk m(1) have "tournament m \<in> set (map tournament_id (tournaments d))"
      "team1 m \<in> set (map team_id (team_table d))" "team2 m \<in> set (map team_id (team_table d))"
      "ref_ok (match_game m) (map game_id (games d))"
      by (auto simp: fk_ok_def list_all_iff)
    ultimately show "tournament m \<in> set (map tournament_id (tournaments ?d')) \<and>
             team1 m \<in> set (map team_id (team_table ?d')) \<and> team2 m \<in> set (map team_id (team_table ?d')) \<and>
             ref_ok (match_game m) (map game_id (games ?d'))"
      by (simp add: cascade_delete_tables keep del: set_map)
  qed
  have rm: "list_all (\<lambda>x. reminder_match x \<in> set (map match_id (matches ?d'))) (reminders ?d')"
    "list_all (\<lambda>x. mr_match x \<in> set (map match_id (matches ?d'))) (match_reminders ?d')"
    "list_all (\<lambda>p. participant_tournament p \<in> set (map tournament_id (tournaments ?d')) \<and>
       participant_team p \<in> set (map team_id (team_table ?d'))) (participants ?d')"
    using fk by (simp_all add: list_all_iff fk_ok_def cascade_delete_tables mem_map_filter_keep del: set_map)
  from t tm p m rm show ?thesis by (simp only: fk_ok_def)
qed

text \<open>C4. A delete in the admin, of one object or of a selection, refines its
  specification: on a database with unique keys and intact foreign keys, the result keeps
  a subsequence of every table, none of the selected rows, unique keys and intact foreign
  keys, and it is the greatest such database: every sub-database with intact foreign keys
  and none of the selected rows is contained in it, so the cascade removes nothing that
  does not depend on a selected row.\<close>

theorem cascade_delete_spec:
  assumes "keys_unique d" and "fk_ok d"
  shows "sub_db (cascade_delete r d) d \<and> holds_no_root r (cascade_delete r d) \<and>
         keys_unique (cascade_delete r d) \<and> fk_ok (cascade_delete r d) \<and>
         (\<forall>d'. sub_db d' d \<and> fk_ok d' \<and> holds_no_root r d' \<longrightarrow> sub_db d' (cascade_delete r d))"
  using assms cascade_delete_sub cascade_delete_no_root cascade_delete_keys_unique cascade_delete_fk_ok
    cascade_delete_greatest by blast

theorem cascade_delete_spec_witness:
  "cascade_delete \<lparr>del_games = [3], del_tournaments = [], del_teams = [], del_players = [], del_matches = [],
      del_match_reminders = [], del_news = [], del_participants = []\<rparr> valorant_db =
     valorant_db\<lparr>games := [], team_table := [], matches := [], match_reminders := []\<rparr> \<and>
   fk_ok (valorant_db\<lparr>games := [], team_table := [], matches := [], match_reminders := []\<rparr>)"
proof -
  have k: "keys_unique valorant_db" and f: "fk_ok valorant_db"
    by (simp_all add: keys_unique_def fk_ok_def ref_ok_def valorant_db_def views_db_def demo_game_def demo_team_def
        demo_match_def demo_tournament_def demo_match_reminder_def)
  have "cascade_delete \<lparr>del_games = [3], del_tournaments = [], del_teams = [], del_players = [], del_matches = [],
      del_match_reminders = [], del_news = [], del_participants = []\<rparr> valorant_db =
     valorant_db\<lparr>games := [], team_table := [], matches := [], match_reminders := []\<rparr>"
    by (simp add: cascade_delete_def deleted_tournaments_def deleted_teams_def deleted_matches_def ref_hits_def
        valorant_db_def views_db_def demo_game_def demo_team_def demo_match_def demo_tournament_def demo_match_reminder_def)
  with cascade_delete_spec [OF k f, of "\<lparr>del_games = [3], del_tournaments = [], del_teams = [], del_players = [],
      del_matches = [], del_match_reminders = [], del_news = [], del_participants = []\<rparr>"]
  show ?thesis by simp
qed

section \<open>Lemmas on the change form\<close>

lemma match_form_errors_Nil:
  "match_form_errors url d f = [] \<longleftrightarrow>
     fk_field True (map tournament_id (tournaments d)) (f_tournament f) = [] \<and>
     fk_field False (map game_id (games d)) (f_game f) = [] \<and> char_field False 100 (f_stage f) = [] \<and>
     choice_field (f_status f) = [] \<and> time_field (f_match_time f) = [] \<and>
     fk_field True (map team_id (team_table d)) (f_team1 f) = [] \<and>
     fk_field True (map team_id (team_table d)) (f_team2 f) = [] \<and>
     int_field False True (f_team1_score f) = [] \<and> int_field False True (f_team2_score f) = [] \<and>
     int_field False True (f_current_round f) = [] \<and> int_field False True (f_total_rounds f) = [] \<and>
     int_field True False (f_points_team1 f) = [] \<and> int_field True False (f_points_team2 f) = [] \<and>
     int_field True True (f_viewer_count f) = [] \<and> char_field False 20 (f_viewer_label f) = [] \<and>
     url_field url (f_youtube_live_url f) = [] \<and> url_field url (f_youtube_recap_url f) = []"
  unfolding match_form_errors_def filter_empty_conv by simp

lemma fk_field_Nil: "fk_field req ks v = [] \<longleftrightarrow> (v = None \<longrightarrow> \<not> req) \<and> (\<forall>k. v = Some k \<longrightarrow> k \<in> set ks)"
  by (auto simp: fk_field_def split: option.splits)

lemma choice_field_Nil: "choice_field s = [] \<longleftrightarrow> match_status_of s \<noteq> None"
  by (auto simp: choice_field_def match_status_of_def)

lemma match_form_valid:
  assumes "match_form_errors url d f = []"
  shows "tournament (match_of_form url k f) \<in> set (map tournament_id (tournaments d))"
    "team1 (match_of_form url k f) \<in> set (map team_id (team_table d))"
    "team2 (match_of_form url k f) \<in> set (map team_id (team_table d))"
    "ref_ok (match_game (match_of_form url k f)) (map game_id (games d))"
    "match_status_of (f_status f) = Some (status (match_of_form url k f))"
  using assms unfolding match_form_errors_Nil fk_field_Nil choice_field_Nil
  by (auto simp: match_of_form_def ref_ok_def simp del: set_map split: option.split)

lemma admin_save_match_Saved:
  "admin_save_match url t f d = Saved d' \<Longrightarrow>
   match_form_errors url d f = [] \<and>
   (t = None \<and> d' = d\<lparr>matches := matches d @ [match_of_form url (next_id (map match_id (matches d))) f]\<rparr> \<or>
    (\<exists>k. t = Some k \<and> k \<in> set (map match_id (matches d)) \<and>
         d' = d\<lparr>matches := map (\<lambda>m. if match_id m = k then match_of_form url k f else m) (matches d)\<rparr>))"
  by (cases t) (auto simp: admin_save_match_def Let_def simp del: set_map split: if_splits)

lemma match_id_match_of_form [simp]: "match_id (match_of_form url k f) = k"
  by (simp add: match_of_form_def)

lemma map_match_id_replace:
  "map match_id (map (\<lambda>m. if match_id m = k then match_of_form url k f else m) ms) = map match_id ms"
  by (induction ms) auto

lemma fk_ok_matches_update:
  assumes "fk_ok d" and "set (map match_id (matches d)) \<subseteq> set (map match_id ms)"
    and "list_all (\<lambda>m. tournament m \<in> set (map tournament_id (tournaments d)) \<and>
                   team1 m \<in> set (map team_id (team_table d)) \<and> team2 m \<in> set (map team_id (team_table d)) \<and>
                   ref_ok (match_game m) (map game_id (games d))) ms"
  shows "fk_ok (d\<lparr>matches := ms\<rparr>)"
  using assms unfolding fk_ok_def list_all_iff by (simp del: set_map) blast



lemma swept_keeps_stamp:
  "swept m m' \<Longrightarrow> status m \<noteq> Upcoming \<Longrightarrow> status m' \<noteq> Upcoming \<and> live_started_at m' = live_started_at m"
proof (induction rule: swept.induct)
  case (swept_step m m' tzdb ts now m'')
  then have "m'' = m'" by (simp add: upcoming_to_live_row_def)
  with swept_step show ?case by (auto simp: live_to_completed_row_def)
qed simp

lemma admin_save_match_invalid:
  "match_form_errors url d f \<noteq> [] \<Longrightarrow> \<forall>k. t = Some k \<longrightarrow> k \<in> set (map match_id (matches d)) \<Longrightarrow>
   admin_save_match url t f d = Form_invalid (match_form_errors url d f)"
  by (cases t) (simp_all add: admin_save_match_def Let_def del: set_map)

lemma match_form_errors_mem:
  "f_tournament f = None \<Longrightarrow> (''tournament'', [Required]) \<in> set (match_form_errors url d f)"
  "f_team2 f = Some k \<Longrightarrow> k \<notin> set (map team_id (team_table d)) \<Longrightarrow>
     (''team2'', [Invalid_choice]) \<in> set (match_form_errors url d f)"
  "f_team1_score f = Some i \<Longrightarrow> i < 0 \<Longrightarrow> (''team1_score'', [Below_min]) \<in> set (match_form_errors url d f)"
  "match_status_of (f_status f) = None \<Longrightarrow>
     (''status'', [if f_status f = [] then Required else Invalid_choice]) \<in> set (match_form_errors url d f)"
  by (auto simp: match_form_errors_def fk_field_def int_field_def choice_field_def simp del: set_map)

text \<open>A save of the add or change form of the match admin keeps the database
  consistent: on a database with unique keys and intact foreign keys, the saved database
  has unique keys (the add form takes a fresh key, the change form keeps it) and intact
  foreign keys, because the form accepts only a tournament, teams and a game that exist.\<close>

theorem admin_save_match_keeps_integrity:
  assumes ku: "keys_unique d" and fk: "fk_ok d" and s: "admin_save_match url t f d = Saved d'"
  shows "keys_unique d' \<and> fk_ok d'"
proof -
  have v: "match_form_errors url d f = []" using admin_save_match_Saved [OF s] by blast
  have old: "list_all (\<lambda>m. tournament m \<in> set (map tournament_id (tournaments d)) \<and>
                   team1 m \<in> set (map team_id (team_table d)) \<and> team2 m \<in> set (map team_id (team_table d)) \<and>
                   ref_ok (match_game m) (map game_id (games d))) (matches d)"
    using fk by (simp add: fk_ok_def)
  note new = match_form_valid [OF v]
  from admin_save_match_Saved [OF s] consider
      (add) "d' = d\<lparr>matches := matches d @ [match_of_form url (next_id (map match_id (matches d))) f]\<rparr>"
    | (change) k where "k \<in> set (map match_id (matches d))"
        "d' = d\<lparr>matches := map (\<lambda>m. if match_id m = k then match_of_form url k f else m) (matches d)\<rparr>"
    by blast
  then show ?thesis
  proof cases
    case add
    have "keys_unique d'" using ku by (simp add: add keys_unique_def)
    moreover have "fk_ok d'" unfolding add
      by (rule fk_ok_matches_update [OF fk]) (use old new in \<open>auto simp del: set_map\<close>)
    ultimately show ?thesis ..
  next
    case change
    have "keys_unique d'" using ku map_match_id_replace [of k url f "matches d"]
      by (simp add: change keys_unique_def del: map_map)
    moreover have "fk_ok d'" unfolding change(2)
    proof (rule fk_ok_matches_update [OF fk])
      show "set (map match_id (matches d)) \<subseteq>
          set (map match_id (map (\<lambda>m. if match_id m = k then match_of_form url k f else m) (matches d)))"
        by (simp only: map_match_id_replace)
      show "list_all (\<lambda>m. tournament m \<in> set (map tournament_id (tournaments d)) \<and>
          team1 m \<in> set (map team_id (team_table d)) \<and> team2 m \<in> set (map team_id (team_table d)) \<and>
          ref_ok (match_game m) (map game_id (games d)))
          (map (\<lambda>m. if match_id m = k then match_of_form url k f else m) (matches d))"
        using old new by (auto simp: list_all_iff)
    qed
    ultimately show ?thesis ..
  qed
qed

theorem admin_save_match_keeps_integrity_witness:
  "\<exists>d'. admin_save_match (\<lambda>_. None) None live_form valorant_db = Saved d' \<and> keys_unique d' \<and> fk_ok d'"
proof -
  have k: "keys_unique valorant_db" and f: "fk_ok valorant_db"
    by (simp_all add: keys_unique_def fk_ok_def ref_ok_def valorant_db_def views_db_def demo_game_def demo_team_def
        demo_match_def demo_tournament_def demo_match_reminder_def)
  have v: "match_form_errors (\<lambda>_. None) valorant_db live_form = []"
    by (simp add: match_form_errors_def live_form_def fk_field_def int_field_def char_field_def choice_field_def
        time_field_def url_field_def match_status_of_def py_strip_def valorant_db_def views_db_def demo_team_def
        demo_tournament_def)
  then obtain d' where s: "admin_save_match (\<lambda>_. None) None live_form valorant_db = Saved d'"
    by (simp add: admin_save_match_def)
  with admin_save_match_keeps_integrity [OF k f s] show ?thesis by blast
qed

text \<open>C22. The match admin refuses an invalid form and saves nothing: for the add form,
  and for the change form of an existing match, a blank tournament is answered with
  \<open>This field is required.\<close>, a second team that does not exist with \<open>Select a valid
  choice.\<close>, a negative score with the minimum-value message, and a status outside
  \<open>STATUS_CHOICES\<close> with the required or invalid-choice message; the change form of a key
  no match has answers the missing-object redirect whatever the form holds.\<close>

theorem admin_match_form_rejects:
  assumes "\<forall>k. t = Some k \<longrightarrow> k \<in> set (map match_id (matches d))"
  shows "(f_tournament f = None \<longrightarrow>
            (\<exists>es. admin_save_match url t f d = Form_invalid es \<and> (''tournament'', [Required]) \<in> set es)) \<and>
         (\<forall>k. f_team2 f = Some k \<and> k \<notin> set (map team_id (team_table d)) \<longrightarrow>
            (\<exists>es. admin_save_match url t f d = Form_invalid es \<and> (''team2'', [Invalid_choice]) \<in> set es)) \<and>
         (\<forall>i. f_team1_score f = Some i \<and> i < 0 \<longrightarrow>
            (\<exists>es. admin_save_match url t f d = Form_invalid es \<and> (''team1_score'', [Below_min]) \<in> set es)) \<and>
         (match_status_of (f_status f) = None \<longrightarrow>
            (\<exists>es. admin_save_match url t f d = Form_invalid es \<and>
                 (''status'', [if f_status f = [] then Required else Invalid_choice]) \<in> set es)) \<and>
         (\<forall>k. k \<notin> set (map match_id (matches d)) \<longrightarrow> admin_save_match url (Some k) f d = Object_missing)"
proof -
  have inv: "admin_save_match url t f d = Form_invalid (match_form_errors url d f)"
    if "e \<in> set (match_form_errors url d f)" for e
    using that assms by (intro admin_save_match_invalid) auto
  have "\<forall>k. k \<notin> set (map match_id (matches d)) \<longrightarrow> admin_save_match url (Some k) f d = Object_missing"
    by (simp add: admin_save_match_def Let_def del: set_map)
  with inv match_form_errors_mem [where f = f and url = url and d = d] show ?thesis
    by blast
qed

theorem admin_match_form_rejects_witness:
  "\<exists>es. admin_save_match (\<lambda>_. None) None bad_form valorant_db = Form_invalid es \<and>
     (''tournament'', [Required]) \<in> set es \<and> (''team2'', [Invalid_choice]) \<in> set es \<and>
     (''team1_score'', [Below_min]) \<in> set es \<and> (''status'', [Invalid_choice]) \<in> set es"
proof -
  have "f_tournament bad_form = None" "f_team2 bad_form = Some 9" "(9::nat) \<notin> set (map team_id (team_table valorant_db))"
    "f_team1_score bad_form = Some (-1)" "match_status_of (f_status bad_form) = None" "f_status bad_form \<noteq> []"
    by (simp_all add: bad_form_def live_form_def valorant_db_def demo_team_def match_status_of_def)
  with admin_match_form_rejects [of None valorant_db bad_form "\<lambda>_. None"] show ?thesis by auto
qed

text \<open>C36. The match admin can break the lifecycle invariant the status sweeper keeps
  (\<open>Sweeper.match_reach_lifecycle_ok\<close>): its fieldsets expose \<open>status\<close>,
  \<open>live_started_at\<close> and \<open>completed_at\<close>, so a valid add form that marks a match live
  and leaves the start stamp blank is saved as a live match without \<open>live_started_at\<close>,
  and no later run of \<open>update_match_statuses\<close>, at any instants, gives it one back.\<close>

theorem admin_live_without_stamp:
  assumes v: "match_form_errors url d f = []" and st: "f_status f = ''live''" and ls: "f_live_started_at f = None"
  shows "\<exists>d'. admin_save_match url None f d = Saved d' \<and>
           last (matches d') = match_of_form url (next_id (map match_id (matches d))) f \<and>
           (\<forall>m'. swept (last (matches d')) m' \<longrightarrow> \<not> lifecycle_ok m')"
proof -
  let ?m = "match_of_form url (next_id (map match_id (matches d))) f"
  have s: "status ?m = Live" "live_started_at ?m = None"
    using match_form_valid(5) [OF v] st ls by (simp_all add: match_status_of_def match_of_form_def)
  have "\<not> lifecycle_ok m'" if "swept ?m m'" for m'
    using swept_keeps_stamp [OF that] s by (simp add: lifecycle_ok_def)
  then show ?thesis using v by (simp add: admin_save_match_def)
qed

theorem admin_live_without_stamp_witness:
  "\<exists>d'. admin_save_match (\<lambda>_. None) None live_form valorant_db = Saved d' \<and>
     \<not> lifecycle_ok (last (matches d'))"
proof -
  have v: "match_form_errors (\<lambda>_. None) valorant_db live_form = []"
    by (simp add: match_form_errors_def live_form_def fk_field_def int_field_def char_field_def choice_field_def
        time_field_def url_field_def match_status_of_def py_strip_def valorant_db_def views_db_def demo_team_def
        demo_tournament_def)
  have "f_status live_form = ''live''" "f_live_started_at live_form = None" by (simp_all add: live_form_def)
  with admin_live_without_stamp [OF v] show ?thesis by (blast intro: swept_refl)
qed

end
