(* ===== verification/ModelForms.thy ===== *)
theory ModelForms
  imports AdminForms Listings
begin

text \<open>
  The add and change forms of the other admins of \<open>src/GENZE/core/admin.py\<close>, each with
  the fields Django puts in it: those of \<open>fieldsets\<close> where the admin declares them
  (\<open>TeamAdmin\<close>, \<open>PlayerAdmin\<close>, \<open>NewsArticleAdmin\<close>), every editable field of the model
  otherwise (\<open>TournamentAdmin\<close>, \<open>MatchReminderAdmin\<close>,
  \<open>TournamentParticipantAdmin\<close>, \<open>GameAdmin\<close>). Each form is checked field by field with
  the constraints of \<open>models.py\<close> and then by \<open>validate_unique\<close> (\<open>Game.name\<close>,
  \<open>NewsArticle.slug\<close>, the \<open>unique_together\<close> of \<open>TournamentParticipant\<close>); a valid form
  is saved as a whole row. \<open>admin_step\<close> gathers every write of the admin, these saves,
  the match form of \<open>AdminForms\<close> and the cascading delete.
\<close>

section \<open>Field checks\<close>

text \<open>A \<open>CharField\<close> or \<open>TextField\<close> with \<open>null=True\<close> stores an empty input as
  \<open>NULL\<close>.\<close>

definition opt_text :: "string \<Rightarrow> string option" where
  "opt_text s = (let v = py_strip s in if v = [] then None else Some v)"

text \<open>A \<open>TextField\<close>: no length limit.\<close>

definition text_field :: "bool \<Rightarrow> string \<Rightarrow> form_error list" where
  "text_field req s = (if req \<and> py_strip s = [] then [Required] else [])"

text \<open>An \<open>EmailField\<close> (\<open>max_length=254\<close>): \<open>EmailValidator\<close>, the parameter
  \<open>email\<close>, then the length check.\<close>

definition email_field :: "(string \<Rightarrow> bool) \<Rightarrow> bool \<Rightarrow> string \<Rightarrow> form_error list" where
  "email_field email req s =
     (let v = py_strip s in
      if v = [] then (if req then [Required] else [])
      else (if email v then [] else [Invalid_email]) @ (if 254 < length v then [Too_long 254 (length v)] else []))"

text \<open>A \<open>DecimalField(max_digits=12, decimal_places=2)\<close> as a count of hundredths: at
  most twelve digits in all.\<close>

definition decimal_field :: "int option \<Rightarrow> form_error list" where
  "decimal_field v = (case v of None \<Rightarrow> [] | Some x \<Rightarrow> if 10 ^ 12 \<le> \<bar>x\<bar> then [Max_digits 12] else [])"

definition date_field :: "bool \<Rightarrow> int option \<Rightarrow> form_error list" where
  "date_field req v = (case v of None \<Rightarrow> if req then [Required] else [] | Some _ \<Rightarrow> [])"

text \<open>\<open>validate_slug\<close>: letters, digits, hyphens and underscores; a \<open>SlugField\<close> has
  \<open>max_length=50\<close>.\<close>

definition slug_char :: "char \<Rightarrow> bool" where
  "slug_char c \<longleftrightarrow> c \<in> set (''abcdefghijklmnopqrstuvwxyzABCDEFGHIJKLMNOPQRSTUVWXYZ0123456789-_'')"

definition slug_field :: "string \<Rightarrow> form_error list" where
  "slug_field s =
     (let v = py_strip s in
      if v = [] then []
      else (if list_all slug_char v then [] else [Invalid_slug]) @ (if 50 < length v then [Too_long 50 (length v)] else []))"

text \<open>A choice field: the empty value when the field may be blank, else one of the
  choices.\<close>

definition choice_of :: "(string \<times> 'a) list \<Rightarrow> bool \<Rightarrow> string \<Rightarrow> form_error list" where
  "choice_of cs blank s =
     (if s = [] \<and> \<not> blank then [Required] else if map_of cs s = None then [Invalid_choice] else [])"

text \<open>The errors of a form: the fields with a non-empty list, in form order.\<close>

definition form_errors :: "(string \<times> form_error list) list \<Rightarrow> (string \<times> form_error list) list" where
  "form_errors fs = filter (\<lambda>(_, es). es \<noteq> []) fs"

text \<open>\<open>validate_unique\<close> runs only over fields without an error, and leaves the edited row
  itself out.\<close>

definition unique_error ::
  "string \<Rightarrow> (string \<times> form_error list) list \<Rightarrow> bool \<Rightarrow> (string \<times> form_error list) list" where
  "unique_error fld errs clash = (if errs = [] \<and> clash then [(fld, [Not_unique])] else [])"

section \<open>Saving a row\<close>

text \<open>\<open>changeform_view\<close> on a table keyed by \<open>key\<close>: the change view of a missing key
  redirects; a valid form adds the row \<open>mk\<close> builds under the next key, or replaces the
  row of the edited key; \<open>put\<close> puts the table back into the database.\<close>

definition admin_save ::
  "(string \<times> form_error list) list \<Rightarrow> ('r \<Rightarrow> ident) \<Rightarrow> (ident \<Rightarrow> 'r option \<Rightarrow> 'r) \<Rightarrow> ident option \<Rightarrow>
   'r list \<Rightarrow> ('r list \<Rightarrow> db) \<Rightarrow> admin_result" where
  "admin_save errs key mk target rs put =
     (case target of
        None \<Rightarrow> if errs = [] then Saved (put (rs @ [mk (next_id (map key rs)) None])) else Form_invalid errs
      | Some k \<Rightarrow>
          if k \<notin> set (map key rs) then Object_missing
          else if errs = [] then Saved (put (map (\<lambda>r. if key r = k then mk k (Some r) else r) rs))
          else Form_invalid errs)"

section \<open>\<open>GameAdmin\<close>\<close>

text \<open>\<open>Game.name\<close>: \<open>CharField(max_length=100, unique=True)\<close> (\<open>models.py\<close> line 7).\<close>

definition game_form_errors :: "ident option \<Rightarrow> string \<Rightarrow> db \<Rightarrow> (string \<times> form_error list) list" where
  "game_form_errors target nm d =
     (let errs = form_errors [(''name'', char_field True 100 nm)] in
      errs @ unique_error ''name'' errs
               (list_ex (\<lambda>g. game_name g = py_strip nm \<and> target \<noteq> Some (game_id g)) (games d)))"

definition admin_save_game :: "ident option \<Rightarrow> string \<Rightarrow> db \<Rightarrow> admin_result" where
  "admin_save_game target nm d =
     admin_save (game_form_errors target nm d) game_id (\<lambda>k _. \<lparr>game_id = k, game_name = py_strip nm\<rparr>)
       target (games d) (\<lambda>gs. d\<lparr>games := gs\<rparr>)"

section \<open>\<open>TournamentAdmin\<close>\<close>

text \<open>Every editable field of \<open>Tournament\<close> (\<open>models.py\<close> lines 21--37), in model order.\<close>

record tournament_form =
  tf_title :: string
  tf_game :: "ident option"
  tf_status :: string
  tf_prize_pool :: "int option"
  tf_teams :: "int option"
  tf_start_date :: "int option"
  tf_end_date :: "int option"
  tf_location :: string
  tf_registration_deadline :: "int option"
  tf_format :: string
  tf_image :: "string option"
  tf_featured :: bool
  tf_timezone :: string

definition tournament_status_values :: "(string \<times> tournament_status) list" where
  "tournament_status_values =
     [(''registration'', Registration_Open), (''live'', Tournament_Live), (''completed'', Tournament_Completed),
      (''upcoming'', Tournament_Upcoming)]"

text \<open>\<open>timezone\<close> has a default and \<open>null=True\<close> but not \<open>blank=True\<close>, so the form
  requires it.\<close>

definition tournament_form_errors :: "db \<Rightarrow> tournament_form \<Rightarrow> (string \<times> form_error list) list" where
  "tournament_form_errors d f =
     form_errors
       [(''title'', char_field True 255 (tf_title f)),
        (''game'', fk_field False (map game_id (games d)) (tf_game f)),
        (''status'', choice_of tournament_status_values False (tf_status f)),
        (''prize_pool'', decimal_field (tf_prize_pool f)),
        (''teams'', int_field False True (tf_teams f)),
        (''start_date'', date_field True (tf_start_date f)),
        (''end_date'', date_field True (tf_end_date f)),
        (''location'', char_field False 255 (tf_location f)),
        (''registration_deadline'', date_field False (tf_registration_deadline f)),
        (''format'', char_field False 255 (tf_format f)),
        (''timezone'', char_field True 50 (tf_timezone f))]"

definition tournament_of_form :: "tournament_form \<Rightarrow> ident \<Rightarrow> tournament_row" where
  "tournament_of_form f k =
     \<lparr>tournament_id = k, title = py_strip (tf_title f),
      tournament_status = the (map_of tournament_status_values (tf_status f)), tournament_game = tf_game f,
      teams = map_option nat (tf_teams f), timezone = Some (py_strip (tf_timezone f)), prize_pool = tf_prize_pool f,
      start_date = the (tf_start_date f), featured = tf_featured f, location = py_strip (tf_location f),
      end_date = the (tf_end_date f), registration_deadline = tf_registration_deadline f,
      tournament_format = py_strip (tf_format f), tournament_image = tf_image f\<rparr>"

definition admin_save_tournament :: "ident option \<Rightarrow> tournament_form \<Rightarrow> db \<Rightarrow> admin_result" where
  "admin_save_tournament target f d =
     admin_save (tournament_form_errors d f) tournament_id (\<lambda>k _. tournament_of_form f k) target (tournaments d)
       (\<lambda>ts. d\<lparr>tournaments := ts\<rparr>)"

section \<open>\<open>TeamAdmin\<close>\<close>

text \<open>The fields of \<open>TeamAdmin.fieldsets\<close> (\<open>admin.py\<close> lines 37--41).\<close>

record team_form =
  mf_name :: string
  mf_tag :: string
  mf_game :: "ident option"
  mf_region :: string
  mf_founded :: "int option"
  mf_banner :: "string option"
  mf_logo :: "string option"
  mf_status_indicator :: string
  mf_rank :: "int option"
  mf_description :: string

definition team_indicator_values :: "(string \<times> team_indicator) list" where
  "team_indicator_values = [(''live'', Indicator_live), (''upcoming'', Indicator_upcoming), ([], Indicator_none)]"

definition team_form_errors :: "db \<Rightarrow> team_form \<Rightarrow> (string \<times> form_error list) list" where
  "team_form_errors d f =
     form_errors
       [(''name'', char_field True 100 (mf_name f)),
        (''tag'', char_field False 10 (mf_tag f)),
        (''game'', fk_field False (map game_id (games d)) (mf_game f)),
        (''region'', char_field False 50 (mf_region f)),
        (''founded'', int_field False True (mf_founded f)),
        (''status_indicator'', choice_of team_indicator_values True (mf_status_indicator f)),
        (''rank'', int_field False True (mf_rank f))]"

definition team_of_form :: "team_form \<Rightarrow> ident \<Rightarrow> team_row" where
  "team_of_form f k =
     \<lparr>team_id = k, name = py_strip (mf_name f), team_game = mf_game f, region = opt_text (mf_region f),
      tag = opt_text (mf_tag f), description = opt_text (mf_description f), banner = mf_banner f, logo = mf_logo f,
      founded = map_option nat (mf_founded f),
      status_indicator = the (map_of team_indicator_values (mf_status_indicator f)),
      rank = map_option nat (mf_rank f)\<rparr>"

definition admin_save_team :: "ident option \<Rightarrow> team_form \<Rightarrow> db \<Rightarrow> admin_result" where
  "admin_save_team target f d =
     admin_save (team_form_errors d f) team_id (\<lambda>k _. team_of_form f k) target (team_table d)
       (\<lambda>ts. d\<lparr>team_table := ts\<rparr>)"

section \<open>\<open>PlayerAdmin\<close>\<close>

text \<open>The fields of \<open>PlayerAdmin.fieldsets\<close> (\<open>admin.py\<close> lines 49--53); \<open>role\<close> is
  declared twice in \<open>Player\<close> (lines 82 and 88), and the second declaration is the
  field.\<close>

record player_form =
  pf_name :: string
  pf_role :: string
  pf_email :: string
  pf_discord :: string
  pf_team :: "ident option"
  pf_is_substitute :: bool
  pf_avatar :: "string option"

definition player_form_errors ::
  "(string \<Rightarrow> bool) \<Rightarrow> db \<Rightarrow> player_form \<Rightarrow> (string \<times> form_error list) list" where
  "player_form_errors email d f =
     form_errors
       [(''name'', char_field True 100 (pf_name f)),
        (''role'', char_field False 50 (pf_role f)),
        (''email'', email_field email True (pf_email f)),
        (''discord'', char_field False 100 (pf_discord f)),
        (''team'', fk_field True (map team_id (team_table d)) (pf_team f))]"

definition player_of_form :: "player_form \<Rightarrow> ident \<Rightarrow> player_row" where
  "player_of_form f k =
     \<lparr>player_id = k, player_name = py_strip (pf_name f), player_role = opt_text (pf_role f),
      player_team = the (pf_team f), player_avatar = pf_avatar f, player_email = py_strip (pf_email f),
      discord = py_strip (pf_discord f), is_substitute = pf_is_substitute f\<rparr>"

definition admin_save_player :: "(string \<Rightarrow> bool) \<Rightarrow> ident option \<Rightarrow> player_form \<Rightarrow> db \<Rightarrow> admin_result" where
  "admin_save_player email target f d =
     admin_save (player_form_errors email d f) player_id (\<lambda>k _. player_of_form f k) target (players d)
       (\<lambda>ps. d\<lparr>players := ps\<rparr>)"

section \<open>\<open>NewsArticleAdmin\<close>\<close>

text \<open>The fields of \<open>NewsArticleAdmin.fieldsets\<close> (\<open>admin.py\<close> lines 18--25).
  \<open>prepopulated_fields\<close> fills the slug in the browser; the server sees what is posted.\<close>

record news_form =
  nf_title :: string
  nf_slug :: string
  nf_status :: string
  nf_date :: "int option"
  nf_featured :: bool
  nf_image :: "string option"
  nf_summary :: string
  nf_content :: string

definition news_status_values :: "(string \<times> news_status) list" where
  "news_status_values = [(''breaking'', News_breaking), (''update'', News_update), (''announcement'', News_announcement)]"

text \<open>\<open>slug\<close> is \<open>unique=True\<close> and \<open>null=True\<close>: an empty slug is \<open>NULL\<close>, which no
  other slug equals.\<close>

definition news_form_errors :: "ident option \<Rightarrow> db \<Rightarrow> news_form \<Rightarrow> (string \<times> form_error list) list" where
  "news_form_errors target d f =
     (let errs = form_errors
                   [(''title'', char_field True 255 (nf_title f)),
                    (''slug'', slug_field (nf_slug f)),
                    (''status'', choice_of news_status_values False (nf_status f)),
                    (''date'', date_field True (nf_date f)),
                    (''content'', text_field True (nf_content f))] in
      errs @ unique_error ''slug'' (filter (\<lambda>(n, _). n = ''slug'') errs)
               (opt_text (nf_slug f) \<noteq> None \<and>
                list_ex (\<lambda>n. news_slug n = opt_text (nf_slug f) \<and> target \<noteq> Some (news_id n)) (news d)))"

definition news_of_form :: "news_form \<Rightarrow> ident \<Rightarrow> news_row" where
  "news_of_form f k =
     \<lparr>news_id = k, news_title = py_strip (nf_title f), news_date = the (nf_date f),
      news_summary = opt_text (nf_summary f), news_content = py_strip (nf_content f),
      news_slug = opt_text (nf_slug f), news_featured = nf_featured f, news_image = nf_image f,
      news_status = the (map_of news_status_values (nf_status f))\<rparr>"

definition admin_save_news :: "ident option \<Rightarrow> news_form \<Rightarrow> db \<Rightarrow> admin_result" where
  "admin_save_news target f d =
     admin_save (news_form_errors target d f) news_id (\<lambda>k _. news_of_form f k) target (news d) (\<lambda>ns. d\<lparr>news := ns\<rparr>)"

section \<open>\<open>MatchReminderAdmin\<close>\<close>

text \<open>Every editable field of \<open>MatchReminder\<close> (\<open>models.py\<close> lines 127--133);
  \<open>created_at\<close> (\<open>auto_now_add\<close>) is set by the add view and kept by the change view.
  The keys of Django's user table are the parameter \<open>users\<close>.\<close>

record match_reminder_form =
  rf_match :: "ident option"
  rf_email :: string
  rf_phone :: string
  rf_notify_minutes_before :: "int option"
  rf_sent :: bool
  rf_user :: "ident option"

definition match_reminder_form_errors ::
  "(string \<Rightarrow> bool) \<Rightarrow> ident list \<Rightarrow> db \<Rightarrow> match_reminder_form \<Rightarrow> (string \<times> form_error list) list" where
  "match_reminder_form_errors email users d f =
     form_errors
       [(''match'', fk_field True (map match_id (matches d)) (rf_match f)),
        (''email'', email_field email False (rf_email f)),
        (''phone'', char_field False 20 (rf_phone f)),
        (''notify_minutes_before'', int_field True True (rf_notify_minutes_before f)),
        (''user'', fk_field False users (rf_user f))]"

definition match_reminder_of_form ::
  "instant \<Rightarrow> match_reminder_form \<Rightarrow> ident \<Rightarrow> match_reminder_row option \<Rightarrow> match_reminder_row" where
  "match_reminder_of_form now f k old =
     \<lparr>mr_id = k, mr_match = the (rf_match f), mr_email = py_strip (rf_email f), mr_phone = py_strip (rf_phone f),
      mr_notify_minutes_before = nat (the (rf_notify_minutes_before f)),
      mr_created_at = (case old of None \<Rightarrow> now | Some r \<Rightarrow> mr_created_at r), mr_sent = rf_sent f,
      mr_user = rf_user f\<rparr>"

definition admin_save_match_reminder ::
  "(string \<Rightarrow> bool) \<Rightarrow> ident list \<Rightarrow> instant \<Rightarrow> ident option \<Rightarrow> match_reminder_form \<Rightarrow> db \<Rightarrow> admin_result" where
  "admin_save_match_reminder email users now target f d =
     admin_save (match_reminder_form_errors email users d f) mr_id (match_reminder_of_form now f) target
       (match_reminders d) (\<lambda>rs. d\<lparr>match_reminders := rs\<rparr>)"

section \<open>\<open>TournamentParticipantAdmin\<close>\<close>

text \<open>Every editable field of \<open>TournamentParticipant\<close> (\<open>models.py\<close> lines 168--173);
  \<open>registered_at\<close> is \<open>auto_now_add\<close>. A row is named by its (tournament, team) pair,
  which \<open>unique_together\<close> makes a key.\<close>

record participant_form =
  pa_tournament :: "ident option"
  pa_team :: "ident option"
  pa_manager_name :: string
  pa_manager_email :: string
  pa_manager_phone :: string

definition participant_key :: "participant_row \<Rightarrow> ident \<times> ident" where
  "participant_key p = (participant_tournament p, participant_team p)"

text \<open>\<open>validate_unique\<close> checks \<open>unique_together\<close> when neither of its fields has an
  error, and reports a clash as an error of the whole form.\<close>

definition participant_form_errors ::
  "(string \<Rightarrow> bool) \<Rightarrow> (ident \<times> ident) option \<Rightarrow> db \<Rightarrow> participant_form \<Rightarrow> (string \<times> form_error list) list" where
  "participant_form_errors email target d f =
     (let errs = form_errors
                   [(''tournament'', fk_field True (map tournament_id (tournaments d)) (pa_tournament f)),
                    (''team'', fk_field True (map team_id (team_table d)) (pa_team f)),
                    (''manager_name'', char_field True 100 (pa_manager_name f)),
                    (''manager_email'', email_field email True (pa_manager_email f)),
                    (''manager_phone'', char_field False 20 (pa_manager_phone f))] in
      errs @ unique_error ''__all__'' (filter (\<lambda>(n, _). n = ''tournament'' \<or> n = ''team'') errs)
               (list_ex (\<lambda>p. participant_key p = (the (pa_tournament f), the (pa_team f)) \<and>
                              target \<noteq> Some (participant_key p)) (participants d)))"

definition participant_of_form :: "instant \<Rightarrow> participant_form \<Rightarrow> participant_row option \<Rightarrow> participant_row" where
  "participant_of_form now f old =
     \<lparr>participant_tournament = the (pa_tournament f), participant_team = the (pa_team f),
      manager_name = py_strip (pa_manager_name f), manager_email = py_strip (pa_manager_email f),
      manager_phone = py_strip (pa_manager_phone f),
      registered_at = (case old of None \<Rightarrow> now | Some p \<Rightarrow> registered_at p)\<rparr>"

definition admin_save_participant ::
  "(string \<Rightarrow> bool) \<Rightarrow> instant \<Rightarrow> (ident \<times> ident) option \<Rightarrow> participant_form \<Rightarrow> db \<Rightarrow> admin_result" where
  "admin_save_participant email now target f d =
     (let errs = participant_form_errors email target d f in
      case target of
        None \<Rightarrow>
          if errs = [] then Saved (d\<lparr>participants := participants d @ [participant_of_form now f None]\<rparr>)
          else Form_invalid errs
      | Some k \<Rightarrow>
          if k \<notin> set (map participant_key (participants d)) then Object_missing
          else if errs = [] then
            Saved (d\<lparr>participants :=
                       map (\<lambda>p. if participant_key p = k then participant_of_form now f (Some p) else p) (participants d)\<rparr>)
          else Form_invalid errs)"

section \<open>Every write of the admin\<close>

text \<open>The POSTs the admin site accepts for the registered models: a delete (the delete
  view or the \<open>delete_selected\<close> action) or a save of an add or change form. The
  validators Django supplies (\<open>URLValidator\<close>, \<open>EmailValidator\<close>), the keys of the user
  table and the clock are parameters.\<close>

datatype admin_op =
    Delete_rows delete_roots
  | Save_match "ident option" match_form
  | Save_tournament "ident option" tournament_form
  | Save_team "ident option" team_form
  | Save_player "ident option" player_form
  | Save_news "ident option" news_form
  | Save_match_reminder "ident option" match_reminder_form
  | Save_participant "(ident \<times> ident) option" participant_form
  | Save_game "ident option" string

definition admin_step ::
  "(string \<Rightarrow> string option) \<Rightarrow> (string \<Rightarrow> bool) \<Rightarrow> ident list \<Rightarrow> instant \<Rightarrow> admin_op \<Rightarrow> db \<Rightarrow> admin_result" where
  "admin_step url email users now op d =
     (case op of
        Delete_rows r \<Rightarrow> Saved (cascade_delete r d)
      | Save_match t f \<Rightarrow> admin_save_match url t f d
      | Save_tournament t f \<Rightarrow> admin_save_tournament t f d
      | Save_team t f \<Rightarrow> admin_save_team t f d
      | Save_player t f \<Rightarrow> admin_save_player email t f d
      | Save_news t f \<Rightarrow> admin_save_news t f d
      | Save_match_reminder t f \<Rightarrow> admin_save_match_reminder email users now t f d
      | Save_participant t f \<Rightarrow> admin_save_participant email now t f d
      | Save_game t nm \<Rightarrow> admin_save_game t nm d)"

section \<open>Lemmas on the saves\<close>

lemma map_key_replace:
  "(\<And>ov. key (mk k ov) = k) \<Longrightarrow> map key (map (\<lambda>r. if key r = k then mk k (Some r) else r) rs) = map key rs"
  by (induction rs) auto

lemma admin_save_Saved:
  assumes s: "admin_save errs key mk t rs put = Saved d'" and mk: "\<And>k ov. key (mk k ov) = k"
  shows "errs = [] \<and>
         (\<exists>rs'. d' = put rs' \<and> set (map key rs) \<subseteq> set (map key rs') \<and>
                (distinct (map key rs) \<longrightarrow> distinct (map key rs')) \<and>
                (\<forall>r\<in>set rs'. r \<in> set rs \<or> (\<exists>k ov. r = mk k ov)))"
proof (cases t)
  case None
  with s have "errs = []" "d' = put (rs @ [mk (next_id (map key rs)) None])"
    by (auto simp: admin_save_def split: if_splits)
  moreover have "next_id (map key rs) \<notin> key ` set rs" by (rule next_id_map_notin)
  ultimately show ?thesis using mk by (intro conjI exI [of _ "rs @ [mk (next_id (map key rs)) None]"]) auto
next
  case (Some k)
  with s have "errs = []" "d' = put (map (\<lambda>r. if key r = k then mk k (Some r) else r) rs)"
    by (auto simp: admin_save_def split: if_splits)
  moreover note map_key_replace [of key mk k rs, OF mk]
  ultimately show ?thesis
    by (intro conjI exI [of _ "map (\<lambda>r. if key r = k then mk k (Some r) else r) rs"]) (auto simp del: map_map)
qed

lemma form_errors_Nil: "form_errors fs = [] \<longleftrightarrow> (\<forall>(n, es)\<in>set fs. es = [])"
  by (auto simp: form_errors_def filter_empty_conv)

text \<open>Updating one table keeps the foreign keys when the table's keys only grow and its
  new rows refer to existing rows.\<close>

lemma fk_ok_updates:
  "fk_ok d \<Longrightarrow> set (map game_id (games d)) \<subseteq> set (map game_id gs) \<Longrightarrow> fk_ok (d\<lparr>games := gs\<rparr>)"
  "fk_ok d \<Longrightarrow> set (map tournament_id (tournaments d)) \<subseteq> set (map tournament_id ts) \<Longrightarrow>
     \<forall>t\<in>set ts. ref_ok (tournament_game t) (map game_id (games d)) \<Longrightarrow> fk_ok (d\<lparr>tournaments := ts\<rparr>)"
  "fk_ok d \<Longrightarrow> set (map team_id (team_table d)) \<subseteq> set (map team_id tms) \<Longrightarrow>
     \<forall>t\<in>set tms. ref_ok (team_game t) (map game_id (games d)) \<Longrightarrow> fk_ok (d\<lparr>team_table := tms\<rparr>)"
  "fk_ok d \<Longrightarrow> \<forall>p\<in>set ps. player_team p \<in> set (map team_id (team_table d)) \<Longrightarrow> fk_ok (d\<lparr>players := ps\<rparr>)"
  "fk_ok d \<Longrightarrow> fk_ok (d\<lparr>news := ns\<rparr>)"
  "fk_ok d \<Longrightarrow> \<forall>r\<in>set rs. mr_match r \<in> set (map match_id (matches d)) \<Longrightarrow> fk_ok (d\<lparr>match_reminders := rs\<rparr>)"
  "fk_ok d \<Longrightarrow> \<forall>p\<in>set qs. participant_tournament p \<in> set (map tournament_id (tournaments d)) \<and>
       participant_team p \<in> set (map team_id (team_table d)) \<Longrightarrow> fk_ok (d\<lparr>participants := qs\<rparr>)"
  unfolding fk_ok_def list_all_iff ref_ok_def
  by (simp_all del: set_map split: option.splits; blast)+

lemma admin_save_keeps:
  assumes s: "admin_save errs key mk t rs put = Saved d'" and mk: "\<And>k ov. key (mk k ov) = k"
    and u: "distinct (map key rs)" and old: "\<forall>r\<in>set rs. P r" and new: "\<And>k ov. errs = [] \<Longrightarrow> P (mk k ov)"
  shows "\<exists>rs'. d' = put rs' \<and> set (map key rs) \<subseteq> set (map key rs') \<and> distinct (map key rs') \<and> (\<forall>r\<in>set rs'. P r)"
proof -
  from admin_save_Saved [OF s mk] obtain rs' where e: "errs = []" and r: "d' = put rs'"
    "set (map key rs) \<subseteq> set (map key rs')" "distinct (map key rs) \<longrightarrow> distinct (map key rs')"
    "\<forall>r\<in>set rs'. r \<in> set rs \<or> (\<exists>k ov. r = mk k ov)"
    by blast
  from r(4) old new [OF e] have "\<forall>r\<in>set rs'. P r" by blast
  with r u show ?thesis by blast
qed

text \<open>A valid form refers to existing rows.\<close>

lemma valid_form_refs:
  "tournament_form_errors d f = [] \<Longrightarrow> ref_ok (tournament_game (tournament_of_form f k)) (map game_id (games d))"
  "team_form_errors d g = [] \<Longrightarrow> ref_ok (team_game (team_of_form g k)) (map game_id (games d))"
  "player_form_errors email d p = [] \<Longrightarrow> player_team (player_of_form p k) \<in> set (map team_id (team_table d))"
  "match_reminder_form_errors email users d r = [] \<Longrightarrow>
     mr_match (match_reminder_of_form now r k ov) \<in> set (map match_id (matches d))"
  "participant_form_errors email t d a = [] \<Longrightarrow>
     participant_tournament (participant_of_form now a pv) \<in> set (map tournament_id (tournaments d)) \<and>
     participant_team (participant_of_form now a pv) \<in> set (map team_id (team_table d))"
  by (auto simp: tournament_form_errors_def team_form_errors_def player_form_errors_def match_reminder_form_errors_def
      participant_form_errors_def form_errors_Nil fk_field_Nil ref_ok_def tournament_of_form_def team_of_form_def
      player_of_form_def match_reminder_of_form_def participant_of_form_def Let_def
      simp del: set_map split: option.splits)

text \<open>Each save keeps unique keys, intact foreign keys and the \<open>unique_together\<close> of the
  participants.\<close>

definition integrity :: "db \<Rightarrow> bool" where
  "integrity d \<longleftrightarrow> keys_unique d \<and> fk_ok d \<and> participants_unique d"

lemma admin_save_game_integrity:
  assumes i: "integrity d" and s: "admin_save_game t nm d = Saved d'"
  shows "integrity d'"
proof -
  from admin_save_keeps [OF s [unfolded admin_save_game_def], where P = "\<lambda>_. True"] i
  obtain gs where "d' = d\<lparr>games := gs\<rparr>" "set (map game_id (games d)) \<subseteq> set (map game_id gs)" "distinct (map game_id gs)"
    by (auto simp: integrity_def keys_unique_def)
  with i show ?thesis by (simp add: integrity_def keys_unique_def participants_unique_def fk_ok_updates(1) del: set_map)
qed

lemma admin_save_tournament_integrity:
  assumes i: "integrity d" and s: "admin_save_tournament t f d = Saved d'"
  shows "integrity d'"
proof -
  from admin_save_keeps [OF s [unfolded admin_save_tournament_def],
      where P = "\<lambda>t. ref_ok (tournament_game t) (map game_id (games d))"] i valid_form_refs(1)
  obtain ts where "d' = d\<lparr>tournaments := ts\<rparr>" "set (map tournament_id (tournaments d)) \<subseteq> set (map tournament_id ts)"
    "distinct (map tournament_id ts)" "\<forall>t\<in>set ts. ref_ok (tournament_game t) (map game_id (games d))"
    by (auto simp: integrity_def keys_unique_def fk_ok_def list_all_iff tournament_of_form_def simp del: set_map)
  with i show ?thesis by (simp add: integrity_def keys_unique_def participants_unique_def fk_ok_updates(2) del: set_map)
qed

lemma admin_save_team_integrity:
  assumes i: "integrity d" and s: "admin_save_team t f d = Saved d'"
  shows "integrity d'"
proof -
  from admin_save_keeps [OF s [unfolded admin_save_team_def],
      where P = "\<lambda>t. ref_ok (team_game t) (map game_id (games d))"] i valid_form_refs(2)
  obtain ts where "d' = d\<lparr>team_table := ts\<rparr>" "set (map team_id (team_table d)) \<subseteq> set (map team_id ts)"
    "distinct (map team_id ts)" "\<forall>t\<in>set ts. ref_ok (team_game t) (map game_id (games d))"
    by (auto simp: integrity_def keys_unique_def fk_ok_def list_all_iff team_of_form_def simp del: set_map)
  with i show ?thesis by (simp add: integrity_def keys_unique_def participants_unique_def fk_ok_updates(3) del: set_map)
qed

lemma admin_save_player_integrity:
  assumes i: "integrity d" and s: "admin_save_player email t f d = Saved d'"
  shows "integrity d'"
proof -
  from admin_save_keeps [OF s [unfolded admin_save_player_def],
      where P = "\<lambda>p. player_team p \<in> set (map team_id (team_table d))"] i valid_form_refs(3)
  obtain ps where "d' = d\<lparr>players := ps\<rparr>" "distinct (map player_id ps)"
    "\<forall>p\<in>set ps. player_team p \<in> set (map team_id (team_table d))"
    by (auto simp: integrity_def keys_unique_def fk_ok_def list_all_iff player_of_form_def simp del: set_map)
  with i show ?thesis by (simp add: integrity_def keys_unique_def participants_unique_def fk_ok_updates(4) del: set_map)
qed

lemma admin_save_news_integrity:
  assumes i: "integrity d" and s: "admin_save_news t f d = Saved d'"
  shows "integrity d'"
proof -
  from admin_save_keeps [OF s [unfolded admin_save_news_def], where P = "\<lambda>_. True"] i
  obtain ns where "d' = d\<lparr>news := ns\<rparr>" "distinct (map news_id ns)"
    by (auto simp: integrity_def keys_unique_def news_of_form_def)
  with i show ?thesis by (simp add: integrity_def keys_unique_def participants_unique_def fk_ok_updates(5))
qed

lemma admin_save_match_reminder_integrity:
  assumes i: "integrity d" and s: "admin_save_match_reminder email users now t f d = Saved d'"
  shows "integrity d'"
proof -
  from admin_save_keeps [OF s [unfolded admin_save_match_reminder_def],
      where P = "\<lambda>r. mr_match r \<in> set (map match_id (matches d))"] i valid_form_refs(4)
  obtain rs where "d' = d\<lparr>match_reminders := rs\<rparr>" "distinct (map mr_id rs)"
    "\<forall>r\<in>set rs. mr_match r \<in> set (map match_id (matches d))"
    by (auto simp: integrity_def keys_unique_def fk_ok_def list_all_iff match_reminder_of_form_def simp del: set_map)
  with i show ?thesis by (simp add: integrity_def keys_unique_def participants_unique_def fk_ok_updates(6) del: set_map)
qed

lemma distinct_map_replace:
  assumes "distinct (map key rs)" and "\<And>r. key (new r) = c" and "\<forall>r\<in>set rs. key r \<noteq> k \<longrightarrow> key r \<noteq> c"
  shows "distinct (map key (map (\<lambda>r. if key r = k then new r else r) rs))"
  using assms by (induction rs) (auto simp: image_iff)

lemma participants_unique_key: "participants_unique d \<longleftrightarrow> distinct (map participant_key (participants d))"
  by (simp add: participants_unique_def participant_key_def [abs_def])

lemma participant_form_no_clash:
  "participant_form_errors email t d f = [] \<Longrightarrow> p \<in> set (participants d) \<Longrightarrow>
   participant_key p \<noteq> (the (pa_tournament f), the (pa_team f)) \<or> t = Some (participant_key p)"
  by (simp add: participant_form_errors_def Let_def unique_error_def list_ex_iff split: if_splits) blast

lemma admin_save_participant_integrity:
  assumes i: "integrity d" and s: "admin_save_participant email now t f d = Saved d'"
  shows "integrity d'"
proof -
  have e: "participant_form_errors email t d f = []"
    using s by (auto simp: admin_save_participant_def Let_def split: option.splits if_splits)
  note refs = valid_form_refs(5) [OF e]
  have key: "participant_key (participant_of_form now f ov) = (the (pa_tournament f), the (pa_team f))" for ov
    by (simp add: participant_key_def participant_of_form_def)
  have old: "\<forall>p\<in>set (participants d). participant_tournament p \<in> set (map tournament_id (tournaments d)) \<and>
      participant_team p \<in> set (map team_id (team_table d))"
    using i by (simp add: integrity_def fk_ok_def list_all_iff del: set_map)
  from s consider (add) "t = None" "d' = d\<lparr>participants := participants d @ [participant_of_form now f None]\<rparr>"
    | (change) k where "t = Some k"
        "d' = d\<lparr>participants := map (\<lambda>p. if participant_key p = k then participant_of_form now f (Some p) else p)
                                   (participants d)\<rparr>"
    by (auto simp: admin_save_participant_def Let_def split: option.splits if_splits)
  then show ?thesis
  proof cases
    case add
    have nc: "\<forall>p\<in>set (participants d). participant_key p \<noteq> (the (pa_tournament f), the (pa_team f))"
      using participant_form_no_clash [OF e] add(1) by blast
    then have "participant_key (participant_of_form now f None) \<notin> participant_key ` set (participants d)"
      by (metis imageE key)
    with i add old refs show ?thesis
      by (simp add: integrity_def keys_unique_def participants_unique_key fk_ok_updates(7))
  next
    case change
    have "distinct (map participant_key (map (\<lambda>p. if participant_key p = k then participant_of_form now f (Some p) else p)
        (participants d)))"
      using i participant_form_no_clash [OF e] change(1)
      by (intro distinct_map_replace [where c = "(the (pa_tournament f), the (pa_team f))"])
         (auto simp: integrity_def participants_unique_key key)
    moreover have "\<forall>p\<in>set (map (\<lambda>p. if participant_key p = k then participant_of_form now f (Some p) else p)
        (participants d)). participant_tournament p \<in> set (map tournament_id (tournaments d)) \<and>
        participant_team p \<in> set (map team_id (team_table d))"
      using old refs by auto
    ultimately show ?thesis using i change(2)
      by (simp add: integrity_def keys_unique_def participants_unique_key fk_ok_updates(7) del: set_map)
  qed
qed

lemma cascade_delete_integrity: "integrity d \<Longrightarrow> integrity (cascade_delete r d)"
  by (simp add: integrity_def cascade_delete_keys_unique cascade_delete_fk_ok participants_unique_def
      cascade_delete_tables distinct_map_filter)

lemma admin_save_match_integrity:
  assumes i: "integrity d" and s: "admin_save_match url t f d = Saved d'"
  shows "integrity d'"
proof -
  from admin_save_match_Saved [OF s] have "participants d' = participants d" by auto
  with i admin_save_match_keeps_integrity [OF _ _ s] show ?thesis
    by (simp add: integrity_def participants_unique_def)
qed

text \<open>The participant admin checks \<open>unique_together\<close> before it saves: a second
  registration of a team for a tournament is answered with a form error and nothing is
  saved, where \<open>tournament_register\<close> lets the database raise \<open>IntegrityError\<close>.\<close>

lemma admin_participant_duplicate:
  assumes "p \<in> set (participants d)" and "pa_tournament f = Some (participant_tournament p)"
    and "pa_team f = Some (participant_team p)" and "participant_tournament p \<in> set (map tournament_id (tournaments d))"
    and "participant_team p \<in> set (map team_id (team_table d))"
  shows "\<exists>es. admin_save_participant email now None f d = Form_invalid es \<and> (''__all__'', [Not_unique]) \<in> set es"
  using assms
  by (auto simp: admin_save_participant_def participant_form_errors_def Let_def unique_error_def form_errors_def
      fk_field_def list_ex_iff participant_key_def simp del: set_map)

text \<open>C14. Every write the admin site accepts keeps the database consistent: a delete
  (with its cascade) or a save of the add or change form of any registered model, on a
  database with unique keys, intact foreign keys and each team registered at most once per
  tournament, leaves a database with the three properties, since the forms accept only
  existing rows for their foreign keys, take fresh keys, and check \<open>unique_together\<close>.\<close>

theorem admin_step_keeps_integrity:
  assumes "integrity d" and "admin_step url email users now op d = Saved d'"
  shows "integrity d'"
proof (cases op)
  case (Delete_rows r)
  from assms(2) have "d' = cascade_delete r d" by (simp add: Delete_rows admin_step_def)
  with assms(1) show ?thesis by (simp add: cascade_delete_integrity)
next
  case (Save_match t f)
  from assms(2) have "admin_save_match url t f d = Saved d'" by (simp add: Save_match admin_step_def)
  with assms(1) show ?thesis by (rule admin_save_match_integrity)
next
  case (Save_tournament t f)
  from assms(2) have "admin_save_tournament t f d = Saved d'" by (simp add: Save_tournament admin_step_def)
  with assms(1) show ?thesis by (rule admin_save_tournament_integrity)
next
  case (Save_team t f)
  from assms(2) have "admin_save_team t f d = Saved d'" by (simp add: Save_team admin_step_def)
  with assms(1) show ?thesis by (rule admin_save_team_integrity)
next
  case (Save_player t f)
  from assms(2) have "admin_save_player email t f d = Saved d'" by (simp add: Save_player admin_step_def)
  with assms(1) show ?thesis by (rule admin_save_player_integrity)
next
  case (Save_news t f)
  from assms(2) have "admin_save_news t f d = Saved d'" by (simp add: Save_news admin_step_def)
  with assms(1) show ?thesis by (rule admin_save_news_integrity)
next
  case (Save_match_reminder t f)
  from assms(2) have "admin_save_match_reminder email users now t f d = Saved d'" by (simp add: Save_match_reminder admin_step_def)
  with assms(1) show ?thesis by (rule admin_save_match_reminder_integrity)
next
  case (Save_participant t f)
  from assms(2) have "admin_save_participant email now t f d = Saved d'" by (simp add: Save_participant admin_step_def)
  with assms(1) show ?thesis by (rule admin_save_participant_integrity)
next
  case (Save_game t nm)
  from assms(2) have "admin_save_game t nm d = Saved d'" by (simp add: Save_game admin_step_def)
  with assms(1) show ?thesis by (rule admin_save_game_integrity)
qed

theorem admin_step_keeps_integrity_witness:
  "\<exists>d'. admin_step (\<lambda>_. None) (\<lambda>_. True) [] 0 (Save_game None ''CS2'') valorant_db = Saved d' \<and> integrity d'"
proof -
  have i: "integrity valorant_db"
    by (simp add: integrity_def keys_unique_def fk_ok_def ref_ok_def participants_unique_def valorant_db_def views_db_def
        demo_game_def demo_team_def demo_match_def demo_tournament_def demo_match_reminder_def)
  have "game_form_errors None ''CS2'' valorant_db = []"
    by (simp add: game_form_errors_def form_errors_def char_field_def unique_error_def py_strip_def py_space_def
        valorant_db_def demo_game_def)
  then obtain d' where s: "admin_step (\<lambda>_. None) (\<lambda>_. True) [] 0 (Save_game None ''CS2'') valorant_db = Saved d'"
    by (simp add: admin_step_def admin_save_game_def admin_save_def)
  with admin_step_keeps_integrity [OF i s] show ?thesis by blast
qed

end
