(* ===== verification/Filters.thy ===== *)
theory Filters
  imports Stats PyText "HOL-Library.Log_Nat"
begin

text \<open>
  The template filters of \<open>src/GENZE/core/templatetags/number_format.py\<close>. A template
  value is an \<open>int\<close>, a \<open>str\<close>, \<open>None\<close> or a \<open>Decimal\<close> (the \<open>DecimalField\<close>s),
  the latter as \<open>m / 10^e\<close>. \<open>int(value)\<close> truncates a \<open>Decimal\<close> toward zero, reads
  a \<open>str\<close> as \<open>PyText\<close> does and raises \<open>TypeError\<close> on \<open>None\<close>. \<open>k_format\<close> divides
  by 1000 with Python's true division, which rounds the exact quotient to the nearest
  IEEE double (ties to even) and raises \<open>OverflowError\<close> when that double would be
  infinite; \<open>:.1f\<close> then rounds the double's exact value to one decimal, ties to even.
  The double is its 53-bit mantissa and binary exponent; the quotients \<open>k_format\<close>
  divides are at least 1, so it is never subnormal.
\<close>

datatype pyval = PyInt int | PyStr string | PyNone | PyDecimal int nat

text \<open>\<open>int(value)\<close>: \<open>None\<close> when it raises \<open>ValueError\<close> or \<open>TypeError\<close>.\<close>

definition py_int :: "pyval \<Rightarrow> int option" where
  "py_int v =
     (case v of
        PyInt i \<Rightarrow> Some i
      | PyStr s \<Rightarrow> py_int_of_string s
      | PyNone \<Rightarrow> None
      | PyDecimal m e \<Rightarrow> Some (if m < 0 then - ((- m) div 10 ^ e) else m div 10 ^ e))"

text \<open>\<open>a / b\<close> for \<open>a \<ge> b > 0\<close>: the mantissa \<open>M\<close>, \<open>2^52 \<le> M < 2^53\<close>, and the exponent
  \<open>E\<close> of the nearest double \<open>M * 2^E\<close>, or \<open>None\<close> when it overflows.\<close>

definition float_div :: "nat \<Rightarrow> nat \<Rightarrow> (nat \<times> int) option" where
  "float_div a b =
     (let e = int (floorlog 2 (a div b)) - 1 - 52;
          m0 = (if 0 \<le> e then round_half_even_div a (b * 2 ^ nat e)
                else round_half_even_div (a * 2 ^ nat (- e)) b);
          (m, e') = (if m0 = 2 ^ 53 then (2 ^ 52, e + 1) else (m0, e)) in
      if 971 < e' then None else Some (m, e'))"

text \<open>\<open>format(x, '.1f')\<close> of the double \<open>M * 2^E\<close>, as tenths.\<close>

definition tenths :: "nat \<times> int \<Rightarrow> nat" where
  "tenths x =
     (case x of (m, e) \<Rightarrow>
        if 0 \<le> e then 10 * m * 2 ^ nat e else round_half_even_div (10 * m) (2 ^ nat (- e)))"

definition show_tenths :: "nat \<Rightarrow> string" where
  "show_tenths t = str_of_nat (t div 10) @ ''.'' @ [digit_char (t mod 10)]"

text \<open>Lines 7--22.\<close>

definition k_format :: "pyval \<Rightarrow> error + pyval" where
  "k_format v =
     (case py_int v of
        None \<Rightarrow> Inr v
      | Some i \<Rightarrow>
          if 1000 \<le> i then
            (if i mod 1000 = 0 then Inr (PyStr (str_of_int (i div 1000) @ ''K''))
             else case float_div (nat i) 1000 of
                    None \<Rightarrow> Inl OverflowError
                  | Some x \<Rightarrow> Inr (PyStr (show_tenths (tenths x) @ ''K'')))
          else Inr (PyStr (str_of_int i)))"

text \<open>Lines 24--33: \<open>int(value) * int(arg)\<close>, or the empty string when either is not an
  integer.\<close>

definition mul :: "pyval \<Rightarrow> pyval \<Rightarrow> pyval" where
  "mul v a = (case (py_int v, py_int a) of (Some i, Some j) \<Rightarrow> PyInt (i * j) | _ \<Rightarrow> PyStr [])"

subsection \<open>Properties of the filters\<close>

text \<open>C37. \<open>k_format\<close> is a round trip on the values it prints in full: for every value
  below 1000 that \<open>int()\<close> accepts, the text it returns reads back, through \<open>int()\<close>,
  as that integer; a multiple of a thousand prints as the number of thousands followed by
  "K"; a value \<open>int()\<close> rejects is returned unchanged.\<close>

theorem k_format_roundtrip:
  "(py_int v = Some i \<longrightarrow> i < 1000 \<longrightarrow> (\<exists>s. k_format v = Inr (PyStr s) \<and> py_int_of_string s = Some i)) \<and>
   (py_int v = Some (1000 * int n) \<longrightarrow> 0 < n \<longrightarrow> k_format v = Inr (PyStr (str_of_nat n @ ''K''))) \<and>
   (py_int v = None \<longrightarrow> k_format v = Inr v)"
  by (auto simp: k_format_def str_of_nat_eq_str_of_int)

theorem k_format_roundtrip_witness:
  "(\<exists>s. k_format (PyStr '' 42 '') = Inr (PyStr s) \<and> py_int_of_string s = Some 42) \<and>
   k_format (PyInt 2000) = Inr (PyStr (str_of_nat 2 @ ''K'')) \<and> k_format PyNone = Inr PyNone"
proof -
  have a: "py_int (PyStr '' 42 '') = Some 42" by code_simp
  have b: "py_int (PyInt 2000) = Some (1000 * int 2)" by (simp add: py_int_def)
  have c: "py_int PyNone = None" by (simp add: py_int_def)
  from k_format_roundtrip [of "PyStr '' 42 ''" 42] k_format_roundtrip [of "PyInt 2000" _ 2]
    k_format_roundtrip [of PyNone] a b c
  show ?thesis by simp
qed

end
