(* ===== verification/Spec2Isabelle.thy ===== *)
theory Spec2Isabelle
  imports Register Listings Routes ModelForms Filters
begin

text \<open>
  \<^bold>\<open>A verification library for GENZE-ESPORTS.\<close> The repository is a Django site
  (\<open>src/GENZE/core\<close>) for an esports organisation. Its behaviour lives in a periodic
  batch job and in the views; the templates only display what the views compute. The
  parts, and how they meet:
  \<^item> The \<^emph>\<open>sweeper\<close> (\<open>management/commands/update_match_statuses.py\<close>, phases 1 and 2)
    moves matches from upcoming to live and from live to completed. The \<^emph>\<open>dispatcher\<close>
    (phase 3 of the same command) mails due \<open>Reminder\<close>s. \<open>tasks.py\<close> runs the
    command from Celery. \<open>send_due_reminders.py\<close> is a second dispatcher, over
    \<open>MatchReminder\<close>.
  \<^item> The \<^emph>\<open>views\<close> of \<open>views.py\<close> create the reminders the dispatcher sends
    (\<open>create_reminder\<close>), delete \<open>MatchReminder\<close>s (\<open>delete_reminder\<close>), register teams
    for tournaments (\<open>tournament_register\<close>), and show matches by month and day
    (\<open>calendar_view\<close>, \<open>schedule_page\<close>). \<open>register_page\<close> creates a team and
    up to five players. The read-only pages (\<open>home_page\<close>, \<open>teams_page\<close>,
    \<open>team_detail\<close>, \<open>results_page\<close>, \<open>team_tournaments\<close>, \<open>news_page\<close>,
    \<open>news_detail\<close>, \<open>tournaments_page\<close>, \<open>tournament_detail_page\<close>,
    \<open>overall_match_stats\<close>) filter, order and total the tables. All of them read
    the match table the sweeper writes.
  \<^item> The \<^emph>\<open>statistics aggregator\<close> (\<open>team_detail\<close>, \<open>teams_page\<close>,
    \<open>team_tournaments\<close>, \<open>overall_match_stats\<close>) counts wins, losses and
    championships, and ranks teams.
  \<^item> The template filters of \<open>templatetags/number_format.py\<close> format counts.
  \<^item> \<open>urls.py\<close> maps request paths to the views; \<open>redirect\<close> maps URL names back to
    paths through it.
  \<^item> \<open>admin.py\<close> registers the models with Django's admin and sets how each change
    list is searched and ordered; through the admin, staff delete rows (cascading over
    the foreign keys of \<open>models.py\<close>) and edit matches, including the status and
    timestamps the sweeper maintains.

  \<^bold>\<open>Theories.\<close>
  \<^item> \<open>Prelude\<close>: instants (UTC seconds, \<open>int\<close>) and keys (\<open>nat\<close>);
    \<open>__icontains\<close>; \<open>map_until_error\<close>, a queryset loop whose body saves each row and
    may raise; \<open>count_rows\<close> for \<open>.filter().count()\<close>.
  \<^item> \<open>Models\<close> (\<open>models.py\<close>): one record per model with every field it
    declares, one datatype per \<open>STATUS_CHOICES\<close>, the database as a record of tables,
    the ORM's exceptions as \<open>error\<close>, the \<open>__str__\<close> methods,
    \<open>Tournament.start_time\<close>/\<open>end_time\<close>, and the schema queries are built
    from (\<open>model_fields\<close>: each model's fields, foreign keys and reverse relations).
  \<^item> \<open>Timezones\<close>: pytz lookup with the Asia/Kolkata fallback, \<open>astimezone\<close>, and
    comparison of aware datetimes.
  \<^item> \<open>Sweeper\<close> (phases 1 and 2): \<open>upcoming_to_live_row\<close>, \<open>upcoming_to_live\<close>,
    \<open>completes\<close>, \<open>live_to_completed\<close> and \<open>sweep_matches\<close>. The spec-level
    \<open>go_live\<close> and \<open>sweep_spec\<close> are the abstract contract. \<open>match_reach\<close> is the
    lifecycle as an inductive step relation.
  \<^item> \<open>Reminders\<close>: phase 3 (\<open>dispatch_row\<close>, \<open>dispatch_reminders\<close>, with
    successive runs as \<open>dispatch_runs\<close>) and \<open>send_due_reminders\<close>
    (\<open>send_due_row\<close>, \<open>send_due_loop\<close>). Mail delivery is a parameter
    \<open>transport\<close>, so it may fail.
  \<^item> \<open>Stats\<close>: the one-query-per-count statistics of \<open>team_detail\<close> and
    \<open>team_tournaments\<close>. It also models the single \<open>annotate\<close> of \<open>teams_page\<close> and
    \<open>overall_match_stats\<close>, with the ORM's double LEFT OUTER JOIN
    (\<open>join_rows\<close>), plus win rate, points, ranking order and the 24-hour points delta.
  \<^item> \<open>PyText\<close>: Python's \<open>str()\<close> of an \<open>int\<close> and \<open>int()\<close> of a \<open>str\<close>, and
    their round trip. \<open>Dates\<close>: \<open>datetime.date\<close> as proleptic Gregorian ordinals,
    \<open>date(y, m, d)\<close> with its \<open>OverflowError\<close> (an argument beyond a C int) and
    \<open>ValueError\<close>, and the date of an instant in a zone.
  \<^item> \<open>Views\<close>: requests and responses, \<open>create_reminder\<close>, \<open>delete_reminder\<close> and
    \<open>tournament_register\<close>. An escaping exception is \<open>Inl\<close>;
    \<open>get_object_or_404\<close> answers \<open>Not_found\<close>.
  \<^item> \<open>Schedule\<close>: \<open>calendar_view\<close>, and the date grouping and sidebar countdown
    of \<open>schedule_page\<close>.
  \<^item> \<open>Pages\<close>: how Django builds a lookup from a keyword such as
    \<open>team1__game__iexact\<close> (\<open>build_lookup\<close>: split at \<open>__\<close>, follow the
    fields of \<open>model_fields\<close>, then transforms and a lookup the final column supports,
    \<open>FieldError\<close> otherwise); the lookups as the database evaluates them (\<open>game_name_iexact\<close>,
    \<open>team_has\<close>, \<open>key_param\<close>, the NULL-aware \<open>sql_sum\<close>, \<open>distinct_count\<close>),
    and \<open>teams_page\<close>, \<open>team_detail\<close>, \<open>schedule_page\<close> (its filters, composed
    with the grid and sidebar of \<open>Schedule\<close>), \<open>results_page\<close> and
    \<open>team_tournaments\<close>, each as the context record it renders; \<open>Http404\<close> is the
    \<open>page\<close> of a missing object.
  \<^item> \<open>Register\<close>: \<open>register_page\<close>, whose loop \<open>for i in range(1, 6)\<close> is a
    \<open>while_option\<close> (\<open>create_players\<close>), proved to equal a \<open>fold\<close>, hence to stop.
  \<^item> \<open>Listings\<close>: \<open>home_page\<close>, \<open>tournament_detail_page\<close>, \<open>news_detail\<close>,
    \<open>news_page\<close> with \<open>Paginator.get_page\<close> (its pages concatenate back to the
    list), \<open>tournaments_page\<close> (whose totals do not depend on the sort order) and
    \<open>overall_match_stats\<close>.
  \<^item> \<open>Routes\<close>: the pattern list of \<open>urls.py\<close>, \<open>resolve\<close>, \<open>reverse_url\<close>
    and \<open>resolve_url\<close> (what \<open>redirect\<close> does with a name), and the \<open>Location\<close>
    of a response of \<open>Views\<close> (\<open>redirect_location\<close>).
  \<^item> \<open>Admin\<close>: the registered models, the search fields of each admin as
    Django's \<open>get_search_results\<close> uses them (\<open>admin_search\<close>), and each change
    list with its ordering.
  \<^item> \<open>AdminForms\<close>: referential integrity (\<open>fk_ok\<close>); the admin's cascading delete
    (\<open>cascade_delete\<close>, Django's \<open>Collector\<close> with \<open>CASCADE\<close> on every key) against
    its specification, the greatest sub-database without the selected rows; and the add
    and change form of \<open>MatchAdmin\<close> (\<open>match_form\<close>, the field checks of
    \<open>match_form_errors\<close>, \<open>admin_save_match\<close>), with \<open>swept\<close>, the sweeps a saved
    row goes through afterwards.
  \<^item> \<open>ModelForms\<close>: the add and change forms of the other registered models (game,
    tournament, team, player, news article, match reminder, participant) with their field
    checks (required, length, choices, e-mail, slug, decimal digits, foreign keys,
    \<open>unique\<close> and \<open>unique_together\<close>), one \<open>admin_save\<close> for all, and
    \<open>admin_step\<close>, every write the admin accepts, over the datatype \<open>admin_op\<close>.
  \<^item> \<open>Filters\<close>: \<open>k_format\<close>, which divides with IEEE doubles modelled
    exactly (53-bit mantissa, ties to even, \<open>OverflowError\<close>), and \<open>mul\<close>.
  \<^item> This theory: \<open>handle\<close>, the whole command (phases 1--3, stopping after a
    phase-1 exception); \<open>update_match_statuses_task\<close>; and the properties that span
    components.

  \<^bold>\<open>What is proved.\<close> Each component theory ends with its properties, numbered C1--C37
  in the manifest:
  \<^item> the sweep refines its per-row contract, is idempotent, and keeps the lifecycle
    invariant (C1--C3, C5--C8);
  \<^item> phase 3 mails a due reminder at most once over any sequence of runs (C10), and a
    reminder whose mail failed stays unsent until the first run that delivers it, which
    marks it sent (C11), while \<open>send_due_reminders\<close> gives up after one attempt, against the spec
    (C9--C12);
  \<^item> win rates are bounded, rankings are sorted, and the joined counts are inflated
    (C13, C15, C16, C18, C21);
  \<^item> \<open>register_page\<close> creates exactly the posted team and players with fresh keys
    (C17);
  \<^item> the game filter of \<open>results_page\<close> and \<open>overall_match_stats\<close> resolves,
    through the schema, to an \<open>iexact\<close> lookup on a foreign key, which fails with
    \<open>FieldError\<close> (C20);
  \<^item> the command skips phase 3 after an error and keeps the invariants (C23, C24);
  \<^item> a successful \<open>tournament_register\<close> saves its row and then fails: its redirect
    names a view function, not a URL name (C19, composing \<open>Views\<close> and \<open>Routes\<close>);
  \<^item> the views' functional behaviour (C25, C27--C29): a single or bulk reminder
    request creates exactly the reminders it names, a failed confirmation mail still
    leaves the new reminder in place, and a registration appends its participant or
    fails on the duplicate; a reminder created past its send time fires on the next run
    (C26);
  \<^item> the calendar: well-formed pages, the exact day lists in UTC, the navigation
    round trip, and the inputs that raise \<open>OverflowError\<close> or \<open>ValueError\<close>
    (C30, C31, C33, C34);
  \<^item> the team change list of the admin fails on every search, its search field
    \<open>game\<close> being a foreign key, while every other admin's search succeeds (C32);
  \<^item> every URL name reverses to a path that resolves back to its view (C35);
  \<^item> the \<open>k_format\<close>/\<open>int()\<close> round trip (C37);
  \<^item> the admin: a delete removes exactly the selected rows and what depends on them
    and keeps the foreign keys intact (C4); every write the admin accepts, on any
    registered model, keeps unique keys, intact foreign keys and unique registrations
    (C14); the match form refuses invalid forms field by field (C22); and, composing with
    the sweeper, a valid form can save a live match without \<open>live_started_at\<close>, which no
    later run repairs (C36), so the lifecycle invariant of C7 holds only for edits
    outside the admin's match form.

  \<^bold>\<open>Modelling choices.\<close>
  \<^item> One run reads the clock once (\<open>now\<close>).
  \<^item> A table is the list of its rows in iteration order, and \<open>order_by\<close> is a stable
    \<open>sort_key\<close>.
  \<^item> Foreign keys are ids. A missing row is the ORM's \<open>DoesNotExist\<close>.
  \<^item> New primary keys are fresh (one more than the largest).
  \<^item> The site's \<open>TIME_ZONE\<close> is a parameter (\<open>settings.py\<close> is not part of the
    sources); \<open>date.today()\<close> is the date in that zone, \<open>timezone.now()\<close> is UTC.
  \<^item> The database is taken to order NULL first ascending (SQLite, Django's default
    backend); only \<open>team_detail\<close>'s recent results and \<open>tournaments_page\<close>'s prize
    sort depend on it. Uploaded files are their stored names.
  \<^item> The statistics' win rate is exact tenths with ties to even, an idealisation of the
    float \<open>round\<close>. \<open>k_format\<close>'s float, by contrast, is modelled exactly.
  \<^item> There is no fuel: every loop over a queryset is structural recursion or a
    \<open>map\<close>/\<open>fold\<close>. The counted loop of \<open>register_page\<close> is a \<open>while_option\<close>
    on its counter, so \<open>register_page\<close> returns an \<open>option\<close>, \<open>None\<close> for a loop that
    would not stop, and \<open>create_players_fold\<close> shows it is never \<open>None\<close>. The one non-structural
    recursion, \<open>str_of_nat\<close>, is a \<open>function\<close> with a \<open>measure\<close> termination proof. The periodic scheduler is modelled by finite run
    lists, of phase 3 (\<open>dispatch_runs\<close>), over which the retry property (C11) is stated.

  \<^bold>\<open>Not modelled, and why.\<close>
  \<^item> The templates themselves (the pages are modelled up to the context they render),
    and the dead first \<open>results_page\<close> (lines 362--365), which the second replaces.
  \<^item> Of \<open>admin.py\<close>, the columns (\<open>list_display\<close>) and side filters
    (\<open>list_filter\<close>), which only shape Django's generic pages, and
    \<open>prepopulated_fields\<close>, a script in the browser. \<open>smart_split\<close> of a search
    query is a parameter; \<open>URLValidator\<close> is the parameter \<open>url\<close> of the form.
  \<^item> Log output, the mail text beyond its kind, recipient, match and link, and
    concurrency between overlapping runs (the spec assumes none) are not modelled. The
    log line of phase 1 (\<open>update_match_statuses.py\<close> line 33) reads
    \<open>match.team1.name\<close> and \<open>match.team2.name\<close> after the save and would raise
    \<open>DoesNotExist\<close> for a match whose team row is gone; the model takes those lookups to
    succeed, as they do on a database with intact foreign keys, which every admin write
    keeps (C14).
\<close>

subsection \<open>The management command and the periodic task\<close>

text \<open>
  \<open>update_match_statuses.Command.handle\<close> (lines 13--88): phases 1 and 2 on the match
  table, then phase 3 on the reminder table, which reads the matches as phases 1 and 2
  left them. An exception in phase 1 leaves \<open>handle\<close> before phases 2 and 3. The result is
  the exception raised, if any, the database afterwards and the mails delivered.
\<close>

definition handle ::
  "tz_database \<Rightarrow> transport \<Rightarrow> instant \<Rightarrow> db \<Rightarrow> error option \<times> db \<times> (ident \<times> mail) list" where
  "handle tzdb tr now d =
     (case sweep_matches tzdb (tournaments d) now (matches d) of
        (Some e, ms') \<Rightarrow> (Some e, d\<lparr>matches := ms'\<rparr>, [])
      | (None, ms') \<Rightarrow>
          (case dispatch_reminders tr ms' now (reminders d) of
             (rs', out) \<Rightarrow> (None, d\<lparr>matches := ms', reminders := rs'\<rparr>, out)))"

text \<open>\<open>tasks.update_match_statuses_task\<close>: the Celery task calls the command.\<close>

definition update_match_statuses_task ::
  "tz_database \<Rightarrow> transport \<Rightarrow> instant \<Rightarrow> db \<Rightarrow> error option \<times> db \<times> (ident \<times> mail) list" where
  "update_match_statuses_task tzdb tr now d = handle tzdb tr now d"

definition demo_db :: db where
  "demo_db = \<lparr>tournaments = [demo_tournament], team_table = [], matches = [demo_match],
     reminders = [demo_reminder], match_reminders = [], participants = [],
     games = [], players = [], news = []\<rparr>"

subsection \<open>Lemmas\<close>

lemma handle_error:
  "sweep_matches tzdb (tournaments d) now (matches d) = (Some e, ms') \<Longrightarrow>
   handle tzdb tr now d = (Some e, d\<lparr>matches := ms'\<rparr>, [])"
  by (simp add: handle_def)

lemma handle_ok:
  "sweep_matches tzdb (tournaments d) now (matches d) = (None, ms') \<Longrightarrow>
   handle tzdb tr now d =
     (None, d\<lparr>matches := ms', reminders := fst (dispatch_reminders tr ms' now (reminders d))\<rparr>,
      snd (dispatch_reminders tr ms' now (reminders d)))"
  by (simp add: handle_def split: prod.split)

lemma match_id_go_live [simp]: "match_id (go_live now m) = match_id m"
  by (simp add: go_live_def)

lemma match_id_live_to_completed_row [simp]: "match_id (live_to_completed_row now m) = match_id m"
  by (simp add: live_to_completed_row_def)

text \<open>A sweep keeps every field that neither phase writes.\<close>

lemma sweep_matches_fields:
  assumes "\<And>m. k (go_live now m) = k m" and "\<And>m. k (live_to_completed_row now m) = k m"
  shows "map k (snd (sweep_matches tzdb ts now ms)) = map k ms"
proof -
  have "map k (snd (upcoming_to_live tzdb ts now ms)) = map k ms"
    unfolding upcoming_to_live_def
    by (rule map_until_error_keys) (auto dest: upcoming_to_live_row_Inr_cases simp: assms(1))
  then show ?thesis
    by (cases "upcoming_to_live tzdb ts now ms" rule: prod.exhaust)
       (auto simp: sweep_matches_def live_to_completed_def comp_def assms(2) split: option.split)
qed

lemma sweep_matches_keys:
  "map match_id (snd (sweep_matches tzdb ts now ms)) = map match_id ms"
  by (rule sweep_matches_fields) simp_all



lemma sweep_matches_lifecycle:
  "\<forall>m \<in> set ms. lifecycle_ok m \<Longrightarrow> \<forall>m \<in> set (snd (sweep_matches tzdb ts now ms)). lifecycle_ok m"
proof -
  assume a: "\<forall>m \<in> set ms. lifecycle_ok m"
  have "\<forall>m \<in> set (snd (upcoming_to_live tzdb ts now ms)). lifecycle_ok m"
    unfolding upcoming_to_live_def using _ a
    by (rule map_until_error_preserves) (auto dest: upcoming_to_live_row_Inr_cases intro: lifecycle_ok_go_live)
  then show ?thesis
    by (cases "upcoming_to_live tzdb ts now ms" rule: prod.exhaust)
       (auto simp: sweep_matches_def live_to_completed_def lifecycle_ok_live_to_completed_row
        split: option.split)
qed

lemma handle_reminders_step:
  assumes "distinct (map reminder_id (reminders d))" and "handle tzdb tr now d = (e, d', out)"
  shows "distinct (map reminder_id (reminders d')) \<and> distinct (map fst out) \<and>
         set (map fst out) \<subseteq> reminder_id ` {r \<in> set (reminders d). \<not> sent r} \<and>
         reminder_id ` {r \<in> set (reminders d'). \<not> sent r} \<subseteq>
           reminder_id ` {r \<in> set (reminders d). \<not> sent r} - set (map fst out)"
proof (cases "sweep_matches tzdb (tournaments d) now (matches d)")
  case (Pair err ms')
  show ?thesis
  proof (cases err)
    case None
    with Pair assms(2) have "d' = d\<lparr>matches := ms', reminders := fst (dispatch_reminders tr ms' now (reminders d))\<rparr>"
      and "out = snd (dispatch_reminders tr ms' now (reminders d))"
      by (simp_all add: handle_ok)
    with dispatch_reminders_step [OF assms(1), of tr ms' now] show ?thesis by simp
  next
    case (Some e')
    with Pair assms(2) have "d' = d\<lparr>matches := ms'\<rparr>" and "out = []" by (simp_all add: handle_error)
    with assms(1) show ?thesis by simp
  qed
qed

subsection \<open>Properties of the command\<close>

text \<open>C23. When phase 1 raises, the command stops there: the reminder table and every
  other table are unchanged, only the match rows already saved differ, and no mail is
  sent.\<close>

theorem handle_error_skips_reminders:
  assumes "fst (handle tzdb tr now d) = Some e"
  shows "\<exists>ms'. fst (snd (handle tzdb tr now d)) = d\<lparr>matches := ms'\<rparr> \<and> snd (snd (handle tzdb tr now d)) = []"
proof (cases "sweep_matches tzdb (tournaments d) now (matches d)")
  case (Pair err ms')
  with assms have "err = Some e" by (cases err) (simp_all add: handle_ok handle_error)
  with Pair show ?thesis by (intro exI [of _ ms']) (simp add: handle_error)
qed

theorem handle_error_skips_reminders_witness:
  "fst (handle demo_tzdb (\<lambda>_. True) 2000 (demo_db\<lparr>tournaments := []\<rparr>)) = Some DoesNotExist \<and>
   snd (snd (handle demo_tzdb (\<lambda>_. True) 2000 (demo_db\<lparr>tournaments := []\<rparr>))) = []"
proof -
  have h: "fst (handle demo_tzdb (\<lambda>_. True) 2000 (demo_db\<lparr>tournaments := []\<rparr>)) = Some DoesNotExist"
    by (simp add: handle_def sweep_matches_def upcoming_to_live_def upcoming_to_live_row_def
        get_tournament_def demo_db_def demo_match_def)
  from handle_error_skips_reminders [OF h] h show ?thesis by auto
qed

text \<open>C24. One run of the command keeps the database well formed: primary keys stay
  unique, and if every match satisfied the lifecycle invariant (timestamps set exactly
  when the status says so) before the run, every match satisfies it after, whether the run
  raised or not.\<close>

theorem handle_preserves_invariants:
  assumes "keys_unique d" and "\<forall>m \<in> set (matches d). lifecycle_ok m"
    and "handle tzdb tr now d = (e, d', out)"
  shows "keys_unique d' \<and> (\<forall>m \<in> set (matches d'). lifecycle_ok m)"
proof (cases "sweep_matches tzdb (tournaments d) now (matches d)")
  case (Pair err ms')
  have k: "map match_id ms' = map match_id (matches d)"
    using sweep_matches_keys [of tzdb "tournaments d" now "matches d"] Pair by simp
  have l: "\<forall>m \<in> set ms'. lifecycle_ok m"
    using sweep_matches_lifecycle [OF assms(2), of tzdb "tournaments d" now] Pair by simp
  show ?thesis
  proof (cases err)
    case None
    with Pair assms(3) have "d' = d\<lparr>matches := ms', reminders := fst (dispatch_reminders tr ms' now (reminders d))\<rparr>"
      by (simp add: handle_ok)
    with assms(1) k l show ?thesis by (simp add: keys_unique_def)
  next
    case (Some e')
    with Pair assms(3) have "d' = d\<lparr>matches := ms'\<rparr>" by (simp add: handle_error)
    with assms(1) k l show ?thesis by (simp add: keys_unique_def)
  qed
qed

theorem handle_preserves_invariants_witness:
  "keys_unique (fst (snd (handle demo_tzdb (\<lambda>_. True) 2000 demo_db))) \<and>
   list_all lifecycle_ok (matches (fst (snd (handle demo_tzdb (\<lambda>_. True) 2000 demo_db))))"
proof -
  have k: "keys_unique demo_db" by (simp add: keys_unique_def demo_db_def demo_tournament_def demo_match_def demo_reminder_def)
  have l: "\<forall>m \<in> set (matches demo_db). lifecycle_ok m" by (simp add: lifecycle_ok_def demo_db_def demo_match_def)
  obtain e d' out where h: "handle demo_tzdb (\<lambda>_. True) 2000 demo_db = (e, d', out)" by (cases "handle demo_tzdb (\<lambda>_. True) 2000 demo_db") auto
  from handle_preserves_invariants [OF k l h] h show ?thesis by (simp add: list_all_iff)
qed




subsection \<open>The registration view and the URL configuration\<close>

text \<open>C19. A call of \<open>tournament_register\<close> that changes the database commits one new
  participant row and then answers \<open>redirect('tournament_detail_page', pk=...)\<close>. That is
  the view function's name, not its URL name \<open>tournament_detail\<close>, so resolving the
  redirect raises \<open>NoReverseMatch\<close>: every successful registration ends in a server
  error after its row is saved (and a retry meets the \<open>IntegrityError\<close> of C29). The
  URL name the code means reverses to a path that resolves back to
  \<open>tournament_detail_page\<close> with that key.\<close>

theorem registration_redirect_fails:
  assumes "tournament_register now rq pk d = Inr (resp, d')" and "d' \<noteq> d"
  shows "redirect_location resp = Inl NoReverseMatch \<and>
    (\<exists>ps'. d' = d\<lparr>participants := ps'\<rparr> \<and> length ps' = Suc (length (participants d))) \<and>
    map_option resolve (reverse_url ''tournament_detail'' [(''pk'', pk)]) =
      Some (Some (Tournament_detail_page, [(''pk'', pk)]))"
  using tournament_register_commits [OF assms] redirect_tournament_no_reverse reverse_tournament_detail
    resolve_tournament_detail by auto

theorem registration_redirect_fails_witness:
  "redirect_location (Redirect_tournament 1 [Flash_success ''Alpha has been registered for GENZE Cup.'']) =
     Inl NoReverseMatch \<and>
   (\<exists>ps'. views_db\<lparr>participants := [\<lparr>participant_tournament = 1, participant_team = 1, manager_name = ''Kai'',
             manager_email = ''kai@example.com'', manager_phone = [], registered_at = 0\<rparr>]\<rparr> =
           views_db\<lparr>participants := ps'\<rparr> \<and> length ps' = Suc (length (participants views_db))) \<and>
   map_option resolve (reverse_url ''tournament_detail'' [(''pk'', 1)]) =
     Some (Some (Tournament_detail_page, [(''pk'', 1)]))"
proof -
  have i: "py_int_of_string ''1'' = Some 1" by code_simp
  have r: "tournament_register 0 register_request 1 views_db =
     Inr (Redirect_tournament 1 [Flash_success ''Alpha has been registered for GENZE Cup.''],
          views_db\<lparr>participants := [\<lparr>participant_tournament = 1, participant_team = 1, manager_name = ''Kai'',
             manager_email = ''kai@example.com'', manager_phone = [], registered_at = 0\<rparr>]\<rparr>)"
    by (simp add: tournament_register_def register_post_def add_participant_def views_db_def register_request_def
        demo_tournament_def demo_team_def param_def str_or_def truthy_def i Let_def)
  have n: "views_db\<lparr>participants := [\<lparr>participant_tournament = 1, participant_team = 1, manager_name = ''Kai'',
             manager_email = ''kai@example.com'', manager_phone = [], registered_at = 0\<rparr>]\<rparr> \<noteq> views_db"
    by (simp add: views_db_def)
  from registration_redirect_fails [OF r n] show ?thesis by simp
qed

end
